(* ===== verification/Porter_Prelude.thy ===== *)
theory Porter_Prelude
  imports Main "HOL-Library.Sublist" "HOL-Library.Multiset" "HOL-Library.Char_ord"
    "HOL-Library.List_Lexorder"
begin

section \<open>Prelude: the part of Go's standard library the components use\<close>

text \<open>
  A Go string is a sequence of bytes, as is the type \<open>string\<close> (a list of 8-bit characters), so
  \<open>length\<close> is Go's \<open>len\<close> and \<open><\<close> of \<open>List_Lexorder\<close> over \<open>Char_ord\<close> is Go's byte-wise string order.
  The case and white-space functions follow Go on ASCII bytes and leave bytes above 127 alone.
  A fallible call returns \<open>'e + 'a\<close> (\<open>Inl\<close> is the error) or an \<open>option\<close>.
  The theory also holds the sorting routine and the lemmas the components share.
\<close>

named_theorems go_simps

type_synonym ('e, 'a) result = "'e + 'a"

subsection \<open>Bytes\<close>

abbreviation byte :: "char \<Rightarrow> nat" where
  "byte c \<equiv> of_char c"

definition is_digit :: "char \<Rightarrow> bool" where
  "is_digit c = (48 \<le> byte c \<and> byte c \<le> 57)"

definition is_lower :: "char \<Rightarrow> bool" where
  "is_lower c = (97 \<le> byte c \<and> byte c \<le> 122)"

definition is_upper :: "char \<Rightarrow> bool" where
  "is_upper c = (65 \<le> byte c \<and> byte c \<le> 90)"

definition is_space :: "char \<Rightarrow> bool" where
  "is_space c = (byte c = 32 \<or> (9 \<le> byte c \<and> byte c \<le> 13))"

definition lower_char :: "char \<Rightarrow> char" where
  "lower_char c = (if is_upper c then char_of (byte c + 32) else c)"

lemmas char_class_defs = is_digit_def is_lower_def is_upper_def is_space_def

lemma byte_less_256 [simp]: "byte c < 256"
  using of_char_mod_256 [where 'a = nat, of c] by (metis mod_less_divisor zero_less_numeral)

lemma byte_char_of [simp]: "byte (char_of (n::nat)) = n mod 256"
  by simp

lemma byte_inject [simp]: "byte c = byte d \<longleftrightarrow> c = d"
  by simp

lemma lower_char_idem [simp]: "lower_char (lower_char c) = lower_char c"
  by (auto simp: lower_char_def is_upper_def)

lemma lower_char_not_upper [simp]: "\<not> is_upper (lower_char c)"
  by (auto simp: lower_char_def is_upper_def)

subsection \<open>The functions of package strings\<close>

definition HasPrefix :: "string \<Rightarrow> string \<Rightarrow> bool" where
  "HasPrefix s p = (take (length p) s = p)"

definition HasSuffix :: "string \<Rightarrow> string \<Rightarrow> bool" where
  "HasSuffix s p = (length p \<le> length s \<and> drop (length s - length p) s = p)"

definition TrimPrefix :: "string \<Rightarrow> string \<Rightarrow> string" where
  "TrimPrefix s p = (if HasPrefix s p then drop (length p) s else s)"

definition TrimSuffix :: "string \<Rightarrow> string \<Rightarrow> string" where
  "TrimSuffix s p = (if HasSuffix s p then take (length s - length p) s else s)"

fun Contains :: "string \<Rightarrow> string \<Rightarrow> bool" where
  "Contains [] t = (t = [])"
| "Contains (c # s) t = (HasPrefix (c # s) t \<or> Contains s t)"

definition ToLower :: "string \<Rightarrow> string" where
  "ToLower s = map lower_char s"

definition EqualFold :: "string \<Rightarrow> string \<Rightarrow> bool" where
  "EqualFold s t = (ToLower s = ToLower t)"

definition TrimLeftF :: "(char \<Rightarrow> bool) \<Rightarrow> string \<Rightarrow> string" where
  "TrimLeftF p s = dropWhile p s"

definition TrimRightF :: "(char \<Rightarrow> bool) \<Rightarrow> string \<Rightarrow> string" where
  "TrimRightF p s = rev (dropWhile p (rev s))"

definition TrimSpace :: "string \<Rightarrow> string" where
  "TrimSpace s = TrimRightF is_space (TrimLeftF is_space s)"

definition Trim :: "string \<Rightarrow> string \<Rightarrow> string" where
  "Trim s cutset = TrimRightF (\<lambda>c. c \<in> set cutset) (TrimLeftF (\<lambda>c. c \<in> set cutset) s)"

text \<open>\<open>strings.Split\<close> with a one-byte separator: never empty, one more part than separators.\<close>

fun Split :: "char \<Rightarrow> string \<Rightarrow> string list" where
  "Split c [] = [[]]"
| "Split c (x # xs) =
     (if x = c then [] # Split c xs
      else (case Split c xs of [] \<Rightarrow> [[x]] | p # ps \<Rightarrow> (x # p) # ps))"

text \<open>\<open>strings.Cut\<close> with a one-byte separator: the text before and after its first occurrence.\<close>

fun Cut :: "char \<Rightarrow> string \<Rightarrow> (string \<times> string) option" where
  "Cut c [] = None"
| "Cut c (x # xs) =
     (if x = c then Some ([], xs)
      else map_option (\<lambda>(a, b). (x # a, b)) (Cut c xs))"

fun Join :: "string \<Rightarrow> string list \<Rightarrow> string" where
  "Join sep [] = []"
| "Join sep [x] = x"
| "Join sep (x # y # ys) = x @ sep @ Join sep (y # ys)"

text \<open>\<open>strings.ReplaceAll\<close> for a non-empty old text (the only use in the program).\<close>

function ReplaceAll :: "string \<Rightarrow> string \<Rightarrow> string \<Rightarrow> string" where
  "ReplaceAll s old new =
     (if s = [] \<or> old = [] then s
      else if HasPrefix s old then new @ ReplaceAll (drop (length old) s) old new
      else hd s # ReplaceAll (tl s) old new)"
  by pat_completeness auto
termination
  by (relation "measure (\<lambda>(s, old, new). length s)") (auto simp: HasPrefix_def)

declare ReplaceAll.simps [simp del]

text \<open>\<open>strings.Fields\<close>: the maximal runs of non-space bytes.\<close>

function Fields :: "string \<Rightarrow> string list" where
  "Fields s =
     (let s' = dropWhile is_space s
      in if s' = [] then []
         else takeWhile (\<lambda>c. \<not> is_space c) s' # Fields (dropWhile (\<lambda>c. \<not> is_space c) s'))"
  by pat_completeness auto
termination
proof (relation "measure length", goal_cases)
  case 1
  show ?case by simp
next
  case (2 s s')
  then obtain c t where s': "s' = c # t"
    by (meson list.exhaust)
  with 2 have "\<not> is_space c"
    by (metis hd_dropWhile list.sel(1) list.discI)
  then have "length (dropWhile (\<lambda>c. \<not> is_space c) s') < length s'"
    using s' by (simp add: le_imp_less_Suc length_dropWhile_le)
  also have "\<dots> \<le> length s"
    using 2 by (simp add: length_dropWhile_le)
  finally show ?case by simp
qed

declare Fields.simps [simp del]

subsection \<open>Decimal numbers: strconv.Itoa and strconv.Atoi\<close>

fun string_of_nat :: "nat \<Rightarrow> string" where
  "string_of_nat n =
     (if n < 10 then [char_of (48 + n)] else string_of_nat (n div 10) @ [char_of (48 + n mod 10)])"

declare string_of_nat.simps [simp del]

definition Itoa :: "int \<Rightarrow> string" where
  "Itoa i = (if i < 0 then CHR ''-'' # string_of_nat (nat (- i)) else string_of_nat (nat i))"

definition nat_of_digits :: "string \<Rightarrow> nat" where
  "nat_of_digits ds = foldl (\<lambda>acc c. 10 * acc + (byte c - 48)) 0 ds"

definition in_int64 :: "int \<Rightarrow> bool" where
  "in_int64 v = (- (2 ^ 63) \<le> v \<and> v < 2 ^ 63)"

definition Atoi :: "string \<Rightarrow> int option" where
  "Atoi s =
     (let neg = (s \<noteq> [] \<and> hd s = CHR ''-'');
          ds = (if s \<noteq> [] \<and> (hd s = CHR ''-'' \<or> hd s = CHR ''+'') then tl s else s);
          v = (if neg then - int (nat_of_digits ds) else int (nat_of_digits ds))
      in if ds = [] \<or> \<not> list_all is_digit ds \<or> \<not> in_int64 v then None else Some v)"

subsection \<open>sort.Slice: sorting by a less function\<close>

text \<open>
  The program's uses of \<open>sort.Slice\<close> do not depend on how equal elements are ordered; an insertion
  sort by the given \<open>less\<close> stands for it.
\<close>

fun insert_less :: "('a \<Rightarrow> 'a \<Rightarrow> bool) \<Rightarrow> 'a \<Rightarrow> 'a list \<Rightarrow> 'a list" where
  "insert_less lt x [] = [x]"
| "insert_less lt x (y # ys) = (if lt y x then y # insert_less lt x ys else x # y # ys)"

fun sort_slice :: "('a \<Rightarrow> 'a \<Rightarrow> bool) \<Rightarrow> 'a list \<Rightarrow> 'a list" where
  "sort_slice lt [] = []"
| "sort_slice lt (x # xs) = insert_less lt x (sort_slice lt xs)"


text \<open>
  \<open>strconv.Atoi\<close> also returns a value next to a non-nil error, which callers that drop the error
  use: 0 after a syntax error, the nearest 64-bit value after a range error. The digits are read left
  to right and reading stops as soon as the value leaves the unsigned 64-bit range.
\<close>

fun uint_val :: "nat \<Rightarrow> string \<Rightarrow> nat option" where
  "uint_val acc [] = Some acc"
| "uint_val acc (c # cs) =
     (if \<not> is_digit c then None
      else let n = 10 * acc + (byte c - 48)
           in if n \<ge> 2 ^ 64 then Some (2 ^ 64 - 1) else uint_val n cs)"

definition Atoi_val :: "string \<Rightarrow> int" where
  "Atoi_val s =
     (let neg = (s \<noteq> [] \<and> hd s = CHR ''-'');
          ds = (if s \<noteq> [] \<and> (hd s = CHR ''-'' \<or> hd s = CHR ''+'') then tl s else s)
      in if ds = [] then 0
         else case uint_val 0 ds of
                None \<Rightarrow> 0
              | Some n \<Rightarrow>
                  (if neg then (if n > 2 ^ 63 then - (2 ^ 63) else - int n)
                   else if n \<ge> 2 ^ 63 then 2 ^ 63 - 1 else int n))"

subsection \<open>Machine integers and maps\<close>

text \<open>
  A Go \<open>int\<close> is 64 bits wide on every platform porter runs on; \<open>wrap64\<close> is the value a 64-bit
  register holds after an arithmetic operation with the mathematical result \<open>v\<close>. A Go map that
  the code only reads is the association list of its entries; \<open>map_get\<close> is the indexing
  expression \<open>m[k]\<close>, which yields the zero value for a missing key.
\<close>

definition wrap64 :: "int \<Rightarrow> int" where
  "wrap64 v = (v + 2 ^ 63) mod 2 ^ 64 - 2 ^ 63"

definition map_get :: "(string \<times> string) list \<Rightarrow> string \<Rightarrow> string" where
  "map_get m k = (case map_of m k of Some v \<Rightarrow> v | None \<Rightarrow> [])"

lemma wrap64_id [simp]: "in_int64 v \<Longrightarrow> wrap64 v = v"
  by (simp add: wrap64_def in_int64_def)

lemma wrap64_in_int64 [simp]: "in_int64 (wrap64 v)"
proof -
  have "0 \<le> (v + 2 ^ 63) mod 2 ^ 64" and "(v + 2 ^ 63) mod 2 ^ 64 < (2 :: int) ^ 64"
    by simp_all
  then show ?thesis
    unfolding wrap64_def in_int64_def by simp
qed

subsection \<open>Lemmas on strings\<close>

lemma HasPrefix_iff: "HasPrefix s p \<longleftrightarrow> (\<exists>t. s = p @ t)"
  unfolding HasPrefix_def by (metis append_eq_conv_conj append_take_drop_id)

lemma HasSuffix_iff: "HasSuffix s p \<longleftrightarrow> (\<exists>t. s = t @ p)"
proof
  assume "HasSuffix s p"
  then have "s = take (length s - length p) s @ p"
    unfolding HasSuffix_def by (metis append_take_drop_id)
  then show "\<exists>t. s = t @ p" ..
next
  assume "\<exists>t. s = t @ p"
  then show "HasSuffix s p" by (auto simp: HasSuffix_def)
qed

lemma HasPrefix_Nil [simp]: "HasPrefix s []"
  by (simp add: HasPrefix_def)

lemma HasPrefix_append [simp]: "HasPrefix (p @ t) p"
  by (simp add: HasPrefix_def)

lemma HasSuffix_append [simp]: "HasSuffix (t @ p) p"
  by (simp add: HasSuffix_def)

lemma TrimPrefix_append [simp]: "TrimPrefix (p @ t) p = t"
  by (simp add: TrimPrefix_def HasPrefix_def)

lemma TrimSuffix_append [simp]: "TrimSuffix (t @ p) p = t"
  by (simp add: TrimSuffix_def HasSuffix_def)

lemma Contains_iff: "Contains s t \<longleftrightarrow> (\<exists>a b. s = a @ t @ b)"
proof (induction s)
  case Nil
  show ?case by auto
next
  case (Cons c s)
  have "(\<exists>a b. c # s = a @ t @ b) \<longleftrightarrow> (\<exists>b. c # s = t @ b) \<or> (\<exists>a b. s = a @ t @ b)"
    by (metis append_Cons append_Nil list.sel(3) neq_Nil_conv)
  with Cons show ?case by (simp add: HasPrefix_iff)
qed

lemma Contains_append [simp]: "Contains (a @ t @ b) t"
  by (auto simp: Contains_iff)

lemma ToLower_idem [simp]: "ToLower (ToLower s) = ToLower s"
  by (simp add: ToLower_def)

lemma ToLower_id: "(\<And>c. c \<in> set s \<Longrightarrow> \<not> is_upper c) \<Longrightarrow> ToLower s = s"
  unfolding ToLower_def by (rule map_idI) (simp add: lower_char_def)

lemma ToLower_append [simp]: "ToLower (s @ t) = ToLower s @ ToLower t"
  by (simp add: ToLower_def)

lemma length_ToLower [simp]: "length (ToLower s) = length s"
  by (simp add: ToLower_def)

lemma set_TrimLeftF: "set (TrimLeftF p s) \<subseteq> set s"
  by (simp add: TrimLeftF_def set_dropWhileD subsetI)

lemma set_TrimRightF: "set (TrimRightF p s) \<subseteq> set s"
  unfolding TrimRightF_def by (metis set_dropWhileD set_rev subsetI)

lemma set_Trim: "set (Trim s cs) \<subseteq> set s"
  unfolding Trim_def using set_TrimLeftF set_TrimRightF by fastforce

lemma hd_TrimLeftF: "TrimLeftF p s \<noteq> [] \<Longrightarrow> \<not> p (hd (TrimLeftF p s))"
  unfolding TrimLeftF_def by (rule hd_dropWhile)

lemma last_TrimRightF: "TrimRightF p s \<noteq> [] \<Longrightarrow> \<not> p (last (TrimRightF p s))"
  unfolding TrimRightF_def by (metis Nil_is_rev_conv hd_dropWhile last_rev)

lemma TrimRightF_prefix: "\<exists>t. s = TrimRightF p s @ t"
  unfolding TrimRightF_def
  by (metis rev_append rev_rev_ident takeWhile_dropWhile_id)

lemma TrimLeftF_suffix: "\<exists>t. s = t @ TrimLeftF p s"
  unfolding TrimLeftF_def by (metis takeWhile_dropWhile_id)

lemma Trim_sublist: "\<exists>a b. s = a @ Trim s cs @ b"
  unfolding Trim_def by (metis append.assoc TrimLeftF_suffix TrimRightF_prefix)

lemma hd_Trim: "Trim s cs \<noteq> [] \<Longrightarrow> hd (Trim s cs) \<notin> set cs"
  unfolding Trim_def
  by (metis TrimRightF_prefix append_is_Nil_conv hd_TrimLeftF hd_append2)

lemma last_Trim: "Trim s cs \<noteq> [] \<Longrightarrow> last (Trim s cs) \<notin> set cs"
  unfolding Trim_def by (rule last_TrimRightF)

lemma Split_not_Nil [simp]: "Split c s \<noteq> []"
  by (cases s) (auto split: list.splits)

lemma Join_not_Nil: "x \<noteq> [] \<Longrightarrow> Join sep (x # xs) \<noteq> []"
  by (cases xs) simp_all

lemma Join_Split [simp]: "Join [c] (Split c s) = s"
proof (induction s)
  case Nil
  show ?case by simp
next
  case (Cons x s)
  obtain p ps where ps: "Split c s = p # ps"
    using Split_not_Nil by (meson list.exhaust)
  with Cons show ?case by (cases ps) auto
qed

lemma Split_no_sep: "c \<notin> set s \<Longrightarrow> Split c s = [s]"
  by (induction s) auto

lemma Split_append_sep: "c \<notin> set p \<Longrightarrow> Split c (p @ c # s) = p # Split c s"
  by (induction p) (auto split: list.splits)

lemma Split_Join: "ps \<noteq> [] \<Longrightarrow> list_all (\<lambda>p. c \<notin> set p) ps \<Longrightarrow> Split c (Join [c] ps) = ps"
  by (induction "[c]" ps rule: Join.induct) (auto simp: Split_no_sep Split_append_sep)

lemma Split_parts: "p \<in> set (Split c s) \<Longrightarrow> c \<notin> set p"
  by (induction s arbitrary: p) (auto split: list.splits if_splits)

lemma Fields_word:
  assumes "w \<noteq> []" "list_all (\<lambda>c. \<not> is_space c) w"
  shows "Fields (w @ CHR '' '' # s) = w # Fields s" and "Fields w = [w]"
proof -
  obtain c v where w: "w = c # v" "\<not> is_space c"
    using assms by (cases w) auto
  have all: "\<forall>x \<in> set w. \<not> is_space x"
    using assms(2) by (simp add: list_all_iff)
  have drop: "dropWhile is_space (w @ t) = w @ t" for t
    using w by simp
  have take: "takeWhile (\<lambda>c. \<not> is_space c) (w @ CHR '' '' # s) = w"
      "dropWhile (\<lambda>c. \<not> is_space c) (w @ CHR '' '' # s) = CHR '' '' # s"
      "takeWhile (\<lambda>c. \<not> is_space c) w = w" "dropWhile (\<lambda>c. \<not> is_space c) w = []"
    using all by (simp_all add: is_space_def takeWhile_append2 dropWhile_append2)
  have "Fields (CHR '' '' # s) = Fields s"
    by (subst (1 2) Fields.simps) (simp add: is_space_def Let_def)
  then show "Fields (w @ CHR '' '' # s) = w # Fields s"
    using assms(1) by (subst Fields.simps) (simp add: drop take Let_def)
  have "Fields [] = []"
    by (simp add: Fields.simps)
  then show "Fields w = [w]"
    using assms(1) drop [of "[]"] by (subst Fields.simps) (simp add: take Let_def)
qed

lemma Fields_Join:
  "list_all (\<lambda>w. w \<noteq> [] \<and> list_all (\<lambda>c. \<not> is_space c) w) ws \<Longrightarrow> Fields (Join '' '' ws) = ws"
  by (induction "'' ''" ws rule: Join.induct) (simp_all add: Fields_word Fields.simps [of "[]"])

lemma Cut_Some_iff: "Cut c s = Some (a, b) \<longleftrightarrow> s = a @ c # b \<and> c \<notin> set a"
proof (induction s arbitrary: a)
  case Nil
  show ?case by simp
next
  case (Cons x s)
  show ?case by (cases a) (auto simp: Cons.IH)
qed

lemma Cut_None_iff: "Cut c s = None \<longleftrightarrow> c \<notin> set s"
  by (induction s) auto

lemma Cut_append [simp]: "c \<notin> set a \<Longrightarrow> Cut c (a @ c # b) = Some (a, b)"
  by (simp add: Cut_Some_iff)

lemma ReplaceAll_char: "ReplaceAll s [a] [b] = map (\<lambda>c. if c = a then b else c) s"
proof (induction s)
  case Nil
  show ?case by (simp add: ReplaceAll.simps)
next
  case (Cons c s)
  then show ?case by (subst ReplaceAll.simps) (simp add: HasPrefix_def)
qed

lemma set_ReplaceAll: "set (ReplaceAll s old new) \<subseteq> set s \<union> set new"
proof (induction s old new rule: ReplaceAll.induct)
  case (1 s old new)
  show ?case
  proof (cases "s = [] \<or> old = []")
    case True
    then show ?thesis by (subst ReplaceAll.simps) auto
  next
    case False
    have "set (drop (length old) s) \<subseteq> set s" "set (tl s) \<subseteq> set s" "hd s \<in> set s"
      using False by (auto dest: in_set_dropD list.set_sel(2))
    with 1 False show ?thesis
      by (subst ReplaceAll.simps) auto
  qed
qed

lemma length_ReplaceAll:
  assumes "length new < length old"
  shows "length (ReplaceAll s old new) \<le> length s \<and>
    (Contains s old \<longrightarrow> length (ReplaceAll s old new) < length s)"
  using assms
proof (induction s old new rule: ReplaceAll.induct)
  case (1 s old new)
  show ?case
  proof (cases "s = []")
    case True
    with "1.prems" show ?thesis by (subst (1 2) ReplaceAll.simps) auto
  next
    case ne: False
    with "1.prems" have "\<not> (s = [] \<or> old = [])"
      by auto
    note IH = "1.IH" [OF this]
    show ?thesis
    proof (cases "HasPrefix s old")
      case True
      then have "length old \<le> length s"
        by (auto simp: HasPrefix_iff)
      moreover have "length (ReplaceAll (drop (length old) s) old new) \<le> length s - length old"
        using IH(1) [OF True] "1.prems" by simp
      ultimately show ?thesis
        using True ne "1.prems" by (subst (1 2) ReplaceAll.simps) auto
    next
      case False
      obtain c t where s: "s = c # t"
        using ne by (cases s) auto
      with IH(2) [OF False "1.prems"] False "1.prems" show ?thesis
        by (subst (1 2) ReplaceAll.simps) auto
    qed
  qed
qed

subsection \<open>Lemmas on decimal numbers\<close>

lemma string_of_nat_not_Nil [simp]: "string_of_nat n \<noteq> []"
  by (subst string_of_nat.simps) simp

lemma string_of_nat_digits: "list_all is_digit (string_of_nat n)"
proof (induction n rule: string_of_nat.induct)
  case (1 n)
  have "is_digit (char_of (48 + n mod 10))"
    by (simp add: is_digit_def)
  moreover have "n < 10 \<Longrightarrow> is_digit (char_of (48 + n))"
    by (simp add: is_digit_def)
  ultimately show ?case
    using "1.IH" by (subst string_of_nat.simps) auto
qed

lemma nat_of_digits_snoc [simp]:
  "nat_of_digits (ds @ [c]) = 10 * nat_of_digits ds + (byte c - 48)"
  by (simp add: nat_of_digits_def)

lemma nat_of_digits_string_of_nat [simp]: "nat_of_digits (string_of_nat n) = n"
proof (induction n rule: string_of_nat.induct)
  case (1 n)
  show ?case
  proof (cases "n < 10")
    case True
    then show ?thesis by (subst string_of_nat.simps) (simp add: nat_of_digits_def)
  next
    case False
    with "1.IH" show ?thesis by (subst string_of_nat.simps) (simp add: mult_div_mod_eq)
  qed
qed

lemma string_of_nat_inject [simp]: "string_of_nat m = string_of_nat n \<longleftrightarrow> m = n"
  by (metis nat_of_digits_string_of_nat)

lemma digit_not_sign: "is_digit c \<Longrightarrow> c \<noteq> CHR ''-'' \<and> c \<noteq> CHR ''+''"
  by (auto simp: is_digit_def)

lemma string_of_nat_no_char:
  assumes "\<not> is_digit c"
  shows "c \<notin> set (string_of_nat n)"
  using string_of_nat_digits [of n] assms by (auto simp: list_all_iff)

lemma hd_string_of_nat: "is_digit (hd (string_of_nat n))"
  using string_of_nat_digits [of n] by (cases "string_of_nat n") auto

lemma Atoi_string_of_nat: "int n < 2 ^ 63 \<Longrightarrow> Atoi (string_of_nat n) = Some (int n)"
  using string_of_nat_digits [of n] digit_not_sign [OF hd_string_of_nat, of n]
  by (simp add: Atoi_def Let_def in_int64_def)

lemma Itoa_not_Nil [simp]: "Itoa i \<noteq> []"
  by (simp add: Itoa_def)

theorem Atoi_Itoa [simp]: "in_int64 i \<Longrightarrow> Atoi (Itoa i) = Some i"
proof (cases "i < 0")
  case True
  assume "in_int64 i"
  with True show ?thesis
    using string_of_nat_digits [of "nat (- i)"]
    by (simp add: Itoa_def Atoi_def Let_def in_int64_def)
next
  case False
  assume "in_int64 i"
  with False show ?thesis
    using Atoi_string_of_nat [of "nat i"] by (simp add: Itoa_def in_int64_def)
qed

lemma Itoa_chars: "c \<in> set (Itoa i) \<Longrightarrow> is_digit c \<or> c = CHR ''-''"
  using string_of_nat_digits by (auto simp: Itoa_def list_all_iff split: if_splits)

subsection \<open>Lemmas on sorting\<close>

lemma mset_insert_less [simp]: "mset (insert_less lt x xs) = add_mset x (mset xs)"
  by (induction xs) auto

lemma mset_sort_slice [simp]: "mset (sort_slice lt xs) = mset xs"
  by (induction xs) auto

lemma set_sort_slice [simp]: "set (sort_slice lt xs) = set xs"
  by (metis mset_sort_slice set_mset_mset)

lemma length_sort_slice [simp]: "length (sort_slice lt xs) = length xs"
  by (metis mset_sort_slice size_mset)

lemma sort_slice_Nil_iff [simp]: "sort_slice lt xs = [] \<longleftrightarrow> xs = []"
  by (metis length_0_conv length_sort_slice)

text \<open>
  The contract \<open>sort.Slice\<close> asks of its \<open>less\<close> argument: a strict weak order. Under it the result
  is sorted, and its first element is one that nothing precedes.
\<close>

locale strict_weak_order =
  fixes lt :: "'a \<Rightarrow> 'a \<Rightarrow> bool"
  assumes asym: "lt x y \<Longrightarrow> \<not> lt y x"
    and split_lt: "lt x z \<Longrightarrow> lt x y \<or> lt y z"
begin

lemma insert_less_sorted:
  "sorted_wrt (\<lambda>x y. \<not> lt y x) xs \<Longrightarrow> sorted_wrt (\<lambda>x y. \<not> lt y x) (insert_less lt x xs)"
proof (induction xs)
  case Nil
  show ?case by simp
next
  case (Cons y ys)
  have set_ins: "set (insert_less lt x ys) = insert x (set ys)"
    by (metis mset_insert_less set_mset_add_mset_insert set_mset_mset)
  show ?case
  proof (cases "lt y x")
    case True
    with Cons asym show ?thesis by (auto simp: set_ins)
  next
    case False
    with Cons.prems split_lt show ?thesis by auto
  qed
qed

lemma sort_slice_sorted: "sorted_wrt (\<lambda>x y. \<not> lt y x) (sort_slice lt xs)"
  by (induction xs) (auto intro: insert_less_sorted)

lemma hd_sort_slice_least:
  assumes "y \<in> set xs"
  shows "\<not> lt y (hd (sort_slice lt xs))"
proof -
  obtain z zs where zs: "sort_slice lt xs = z # zs"
    using assms by (metis list.exhaust list.set_cases set_sort_slice sort_slice_Nil_iff list.distinct(1))
  have "y = z \<or> y \<in> set zs"
    using assms zs by (metis set_ConsD set_sort_slice)
  moreover have "\<forall>w \<in> set zs. \<not> lt w z"
    using sort_slice_sorted [of xs] zs by simp
  ultimately show ?thesis
    using zs asym by auto
qed

end

subsection \<open>Lemmas on options, maps and lists\<close>

lemma last_n_append: "length ys \<le> n \<Longrightarrow>
    drop (length (xs @ ys) - n) (xs @ ys) = drop (length xs - (n - length ys)) xs @ ys"
  by (simp add: drop_append)

lemma find_SomeD: "find P xs = Some x \<Longrightarrow> x \<in> set xs \<and> P x"
  by (induction xs) (auto split: if_splits)

lemma find_Some_split:
  "find P xs = Some x \<Longrightarrow> \<exists>ys zs. xs = ys @ x # zs \<and> P x \<and> (\<forall>y \<in> set ys. \<not> P y)"
proof (induction xs)
  case Nil
  then show ?case by simp
next
  case (Cons a xs)
  show ?case
  proof (cases "P a")
    case True
    with Cons.prems have "a # xs = [] @ x # xs \<and> P x"
      by simp
    then show ?thesis by fastforce
  next
    case False
    with Cons obtain ys zs where "xs = ys @ x # zs" "P x" "\<forall>y \<in> set ys. \<not> P y"
      by auto
    with False have "a # xs = (a # ys) @ x # zs \<and> P x \<and> (\<forall>y \<in> set (a # ys). \<not> P y)"
      by simp
    then show ?thesis by blast
  qed
qed

lemma find_None_conv: "find P xs = None \<longleftrightarrow> (\<forall>x \<in> set xs. \<not> P x)"
  by (induction xs) auto

end
