(* ===== verification/Scheduler.thy ===== *)
theory Scheduler
  imports Porter_Prelude Complex_Main
begin

text \<open>
  Placement (\<open>internal/scheduler/scheduler.go\<close>). \<open>PickNode\<close> filters the nodes a request fits on,
  sorts them by score and returns the first one's id. A \<open>float64\<close> is the rational it denotes, and
  \<open>rnd\<close>, an argument of every definition that computes with floats, is the rounding of an exact
  result to a representable one (round-to-nearest-even in Go); NaN and the infinities, which no
  heartbeat reports, are left out. The theorems hold for every \<open>rnd\<close>, or for every monotone one.
\<close>

subsection \<open>Definitions\<close>

record Node =
  n_ID :: string
  n_Ready :: bool
  n_Arch :: string
  n_VCPUFree :: int
  n_MemFreeMiB :: int
  n_Labels :: "(string \<times> string) list"
  n_Taints :: "string list"
  n_CurrentLoad :: rat

record Request =
  r_Arch :: string
  r_VCPUs :: int
  r_MemMiB :: int
  r_Labels :: "(string \<times> string) list"
  r_Tolerations :: "string list"
  r_PreferBinpack :: bool

fun tolerates :: "string list \<Rightarrow> string list \<Rightarrow> bool" where
  "tolerates [] tol = True"
| "tolerates (t # taints) tol = (if t \<notin> set tol then False else tolerates taints tol)"

fun matches :: "(string \<times> string) list \<Rightarrow> (string \<times> string) list \<Rightarrow> bool" where
  "matches labels [] = True"
| "matches labels ((k, v) # want) = (if map_get labels k \<noteq> v then False else matches labels want)"

definition max_int :: "int \<Rightarrow> int \<Rightarrow> int" where
  "max_int a b = (if a > b then a else b)"

definition score :: "(rat \<Rightarrow> rat) \<Rightarrow> Node \<Rightarrow> Request \<Rightarrow> rat" where
  "score rnd n req =
     (let used = rnd (1 - rnd (rnd (of_int (n_VCPUFree n))
                 / rnd (of_int (max_int (wrap64 (n_VCPUFree n + r_VCPUs req)) 1))));
          s = rnd (used - n_CurrentLoad n)
      in if \<not> r_PreferBinpack req then - s else s)"

fun candidates :: "Node list \<Rightarrow> Request \<Rightarrow> Node list" where
  "candidates [] req = []"
| "candidates (n # nodes) req =
     (if \<not> n_Ready n then candidates nodes req
      else if r_Arch req \<noteq> [] \<and> n_Arch n \<noteq> [] \<and> n_Arch n \<noteq> r_Arch req then candidates nodes req
      else if n_VCPUFree n < r_VCPUs req \<or> n_MemFreeMiB n < r_MemMiB req then candidates nodes req
      else if \<not> tolerates (n_Taints n) (r_Tolerations req) then candidates nodes req
      else if \<not> matches (n_Labels n) (r_Labels req) then candidates nodes req
      else n # candidates nodes req)"

definition cand_less :: "(rat \<Rightarrow> rat) \<Rightarrow> Request \<Rightarrow> Node \<Rightarrow> Node \<Rightarrow> bool" where
  "cand_less rnd req a b =
     (let si = score rnd a req; sj = score rnd b req
      in if si = sj then n_ID a < n_ID b else si > sj)"

definition PickNode :: "(rat \<Rightarrow> rat) \<Rightarrow> Node list \<Rightarrow> Request \<Rightarrow> string" where
  "PickNode rnd nodes req =
     (let cands = candidates nodes req
      in if length cands = 0 then [] else n_ID (sort_slice (cand_less rnd req) cands ! 0))"

subsection \<open>The contract: which nodes fit, and which of two fitting nodes is preferred\<close>

definition fits :: "Request \<Rightarrow> Node \<Rightarrow> bool" where
  "fits req n \<longleftrightarrow>
     n_Ready n \<and> (r_Arch req = [] \<or> n_Arch n = [] \<or> n_Arch n = r_Arch req) \<and>
     r_VCPUs req \<le> n_VCPUFree n \<and> r_MemMiB req \<le> n_MemFreeMiB n \<and>
     set (n_Taints n) \<subseteq> set (r_Tolerations req) \<and>
     (\<forall>(k, v) \<in> set (r_Labels req). map_get (n_Labels n) k = v)"

subsection \<open>Lemmas\<close>

lemma tolerates_iff [go_simps]: "tolerates taints tol \<longleftrightarrow> set taints \<subseteq> set tol"
  by (induction taints tol rule: tolerates.induct) auto

lemma matches_iff [go_simps]:
  "matches labels want \<longleftrightarrow> (\<forall>(k, v) \<in> set want. map_get labels k = v)"
  by (induction labels want rule: matches.induct) auto

lemma candidates_filter: "candidates nodes req = filter (fits req) nodes"
  by (induction nodes req rule: candidates.induct) (auto simp: fits_def go_simps)

interpretation cand: strict_weak_order "cand_less rnd req" for rnd req
  by unfold_locales (auto simp: cand_less_def Let_def split: if_splits)

lemma PickNode_cases:
  obtains (none) "PickNode rnd nodes req = []" "filter (fits req) nodes = []"
  | (some) n where "n \<in> set nodes" "fits req n" "PickNode rnd nodes req = n_ID n"
      "\<forall>m \<in> set nodes. fits req m \<longrightarrow> \<not> cand_less rnd req m n"
proof (cases "filter (fits req) nodes")
  case Nil
  then show ?thesis
    using none by (simp add: PickNode_def candidates_filter)
next
  case (Cons c cs)
  let ?sorted = "sort_slice (cand_less rnd req) (filter (fits req) nodes)"
  have ne: "?sorted \<noteq> []"
    using Cons by (metis list.distinct(1) sort_slice_Nil_iff)
  then have pick: "PickNode rnd nodes req = n_ID (hd ?sorted)"
    using Cons by (simp add: PickNode_def candidates_filter hd_conv_nth del: sort_slice.simps)
  have "hd ?sorted \<in> set (filter (fits req) nodes)"
    using ne by (metis hd_in_set set_sort_slice)
  then show ?thesis
    using some [of "hd ?sorted"] pick cand.hd_sort_slice_least [of _ "filter (fits req) nodes"]
    by auto
qed

subsection \<open>Properties\<close>

text \<open>
  C5: the scheduler is sound, complete and optimal. Over nodes with non-empty ids, \<open>PickNode\<close>
  returns the empty string exactly when no node fits the request; otherwise it returns the id of a
  node of the list that is ready, has the requested architecture, capacity and labels, carries
  only tolerated taints, and scores at least as high as every other fitting node, the smallest id
  winning a tie.
\<close>

theorem PickNode_correct:
  assumes "\<forall>n \<in> set nodes. n_ID n \<noteq> []"
  shows "(PickNode rnd nodes req = [] \<longleftrightarrow> (\<forall>n \<in> set nodes. \<not> fits req n)) \<and>
    (PickNode rnd nodes req \<noteq> [] \<longrightarrow>
      (\<exists>n \<in> set nodes. n_ID n = PickNode rnd nodes req \<and> fits req n \<and>
        (\<forall>m \<in> set nodes. fits req m \<longrightarrow>
           score rnd m req < score rnd n req \<or>
           score rnd m req = score rnd n req \<and> n_ID n \<le> n_ID m)))"
proof (cases rule: PickNode_cases [of rnd nodes req])
  case none
  then show ?thesis by (simp add: filter_empty_conv)
next
  case (some n)
  have "score rnd m req < score rnd n req \<or> score rnd m req = score rnd n req \<and> n_ID n \<le> n_ID m"
    if "m \<in> set nodes" "fits req m" for m
    using some(4) that by (auto simp: cand_less_def Let_def not_less split: if_splits)
  with some assms show ?thesis
    by (metis (no_types, lifting))
qed

definition node_a :: Node where
  "node_a = \<lparr>n_ID = ''a'', n_Ready = True, n_Arch = ''amd64'', n_VCPUFree = 4, n_MemFreeMiB = 1024,
     n_Labels = [(''zone'', ''x'')], n_Taints = [''gpu''], n_CurrentLoad = 1 / 2\<rparr>"

definition node_b :: Node where
  "node_b = \<lparr>n_ID = ''b'', n_Ready = True, n_Arch = [], n_VCPUFree = 2, n_MemFreeMiB = 2048,
     n_Labels = [(''zone'', ''x'')], n_Taints = [], n_CurrentLoad = 0\<rparr>"

definition req_x :: Request where
  "req_x = \<lparr>r_Arch = ''amd64'', r_VCPUs = 2, r_MemMiB = 512, r_Labels = [(''zone'', ''x'')],
     r_Tolerations = [''gpu''], r_PreferBinpack = True\<rparr>"

theorem PickNode_correct_witness:
  "PickNode id [node_a, node_b] req_x = ''b'' \<and>
   (\<exists>n \<in> set [node_a, node_b]. n_ID n = ''b'' \<and> fits req_x n)"
proof -
  have pick: "PickNode id [node_a, node_b] req_x = ''b''"
    by (simp add: PickNode_def node_a_def node_b_def req_x_def map_get_def cand_less_def score_def
        max_int_def wrap64_def)
  have "\<forall>n \<in> set [node_a, node_b]. n_ID n \<noteq> []"
    by (simp add: node_a_def node_b_def)
  from PickNode_correct [OF this, of id req_x] pick show ?thesis
    by (metis list.distinct(1))
qed

text \<open>
  In spread mode load is rewarded. For every monotone rounding, of two nodes with the same free
  CPU the one with the higher current load scores at least as high when the request does not ask
  for binpacking, and at most as high when it does; the comment above \<open>score\<close> says load always
  penalises.
\<close>

theorem score_load:
  assumes "mono rnd" and "n_VCPUFree a = n_VCPUFree b" and "n_CurrentLoad a \<le> n_CurrentLoad b"
  shows "if r_PreferBinpack req then score rnd b req \<le> score rnd a req
    else score rnd a req \<le> score rnd b req"
proof -
  have "rnd (u - n_CurrentLoad b) \<le> rnd (u - n_CurrentLoad a)" for u
    using assms by (intro monoD [OF assms(1)]) simp
  then show ?thesis
    using assms(2) by (simp add: score_def Let_def)
qed

theorem score_load_witness:
  "score id (node_b\<lparr>n_CurrentLoad := 0\<rparr>) (req_x\<lparr>r_PreferBinpack := False\<rparr>)
     \<le> score id (node_b\<lparr>n_CurrentLoad := 3\<rparr>) (req_x\<lparr>r_PreferBinpack := False\<rparr>) \<and>
   score id (node_b\<lparr>n_CurrentLoad := 0\<rparr>) (req_x\<lparr>r_PreferBinpack := False\<rparr>)
     \<noteq> score id (node_b\<lparr>n_CurrentLoad := 3\<rparr>) (req_x\<lparr>r_PreferBinpack := False\<rparr>)"
  using score_load [of id "node_b\<lparr>n_CurrentLoad := 0\<rparr>" "node_b\<lparr>n_CurrentLoad := 3\<rparr>"
      "req_x\<lparr>r_PreferBinpack := False\<rparr>"]
  by (simp add: monoI score_def node_b_def req_x_def max_int_def wrap64_def)

end
