(* ===== verification/Types.thy ===== *)
theory Types
  imports Porter_Prelude Complex_Main
begin

text \<open>
  The domain types of \<open>internal/types/types.go\<close> that the modelled components read or write, with all
  their fields, and the state constants of \<open>internal/resource/types.go\<close>. A \<open>time.Time\<close> is an \<open>int\<close>
  (nanoseconds of the Unix epoch), a pointer to a value is an \<open>option\<close>, a map is an association list,
  a \<open>float64\<close> is the rational it denotes. Field names carry a prefix for their type because Isabelle
  record fields share one name space.
\<close>

subsection \<open>Lifecycle, health and phase constants\<close>

abbreviation StatePending :: string where "StatePending \<equiv> ''pending''"
abbreviation StateBooting :: string where "StateBooting \<equiv> ''booting''"
abbreviation StateRunning :: string where "StateRunning \<equiv> ''running''"
abbreviation StateStopping :: string where "StateStopping \<equiv> ''stopping''"
abbreviation StateStopped :: string where "StateStopped \<equiv> ''stopped''"
abbreviation StateFailed :: string where "StateFailed \<equiv> ''failed''"
abbreviation StateDeleting :: string where "StateDeleting \<equiv> ''deleting''"
abbreviation StateDeleted :: string where "StateDeleted \<equiv> ''deleted''"

abbreviation HealthHealthy :: string where "HealthHealthy \<equiv> ''healthy''"
abbreviation HealthUnhealthy :: string where "HealthUnhealthy \<equiv> ''unhealthy''"
abbreviation HealthChecking :: string where "HealthChecking \<equiv> ''checking''"
abbreviation HealthUnknown :: string where "HealthUnknown \<equiv> ''unknown''"
abbreviation HealthDegraded :: string where "HealthDegraded \<equiv> ''degraded''"

abbreviation StatusBuilding :: string where "StatusBuilding \<equiv> ''building''"
abbreviation StatusCompleted :: string where "StatusCompleted \<equiv> ''completed''"
abbreviation StatusFailed :: string where "StatusFailed \<equiv> ''failed''"
abbreviation StatusReady :: string where "StatusReady \<equiv> ''ready''"

subsection \<open>Machines, services and projects\<close>

type_synonym time = int

type_synonym smap = "(string \<times> string) list"

record Port =
  p_ContainerPort :: int
  p_HostPort :: int
  p_Protocol :: string

record Healthcheck =
  hc_Type :: string
  hc_Path :: string
  hc_Port :: int
  hc_IntervalSec :: int

record VM =
  vm_ID :: string
  vm_Name :: string
  vm_ProjectID :: string
  vm_ServiceName :: string
  vm_State :: string
  vm_HealthStatus :: string
  vm_ReplicaIndex :: int
  vm_Image :: string
  vm_RootfsPath :: string
  vm_Kernel :: string
  vm_ContainerID :: string
  vm_TaskID :: string
  vm_VCPUs :: int
  vm_MemMiB :: int
  vm_IPAddress :: string
  vm_Ports :: "Port list"
  vm_Env :: smap
  vm_VolumeID :: string
  vm_Healthcheck :: "Healthcheck option"
  vm_Restart :: string
  vm_Error :: string
  vm_Crashed :: bool
  vm_SnapshotPath :: string
  vm_SnapshotMemPath :: string
  vm_DeploymentID :: string
  vm_DeploymentVersion :: string
  vm_DeploymentEnv :: string
  vm_GuestBase :: string
  vm_SnapshotStatus :: string
  vm_SnapshotError :: string
  vm_SnapshotCreatedAt :: "time option"
  vm_LastRecoveredAt :: "time option"
  vm_RecoveryCount :: int
  vm_CreatedAt :: time
  vm_StartedAt :: "time option"

text \<open>\<open>VM{}\<close>, the zero value of the struct.\<close>

definition zero_VM :: VM where
  "zero_VM = \<lparr>vm_ID = [], vm_Name = [], vm_ProjectID = [], vm_ServiceName = [], vm_State = [],
     vm_HealthStatus = [], vm_ReplicaIndex = 0, vm_Image = [], vm_RootfsPath = [], vm_Kernel = [],
     vm_ContainerID = [], vm_TaskID = [], vm_VCPUs = 0, vm_MemMiB = 0, vm_IPAddress = [],
     vm_Ports = [], vm_Env = [], vm_VolumeID = [], vm_Healthcheck = None, vm_Restart = [],
     vm_Error = [], vm_Crashed = False, vm_SnapshotPath = [], vm_SnapshotMemPath = [],
     vm_DeploymentID = [], vm_DeploymentVersion = [], vm_DeploymentEnv = [], vm_GuestBase = [],
     vm_SnapshotStatus = [], vm_SnapshotError = [], vm_SnapshotCreatedAt = None,
     vm_LastRecoveredAt = None, vm_RecoveryCount = 0, vm_CreatedAt = 0, vm_StartedAt = None\<rparr>"

fun first_port :: "Port list \<Rightarrow> int" where
  "first_port [] = 0"
| "first_port (p # ps) = (if p_ContainerPort p \<noteq> 0 then p_ContainerPort p else first_port ps)"

definition ContainerPort :: "VM \<Rightarrow> int" where
  "ContainerPort v = first_port (vm_Ports v)"

record AutoscalePolicy =
  as_MinReplicas :: int
  as_MaxReplicas :: int
  as_TargetCPU :: rat
  as_ScaleDownCPU :: rat
  as_CooldownSec :: int
  as_Enabled :: bool

record ServicePool =
  sp_Desired :: int
  sp_Healthy :: int
  sp_VMs :: "string list"

record Project =
  pr_ID :: string
  pr_OrgID :: string
  pr_Name :: string
  pr_Source :: string
  pr_Image :: string
  pr_Network :: string
  pr_VMIDs :: "string list"
  pr_ServicePools :: "(string \<times> ServicePool) list"
  pr_ComposeYAML :: string
  pr_HostMountPath :: string
  pr_ReplicasDesired :: int
  pr_RestartPolicy :: string
  pr_Healthcheck :: "Healthcheck option"
  pr_Env :: smap
  pr_Tags :: "string list"
  pr_SSHEnabled :: bool
  pr_Replicas :: int
  pr_StackID :: string
  pr_ComposeService :: string
  pr_Model :: string
  pr_GPU :: string
  pr_Networks :: "string list"
  pr_Autoscale :: "AutoscalePolicy option"
  pr_CreatedBy :: string
  pr_CreatedAt :: time

definition zero_Project :: Project where
  "zero_Project = \<lparr>pr_ID = [], pr_OrgID = [], pr_Name = [], pr_Source = [], pr_Image = [],
     pr_Network = [], pr_VMIDs = [], pr_ServicePools = [], pr_ComposeYAML = [], pr_HostMountPath = [],
     pr_ReplicasDesired = 0, pr_RestartPolicy = [], pr_Healthcheck = None, pr_Env = [], pr_Tags = [],
     pr_SSHEnabled = False, pr_Replicas = 0, pr_StackID = [], pr_ComposeService = [], pr_Model = [],
     pr_GPU = [], pr_Networks = [], pr_Autoscale = None, pr_CreatedBy = [], pr_CreatedAt = 0\<rparr>"

record Domain =
  d_ProjectID :: string
  d_VMID :: string
  d_Domain :: string
  d_Type :: string
  d_Status :: string

record TrafficEntry =
  te_Timestamp :: time
  te_Method :: string
  te_Host :: string
  te_Path :: string
  te_Status :: int
  te_DurationMS :: int
  te_RemoteIP :: string
  te_BytesIn :: int
  te_BytesOut :: int

record FirewallRule =
  fw_ID :: string
  fw_ProjectID :: string
  fw_Direction :: string
  fw_Action :: string
  fw_Proto :: string
  fw_Ports :: string
  fw_Source :: string
  fw_Priority :: int
  fw_Active :: bool
  fw_CreatedAt :: time

record DeploymentCheck =
  dc_Name :: string
  dc_Status :: string
  dc_Detail :: string

record Deployment =
  dep_ID :: string
  dep_ProjectID :: string
  dep_Revision :: int
  dep_VersionLabel :: string
  dep_GuestBase :: string
  dep_Environment :: string
  dep_IsProduction :: bool
  dep_RouteWeight :: int
  dep_VMIDs :: "string list"
  dep_GitURL :: string
  dep_GitCommit :: string
  dep_BuildStatus :: string
  dep_ImageDigest :: string
  dep_RollbackTo :: string
  dep_Checks :: "DeploymentCheck list"
  dep_RolloutPercent :: int
  dep_CreatedAt :: time

subsection \<open>Lemmas\<close>

lemma first_port_zero_iff: "first_port ps = 0 \<longleftrightarrow> (\<forall>p \<in> set ps. p_ContainerPort p = 0)"
  by (induction ps) auto

end
