(* ===== verification/Compose.thy ===== *)
theory Compose
  imports Types "HOL-Library.AList"
begin

text \<open>
  The compose-file parser (\<open>internal/compose/compose.go\<close>): the indentation parser as a fold of a line
  step over an explicit parser state, and \<open>topoSort\<close>, the depth-first search that turns
  \<open>depends_on\<close> into a boot order. The pointer \<open>svc\<close> of the Go code always points at the entry of the
  \<open>services\<close> map under the service's own name, so the model keeps that name. The recursion of \<open>visit\<close>
  carries fuel for its depth; the lemmas show that the number of services plus one is enough.
\<close>

subsection \<open>Data\<close>

record ComposeService =
  cs_Name :: string
  cs_Image :: string
  cs_Rootfs :: string
  cs_Ports :: "Port list"
  cs_Env :: smap
  cs_Replicas :: int
  cs_DependsOn :: "string list"
  cs_Networks :: "string list"
  cs_Healthcheck :: "Healthcheck option"
  cs_Restart :: string

type_synonym services = "(string \<times> ComposeService) list"

datatype item_error = InvalidPort string | InvalidEnv string

datatype compose_error =
    ExpectedServiceName nat string
  | EmptyServiceName nat
  | ValueOutsideService nat
  | BadItem nat item_error
  | ReplicasNotInteger nat
  | BuildUnsupported string
  | NoServices
  | CircularDependency "string list" string
  | UnknownService string string
  | MissingImage string
  | IndexPanic
  | OutOfFuel

record parser =
  servicesIndent :: int
  inServices :: bool
  svc :: "string option"
  svcIndent :: int
  section_name :: string
  sectionIndent :: int
  services :: services
  order :: "string list"

datatype line_result = Continue parser | Break parser | Return compose_error

subsection \<open>Lines\<close>

text \<open>\<open>re_space\<close> is the class \<open>\s\<close> of Go's regexp; \<open>strip_comment\<close> the replacement of \<open>(^|\s)#.*$\<close>.\<close>

definition re_space :: "char \<Rightarrow> bool" where
  "re_space c = (c = CHR '' '' \<or> byte c \<in> {9, 10, 12, 13})"

fun cut_comment :: "string \<Rightarrow> string" where
  "cut_comment (c # d # s) = (if re_space c \<and> d = CHR ''#'' then [] else c # cut_comment (d # s))"
| "cut_comment s = s"

definition strip_comment :: "string \<Rightarrow> string" where
  "strip_comment s = (if s \<noteq> [] \<and> hd s = CHR ''#'' then [] else cut_comment s)"

definition compose_lines :: "string \<Rightarrow> string list" where
  "compose_lines yamlText = Split (char_of (10 :: nat)) (ReplaceAll yamlText [char_of (9 :: nat)] ''    '')"

definition line_indent :: "string \<Rightarrow> int" where
  "line_indent line = int (length line) - int (length (TrimLeftF (\<lambda>c. c = CHR '' '') line))"

definition quotes :: string where
  "quotes = [CHR 34, CHR 39]"

definition parseDurationSeconds :: "string \<Rightarrow> int" where
  "parseDurationSeconds s0 =
     (let s = TrimSpace s0
      in if HasSuffix s ''s'' then Atoi_val (TrimSuffix s ''s'') else Atoi_val s)"

definition parsePort :: "string \<Rightarrow> (item_error, Port) result" where
  "parsePort item0 =
     (let item1 = Trim item0 quotes;
          (item, proto) = (case Cut (CHR ''/'') item1 of
              Some (a, b) \<Rightarrow> (a, b)
            | None \<Rightarrow> (item1, ''tcp''));
          parts = Split (CHR '':'') item;
          portStr = parts ! (length parts - 1)
      in case Atoi portStr of
           None \<Rightarrow> Inl (InvalidPort item)
         | Some p \<Rightarrow>
             let hostPort = (if length parts > 1
                   then (case Atoi (parts ! 0) of Some hp \<Rightarrow> hp | None \<Rightarrow> 0)
                   else 0)
             in Inr \<lparr>p_ContainerPort = p, p_HostPort = hostPort, p_Protocol = proto\<rparr>)"

definition parseKV :: "string \<Rightarrow> (item_error, string \<times> string) result" where
  "parseKV item0 =
     (let item = Trim item0 quotes
      in case Cut (CHR ''='') item of
           Some (k, v) \<Rightarrow> Inr (TrimSpace k, TrimSpace v)
         | None \<Rightarrow>
             (case Cut (CHR '':'') item of
                Some (k, v) \<Rightarrow> Inr (TrimSpace k, Trim (TrimSpace v) quotes)
              | None \<Rightarrow> Inl (InvalidEnv item)))"

subsection \<open>The line step and the parser\<close>

definition new_service :: "string \<Rightarrow> ComposeService" where
  "new_service name = \<lparr>cs_Name = name, cs_Image = [], cs_Rootfs = [], cs_Ports = [], cs_Env = [],
     cs_Replicas = 1, cs_DependsOn = [], cs_Networks = [], cs_Healthcheck = None, cs_Restart = []\<rparr>"

text \<open>\<open>set_svc\<close> writes through the pointer \<open>svc\<close>.\<close>

definition set_svc :: "ComposeService \<Rightarrow> parser \<Rightarrow> parser" where
  "set_svc s st = st\<lparr>services := AList.update (cs_Name s) s (services st)\<rparr>"

definition cut_or_all :: "char \<Rightarrow> string \<Rightarrow> string \<times> string" where
  "cut_or_all c s = (case Cut c s of Some p \<Rightarrow> p | None \<Rightarrow> (s, []))"

definition section_item :: "nat \<Rightarrow> string \<Rightarrow> ComposeService \<Rightarrow> parser \<Rightarrow> line_result" where
  "section_item lineNo item s st =
     (if section_name st = ''ports'' then
        (case parsePort item of
           Inl e \<Rightarrow> Return (BadItem (lineNo + 1) e)
         | Inr p \<Rightarrow> Continue (set_svc (s\<lparr>cs_Ports := cs_Ports s @ [p]\<rparr>) st))
      else if section_name st = ''environment'' then
        (case parseKV item of
           Inl e \<Rightarrow> Return (BadItem (lineNo + 1) e)
         | Inr (k, v) \<Rightarrow> Continue (set_svc (s\<lparr>cs_Env := AList.update k v (cs_Env s)\<rparr>) st))
      else if section_name st = ''depends_on'' then
        Continue (set_svc (s\<lparr>cs_DependsOn := cs_DependsOn s @ [item]\<rparr>) st)
      else if section_name st = ''networks'' then
        Continue (set_svc (s\<lparr>cs_Networks := cs_Networks s @ [item]\<rparr>) st)
      else if section_name st = ''deploy'' then
        (case Cut (CHR '':'') item of
           Some (k, v) \<Rightarrow>
             if TrimSpace k = ''replicas'' then
               (case Atoi (TrimSpace v) of
                  None \<Rightarrow> Return (ReplicasNotInteger (lineNo + 1))
                | Some n \<Rightarrow> Continue (set_svc (s\<lparr>cs_Replicas := n\<rparr>) st))
             else Continue st
         | None \<Rightarrow> Continue st)
      else if section_name st = ''healthcheck'' then
        (let (k0, v0) = cut_or_all (CHR '':'') item;
             k = TrimSpace k0;
             v = Trim (TrimSpace v0) quotes;
             hc = (case cs_Healthcheck s of
                     None \<Rightarrow> \<lparr>hc_Type = ''tcp'', hc_Path = [], hc_Port = 0, hc_IntervalSec = 0\<rparr>
                   | Some h \<Rightarrow> h);
             hc' = (if k = ''test'' then hc\<lparr>hc_Type := ''http''\<rparr>
                    else if k = ''interval'' then hc\<lparr>hc_IntervalSec := parseDurationSeconds v\<rparr>
                    else hc)
         in Continue (set_svc (s\<lparr>cs_Healthcheck := Some hc'\<rparr>) st))
      else Continue st)"

definition service_key :: "int \<Rightarrow> string \<Rightarrow> ComposeService \<Rightarrow> parser \<Rightarrow> line_result" where
  "service_key indent trimmed s st =
     (let (key0, val0) = cut_or_all (CHR '':'') trimmed;
          key = TrimSpace key0;
          val = Trim (TrimSpace val0) quotes
      in if key = ''image'' then Continue (set_svc (s\<lparr>cs_Image := val\<rparr>) st)
         else if key = ''restart'' then Continue (set_svc (s\<lparr>cs_Restart := val\<rparr>) st)
         else if key = ''build'' then Return (BuildUnsupported (cs_Name s))
         else if key \<in> {''ports'', ''environment'', ''depends_on'', ''networks'', ''deploy'', ''healthcheck''}
           then Continue (st\<lparr>section_name := key, sectionIndent := indent\<rparr>)
         else Continue st)"

definition start_service :: "int \<Rightarrow> string \<Rightarrow> parser \<Rightarrow> parser" where
  "start_service indent name st =
     st\<lparr>svcIndent := indent, svc := Some name,
        services := AList.update name (new_service name) (services st),
        order := order st @ [name], section_name := [], sectionIndent := -1\<rparr>"

definition parse_line :: "nat \<Rightarrow> string \<Rightarrow> parser \<Rightarrow> line_result" where
  "parse_line lineNo raw st =
     (let line = strip_comment raw
      in if TrimSpace line = [] then Continue st
         else
           let indent = line_indent line;
               trimmed = TrimSpace line
           in if \<not> inServices st then
                (if trimmed = ''services:''
                 then Continue (st\<lparr>inServices := True, servicesIndent := indent\<rparr>)
                 else Continue st)
              else if indent \<le> servicesIndent st \<and> trimmed \<noteq> ''services:'' then Break st
              else if svcIndent st = -1 \<or> indent = svcIndent st then
                (if \<not> HasSuffix trimmed '':'' then Return (ExpectedServiceName (lineNo + 1) trimmed)
                 else
                   let name = TrimSuffix trimmed '':''
                   in if name = [] then Return (EmptyServiceName (lineNo + 1))
                      else Continue (start_service indent name st))
              else
                (case svc st of
                   None \<Rightarrow> Return (ValueOutsideService (lineNo + 1))
                 | Some cur \<Rightarrow>
                     let s = the (map_of (services st) cur)
                     in if section_name st \<noteq> [] \<and> indent > sectionIndent st
                        then section_item lineNo (TrimPrefix trimmed ''- '') s st
                        else service_key indent trimmed s st))"

fun parse_lines :: "nat \<Rightarrow> string list \<Rightarrow> parser \<Rightarrow> (compose_error, parser) result" where
  "parse_lines lineNo [] st = Inr st"
| "parse_lines lineNo (raw # lines) st =
     (case parse_line lineNo raw st of
        Continue st' \<Rightarrow> parse_lines (lineNo + 1) lines st'
      | Break st' \<Rightarrow> Inr st'
      | Return e \<Rightarrow> Inl e)"

definition init_parser :: parser where
  "init_parser = \<lparr>servicesIndent = -1, inServices = False, svc = None, svcIndent = -1,
     section_name = [], sectionIndent = -1, services = [], order = []\<rparr>"

subsection \<open>Boot order\<close>

record topo =
  visited :: "string \<Rightarrow> nat"
  out :: "ComposeService list"

fun visit :: "nat \<Rightarrow> services \<Rightarrow> string \<Rightarrow> string list \<Rightarrow> topo \<Rightarrow> (compose_error, topo) result"
and visit_deps :: "nat \<Rightarrow> services \<Rightarrow> string list \<Rightarrow> string list \<Rightarrow> topo \<Rightarrow> (compose_error, topo) result"
where
  "visit 0 svcs name path st = Inl OutOfFuel"
| "visit (Suc n) svcs name path st =
     (if visited st name = 2 then Inr st
      else if visited st name = 1 then Inl (CircularDependency path name)
      else
        let st1 = st\<lparr>visited := (visited st)(name := 1)\<rparr>
        in case map_of svcs name of
             None \<Rightarrow> Inl (if path = [] then IndexPanic else UnknownService (path ! (length path - 1)) name)
           | Some s \<Rightarrow>
               (case visit_deps n svcs (sort (cs_DependsOn s)) (path @ [name]) st1 of
                  Inl e \<Rightarrow> Inl e
                | Inr st2 \<Rightarrow> Inr (st2\<lparr>visited := (visited st2)(name := 2), out := out st2 @ [s]\<rparr>)))"
| "visit_deps n svcs [] path st = Inr st"
| "visit_deps n svcs (d # ds) path st =
     (case visit n svcs d path st of
        Inl e \<Rightarrow> Inl e
      | Inr st' \<Rightarrow> visit_deps n svcs ds path st')"

definition topoSort :: "services \<Rightarrow> string list \<Rightarrow> (compose_error, ComposeService list) result" where
  "topoSort svcs declOrder =
     (case visit_deps (Suc (length svcs)) svcs declOrder [] \<lparr>visited = (\<lambda>_. 0), out = []\<rparr> of
        Inl e \<Rightarrow> Inl e
      | Inr st \<Rightarrow> Inr (out st))"

text \<open>
  The last loop of \<open>ParseCompose\<close>. It ranges over a slice of structs, so \<open>s\<close> is a copy: the
  assignment to its \<open>Replicas\<close> field changes nothing outside the loop body.
\<close>

fun check_images :: "ComposeService list \<Rightarrow> compose_error option" where
  "check_images [] = None"
| "check_images (s # ss) =
     (if cs_Image s = [] then Some (MissingImage (cs_Name s))
      else let s' = (if cs_Replicas s \<le> 0 then s\<lparr>cs_Replicas := 1\<rparr> else s) in check_images ss)"

definition ParseCompose :: "string \<Rightarrow> (compose_error, ComposeService list) result" where
  "ParseCompose yamlText =
     (case parse_lines 0 (compose_lines yamlText) init_parser of
        Inl e \<Rightarrow> Inl e
      | Inr st \<Rightarrow>
          if length (services st) = 0 then Inl NoServices
          else case topoSort (services st) (order st) of
                 Inl e \<Rightarrow> Inl e
               | Inr ordered \<Rightarrow>
                   (case check_images ordered of Some e \<Rightarrow> Inl e | None \<Rightarrow> Inr ordered))"

text \<open>The scan for the top-level \<open>networks:\<close> block; \<open>seen\<close> is the set of the names in \<open>out\<close>.\<close>

fun network_lines :: "string list \<Rightarrow> bool \<Rightarrow> int \<Rightarrow> string list \<Rightarrow> string list" where
  "network_lines [] inNetworks networksIndent acc = acc"
| "network_lines (raw # lines) inNetworks networksIndent acc =
     (let line = strip_comment raw
      in if TrimSpace line = [] then network_lines lines inNetworks networksIndent acc
         else
           let indent = line_indent line;
               trimmed = TrimSpace line
           in if \<not> inNetworks then
                (if trimmed = ''networks:'' then network_lines lines True indent acc
                 else network_lines lines False networksIndent acc)
              else if indent \<le> networksIndent then acc
              else if HasSuffix trimmed '':'' \<and> CHR '' '' \<notin> set trimmed then
                (let name = TrimSuffix trimmed '':''
                 in if name \<notin> set acc then network_lines lines True networksIndent (acc @ [name])
                    else network_lines lines True networksIndent acc)
              else network_lines lines True networksIndent acc)"

definition ParseTopLevelNetworks :: "string \<Rightarrow> string list" where
  "ParseTopLevelNetworks yamlText = network_lines (compose_lines yamlText) False (-1) []"

subsection \<open>Contract of the boot order\<close>

text \<open>
  \<open>deps_edges\<close> relates a dependency to its dependents; \<open>deps_before seen ss\<close> says that every service
  of \<open>ss\<close> comes after all services it depends on, which are earlier in the list or in \<open>seen\<close>.
\<close>

definition deps_edges :: "services \<Rightarrow> (string \<times> string) set" where
  "deps_edges svcs = {(d, n). \<exists>s. map_of svcs n = Some s \<and> d \<in> set (cs_DependsOn s)}"

definition wf_services :: "services \<Rightarrow> bool" where
  "wf_services svcs \<longleftrightarrow> (\<forall>n s. map_of svcs n = Some s \<longrightarrow> cs_Name s = n)"

fun deps_before :: "string set \<Rightarrow> ComposeService list \<Rightarrow> bool" where
  "deps_before seen [] = True"
| "deps_before seen (s # ss) \<longleftrightarrow> set (cs_DependsOn s) \<subseteq> seen \<and> deps_before (insert (cs_Name s) seen) ss"

definition topo_inv :: "services \<Rightarrow> string list \<Rightarrow> topo \<Rightarrow> bool" where
  "topo_inv svcs path st \<longleftrightarrow>
     (\<forall>n. visited st n = 1 \<longleftrightarrow> n \<in> set path) \<and> (\<forall>n. visited st n = 2 \<longleftrightarrow> n \<in> cs_Name ` set (out st)) \<and>
     distinct (map cs_Name (out st)) \<and> (\<forall>s \<in> set (out st). map_of svcs (cs_Name s) = Some s) \<and>
     deps_before {} (out st)"

definition path_ok :: "services \<Rightarrow> string list \<Rightarrow> bool" where
  "path_ok svcs path \<longleftrightarrow> distinct path \<and> set path \<subseteq> dom (map_of svcs) \<and>
     successively (\<lambda>a b. (b, a) \<in> deps_edges svcs) path"

definition next_ok :: "services \<Rightarrow> string list \<Rightarrow> string \<Rightarrow> bool" where
  "next_ok svcs path name \<longleftrightarrow>
     (if path = [] then name \<in> dom (map_of svcs) else (name, last path) \<in> deps_edges svcs)"

definition topo_error :: "services \<Rightarrow> compose_error \<Rightarrow> bool" where
  "topo_error svcs e \<longleftrightarrow>
     (\<exists>p m. e = CircularDependency p m \<and> (m, m) \<in> (deps_edges svcs)\<^sup>+) \<or>
     (\<exists>p m. e = UnknownService p m \<and> (m, p) \<in> deps_edges svcs \<and> m \<notin> dom (map_of svcs))"

definition visit_post ::
    "services \<Rightarrow> string list \<Rightarrow> string set \<Rightarrow> topo \<Rightarrow> (compose_error, topo) result \<Rightarrow> bool" where
  "visit_post svcs path names st r = (case r of
     Inl e \<Rightarrow> topo_error svcs e
   | Inr st' \<Rightarrow> topo_inv svcs path st' \<and>
       names \<union> {n. visited st n = 2} \<subseteq> {n. visited st' n = 2})"

subsection \<open>Lemmas on the boot order\<close>

lemma deps_before_append:
  "deps_before seen (xs @ ys) \<longleftrightarrow> deps_before seen xs \<and> deps_before (seen \<union> cs_Name ` set xs) ys"
  by (induction xs arbitrary: seen) auto

lemma successively_rtrancl:
  assumes "successively (\<lambda>a b. (b, a) \<in> r) path" "a \<in> set path"
  shows "(last path, a) \<in> r\<^sup>*"
  using assms
proof (induction path arbitrary: a)
  case Nil
  then show ?case by simp
next
  case (Cons x path)
  show ?case
  proof (cases path)
    case Nil
    with Cons.prems show ?thesis by simp
  next
    case (Cons y ys)
    with Cons.prems have "(y, x) \<in> r" and "successively (\<lambda>a b. (b, a) \<in> r) path"
      by simp_all
    then have reach: "(last path, b) \<in> r\<^sup>*" if "b \<in> set path" for b
      using Cons.IH that by blast
    from reach [of y] Cons have "(last path, y) \<in> r\<^sup>*"
      by simp
    then have "(last path, x) \<in> r\<^sup>*"
      using \<open>(y, x) \<in> r\<close> by (rule rtrancl_into_rtrancl)
    with reach Cons.prems(2) Cons show ?thesis by auto
  qed
qed

lemma path_cycle:
  assumes "path_ok svcs path" "name \<in> set path" "next_ok svcs path name"
  shows "(name, name) \<in> (deps_edges svcs)\<^sup>+"
proof -
  have "path \<noteq> []"
    using assms(2) by auto
  then have "(name, last path) \<in> deps_edges svcs"
    using assms(3) by (simp add: next_ok_def)
  moreover have "(last path, name) \<in> (deps_edges svcs)\<^sup>*"
    using assms(1,2) by (simp add: path_ok_def successively_rtrancl)
  ultimately show ?thesis
    by (rule rtrancl_into_trancl2)
qed

lemma path_length:
  assumes "path_ok svcs path"
  shows "length path \<le> length svcs"
proof -
  have "set path \<subseteq> fst ` set svcs"
    using assms unfolding path_ok_def by (metis dom_map_of_conv_image_fst)
  then have "card (set path) \<le> card (fst ` set svcs)"
    by (simp add: card_mono)
  also have "\<dots> \<le> length svcs"
    by (metis card_length length_map list.set_map)
  finally show ?thesis
    using assms by (simp add: path_ok_def distinct_card)
qed

lemma path_ok_snoc:
  assumes "path_ok svcs path" "next_ok svcs path name" "name \<notin> set path"
    and "name \<in> dom (map_of svcs)"
  shows "path_ok svcs (path @ [name])"
  using assms by (cases path rule: rev_cases) (auto simp: path_ok_def next_ok_def successively_append_iff)

lemma visit_deps_post:
  assumes "\<And>d st. d \<in> set ds \<Longrightarrow> topo_inv svcs path st \<Longrightarrow> visit_post svcs path {d} st (visit n svcs d path st)"
    and "topo_inv svcs path st"
  shows "visit_post svcs path (set ds) st (visit_deps n svcs ds path st)"
  using assms
proof (induction ds arbitrary: st)
  case Nil
  then show ?case by (simp add: visit_post_def)
next
  case (Cons d ds)
  have d: "visit_post svcs path {d} st (visit n svcs d path st)"
    using Cons.prems by simp
  show ?case
  proof (cases "visit n svcs d path st")
    case (Inl e)
    with d show ?thesis by (simp add: visit_post_def)
  next
    case (Inr st')
    with d have "topo_inv svcs path st'"
      and sub: "insert d {n. visited st n = 2} \<subseteq> {n. visited st' n = 2}"
      by (simp_all add: visit_post_def)
    then have "visit_post svcs path (set ds) st' (visit_deps n svcs ds path st')"
      using Cons by simp
    with sub Inr show ?thesis
      by (auto simp: visit_post_def split: sum.splits)
  qed
qed

lemma topo_inv_visiting: "topo_inv svcs path st \<Longrightarrow> visited st n = 1 \<longleftrightarrow> n \<in> set path"
  by (simp add: topo_inv_def)

lemma topo_inv_done: "topo_inv svcs path st \<Longrightarrow> visited st n = 2 \<longleftrightarrow> n \<in> cs_Name ` set (out st)"
  by (simp add: topo_inv_def)

lemma topo_inv_push:
  assumes "topo_inv svcs path st" "visited st name \<noteq> 1" "visited st name \<noteq> 2"
  shows "topo_inv svcs (path @ [name]) (st\<lparr>visited := (visited st)(name := 1)\<rparr>)"
  using assms by (simp add: topo_inv_def)

lemma topo_inv_pop:
  assumes inv: "topo_inv svcs (path @ [name]) st" and "name \<notin> set path" "wf_services svcs"
    and "map_of svcs name = Some s" "set (cs_DependsOn s) \<subseteq> {n. visited st n = 2}"
  shows "topo_inv svcs path (st\<lparr>visited := (visited st)(name := 2), out := out st @ [s]\<rparr>)"
proof -
  have name: "cs_Name s = name"
    using assms by (simp add: wf_services_def)
  have "visited st name = 1"
    using topo_inv_visiting [OF inv] by simp
  then have "name \<notin> cs_Name ` set (out st)"
    using topo_inv_done [OF inv, of name] by simp
  moreover have "set (cs_DependsOn s) \<subseteq> cs_Name ` set (out st)"
    using assms(5) topo_inv_done [OF inv] by blast
  ultimately show ?thesis
    using assms name by (simp add: topo_inv_def deps_before_append)
qed

lemma visit_post_visit:
  assumes "wf_services svcs" "path_ok svcs path" "next_ok svcs path name" "topo_inv svcs path st"
    and "length svcs < n + length path"
  shows "visit_post svcs path {name} st (visit n svcs name path st)"
  using assms
proof (induction n arbitrary: name path st)
  case 0
  from 0(2) have "length path \<le> length svcs"
    by (rule path_length)
  with 0(5) show ?case by simp
next
  case (Suc n)
  consider (finished) "visited st name = 2" | (visiting) "visited st name = 1"
    | (fresh) "visited st name \<noteq> 1" "visited st name \<noteq> 2"
    by blast
  then show ?case
  proof cases
    case finished
    with Suc.prems(4) show ?thesis by (simp add: visit_post_def)
  next
    case visiting
    then have "name \<in> set path"
      using topo_inv_visiting [OF Suc.prems(4)] by blast
    then have "topo_error svcs (CircularDependency path name)"
      using path_cycle Suc.prems(2,3) by (simp add: topo_error_def)
    with visiting show ?thesis by (simp add: visit_post_def)
  next
    case fresh
    then have new: "name \<notin> set path"
      using topo_inv_visiting [OF Suc.prems(4)] by blast
    show ?thesis
    proof (cases "map_of svcs name")
      case None
      then have "path \<noteq> []" and "(name, last path) \<in> deps_edges svcs"
        using Suc.prems(3) by (auto simp: next_ok_def split: if_splits)
      with None have "topo_error svcs (UnknownService (path ! (length path - 1)) name)"
        by (simp add: topo_error_def last_conv_nth domIff)
      with \<open>path \<noteq> []\<close> None fresh show ?thesis
        by (simp add: visit_post_def)
    next
      case (Some s)
      let ?path = "path @ [name]" and ?st = "st\<lparr>visited := (visited st)(name := 1)\<rparr>"
      let ?deps = "sort (cs_DependsOn s)"
      have path: "path_ok svcs ?path"
        using Suc.prems Some new by (auto intro!: path_ok_snoc)
      have "visit_post svcs ?path {d} st' (visit n svcs d ?path st')"
        if "d \<in> set ?deps" "topo_inv svcs ?path st'" for d st'
      proof (rule Suc.IH [OF Suc.prems(1) path _ that(2)])
        show "next_ok svcs ?path d"
          using that(1) Some by (auto simp: next_ok_def deps_edges_def)
        show "length svcs < n + length ?path"
          using Suc.prems(5) by simp
      qed
      then have deps: "visit_post svcs ?path (set ?deps) ?st (visit_deps n svcs ?deps ?path ?st)"
        using topo_inv_push [OF Suc.prems(4) fresh] by (rule visit_deps_post)
      show ?thesis
      proof (cases "visit_deps n svcs ?deps ?path ?st")
        case (Inl e)
        with deps Some fresh show ?thesis by (simp add: visit_post_def)
      next
        case (Inr st2)
        with deps have st2: "topo_inv svcs ?path st2"
          and sub: "set (cs_DependsOn s) \<subseteq> {n. visited st2 n = 2}"
          and mono: "{n. visited ?st n = 2} \<subseteq> {n. visited st2 n = 2}"
          by (simp_all add: visit_post_def)
        note topo_inv_pop [OF st2 new Suc.prems(1) Some sub]
        moreover have "{n. visited st n = 2} \<subseteq> {n. ((visited st2)(name := 2)) n = 2}"
          using mono fresh by auto
        ultimately show ?thesis
          using Inr Some fresh by (simp add: visit_post_def)
      qed
    qed
  qed
qed

definition boot_order :: "services \<Rightarrow> ComposeService list \<Rightarrow> bool" where
  "boot_order svcs ss \<longleftrightarrow>
     distinct (map cs_Name ss) \<and> cs_Name ` set ss = dom (map_of svcs) \<and>
     (\<forall>s \<in> set ss. map_of svcs (cs_Name s) = Some s) \<and> deps_before {} ss"

lemma topoSort_post:
  assumes "wf_services svcs" "set declOrder = dom (map_of svcs)"
  shows "case topoSort svcs declOrder of Inl e \<Rightarrow> topo_error svcs e | Inr ss \<Rightarrow> boot_order svcs ss"
proof -
  let ?init = "\<lparr>visited = (\<lambda>_. 0), out = []\<rparr>"
  have "topo_inv svcs [] ?init"
    by (simp add: topo_inv_def)
  moreover have "visit_post svcs [] {d} st (visit (Suc (length svcs)) svcs d [] st)"
    if "d \<in> set declOrder" "topo_inv svcs [] st" for d st
    using that assms by (intro visit_post_visit) (auto simp: path_ok_def next_ok_def)
  ultimately have post: "visit_post svcs [] (set declOrder) ?init
      (visit_deps (Suc (length svcs)) svcs declOrder [] ?init)"
    by (intro visit_deps_post)
  show ?thesis
  proof (cases "visit_deps (Suc (length svcs)) svcs declOrder [] ?init")
    case (Inl e)
    with post show ?thesis by (simp add: topoSort_def visit_post_def)
  next
    case (Inr st)
    with post have inv: "topo_inv svcs [] st" and sub: "set declOrder \<subseteq> {n. visited st n = 2}"
      by (simp_all add: visit_post_def)
    have "cs_Name ` set (out st) \<subseteq> dom (map_of svcs)"
      using inv by (auto simp: topo_inv_def)
    moreover have "dom (map_of svcs) \<subseteq> cs_Name ` set (out st)"
      using sub assms(2) topo_inv_done [OF inv] by blast
    ultimately have "boot_order svcs (out st)"
      using inv unfolding boot_order_def topo_inv_def by blast
    with Inr show ?thesis by (simp add: topoSort_def)
  qed
qed

lemma takeWhile_name_less:
  "d \<in> cs_Name ` set (takeWhile (\<lambda>s. cs_Name s \<noteq> n) ss) \<Longrightarrow>
   length (takeWhile (\<lambda>s. cs_Name s \<noteq> d) ss) < length (takeWhile (\<lambda>s. cs_Name s \<noteq> n) ss)"
  by (induction ss) (auto split: if_splits)

lemma boot_order_deps:
  assumes "boot_order svcs ss" "(d, n) \<in> deps_edges svcs"
  shows "d \<in> cs_Name ` set (takeWhile (\<lambda>s. cs_Name s \<noteq> n) ss)"
proof -
  let ?P = "\<lambda>s. cs_Name s \<noteq> n"
  from assms(2) obtain s where s: "map_of svcs n = Some s" "d \<in> set (cs_DependsOn s)"
    by (auto simp: deps_edges_def)
  then have "n \<in> cs_Name ` set ss"
    using assms(1) by (auto simp: boot_order_def)
  then have "dropWhile ?P ss \<noteq> []"
    by auto
  then obtain t ts where t: "dropWhile ?P ss = t # ts"
    by (meson list.exhaust)
  then have "cs_Name t = n" and "t \<in> set ss"
    using hd_dropWhile [of ?P ss] set_dropWhileD [of t ?P ss] by simp_all
  then have "t = s"
    using s(1) assms(1) by (auto simp: boot_order_def)
  have "deps_before {} (takeWhile ?P ss @ t # ts)"
    using assms(1) t by (metis boot_order_def takeWhile_dropWhile_id)
  then show ?thesis
    using s(2) \<open>t = s\<close> by (auto simp: deps_before_append)
qed

lemma boot_order_acyclic:
  assumes "boot_order svcs ss"
  shows "acyclic (deps_edges svcs)" and "fst ` deps_edges svcs \<subseteq> dom (map_of svcs)"
proof -
  let ?pos = "\<lambda>n. length (takeWhile (\<lambda>s. cs_Name s \<noteq> n) ss)"
  have "?pos d < ?pos n" if "(d, n) \<in> deps_edges svcs" for d n
    by (rule takeWhile_name_less [OF boot_order_deps [OF assms that]])
  then have "deps_edges svcs \<subseteq> measure ?pos"
    by auto
  then have "wf (deps_edges svcs)"
    by (rule wf_subset [OF wf_measure])
  then show "acyclic (deps_edges svcs)"
    by (rule wf_acyclic)
  have "d \<in> dom (map_of svcs)" if "(d, n) \<in> deps_edges svcs" for d n
    using boot_order_deps [OF assms that] assms
    by (auto simp: boot_order_def dest!: set_takeWhileD)
  then show "fst ` deps_edges svcs \<subseteq> dom (map_of svcs)"
    by (metis image_subsetI prod.collapse)
qed

lemma topo_error_cyclic:
  "topo_error svcs e \<Longrightarrow> \<not> (acyclic (deps_edges svcs) \<and> fst ` deps_edges svcs \<subseteq> dom (map_of svcs))"
  by (force simp: topo_error_def acyclic_def)

subsection \<open>Lemmas on the parser\<close>

definition parser_inv :: "parser \<Rightarrow> bool" where
  "parser_inv st \<longleftrightarrow> wf_services (services st) \<and> set (order st) = dom (map_of (services st)) \<and>
     (svcIndent st \<noteq> -1 \<longrightarrow> (\<exists>n \<in> dom (map_of (services st)). svc st = Some n))"

lemma parser_inv_set_svc:
  assumes "parser_inv st" "map_of (services st) n = Some s" "cs_Name s' = cs_Name s"
  shows "parser_inv (set_svc s' st)"
proof -
  have "cs_Name s = n"
    using assms by (auto simp: parser_inv_def wf_services_def)
  with assms show ?thesis
    by (auto simp: parser_inv_def set_svc_def wf_services_def update_conv' insert_absorb)
qed

definition line_ok :: "line_result \<Rightarrow> bool" where
  "line_ok r = (case r of Continue st \<Rightarrow> parser_inv st | Break st \<Rightarrow> parser_inv st
     | Return e \<Rightarrow> e \<noteq> IndexPanic \<and> e \<noteq> OutOfFuel)"

lemma line_ok_Return:
  "line_ok (Return (BadItem l e))" "line_ok (Return (ReplicasNotInteger l))"
  "line_ok (Return (BuildUnsupported n))" "line_ok (Return (ExpectedServiceName l n))"
  "line_ok (Return (EmptyServiceName l))" "line_ok (Return (ValueOutsideService l))"
  by (simp_all add: line_ok_def)

lemma section_item_ok:
  assumes "parser_inv st" "map_of (services st) n = Some s"
  shows "line_ok (section_item l item s st)"
proof -
  have set_ok: "line_ok (Continue (set_svc s' st))" if "cs_Name s' = cs_Name s" for s'
    using assms that by (simp add: line_ok_def parser_inv_set_svc)
  have same: "line_ok (Continue st)"
    using assms by (simp add: line_ok_def)
  show ?thesis
    unfolding section_item_def Let_def
    by (simp add: set_ok same line_ok_Return split: sum.split option.split prod.split)
qed

lemma service_key_ok:
  assumes "parser_inv st" "map_of (services st) n = Some s"
  shows "line_ok (service_key i t s st)"
proof -
  have set_ok: "line_ok (Continue (set_svc s' st))" if "cs_Name s' = cs_Name s" for s'
    using assms that by (simp add: line_ok_def parser_inv_set_svc)
  have same: "line_ok (Continue st)" "line_ok (Continue (st\<lparr>section_name := k, sectionIndent := i\<rparr>))" for k
    using assms by (simp_all add: line_ok_def parser_inv_def)
  show ?thesis
    unfolding service_key_def Let_def
    by (simp add: set_ok same line_ok_Return split: prod.split)
qed

lemma new_service_ok:
  assumes "parser_inv st"
  shows "parser_inv (start_service i name st)"
  using assms by (auto simp: parser_inv_def wf_services_def update_conv' new_service_def start_service_def)

lemma parse_line_ok:
  assumes inv: "parser_inv st"
  shows "line_ok (parse_line l raw st)"
proof -
  have same: "line_ok (Continue st)" "line_ok (Break st)"
      "line_ok (Continue (st\<lparr>inServices := True, servicesIndent := i\<rparr>))" for i
    using inv by (simp_all add: line_ok_def parser_inv_def)
  have new: "line_ok (Continue (start_service i name st))" for i name
    using new_service_ok [OF inv] by (simp add: line_ok_def)
  have item: "line_ok (section_item l item (the (map_of (services st) n)) st)"
      "line_ok (service_key i t (the (map_of (services st) n)) st)"
    if "svcIndent st \<noteq> -1" "svc st = Some n" for i t n item
    using inv that section_item_ok [OF inv] service_key_ok [OF inv] by (auto simp: parser_inv_def)
  show ?thesis
    unfolding parse_line_def Let_def
    by (simp add: same new item line_ok_Return split: option.split)
qed

lemma parse_lines_ok:
  assumes "parser_inv st"
  shows "case parse_lines l lines st of
      Inl e \<Rightarrow> e \<noteq> IndexPanic \<and> e \<noteq> OutOfFuel | Inr st' \<Rightarrow> parser_inv st'"
  using assms
proof (induction lines arbitrary: l st)
  case Nil
  then show ?case by simp
next
  case (Cons raw lines)
  from parse_line_ok [OF Cons.prems, of l raw] Cons.IH show ?case
    by (auto simp: line_ok_def split: line_result.splits)
qed

lemma parser_inv_init: "parser_inv init_parser"
  by (simp add: parser_inv_def init_parser_def wf_services_def)

lemma check_images_iff: "check_images ss = None \<longleftrightarrow> (\<forall>s \<in> set ss. cs_Image s \<noteq> [])"
  by (induction ss) (auto simp: Let_def)

lemma check_images_error: "check_images ss = Some e \<Longrightarrow> \<exists>n. e = MissingImage n"
  by (induction ss) (auto simp: Let_def split: if_splits)

lemma ParseCompose_post:
  "case ParseCompose y of
     Inl e \<Rightarrow> e \<noteq> IndexPanic \<and> e \<noteq> OutOfFuel
   | Inr ss \<Rightarrow> \<exists>st. parse_lines 0 (compose_lines y) init_parser = Inr st \<and> services st \<noteq> [] \<and>
       boot_order (services st) ss \<and> check_images ss = None"
proof (cases "parse_lines 0 (compose_lines y) init_parser")
  case (Inl e)
  then show ?thesis
    using parse_lines_ok [OF parser_inv_init, of 0 "compose_lines y"] by (simp add: ParseCompose_def)
next
  case (Inr st)
  then have inv: "parser_inv st"
    using parse_lines_ok [OF parser_inv_init, of 0 "compose_lines y"] by simp
  then have "case topoSort (services st) (order st) of
      Inl e \<Rightarrow> topo_error (services st) e | Inr ss \<Rightarrow> boot_order (services st) ss"
    by (intro topoSort_post) (simp_all add: parser_inv_def)
  with Inr show ?thesis
    by (auto simp: ParseCompose_def topo_error_def dest!: check_images_error
        split: sum.splits option.splits)
qed

subsection \<open>Properties\<close>

definition demo_yaml :: string where
  "demo_yaml = Join [char_of (10 :: nat)]
     [''services:'', ''  api:'', ''    image: a'', ''    depends_on:'', ''      - db'',
      ''  db:  # store'', ''    image: d'', ''    deploy:'', ''      replicas: -3'']"

definition demo_services :: services where
  "demo_services = [(''api'', (new_service ''api'')\<lparr>cs_DependsOn := [''db'']\<rparr>), (''db'', new_service ''db'')]"

text \<open>
  C1: the boot order is correct and complete. Over a service map whose keys are the services' names
  and a declaration order that lists exactly its keys, \<open>topoSort\<close> succeeds exactly when every name in
  a \<open>depends_on\<close> list is declared and the dependency relation is acyclic; and what it returns is
  every service of the map exactly once, each one after all the services it depends on.
\<close>

theorem topoSort_correct:
  assumes "wf_services svcs" "set declOrder = dom (map_of svcs)"
  shows "((\<exists>ss. topoSort svcs declOrder = Inr ss) \<longleftrightarrow>
      acyclic (deps_edges svcs) \<and> fst ` deps_edges svcs \<subseteq> dom (map_of svcs)) \<and>
    (\<forall>ss. topoSort svcs declOrder = Inr ss \<longrightarrow>
      distinct (map cs_Name ss) \<and> cs_Name ` set ss = dom (map_of svcs) \<and>
      (\<forall>s \<in> set ss. map_of svcs (cs_Name s) = Some s) \<and> deps_before {} ss)"
proof (cases "topoSort svcs declOrder")
  case (Inl e)
  with topoSort_post [OF assms] show ?thesis
    by (auto dest: topo_error_cyclic)
next
  case (Inr ss)
  then have "boot_order svcs ss"
    using topoSort_post [OF assms] by simp
  moreover from this have "acyclic (deps_edges svcs)" "fst ` deps_edges svcs \<subseteq> dom (map_of svcs)"
    by (rule boot_order_acyclic)+
  ultimately show ?thesis
    using Inr unfolding boot_order_def by simp
qed

theorem topoSort_correct_witness:
  "\<exists>ss. topoSort demo_services [''api'', ''db''] = Inr ss \<and> map cs_Name ss = [''db'', ''api''] \<and>
     deps_before {} ss"
proof -
  have "wf_services demo_services"
    by (simp add: wf_services_def demo_services_def new_service_def)
  moreover have "set [''api'', ''db''] = dom (map_of demo_services)"
    by (simp add: demo_services_def insert_commute)
  moreover have "map_sum id (map cs_Name) (topoSort demo_services [''api'', ''db'']) = Inr [''db'', ''api'']"
    by code_simp
  ultimately show ?thesis
    using topoSort_correct [of demo_services "[''api'', ''db'']"]
    by (cases "topoSort demo_services [''api'', ''db'']") auto
qed

text \<open>
  C3: the compose parser never panics and what it accepts is deployable. On every input
  \<open>ParseCompose\<close> returns (its recursion needs no more than one level per service and the index into
  the empty path never happens); when it succeeds there is at least one service, service names are
  distinct, every service has an image, and every service comes after all services it depends on.
\<close>

theorem ParseCompose_correct:
  "case ParseCompose y of
     Inl e \<Rightarrow> e \<noteq> IndexPanic \<and> e \<noteq> OutOfFuel
   | Inr ss \<Rightarrow> ss \<noteq> [] \<and> distinct (map cs_Name ss) \<and> list_all (\<lambda>s. cs_Image s \<noteq> []) ss \<and>
       deps_before {} ss"
proof (cases "ParseCompose y")
  case (Inl e)
  then show ?thesis
    using ParseCompose_post [of y] by simp
next
  case (Inr ss)
  then have images: "check_images ss = None"
      and "\<exists>st :: parser. services st \<noteq> [] \<and> boot_order (services st) ss"
    using ParseCompose_post [of y] by auto
  then obtain st :: parser where "services st \<noteq> []" and "boot_order (services st) ss"
    by blast
  moreover from this have "ss \<noteq> []"
    by (auto simp: boot_order_def dom_map_of_conv_image_fst)
  moreover note images
  ultimately show ?thesis
    using Inr by (simp add: boot_order_def check_images_iff list_all_iff)
qed

text \<open>
  \<open>ParseCompose\<close> returns each service as it was parsed. In particular a \<open>replicas\<close> value of zero
  or less is passed on: the loop that means to replace it by one assigns to a copy.
\<close>

theorem ParseCompose_replicas_kept:
  assumes "ParseCompose y = Inr ss" "parse_lines 0 (compose_lines y) init_parser = Inr st" "s \<in> set ss"
  shows "map_of (services st) (cs_Name s) = Some s"
  using ParseCompose_post [of y] assms by (auto simp: boot_order_def)

theorem ParseCompose_replicas_kept_witness:
  "\<exists>ss st s. ParseCompose demo_yaml = Inr ss \<and>
     parse_lines 0 (compose_lines demo_yaml) init_parser = Inr st \<and> s \<in> set ss \<and>
     cs_Replicas s = -3 \<and> map_of (services st) (cs_Name s) = Some s"
proof -
  have "map_sum id (map (\<lambda>s. (cs_Name s, cs_Replicas s))) (ParseCompose demo_yaml)
      = Inr [(''db'', -3), (''api'', 1)]"
    by code_simp
  then obtain ss where ss: "ParseCompose demo_yaml = Inr ss"
      and "map (\<lambda>s. (cs_Name s, cs_Replicas s)) ss = [(''db'', -3), (''api'', 1)]"
    by (cases "ParseCompose demo_yaml") auto
  then obtain s where s: "s \<in> set ss" "cs_Name s = ''db'' \<and> cs_Replicas s = -3"
    by (cases ss) auto
  obtain st where st: "parse_lines 0 (compose_lines demo_yaml) init_parser = Inr st"
    using ParseCompose_post [of demo_yaml] ss by auto
  from ParseCompose_replicas_kept [OF ss st s(1)] ss st s show ?thesis
    by blast
qed

end
