(* ===== verification/Log_Rings.thy ===== *)
theory Log_Rings
  imports Types
begin

text \<open>
  The bounded in-memory logs: the gateway's \<open>TrafficRing\<close> (\<open>internal/gateway/gateway.go\<close>) and the
  store's traffic, web-vitals, VM-log and daemon-log rings (\<open>internal/store/store.go\<close>). All of them
  append and trim to a bound; the locale \<open>bounded_log\<close> states that contract once and each ring is an
  interpretation of it. A Go map of slices is a function that yields the empty slice for a missing key.
\<close>

subsection \<open>Gateway ring\<close>

record TrafficRing =
  perVM :: "string \<Rightarrow> TrafficEntry list"
  ring_size :: int

definition NewTrafficRing :: "int \<Rightarrow> TrafficRing" where
  "NewTrafficRing n = (let n' = (if n \<le> 0 then 500 else n) in \<lparr>perVM = (\<lambda>_. []), ring_size = n'\<rparr>)"

definition ring_Add :: "string \<Rightarrow> TrafficEntry \<Rightarrow> TrafficRing \<Rightarrow> TrafficRing" where
  "ring_Add vmID e t =
     (let buf = perVM t vmID @ [e];
          buf' = (if int (length buf) > ring_size t then drop (nat (int (length buf) - ring_size t)) buf else buf)
      in t\<lparr>perVM := (perVM t)(vmID := buf')\<rparr>)"

definition ring_List :: "TrafficRing \<Rightarrow> string \<Rightarrow> int \<Rightarrow> TrafficEntry list" where
  "ring_List t vmID limit =
     (let buf = perVM t vmID;
          limit' = (if limit \<le> 0 \<or> limit > int (length buf) then int (length buf) else limit);
          start = int (length buf) - limit'
      in take (nat limit') (drop (nat start) buf))"

subsection \<open>Store rings\<close>

record WebVital =
  wv_ProjectID :: string
  wv_Path :: string
  wv_Metric :: string
  wv_Value :: rat
  wv_Rating :: string
  wv_Timestamp :: time

record store_rings =
  st_traffic :: "string \<Rightarrow> TrafficEntry list"
  st_vitals :: "string \<Rightarrow> WebVital list"
  st_logs :: "string \<Rightarrow> string list"
  st_daemonLogs :: "string list"

abbreviation trafficRingSize :: nat where "trafficRingSize \<equiv> 200"
abbreviation logRingSize :: nat where "logRingSize \<equiv> 500"
abbreviation daemonLogRingSize :: nat where "daemonLogRingSize \<equiv> 1000"

definition AddTraffic :: "string \<Rightarrow> TrafficEntry \<Rightarrow> store_rings \<Rightarrow> store_rings" where
  "AddTraffic vmID e s =
     (let buf = st_traffic s vmID @ [e];
          buf' = (if length buf > trafficRingSize then drop (length buf - trafficRingSize) buf else buf)
      in s\<lparr>st_traffic := (st_traffic s)(vmID := buf')\<rparr>)"

text \<open>The clamp-and-copy that every \<open>List\<close>/\<open>Tail\<close> method of the store starts with.\<close>

definition tail_n :: "'a list \<Rightarrow> int \<Rightarrow> 'a list" where
  "tail_n buf limit =
     (let limit' = (if limit \<le> 0 \<or> limit > int (length buf) then int (length buf) else limit);
          start = int (length buf) - limit'
      in take (nat limit') (drop (nat start) buf))"

definition ListTraffic :: "store_rings \<Rightarrow> string \<Rightarrow> int \<Rightarrow> TrafficEntry list" where
  "ListTraffic s vmID limit = tail_n (st_traffic s vmID) limit"

definition ClearTraffic :: "store_rings \<Rightarrow> store_rings" where
  "ClearTraffic s = s\<lparr>st_traffic := (\<lambda>_. [])\<rparr>"

fun ClearTrafficFor :: "string list \<Rightarrow> store_rings \<Rightarrow> store_rings" where
  "ClearTrafficFor [] s = s"
| "ClearTrafficFor (i # vmIDs) s = ClearTrafficFor vmIDs (s\<lparr>st_traffic := (st_traffic s)(i := [])\<rparr>)"

text \<open>The ring part of \<open>ClearTrafficForPath\<close> over the project's VM ids: the new state and \<open>removed\<close>.\<close>

fun ClearTrafficForPath :: "string list \<Rightarrow> string \<Rightarrow> store_rings \<Rightarrow> nat \<Rightarrow> store_rings \<times> nat" where
  "ClearTrafficForPath [] path s removed = (s, removed)"
| "ClearTrafficForPath (vmID # vmIDs) path s removed =
     (let buf = st_traffic s vmID;
          k = filter (\<lambda>e. te_Path e \<noteq> path) buf
      in ClearTrafficForPath vmIDs path (s\<lparr>st_traffic := (st_traffic s)(vmID := k)\<rparr>)
           (removed + (length buf - length k)))"

definition AddVital :: "WebVital option \<Rightarrow> store_rings \<Rightarrow> store_rings" where
  "AddVital v s = (case v of
      None \<Rightarrow> s
    | Some w \<Rightarrow>
        if wv_ProjectID w = [] then s
        else let buf = st_vitals s (wv_ProjectID w) @ [w];
                 buf' = (if length buf > 500 then drop (length buf - 500) buf else buf)
             in s\<lparr>st_vitals := (st_vitals s)(wv_ProjectID w := buf')\<rparr>)"

definition ListVitals :: "store_rings \<Rightarrow> string \<Rightarrow> int \<Rightarrow> WebVital list" where
  "ListVitals s projectID limit = tail_n (st_vitals s projectID) limit"

definition AppendLog :: "string \<Rightarrow> string \<Rightarrow> store_rings \<Rightarrow> store_rings" where
  "AppendLog vmID line s =
     (let buf = st_logs s vmID @ [line];
          buf' = (if length buf > logRingSize then drop (length buf - logRingSize) buf else buf)
      in s\<lparr>st_logs := (st_logs s)(vmID := buf')\<rparr>)"

definition TailLogs :: "store_rings \<Rightarrow> string \<Rightarrow> int \<Rightarrow> string list" where
  "TailLogs s vmID n = tail_n (st_logs s vmID) n"

definition AppendDaemonLog :: "string \<Rightarrow> store_rings \<Rightarrow> store_rings" where
  "AppendDaemonLog line s =
     (let buf = st_daemonLogs s @ [line]
      in s\<lparr>st_daemonLogs := (if length buf > daemonLogRingSize
             then drop (length buf - daemonLogRingSize) buf else buf)\<rparr>)"

definition TailDaemonLogs :: "store_rings \<Rightarrow> int \<Rightarrow> string list" where
  "TailDaemonLogs s n =
     (let n' = (if n \<le> 0 \<or> n > int (length (st_daemonLogs s)) then int (length (st_daemonLogs s)) else n)
      in drop (nat (int (length (st_daemonLogs s)) - n')) (st_daemonLogs s))"

definition new_rings :: store_rings where
  "new_rings = \<lparr>st_traffic = (\<lambda>_. []), st_vitals = (\<lambda>_. []), st_logs = (\<lambda>_. []), st_daemonLogs = []\<rparr>"

subsection \<open>The contract of a bounded log\<close>

definition last_n :: "nat \<Rightarrow> 'a list \<Rightarrow> 'a list" where
  "last_n n xs = drop (length xs - n) xs"

lemma length_last_n [simp]: "length (last_n n xs) = min n (length xs)"
  by (simp add: last_n_def)

lemma last_n_id [simp]: "length xs \<le> n \<Longrightarrow> last_n n xs = xs"
  by (simp add: last_n_def)

lemma last_n_snoc: "0 < n \<Longrightarrow> last_n n (last_n n xs @ [y]) = last_n n (xs @ [y])"
  by (cases "length xs \<ge> n") (simp_all add: last_n_def Suc_diff_le)

locale bounded_log =
  fixes add :: "'k \<Rightarrow> 'v \<Rightarrow> 's \<Rightarrow> 's"
    and entries :: "'s \<Rightarrow> 'k \<Rightarrow> 'v list"
    and cap :: "'s \<Rightarrow> nat"
    and inv :: "'s \<Rightarrow> bool"
  assumes cap_pos: "inv s \<Longrightarrow> 0 < cap s"
    and add_cap: "inv s \<Longrightarrow> cap (add k v s) = cap s"
    and add_same: "inv s \<Longrightarrow> entries (add k v s) k = last_n (cap s) (entries s k @ [v])"
    and add_other: "inv s \<Longrightarrow> k' \<noteq> k \<Longrightarrow> entries (add k v s) k' = entries s k'"
    and add_inv: "inv s \<Longrightarrow> inv (add k v s)"
begin

definition adds :: "('k \<times> 'v) list \<Rightarrow> 's \<Rightarrow> 's" where
  "adds evs s = fold (\<lambda>(k, v). add k v) evs s"

definition values_of :: "'k \<Rightarrow> ('k \<times> 'v) list \<Rightarrow> 'v list" where
  "values_of k evs = map snd (filter (\<lambda>(k', _). k' = k) evs)"

lemma adds_inv: "inv s \<Longrightarrow> inv (adds evs s)"
  unfolding adds_def by (induction evs arbitrary: s) (auto intro: add_inv)

lemma adds_cap: "inv s \<Longrightarrow> cap (adds evs s) = cap s"
  unfolding adds_def by (induction evs arbitrary: s) (auto simp: add_cap add_inv)

lemma adds_snoc: "adds (evs @ [(k, v)]) s = add k v (adds evs s)"
  by (simp add: adds_def)

lemma entries_adds:
  assumes "inv s" "length (entries s k) \<le> cap s"
  shows "entries (adds evs s) k = last_n (cap s) (entries s k @ values_of k evs)"
proof (induction evs rule: rev_induct)
  case Nil
  with assms show ?case by (simp add: adds_def values_of_def)
next
  case (snoc e evs)
  obtain k' v where e: "e = (k', v)"
    by (cases e)
  show ?case
  proof (cases "k' = k")
    case True
    with snoc e assms(1) show ?thesis
      using last_n_snoc [OF cap_pos [OF assms(1)], of "entries s k @ values_of k evs" v]
      by (simp add: adds_snoc add_same adds_inv adds_cap values_of_def)
  next
    case False
    with snoc e assms(1) show ?thesis
      by (simp add: adds_snoc add_other adds_inv values_of_def)
  qed
qed

lemma entries_bounded:
  "inv s \<Longrightarrow> length (entries s k) \<le> cap s \<Longrightarrow> length (entries (adds evs s) k) \<le> cap s"
  by (simp add: entries_adds)

end

subsection \<open>Every ring is a bounded log\<close>

lemma nat_Suc_int: "nat (1 + int n) = Suc n" "nat (int n + 1) = Suc n"
  by simp_all

interpretation gwring: bounded_log ring_Add perVM "\<lambda>t. nat (ring_size t)" "\<lambda>t. 0 < ring_size t"
  by unfold_locales (auto simp: ring_Add_def Let_def last_n_def nat_diff_distrib' nat_Suc_int)

interpretation strafficring: bounded_log AddTraffic st_traffic "\<lambda>_. trafficRingSize" "\<lambda>_. True"
  by unfold_locales (auto simp: AddTraffic_def Let_def last_n_def)

interpretation slogring: bounded_log AppendLog st_logs "\<lambda>_. logRingSize" "\<lambda>_. True"
  by unfold_locales (auto simp: AppendLog_def Let_def last_n_def)

interpretation daemonring: bounded_log "\<lambda>_ :: unit. AppendDaemonLog" "\<lambda>s _. st_daemonLogs s"
    "\<lambda>_. daemonLogRingSize" "\<lambda>_. True"
  by unfold_locales (auto simp: AppendDaemonLog_def Let_def last_n_def)

lemma tail_n_last_n: "tail_n buf limit = (if limit \<le> 0 then buf else last_n (nat limit) buf)"
  by (auto simp: tail_n_def Let_def last_n_def nat_diff_distrib')

lemma ring_List_last_n:
  "ring_List t vmID limit = (if limit \<le> 0 then perVM t vmID else last_n (nat limit) (perVM t vmID))"
  using tail_n_last_n [of "perVM t vmID" limit] by (simp add: ring_List_def tail_n_def Let_def)

lemma ClearTrafficFor_traffic:
  "st_traffic (ClearTrafficFor vmIDs s) v = (if v \<in> set vmIDs then [] else st_traffic s v)"
  by (induction vmIDs arbitrary: s) auto

lemma ClearTrafficForPath_traffic:
  "st_traffic (fst (ClearTrafficForPath vmIDs path s r)) v =
     (if v \<in> set vmIDs then filter (\<lambda>e. te_Path e \<noteq> path) (st_traffic s v) else st_traffic s v)"
  by (induction vmIDs arbitrary: s r) (auto simp: Let_def)

subsection \<open>Properties\<close>

text \<open>
  A traffic ring is a faithful bounded log. After any interleaving of \<open>Add\<close> calls for any VMs on
  a new ring of size \<open>n\<close>, \<open>List\<close> for a VM and a limit returns exactly that VM's most recent entries in
  the order they were added: as many as the limit (all that are kept, when it is not positive), and
  never more than the size (500 when \<open>n\<close> is not positive).
\<close>

theorem ring_List_recent:
  "ring_List (gwring.adds evs (NewTrafficRing n)) vmID limit =
     (let kept = last_n (nat (if n \<le> 0 then 500 else n)) (map snd (filter (\<lambda>(k, _). k = vmID) evs))
      in if limit \<le> 0 then kept else last_n (nat limit) kept)"
proof -
  have "perVM (gwring.adds evs (NewTrafficRing n)) vmID =
      last_n (nat (if n \<le> 0 then 500 else n)) (map snd (filter (\<lambda>(k, _). k = vmID) evs))"
    by (subst gwring.entries_adds) (simp_all add: NewTrafficRing_def gwring.values_of_def)
  then show ?thesis
    by (simp add: ring_List_last_n Let_def)
qed

text \<open>
  C22: the store's rings keep the latest entries. Appending any sequence of entries to the VM logs, the
  daemon log or the traffic rings of a new store and reading them back with \<open>TailLogs\<close>,
  \<open>TailDaemonLogs\<close> or \<open>ListTraffic\<close> without a limit yields the last 500, 1000 and 200 of them; a
  \<open>ClearTrafficFor\<close> empties the listed VMs' traffic and no other VM's.
\<close>

theorem store_rings_recent:
  "TailLogs (slogring.adds logs new_rings) vmID 0 = last_n 500 (map snd (filter (\<lambda>(k, _). k = vmID) logs)) \<and>
   TailDaemonLogs (fold AppendDaemonLog lines new_rings) 0 = last_n 1000 lines \<and>
   ListTraffic (strafficring.adds tes new_rings) vmID 0
     = last_n 200 (map snd (filter (\<lambda>(k, _). k = vmID) tes)) \<and>
   ListTraffic (ClearTrafficFor vmIDs s) vmID n = (if vmID \<in> set vmIDs then [] else ListTraffic s vmID n)"
proof (intro conjI)
  show "TailLogs (slogring.adds logs new_rings) vmID 0 = last_n 500 (map snd (filter (\<lambda>(k, _). k = vmID) logs))"
    by (simp add: TailLogs_def tail_n_last_n slogring.entries_adds slogring.values_of_def new_rings_def)
  show "ListTraffic (strafficring.adds tes new_rings) vmID 0
      = last_n 200 (map snd (filter (\<lambda>(k, _). k = vmID) tes))"
    by (simp add: ListTraffic_def tail_n_last_n strafficring.entries_adds strafficring.values_of_def new_rings_def)
  have "fold AppendDaemonLog lines new_rings = daemonring.adds (map (Pair ()) lines) new_rings"
    by (simp add: daemonring.adds_def fold_map comp_def)
  then show "TailDaemonLogs (fold AppendDaemonLog lines new_rings) 0 = last_n 1000 lines"
    using daemonring.entries_adds [where s = new_rings and k = "()" and evs = "map (Pair ()) lines"]
    by (simp add: TailDaemonLogs_def daemonring.values_of_def comp_def new_rings_def)
  show "ListTraffic (ClearTrafficFor vmIDs s) vmID n = (if vmID \<in> set vmIDs then [] else ListTraffic s vmID n)"
    by (simp add: ListTraffic_def ClearTrafficFor_traffic tail_n_def)
qed

end
