(* ===== verification/Netip.thy ===== *)
theory Netip
  imports Porter_Prelude "HOL-Library.Word"
begin

text \<open>
  The part of Go's \<open>net\<close> and \<open>net/netip\<close> packages that porter calls: \<open>ParseIP\<close>, \<open>ParseCIDR\<close>,
  \<open>IP.To4\<close>, \<open>IP.String\<close>, \<open>IPNet.Contains\<close> and \<open>SplitHostPort\<close>. An address is the list of its 4 or
  16 bytes. These are definitions of the standard library's documented behaviour; the
  gateway, the resolver and the network manager are modelled on top of them.
\<close>

unbundle bit_operations_syntax

type_synonym ip = "8 word list"

subsection \<open>Parsing\<close>

text \<open>One decimal octet: digits, no leading zero, at most 255.\<close>

definition parse_octet :: "string \<Rightarrow> 8 word option" where
  "parse_octet s =
     (if s = [] \<or> \<not> list_all is_digit s \<or> (length s > 1 \<and> hd s = CHR ''0'') \<or> nat_of_digits s > 255
      then None else Some (of_nat (nat_of_digits s)))"

fun all_some :: "'a option list \<Rightarrow> 'a list option" where
  "all_some [] = Some []"
| "all_some (None # xs) = None"
| "all_some (Some x # xs) = (case all_some xs of None \<Rightarrow> None | Some ys \<Rightarrow> Some (x # ys))"

definition parse_v4 :: "string \<Rightarrow> ip option" where
  "parse_v4 s =
     (let parts = Split (CHR ''.'') s
      in if length parts \<noteq> 4 then None else all_some (map parse_octet parts))"

definition hex_val :: "char \<Rightarrow> nat option" where
  "hex_val c =
     (if is_digit c then Some (byte c - 48)
      else if 97 \<le> byte c \<and> byte c \<le> 102 then Some (byte c - 87)
      else if 65 \<le> byte c \<and> byte c \<le> 70 then Some (byte c - 55)
      else None)"

definition hex_prefix :: "string \<Rightarrow> string" where
  "hex_prefix s = takeWhile (\<lambda>c. hex_val c \<noteq> None) s"

definition hex_nat :: "string \<Rightarrow> nat" where
  "hex_nat ds = foldl (\<lambda>acc c. 16 * acc + the (hex_val c)) 0 ds"

text \<open>
  The loop of \<open>netip.parseIPv6\<close>: \<open>acc\<close> holds the bytes read so far, \<open>el\<close> the position of the
  ellipsis; the result is the bytes, the ellipsis and the unread rest. The fuel is the number of
  groups that still fit; a group that finds no room is trailing garbage.
\<close>

fun v6_loop :: "nat \<Rightarrow> ip \<Rightarrow> nat option \<Rightarrow> string \<Rightarrow> (ip \<times> nat option \<times> string) option" where
  "v6_loop 0 acc el s = Some (acc, el, s)"
| "v6_loop (Suc n) acc el s =
     (let ds = hex_prefix s; off = length ds; rest = drop off s
      in if off = 0 \<or> off > 4 then None
         else if rest \<noteq> [] \<and> hd rest = CHR ''.'' then
           (if el = None \<and> length acc \<noteq> 12 then None
            else if length acc + 4 > 16 then None
            else case parse_v4 s of None \<Rightarrow> None | Some v4 \<Rightarrow> Some (acc @ v4, el, []))
         else
           let acc' = acc @ [of_nat (hex_nat ds div 256), of_nat (hex_nat ds mod 256)]
           in case rest of
                [] \<Rightarrow> Some (acc', el, [])
              | c # r \<Rightarrow>
                  (if c \<noteq> CHR '':'' \<or> r = [] then None
                   else if hd r = CHR '':'' then
                     (if el \<noteq> None then None
                      else if tl r = [] then Some (acc', Some (length acc'), [])
                      else v6_loop n acc' (Some (length acc')) (tl r))
                   else v6_loop n acc' el r))"

definition v6_finish :: "(ip \<times> nat option \<times> string) option \<Rightarrow> ip option" where
  "v6_finish r = (case r of
     None \<Rightarrow> None
   | Some (acc, el, rest) \<Rightarrow>
       if rest \<noteq> [] then None
       else if length acc < 16 then
         (case el of
            None \<Rightarrow> None
          | Some e \<Rightarrow> Some (take e acc @ replicate (16 - length acc) 0 @ drop e acc))
       else if el \<noteq> None then None else Some acc)"

definition parse_v6 :: "string \<Rightarrow> ip option" where
  "parse_v6 s =
     (if HasPrefix s ''::'' then
        (if length s = 2 then Some (replicate 16 0) else v6_finish (v6_loop 8 [] (Some 0) (drop 2 s)))
      else v6_finish (v6_loop 8 [] None s))"

text \<open>\<open>netip.ParseAddr\<close> without a zone: the first dot or colon decides the family.\<close>

fun addr_family :: "string \<Rightarrow> char option" where
  "addr_family [] = None"
| "addr_family (c # s) =
     (if c = CHR ''.'' \<or> c = CHR '':'' \<or> c = CHR ''%'' then Some c else addr_family s)"

definition ParseAddr :: "string \<Rightarrow> ip option" where
  "ParseAddr s = (case addr_family s of
      Some c \<Rightarrow> if c = CHR ''.'' then parse_v4 s else if c = CHR '':'' \<and> CHR ''%'' \<notin> set s then parse_v6 s else None
    | None \<Rightarrow> None)"

definition v4_prefix :: ip where
  "v4_prefix = replicate 10 0 @ [0xff, 0xff]"

definition As16 :: "ip \<Rightarrow> ip" where
  "As16 a = (if length a = 4 then v4_prefix @ a else a)"

definition To4 :: "ip \<Rightarrow> ip option" where
  "To4 a = (if length a = 4 then Some a
     else if length a = 16 \<and> take 12 a = v4_prefix then Some (drop 12 a) else None)"

definition ParseIP :: "string \<Rightarrow> ip option" where
  "ParseIP s = map_option As16 (ParseAddr s)"

subsection \<open>Networks\<close>

record IPNet =
  net_IP :: ip
  net_Mask :: ip

definition mask_byte :: "nat \<Rightarrow> 8 word" where
  "mask_byte n = (if n \<ge> 8 then 0xff else push_bit (8 - n) 0xff)"

definition CIDRMask :: "nat \<Rightarrow> nat \<Rightarrow> ip" where
  "CIDRMask ones bits = map (\<lambda>i. mask_byte (ones - 8 * i)) [0..<bits div 8]"

definition and_bytes :: "ip \<Rightarrow> ip \<Rightarrow> ip" where
  "and_bytes a b = map2 (\<lambda>x y. x AND y) a b"

definition Mask :: "ip \<Rightarrow> ip \<Rightarrow> ip option" where
  "Mask a m =
     (let a' = (if length m = 4 \<and> length a = 16 \<and> take 12 a = v4_prefix then drop 12 a else a)
      in if length a' \<noteq> length m then None else Some (and_bytes a' m))"

definition dtoi :: "string \<Rightarrow> nat option" where
  "dtoi s = (if s = [] \<or> \<not> list_all is_digit s \<or> int (nat_of_digits s) \<ge> 0xFFFFFF then None
     else Some (nat_of_digits s))"

definition ParseCIDR :: "string \<Rightarrow> IPNet option" where
  "ParseCIDR s = (case Cut (CHR ''/'') s of
      None \<Rightarrow> None
    | Some (addr, bits) \<Rightarrow>
        (case (ParseAddr addr, dtoi bits) of
           (Some a, Some n) \<Rightarrow>
             if n > 8 * length a then None
             else let m = CIDRMask n (8 * length a)
                  in map_option (\<lambda>i. \<lparr>net_IP = i, net_Mask = m\<rparr>) (Mask (As16 a) m)
         | _ \<Rightarrow> None))"

definition to4_or_same :: "ip \<Rightarrow> ip" where
  "to4_or_same a = (case To4 a of Some x \<Rightarrow> x | None \<Rightarrow> a)"

definition net_Contains :: "IPNet \<Rightarrow> ip \<Rightarrow> bool" where
  "net_Contains n a =
     (let nn = to4_or_same (net_IP n);
          m = (if length (net_Mask n) = 16 \<and> length nn = 4 then drop 12 (net_Mask n) else net_Mask n);
          x = to4_or_same a
      in length x = length nn \<and> length m = length nn \<and> and_bytes nn m = and_bytes x m)"

subsection \<open>Printing\<close>

definition v4_string :: "ip \<Rightarrow> string" where
  "v4_string a = Join ''.'' (map (\<lambda>b. string_of_nat (unat b)) a)"

fun hex_string :: "nat \<Rightarrow> string" where
  "hex_string n =
     (let d = (\<lambda>k. if k < 10 then char_of (48 + k) else char_of (87 + k))
      in if n < 16 then [d n] else hex_string (n div 16) @ [d (n mod 16)])"

declare hex_string.simps [simp del]

fun words16 :: "ip \<Rightarrow> nat list" where
  "words16 (a # b # bs) = (256 * unat a + unat b) # words16 bs"
| "words16 bs = []"

definition zero_run :: "nat list \<Rightarrow> nat" where
  "zero_run ws = length (takeWhile (\<lambda>w. w = 0) ws)"

text \<open>The longest run of at least two zero groups, the first one on a tie.\<close>

definition longest_run :: "nat list \<Rightarrow> (nat \<times> nat) option" where
  "longest_run ws = fold (\<lambda>i best. let l = zero_run (drop i ws)
     in if l \<ge> 2 \<and> (case best of None \<Rightarrow> True | Some (s, e) \<Rightarrow> l > e - s) then Some (i, i + l) else best)
     [0..<length ws] None"

definition v6_string :: "ip \<Rightarrow> string" where
  "v6_string a =
     (let ws = words16 a
      in case longest_run ws of
           None \<Rightarrow> Join '':'' (map hex_string ws)
         | Some (s, e) \<Rightarrow>
             Join '':'' (map hex_string (take s ws)) @ ''::'' @ Join '':'' (map hex_string (drop e ws)))"

definition IP_String :: "ip \<Rightarrow> string" where
  "IP_String a = (case To4 a of Some x \<Rightarrow> v4_string x | None \<Rightarrow> v6_string a)"

subsection \<open>Host and port\<close>

text \<open>
  \<open>net.SplitHostPort\<close>: the last colon separates the port; an IPv6 host is bracketed, and neither part
  may hold a stray bracket or, unbracketed, another colon.
\<close>

definition last_index :: "char \<Rightarrow> string \<Rightarrow> nat option" where
  "last_index c s = (if c \<in> set s then Some (length s - 1 - length (takeWhile (\<lambda>x. x \<noteq> c) (rev s))) else None)"

definition SplitHostPort :: "string \<Rightarrow> (string \<times> string) option" where
  "SplitHostPort hp = (case last_index (CHR '':'') hp of
      None \<Rightarrow> None
    | Some i \<Rightarrow>
        if hp \<noteq> [] \<and> hd hp = CHR ''['' then
          (case Cut (CHR '']'') hp of
             None \<Rightarrow> None
           | Some (a, b) \<Rightarrow>
               let close = length a
               in if close + 1 \<noteq> i then None
                  else if CHR ''['' \<in> set (drop 1 hp) \<or> CHR '']'' \<in> set (drop (close + 1) hp) then None
                  else Some (take (close - 1) (drop 1 hp), drop (i + 1) hp))
        else
          let host = take i hp
          in if CHR '':'' \<in> set host then None
             else if CHR ''['' \<in> set hp \<or> CHR '']'' \<in> set hp then None
             else Some (host, drop (i + 1) hp))"

subsection \<open>Lemmas\<close>

lemma all_some_map_Some [simp]: "all_some (map (\<lambda>x. Some (f x)) xs) = Some (map f xs)"
  by (induction xs) auto

lemma string_of_nat_hd_zero: "length (string_of_nat n) > 1 \<Longrightarrow> hd (string_of_nat n) \<noteq> CHR ''0''"
proof (induction n rule: string_of_nat.induct)
  case (1 n)
  show ?case
  proof (cases "n < 10")
    case True
    with "1.prems" show ?thesis by (simp add: string_of_nat.simps [of n])
  next
    case False
    have hd: "hd (string_of_nat n) = hd (string_of_nat (n div 10))"
      using False by (simp add: string_of_nat.simps [of n])
    show ?thesis
    proof (cases "length (string_of_nat (n div 10)) > 1")
      case True
      with "1.IH" False hd show ?thesis by simp
    next
      case short: False
      have lt: "n div 10 < 10"
      proof (rule ccontr)
        assume "\<not> n div 10 < 10"
        then have "length (string_of_nat (n div 10)) > 1"
          by (subst string_of_nat.simps) (simp add: Suc_lessI)
        with short show False by simp
      qed
      have pos: "0 < n div 10"
        using False by simp
      have "hd (string_of_nat (n div 10)) = char_of (48 + n div 10)"
        using lt by (subst string_of_nat.simps) simp
      moreover have "char_of (48 + n div 10) \<noteq> CHR ''0''"
      proof
        assume "char_of (48 + n div 10) = CHR ''0''"
        then have "byte (char_of (48 + n div 10)) = byte (CHR ''0'')"
          by simp
        then show False using lt pos by simp
      qed
      ultimately show ?thesis using hd by simp
    qed
  qed
qed

lemma parse_octet_unat [simp]: "parse_octet (string_of_nat (unat (b :: 8 word))) = Some b"
proof -
  have "unat b \<le> 255"
    using unsigned_less [of b, where ?'a = nat] by simp
  then show ?thesis
    using string_of_nat_digits string_of_nat_hd_zero by (auto simp: parse_octet_def)
qed

lemma dot_not_in_string_of_nat [simp]: "CHR ''.'' \<notin> set (string_of_nat n)"
  by (rule string_of_nat_no_char) (simp add: is_digit_def)

lemma parse_v4_string:
  assumes "length a = 4"
  shows "parse_v4 (v4_string a) = Some a"
proof -
  have "Split (CHR ''.'') (v4_string a) = map (\<lambda>b. string_of_nat (unat b)) a"
    unfolding v4_string_def using assms by (intro Split_Join) (auto simp: list_all_iff)
  with assms show ?thesis
    by (simp add: parse_v4_def comp_def)
qed

lemma addr_family_digits:
  "list_all is_digit ds \<Longrightarrow> addr_family (ds @ CHR ''.'' # s) = Some (CHR ''.'')"
  by (induction ds) (auto simp: is_digit_def)

theorem ParseIP_v4_string:
  assumes "length a = 4"
  shows "ParseIP (v4_string a) = Some (v4_prefix @ a)"
proof -
  obtain b bs where a: "a = b # bs" "bs \<noteq> []"
    using assms by (cases a; cases "tl a") auto
  then have "v4_string a = string_of_nat (unat b) @ CHR ''.'' # v4_string bs"
    by (cases bs) (simp_all add: v4_string_def)
  then have "addr_family (v4_string a) = Some (CHR ''.'')"
    using string_of_nat_digits by (simp add: addr_family_digits)
  then show ?thesis
    using assms by (simp add: ParseIP_def ParseAddr_def parse_v4_string As16_def)
qed

lemma To4_v4 [simp]: "length a = 4 \<Longrightarrow> To4 (v4_prefix @ a) = Some a"
  by (simp add: To4_def v4_prefix_def)

lemma IP_String_v4: "length a = 4 \<Longrightarrow> IP_String (v4_prefix @ a) = v4_string a"
  by (simp add: IP_String_def)

end
