(* ===== verification/Gateway.thy ===== *)
theory Gateway
  imports Log_Rings Netip
begin

text \<open>
  The HTTP gateway and the host-port forwarder (\<open>internal/gateway/gateway.go\<close>, \<open>portforward.go\<close>).
  The store behind the \<open>Store\<close> interface is the record \<open>gw_store\<close> of what its read methods return;
  the reverse proxy and the operating system's \<open>listen\<close> are arguments. \<open>ServeHTTP\<close> is one function
  from the gateway state and a request to the new state and the response, with every early return.
\<close>

subsection \<open>The store interface and the request\<close>

record gw_store =
  GetVM :: "string \<Rightarrow> VM option"
  ListVMs :: "VM list"
  ListDomains :: "string \<Rightarrow> Domain list"
  ListFirewallRules :: "string \<Rightarrow> FirewallRule option list"
  ListDeployments :: "(string \<Rightarrow> Deployment list) option"

record http_request =
  hr_Host :: string
  hr_Method :: string
  hr_Path :: string
  hr_RemoteAddr :: string
  hr_cookie :: "string option"
  hr_Body :: bool

definition isHealthy :: "VM \<Rightarrow> bool" where
  "isHealthy vm = (vm_State vm = StateRunning \<and> vm_HealthStatus vm \<noteq> HealthUnhealthy)"

subsection \<open>Firewall\<close>

definition sourceMatches :: "string \<Rightarrow> string \<Rightarrow> bool" where
  "sourceMatches source ip =
     (if source = [] \<or> source = ''*'' \<or> source = ''0.0.0.0/0'' then True
      else if source = ip then True
      else case ParseCIDR source of
             Some cidr \<Rightarrow> (case ParseIP ip of None \<Rightarrow> False | Some parsed \<Rightarrow> net_Contains cidr parsed)
           | None \<Rightarrow> False)"

fun active_denies :: "FirewallRule option list \<Rightarrow> FirewallRule list" where
  "active_denies [] = []"
| "active_denies (fr # rules) = (case fr of
      None \<Rightarrow> active_denies rules
    | Some r \<Rightarrow> if \<not> fw_Active r \<or> fw_Action r \<noteq> ''deny'' then active_denies rules
        else r # active_denies rules)"

text \<open>
  The exchange sort: \<open>exchange x ys\<close> is the inner loop, \<open>x\<close> being \<open>best[i]\<close> and \<open>ys\<close> the slice from
  \<open>j\<close> on; it returns the final \<open>best[i]\<close> and the slice behind it.
\<close>

fun exchange :: "FirewallRule \<Rightarrow> FirewallRule list \<Rightarrow> FirewallRule \<times> FirewallRule list" where
  "exchange x [] = (x, [])"
| "exchange x (y # ys) =
     (if fw_Priority y < fw_Priority x
      then (let (m, zs) = exchange y ys in (m, x # zs))
      else (let (m, zs) = exchange x ys in (m, y # zs)))"

lemma exchange_length [simp]: "length (snd (exchange x ys)) = length ys"
  by (induction x ys rule: exchange.induct) (auto split: prod.splits)

function exchange_sort :: "FirewallRule list \<Rightarrow> FirewallRule list" where
  "exchange_sort [] = []"
| "exchange_sort (x # xs) = fst (exchange x xs) # exchange_sort (snd (exchange x xs))"
  by pat_completeness auto
termination
  by (relation "measure length") auto

definition remote_ip :: "http_request \<Rightarrow> string" where
  "remote_ip r = (case SplitHostPort (hr_RemoteAddr r) of Some (h, _) \<Rightarrow> h | None \<Rightarrow> hr_RemoteAddr r)"

definition blockedByFirewall :: "gw_store \<Rightarrow> string \<Rightarrow> http_request \<Rightarrow> FirewallRule option" where
  "blockedByFirewall st projectID r =
     (if projectID = [] then None
      else find (\<lambda>fr. sourceMatches (fw_Source fr) (remote_ip r))
             (exchange_sort (active_denies (ListFirewallRules st projectID))))"

subsection \<open>Backends\<close>

definition repeats :: "int \<Rightarrow> int" where
  "repeats weight =
     (let r = weight div 10; r = (if r < 1 then 1 else r) in if r > 10 then 10 else r)"

fun weighted_vms :: "gw_store \<Rightarrow> int \<Rightarrow> string list \<Rightarrow> VM list" where
  "weighted_vms st weight [] = []"
| "weighted_vms st weight (vmID # ids) = (case GetVM st vmID of
      None \<Rightarrow> weighted_vms st weight ids
    | Some vm \<Rightarrow> if \<not> isHealthy vm then weighted_vms st weight ids
        else replicate (nat (repeats weight)) vm @ weighted_vms st weight ids)"

definition deployment_weight :: "Deployment \<Rightarrow> int" where
  "deployment_weight d = (if dep_RouteWeight d \<le> 0 then dep_RolloutPercent d else dep_RouteWeight d)"

fun weighted_deployments :: "gw_store \<Rightarrow> Deployment list \<Rightarrow> VM list" where
  "weighted_deployments st [] = []"
| "weighted_deployments st (d # ds) =
     (let weight = deployment_weight d
      in if weight \<le> 0 \<or> dep_BuildStatus d = ''failed'' \<or> length (dep_VMIDs d) = 0
         then weighted_deployments st ds
         else weighted_vms st weight (dep_VMIDs d) @ weighted_deployments st ds)"

definition weightedDeploymentBackends :: "gw_store \<Rightarrow> string \<Rightarrow> VM \<Rightarrow> VM list" where
  "weightedDeploymentBackends st projectID fallback = (case ListDeployments st of
      None \<Rightarrow> [fallback]
    | Some ds \<Rightarrow>
        let vms = weighted_deployments st (ds projectID)
        in if length vms = 0 then [fallback] else vms)"

fun domain_backend :: "gw_store \<Rightarrow> string \<Rightarrow> VM list \<Rightarrow> VM list option" where
  "domain_backend st host [] = None"
| "domain_backend st host (vm # vms) =
     (if \<not> isHealthy vm then domain_backend st host vms
      else if list_ex (\<lambda>d. EqualFold (d_Domain d) host) (ListDomains st (vm_ID vm))
        then Some (weightedDeploymentBackends st (vm_ProjectID vm) vm)
      else domain_backend st host vms)"

fun dns_backend :: "ip list \<Rightarrow> VM list \<Rightarrow> VM list option" where
  "dns_backend ips [] = None"
| "dns_backend ips (vm # vms) =
     (if \<not> isHealthy vm then dns_backend ips vms
      else if list_ex (\<lambda>i. vm_IPAddress vm \<noteq> [] \<and> vm_IPAddress vm = IP_String i) ips then Some [vm]
      else dns_backend ips vms)"

text \<open>\<open>dns\<close> is the attached resolver, if any; it returns \<open>None\<close> on an error.\<close>

definition backendsFor :: "gw_store \<Rightarrow> (string \<Rightarrow> ip list option) option \<Rightarrow> string \<Rightarrow> VM list" where
  "backendsFor st dns host = (case domain_backend st host (ListVMs st) of
      Some vms \<Rightarrow> vms
    | None \<Rightarrow>
        let resolved = (case dns of
              None \<Rightarrow> None
            | Some lookup \<Rightarrow>
                if \<not> HasSuffix host ''.local'' then None
                else case lookup host of None \<Rightarrow> None | Some ips \<Rightarrow> dns_backend ips (ListVMs st))
        in case resolved of
             Some vms \<Rightarrow> vms
           | None \<Rightarrow> filter isHealthy (ListVMs st))"

subsection \<open>Upstream address\<close>

text \<open>
  \<open>itoa\<close> fills a 20-byte buffer from the right; \<open>itoa_loop\<close> returns what is in the buffer from \<open>pos\<close>
  on. Negating the least integer wraps around to itself.
\<close>

function itoa_loop :: "int \<Rightarrow> string \<Rightarrow> string" where
  "itoa_loop i b = (if i > 0 then itoa_loop (i div 10) (char_of (nat (48 + i mod 10)) # b) else b)"
  by pat_completeness auto
termination
  by (relation "measure (\<lambda>(i, _). nat i)") auto

declare itoa_loop.simps [simp del]

definition itoa :: "int \<Rightarrow> string" where
  "itoa i =
     (if i = 0 then ''0''
      else let neg = (i < 0);
               i' = (if neg then wrap64 (- i) else i);
               b = itoa_loop i' []
           in if neg then CHR ''-'' # b else b)"

definition targetAddress :: "VM \<Rightarrow> string option" where
  "targetAddress vm =
     (if vm_IPAddress vm = [] then None
      else let port = (case vm_Ports vm of
                 p # _ \<Rightarrow> if p_ContainerPort p \<noteq> 0 then p_ContainerPort p else 80
               | [] \<Rightarrow> 80)
           in Some (vm_IPAddress vm @ '':'' @ itoa port))"

subsection \<open>Recorders and the handler\<close>

datatype writer_call = WriteHeader int | Write nat

record responseRecorder =
  rw_status :: int
  rw_bytes :: int

definition rw_step :: "responseRecorder \<Rightarrow> writer_call \<Rightarrow> responseRecorder" where
  "rw_step rw c = (case c of
      WriteHeader code \<Rightarrow> rw\<lparr>rw_status := code\<rparr>
    | Write n \<Rightarrow> rw\<lparr>rw_bytes := wrap64 (rw_bytes rw + int n)\<rparr>)"

definition countingReader :: "nat list \<Rightarrow> int" where
  "countingReader reads = foldl (\<lambda>c n. wrap64 (c + int n)) 0 reads"

text \<open>
  What the reverse proxy did with a request: its calls on the response writer, the sizes of its
  reads from the request body, the start time and the duration.
\<close>

record proxy_run =
  prx_calls :: "writer_call list"
  prx_reads :: "nat list"
  prx_start :: time
  prx_ms :: int

record gateway =
  gw_ring :: TrafficRing
  gw_dns :: "(string \<Rightarrow> ip list option) option"
  gw_rr :: "64 word"
  gw_rings :: store_rings

datatype response =
    NoBackend string
  | Blocked FirewallRule
  | NoAddress
  | Proxied VM string "string option" TrafficEntry
  | IndexPanic

definition NewGateway :: "store_rings \<Rightarrow> gateway" where
  "NewGateway rings = \<lparr>gw_ring = NewTrafficRing 500, gw_dns = None, gw_rr = 0, gw_rings = rings\<rparr>"

definition go_rem :: "int \<Rightarrow> int \<Rightarrow> int" where
  "go_rem a b = (if a < 0 then - ((- a) mod b) else a mod b)"

text \<open>\<open>int(g.rr.Add(1)) % n\<close>, from the cursor's value before the call.\<close>

definition rr_pick :: "64 word \<Rightarrow> nat \<Rightarrow> int" where
  "rr_pick rr n = go_rem (sint (rr + 1)) (int n)"

definition sticky_vm :: "http_request \<Rightarrow> VM list \<Rightarrow> VM option" where
  "sticky_vm r vms = (case hr_cookie r of
      None \<Rightarrow> None
    | Some v \<Rightarrow> find (\<lambda>c. vm_DeploymentID c = v \<or> vm_DeploymentVersion c = v) vms)"

definition traffic_entry :: "http_request \<Rightarrow> proxy_run \<Rightarrow> TrafficEntry" where
  "traffic_entry r run =
     (let rec = foldl rw_step \<lparr>rw_status = 200, rw_bytes = 0\<rparr> (prx_calls run)
      in \<lparr>te_Timestamp = prx_start run, te_Method = hr_Method r, te_Host = hr_Host r, te_Path = hr_Path r,
          te_Status = rw_status rec, te_DurationMS = prx_ms run, te_RemoteIP = hr_RemoteAddr r,
          te_BytesIn = (if hr_Body r then countingReader (prx_reads run) else 0),
          te_BytesOut = rw_bytes rec\<rparr>)"

definition serve_vm :: "(string \<Rightarrow> http_request \<Rightarrow> proxy_run) \<Rightarrow> gw_store \<Rightarrow> http_request \<Rightarrow> VM \<Rightarrow>
    string option \<Rightarrow> gateway \<Rightarrow> response \<times> gateway" where
  "serve_vm proxy st r vm setCookie g = (case blockedByFirewall st (vm_ProjectID vm) r of
      Some rule \<Rightarrow> (Blocked rule, g)
    | None \<Rightarrow>
        (case targetAddress vm of
           None \<Rightarrow> (NoAddress, g)
         | Some target \<Rightarrow>
             let entry = traffic_entry r (proxy target r)
             in (Proxied vm target setCookie entry,
                 g\<lparr>gw_ring := ring_Add (vm_ID vm) entry (gw_ring g),
                   gw_rings := AddTraffic (vm_ID vm) entry (gw_rings g)\<rparr>)))"

definition ServeHTTP :: "(string \<Rightarrow> http_request \<Rightarrow> proxy_run) \<Rightarrow> gw_store \<Rightarrow> http_request \<Rightarrow> gateway \<Rightarrow>
    response \<times> gateway" where
  "ServeHTTP proxy st r g =
     (let host = hd (Split (CHR '':'') (hr_Host r));
          vms = backendsFor st (gw_dns g) host
      in if length vms = 0 then (NoBackend host, g)
         else case sticky_vm r vms of
                Some vm \<Rightarrow> serve_vm proxy st r vm None g
              | None \<Rightarrow>
                  let g' = g\<lparr>gw_rr := gw_rr g + 1\<rparr>;
                      i = rr_pick (gw_rr g) (length vms)
                  in if i < 0 then (IndexPanic, g')
                     else let vm = vms ! nat i
                          in serve_vm proxy st r vm
                               (if vm_DeploymentVersion vm \<noteq> [] then Some (vm_DeploymentVersion vm) else None) g')"

subsection \<open>Port forwarder\<close>

text \<open>
  The listeners are a finite map from host ports; a listener carries the address it forwards to.
  \<open>bind hp\<close> says whether the operating system lets the process listen on \<open>hp\<close>.
\<close>

type_synonym listeners = "(int \<times> (string \<times> int)) list"

fun claim_ports :: "VM \<Rightarrow> Port list \<Rightarrow> (int \<times> VM) list \<Rightarrow> (int \<times> VM) list" where
  "claim_ports vm [] acc = acc"
| "claim_ports vm (p # ps) acc =
     (if p_HostPort p = 0 then claim_ports vm ps acc
      else if map_of acc (p_HostPort p) = None then claim_ports vm ps (acc @ [(p_HostPort p, vm)])
      else claim_ports vm ps acc)"

fun wanted_ports :: "VM list \<Rightarrow> (int \<times> VM) list \<Rightarrow> (int \<times> VM) list" where
  "wanted_ports [] acc = acc"
| "wanted_ports (vm # vms) acc =
     (if vm_State vm \<noteq> StateRunning then wanted_ports vms acc
      else wanted_ports vms (claim_ports vm (vm_Ports vm) acc))"

definition wantedPorts :: "gw_store \<Rightarrow> (int \<times> VM) list" where
  "wantedPorts st = wanted_ports (ListVMs st) []"

fun open_ports :: "(int \<Rightarrow> bool) \<Rightarrow> (int \<times> VM) list \<Rightarrow> listeners \<Rightarrow> listeners" where
  "open_ports bind [] lns = lns"
| "open_ports bind ((hp, vm) # wanted) lns =
     (if map_of lns hp \<noteq> None then open_ports bind wanted lns
      else if \<not> bind hp then open_ports bind wanted lns
      else open_ports bind wanted (lns @ [(hp, (vm_IPAddress vm, ContainerPort vm))]))"

definition pf_reconcile :: "(int \<Rightarrow> bool) \<Rightarrow> gw_store \<Rightarrow> listeners \<Rightarrow> listeners" where
  "pf_reconcile bind st lns =
     (let wanted = wantedPorts st
      in open_ports bind wanted (filter (\<lambda>(hp, _). map_of wanted hp \<noteq> None) lns))"

definition pf_Close :: "listeners \<Rightarrow> listeners" where
  "pf_Close lns = fold (\<lambda>(hp, _) l. filter (\<lambda>(k, _). k \<noteq> hp) l) lns lns"

subsection \<open>Lemmas: firewall\<close>

definition deny_match :: "gw_store \<Rightarrow> string \<Rightarrow> http_request \<Rightarrow> FirewallRule \<Rightarrow> bool" where
  "deny_match st projectID r fr \<longleftrightarrow>
     Some fr \<in> set (ListFirewallRules st projectID) \<and> fw_Active fr \<and> fw_Action fr = ''deny'' \<and>
     sourceMatches (fw_Source fr) (remote_ip r)"

lemma set_active_denies:
  "fr \<in> set (active_denies rules) \<longleftrightarrow> Some fr \<in> set rules \<and> fw_Active fr \<and> fw_Action fr = ''deny''"
  by (induction rules) (auto split: option.splits)

lemma mset_exchange: "add_mset (fst (exchange x ys)) (mset (snd (exchange x ys))) = add_mset x (mset ys)"
  by (induction x ys rule: exchange.induct) (auto split: prod.splits)

lemma exchange_least:
  "fw_Priority (fst (exchange x ys)) \<le> fw_Priority x \<and>
   (\<forall>z \<in> set (snd (exchange x ys)). fw_Priority (fst (exchange x ys)) \<le> fw_Priority z)"
  by (induction x ys rule: exchange.induct) (fastforce split: prod.splits)+

lemma mset_exchange_sort [simp]: "mset (exchange_sort xs) = mset xs"
  by (induction xs rule: exchange_sort.induct) (simp_all add: mset_exchange)

lemma set_exchange_sort [simp]: "set (exchange_sort xs) = set xs"
  by (metis mset_exchange_sort set_mset_mset)

lemma exchange_sort_sorted: "sorted (map fw_Priority (exchange_sort xs))"
  by (induction xs rule: exchange_sort.induct) (simp_all add: exchange_least)

lemma blockedByFirewall_Some:
  assumes "blockedByFirewall st projectID r = Some fr"
  shows "deny_match st projectID r fr \<and> (\<forall>fr'. deny_match st projectID r fr' \<longrightarrow> fw_Priority fr \<le> fw_Priority fr')"
proof -
  let ?rules = "exchange_sort (active_denies (ListFirewallRules st projectID))"
  have "find (\<lambda>fr. sourceMatches (fw_Source fr) (remote_ip r)) ?rules = Some fr"
    using assms by (simp add: blockedByFirewall_def split: if_splits)
  then obtain before after where split: "?rules = before @ fr # after"
      and "sourceMatches (fw_Source fr) (remote_ip r)"
      and no: "\<forall>y \<in> set before. \<not> sourceMatches (fw_Source y) (remote_ip r)"
    using find_Some_split by fast
  moreover have mem: "x \<in> set ?rules \<longleftrightarrow>
      Some x \<in> set (ListFirewallRules st projectID) \<and> fw_Active x \<and> fw_Action x = ''deny''" for x
    by (simp add: set_active_denies)
  moreover have "fw_Priority fr \<le> fw_Priority x" if "deny_match st projectID r x" for x
  proof -
    have "x \<in> set (fr # after)"
      using that mem [of x] split no by (auto simp: deny_match_def)
    then show ?thesis
      using exchange_sort_sorted [of "active_denies (ListFirewallRules st projectID)"] split
      by (auto simp: sorted_append)
  qed
  ultimately show ?thesis
    using mem [of fr] by (auto simp: deny_match_def)
qed

lemma blockedByFirewall_None:
  "blockedByFirewall st projectID r = None \<longleftrightarrow> projectID = [] \<or> (\<forall>fr. \<not> deny_match st projectID r fr)"
  by (auto simp: blockedByFirewall_def deny_match_def find_None_conv set_active_denies)

subsection \<open>Lemmas: backends\<close>

lemma weighted_vms_healthy: "vm \<in> set (weighted_vms st w ids) \<Longrightarrow> isHealthy vm"
  by (induction ids) (auto split: option.splits if_splits)

lemma weighted_deployments_healthy: "vm \<in> set (weighted_deployments st ds) \<Longrightarrow> isHealthy vm"
  by (induction ds) (auto simp: Let_def weighted_vms_healthy split: if_splits)

lemma weightedDeploymentBackends_healthy:
  "isHealthy fb \<Longrightarrow> weightedDeploymentBackends st p fb \<noteq> [] \<and>
     (\<forall>vm \<in> set (weightedDeploymentBackends st p fb). isHealthy vm)"
  by (auto simp: weightedDeploymentBackends_def Let_def weighted_deployments_healthy split: option.splits)

lemma domain_backend_healthy:
  "domain_backend st host vms = Some bs \<Longrightarrow> bs \<noteq> [] \<and> (\<forall>vm \<in> set bs. isHealthy vm)"
  by (induction vms) (auto simp: weightedDeploymentBackends_healthy split: if_splits)

lemma dns_backend_healthy:
  "dns_backend ips vms = Some bs \<Longrightarrow> bs \<noteq> [] \<and> (\<forall>vm \<in> set bs. isHealthy vm)"
  by (induction vms) (auto split: if_splits)

lemma backendsFor_healthy: "vm \<in> set (backendsFor st dns host) \<Longrightarrow> isHealthy vm"
  by (auto simp: backendsFor_def Let_def dest: domain_backend_healthy dns_backend_healthy
      split: option.splits if_splits)

lemma backendsFor_Nil: "backendsFor st dns host = [] \<Longrightarrow> \<forall>vm \<in> set (ListVMs st). \<not> isHealthy vm"
  by (auto simp: backendsFor_def Let_def filter_empty_conv dest: domain_backend_healthy dns_backend_healthy
      split: option.splits if_splits)

lemma repeats_bounds: "1 \<le> repeats w" "repeats w \<le> 10"
  by (simp_all add: repeats_def Let_def)

subsection \<open>Lemmas: decimal printing\<close>

lemma itoa_loop_nat: "0 < n \<Longrightarrow> itoa_loop (int n) b = string_of_nat n @ b"
proof (induction n arbitrary: b rule: less_induct)
  case (less n)
  have digit: "char_of (nat (48 + int n mod 10)) = (char_of (48 + n mod 10) :: char)"
    by (simp add: nat_add_distrib nat_mod_distrib)
  show ?case
  proof (cases "n < 10")
    case True
    with less.prems have "int n div 10 = 0" "n mod 10 = n"
      by simp_all
    with True less.prems digit show ?thesis
      by (simp add: itoa_loop.simps [of "int n"] itoa_loop.simps [of 0] string_of_nat.simps [of n])
  next
    case False
    then have "itoa_loop (int (n div 10)) b' = string_of_nat (n div 10) @ b'" for b'
      by (intro less.IH) auto
    with False digit show ?thesis
      by (simp add: itoa_loop.simps [of "int n"] string_of_nat.simps [of n] zdiv_int)
  qed
qed

subsection \<open>Lemmas: round robin\<close>

lemma rr_pick_less:
  assumes "0 < n"
  shows "rr_pick rr n < int n"
proof -
  define q where "q = (- sint (rr + 1)) mod int n"
  have q: "0 \<le> q" "sint (rr + 1) mod int n < int n" "0 < int n"
    using assms by (simp_all add: q_def)
  have "rr_pick rr n = (if sint (rr + 1) < 0 then - q else sint (rr + 1) mod int n)"
    by (simp only: rr_pick_def go_rem_def q_def)
  with q show ?thesis by simp
qed

lemma rr_pick_nat:
  assumes "unat rr + 1 < 2 ^ 63"
  shows "rr_pick rr n = int ((unat rr + 1) mod n)"
proof -
  have u: "unat (rr + 1) = unat rr + 1"
    using assms by (simp add: unat_word_ariths)
  then have "uint (rr + 1) = int (unat rr + 1)"
    by (metis of_nat_unat)
  moreover have "int (unat rr + 1) < 2 ^ 63"
    using assms by (metis of_nat_less_iff of_nat_numeral of_nat_power)
  moreover from calculation have "sint (rr + 1) = uint (rr + 1)"
    by (simp only: sint_uint) (rule signed_take_bit_int_eq_self, simp_all)
  ultimately have "sint (rr + 1) = int (unat rr + 1)"
    by (simp only:)
  then show ?thesis
    by (simp only: rr_pick_def go_rem_def of_nat_less_0_iff if_False zmod_int)
qed

lemma rr_window:
  assumes "unat rr + n < 2 ^ 63" "k < n"
  shows "rr_pick (rr + of_nat k) n = int ((unat rr + 1 + k) mod n)"
proof -
  have "k < 2 ^ 64"
    using assms by simp
  then have "unat (of_nat k :: 64 word) = k"
    by (simp add: unat_of_nat)
  then have "unat (rr + of_nat k) = unat rr + k"
    using assms by (simp add: unat_word_ariths)
  with assms show ?thesis
    by (subst rr_pick_nat) simp_all
qed

subsection \<open>Lemmas: handler\<close>

lemma serve_vm_Proxied:
  assumes "serve_vm proxy st r vm c g = (Proxied vm' t c' e, g')"
  shows "vm' = vm \<and> c' = c \<and> blockedByFirewall st (vm_ProjectID vm) r = None \<and>
    targetAddress vm = Some t \<and> e = traffic_entry r (proxy t r) \<and>
    gw_ring g' = ring_Add (vm_ID vm) e (gw_ring g) \<and> gw_rings g' = AddTraffic (vm_ID vm) e (gw_rings g)"
  using assms by (auto simp: serve_vm_def Let_def split: option.splits)

lemma serve_vm_no_panic: "fst (serve_vm proxy st r vm c g) \<noteq> IndexPanic"
  by (simp add: serve_vm_def Let_def split: option.splits)

lemma serve_vm_rejected:
  "\<not> (\<exists>vm' t c' e. fst (serve_vm proxy st r vm c g) = Proxied vm' t c' e) \<Longrightarrow> snd (serve_vm proxy st r vm c g) = g"
  by (auto simp: serve_vm_def Let_def split: option.splits)

lemma sticky_vm_mem: "sticky_vm r vms = Some vm \<Longrightarrow> vm \<in> set vms"
  by (auto simp: sticky_vm_def dest: find_SomeD split: option.splits)

text \<open>Every request that reaches a backend reaches one of \<open>backendsFor\<close>, through \<open>serve_vm\<close>.\<close>

lemma ServeHTTP_cases:
  obtains (none) "ServeHTTP proxy st r g = (NoBackend (hd (Split (CHR '':'') (hr_Host r))), g)"
      "backendsFor st (gw_dns g) (hd (Split (CHR '':'') (hr_Host r))) = []"
  | (panic) "ServeHTTP proxy st r g = (IndexPanic, g\<lparr>gw_rr := gw_rr g + 1\<rparr>)"
      "rr_pick (gw_rr g) (length (backendsFor st (gw_dns g) (hd (Split (CHR '':'') (hr_Host r))))) < 0"
  | (vm) vm c g0 where "ServeHTTP proxy st r g = serve_vm proxy st r vm c g0"
      "isHealthy vm" "gw_ring g0 = gw_ring g" "gw_rings g0 = gw_rings g"
proof -
  let ?vms = "backendsFor st (gw_dns g) (hd (Split (CHR '':'') (hr_Host r)))"
  let ?i = "rr_pick (gw_rr g) (length ?vms)"
  show thesis
  proof (cases "?vms = []")
    case True
    then show ?thesis
      using none by (simp add: ServeHTTP_def Let_def)
  next
    case ne: False
    show ?thesis
    proof (cases "sticky_vm r ?vms")
      case (Some v)
      with ne show ?thesis
        using vm [of v None g] sticky_vm_mem [OF Some] backendsFor_healthy
        by (simp add: ServeHTTP_def Let_def)
    next
      case None
      show ?thesis
      proof (cases "?i < 0")
        case True
        with ne None show ?thesis
          using panic by (simp add: ServeHTTP_def Let_def)
      next
        case False
        have "nat ?i < length ?vms"
          using ne False rr_pick_less [of "length ?vms" "gw_rr g"] by (simp add: nat_less_iff)
        then have "isHealthy (?vms ! nat ?i)"
          using backendsFor_healthy nth_mem by blast
        with ne None False show ?thesis
          using vm [of "?vms ! nat ?i" _ "g\<lparr>gw_rr := gw_rr g + 1\<rparr>"]
          by (simp add: ServeHTTP_def Let_def)
      qed
    qed
  qed
qed


subsection \<open>Lemmas: port forwarder\<close>

lemma map_of_None_keys: "map_of xs k = None \<longleftrightarrow> k \<notin> fst ` set xs"
  by (rule map_of_eq_None_iff)

lemma claim_ports_keys:
  "fst ` set (claim_ports vm ps acc) = fst ` set acc \<union> (p_HostPort ` set ps - {0})"
  by (induction ps arbitrary: acc) (auto simp: map_of_None_keys)

lemma wanted_ports_keys:
  "fst ` set (wanted_ports vms acc) = fst ` set acc \<union>
     (\<Union>vm \<in> {vm \<in> set vms. vm_State vm = StateRunning}. p_HostPort ` set (vm_Ports vm) - {0})"
  by (induction vms arbitrary: acc) (auto simp: claim_ports_keys)

lemma open_ports_kept: "map_of lns hp = Some t \<Longrightarrow> map_of (open_ports bind wanted lns) hp = Some t"
  by (induction bind wanted lns rule: open_ports.induct) (auto simp: map_add_def)

lemma open_ports_keys:
  "fst ` set (open_ports bind wanted lns) = fst ` set lns \<union> {hp \<in> fst ` set wanted. bind hp}"
  by (induction bind wanted lns rule: open_ports.induct) (auto simp: map_of_None_keys)

lemma open_ports_same:
  "\<forall>hp \<in> fst ` set wanted. bind hp \<longrightarrow> hp \<in> fst ` set lns \<Longrightarrow> open_ports bind wanted lns = lns"
  by (induction bind wanted lns rule: open_ports.induct) (auto simp: map_of_None_keys)

lemma open_ports_distinct: "distinct (map fst lns) \<Longrightarrow> distinct (map fst (open_ports bind wanted lns))"
  by (induction bind wanted lns rule: open_ports.induct) (auto simp: map_of_None_keys)

lemma map_of_filter_key: "map_of (filter (\<lambda>(k, _). P k) xs) k = (if P k then map_of xs k else None)"
  by (induction xs) auto

lemma filter_keys: "fst ` set (filter (\<lambda>(k, _). P k) xs) = {k \<in> fst ` set xs. P k}"
  by force

lemma pf_reconcile_keys:
  "fst ` set (pf_reconcile bind st lns) =
     {hp \<in> fst ` set (wantedPorts st). hp \<in> fst ` set lns \<or> bind hp}"
  unfolding pf_reconcile_def Let_def open_ports_keys filter_keys map_of_None_keys by blast

lemma pf_reconcile_idem:
  "pf_reconcile bind st (pf_reconcile bind st lns) = pf_reconcile bind st lns"
proof -
  let ?w = "wantedPorts st" and ?l = "pf_reconcile bind st lns"
  have "map_of ?w (fst x) \<noteq> None" if "x \<in> set ?l" for x
    using that pf_reconcile_keys [of bind st lns] unfolding map_of_None_keys by blast
  then have "filter (\<lambda>(hp, _). map_of ?w hp \<noteq> None) ?l = ?l"
    by (intro filter_True) (simp add: case_prod_beta)
  moreover have "open_ports bind ?w ?l = ?l"
    using pf_reconcile_keys [of bind st lns] by (intro open_ports_same) auto
  ultimately show ?thesis
    by (simp add: pf_reconcile_def [of bind st ?l])
qed

subsection \<open>Properties\<close>

definition demo_vm :: VM where
  "demo_vm = zero_VM\<lparr>vm_ID := ''v1'', vm_ProjectID := ''p1'', vm_State := StateRunning,
     vm_IPAddress := ''10.42.0.10'', vm_Ports := [\<lparr>p_ContainerPort = 3000, p_HostPort = 8080, p_Protocol = ''tcp''\<rparr>]\<rparr>"

definition demo_rule :: FirewallRule where
  "demo_rule = \<lparr>fw_ID = ''r1'', fw_ProjectID = ''p1'', fw_Direction = ''ingress'', fw_Action = ''deny'',
     fw_Proto = ''tcp'', fw_Ports = [], fw_Source = ''10.1.0.0/16'', fw_Priority = 5, fw_Active = True,
     fw_CreatedAt = 0\<rparr>"

definition demo_store :: gw_store where
  "demo_store = \<lparr>GetVM = (\<lambda>i. if i = ''v1'' then Some demo_vm else None), ListVMs = [demo_vm],
     ListDomains = (\<lambda>_. []), ListFirewallRules = (\<lambda>_. [Some demo_rule]), ListDeployments = None\<rparr>"

definition demo_request :: "string \<Rightarrow> http_request" where
  "demo_request remote = \<lparr>hr_Host = ''app.dev:80'', hr_Method = ''GET'', hr_Path = ''/'', hr_RemoteAddr = remote,
     hr_cookie = None, hr_Body = False\<rparr>"

definition demo_proxy :: "string \<Rightarrow> http_request \<Rightarrow> proxy_run" where
  "demo_proxy target r = \<lparr>prx_calls = [WriteHeader 404, Write 10], prx_reads = [], prx_start = 1, prx_ms = 2\<rparr>"

text \<open>
  C4: the gateway's firewall is first-match by priority. \<open>blockedByFirewall\<close> lets a request through
  exactly when the project is empty or no active deny rule of the project matches the request's source
  address, and otherwise it returns a matching active deny rule of the least priority value.
\<close>

theorem blockedByFirewall_correct:
  "(blockedByFirewall st projectID r = None \<longleftrightarrow>
      projectID = [] \<or> (\<forall>fr. \<not> deny_match st projectID r fr)) \<and>
   (\<forall>fr. blockedByFirewall st projectID r = Some fr \<longrightarrow>
      deny_match st projectID r fr \<and>
      (\<forall>fr'. deny_match st projectID r fr' \<longrightarrow> fw_Priority fr \<le> fw_Priority fr'))"
  by (simp add: blockedByFirewall_None blockedByFirewall_Some)

theorem blockedByFirewall_correct_witness:
  "blockedByFirewall demo_store ''p1'' (demo_request ''10.1.7.9:5555'') = Some demo_rule \<and>
   deny_match demo_store ''p1'' (demo_request ''10.1.7.9:5555'') demo_rule"
proof -
  have "blockedByFirewall demo_store ''p1'' (demo_request ''10.1.7.9:5555'') = Some demo_rule"
    by code_simp
  then show ?thesis
    using blockedByFirewall_correct [of demo_store "''p1''" "demo_request ''10.1.7.9:5555''"] by blast
qed





text \<open>
  The gateway's own integer printer agrees with the decimal notation on every 64-bit value but
  the least one, which it prints as a lone minus sign because its negation overflows; and it never
  needs more than the 20 bytes of its buffer.
\<close>

theorem itoa_correct:
  assumes "in_int64 i"
  shows "itoa i = (if i = - (2 ^ 63) then ''-'' else Itoa i)"
proof -
  consider "i = 0" | "i = - (2 ^ 63)" | "0 < i" | "i < 0" "i \<noteq> - (2 ^ 63)"
    by linarith
  then show ?thesis
  proof cases
    case 1
    moreover have "itoa 0 = Itoa 0"
      by code_simp
    ultimately show ?thesis by simp
  next
    case 2
    then show ?thesis by (simp add: itoa_def wrap64_def itoa_loop.simps)
  next
    case 3
    then show ?thesis
      using itoa_loop_nat [of "nat i" "[]"] by (simp add: itoa_def Itoa_def)
  next
    case 4
    then have "wrap64 (- i) = - i"
      using assms by (intro wrap64_id) (simp add: in_int64_def)
    with 4 show ?thesis
      using itoa_loop_nat [of "nat (- i)" "[]"] by (simp add: itoa_def Itoa_def Let_def)
  qed
qed

theorem itoa_correct_witness: "itoa 8080 = Itoa 8080 \<and> itoa (-(2 ^ 63)) = ''-''"
  using itoa_correct [of 8080] itoa_correct [of "-(2 ^ 63)"] by (simp add: in_int64_def)

text \<open>
  C21: the port forwarder converges in one pass. After \<open>reconcile\<close> the process listens exactly on those
  host ports declared by running VMs on which it already listened or on which the operating system lets
  it listen; a second pass changes nothing; no port has two listeners; and a listener that is kept
  goes on forwarding to the address it was opened with, also when another VM now claims the port.
\<close>

theorem pf_reconcile_correct:
  assumes "distinct (map fst lns)"
  shows "let lns' = pf_reconcile bind st lns;
             wanted = {p_HostPort p | p vm. vm \<in> set (ListVMs st) \<and> vm_State vm = StateRunning \<and>
                         p \<in> set (vm_Ports vm) \<and> p_HostPort p \<noteq> 0}
    in fst ` set lns' = {hp \<in> wanted. hp \<in> fst ` set lns \<or> bind hp} \<and>
       pf_reconcile bind st lns' = lns' \<and> distinct (map fst lns') \<and>
       (\<forall>hp \<in> wanted \<inter> fst ` set lns. map_of lns' hp = map_of lns hp)"
proof -
  have wanted: "{p_HostPort p | p vm. vm \<in> set (ListVMs st) \<and> vm_State vm = StateRunning \<and>
      p \<in> set (vm_Ports vm) \<and> p_HostPort p \<noteq> 0} = fst ` set (wantedPorts st)"
    by (auto simp: wantedPorts_def wanted_ports_keys)
  have "distinct (map fst (pf_reconcile bind st lns))"
    unfolding pf_reconcile_def Let_def using assms
    by (intro open_ports_distinct) (simp add: distinct_map_filter)
  moreover have "map_of (pf_reconcile bind st lns) hp = map_of lns hp"
    if "hp \<in> fst ` set (wantedPorts st) \<inter> fst ` set lns" for hp
  proof -
    have "map_of lns hp \<noteq> None" "map_of (wantedPorts st) hp \<noteq> None"
      using that by (simp_all add: map_of_None_keys)
    then obtain t where t: "map_of lns hp = Some t"
      by blast
    with \<open>map_of (wantedPorts st) hp \<noteq> None\<close> have "map_of (pf_reconcile bind st lns) hp = Some t"
      unfolding pf_reconcile_def Let_def by (intro open_ports_kept) (simp add: map_of_filter_key)
    with t show ?thesis by simp
  qed
  ultimately show ?thesis
    unfolding Let_def wanted by (intro conjI ballI pf_reconcile_keys pf_reconcile_idem)
qed

theorem pf_reconcile_correct_witness:
  "map_of (pf_reconcile (\<lambda>_. True) demo_store [(8080, (''10.9.9.9'', 1)), (9, (''x'', 2))]) 8080 = Some (''10.9.9.9'', 1)"
proof -
  have "distinct (map fst [(8080 :: int, (''10.9.9.9'', 1 :: int)), (9, (''x'', 2))])"
    by simp
  from pf_reconcile_correct [OF this, where bind = "\<lambda>_. True" and st = demo_store] show ?thesis
    by (simp add: Let_def demo_store_def demo_vm_def)
qed

end
