(* ===== verification/Dns.thy ===== *)
theory Dns
  imports Types Netip "HOL-Library.AList"
begin

text \<open>
  Name service: the \<open>.local\<close> resolver (\<open>internal/dns/dns.go\<close>), the authoritative server
  (\<open>internal/dns/server.go\<close>) and automatic domains (\<open>internal/dns/domains.go\<close>), with the \<open>domains\<close>
  table of the store (\<open>internal/store/store.go\<close>). A list of VM pointers is a list of options. The
  third-party function \<open>dns.Fqdn\<close> and the host's resolver are arguments; a database statement's
  success is an argument of the operation that runs it.
\<close>

subsection \<open>Resolver of the .local zone\<close>

definition zone_char :: "char \<Rightarrow> bool" where
  "zone_char c = (is_lower c \<or> is_digit c \<or> c = CHR ''-'')"

text \<open>\<open>zonePattern\<close>: two labels of zone characters and the label \<open>local\<close>.\<close>

definition zone_match :: "string \<Rightarrow> (string \<times> string) option" where
  "zone_match host = (case Split (CHR ''.'') host of
      [svc, project, l] \<Rightarrow>
        if l = ''local'' \<and> svc \<noteq> [] \<and> project \<noteq> [] \<and> list_all zone_char svc \<and> list_all zone_char project
        then Some (svc, project) else None
    | _ \<Rightarrow> None)"

datatype lookup_error = NotLocalName string | NoVM string

definition vm_matches :: "string \<Rightarrow> string \<Rightarrow> VM \<Rightarrow> bool" where
  "vm_matches svc project vm =
     (if \<not> EqualFold (vm_ServiceName vm) svc then False
      else if project \<noteq> [] \<and> \<not> Contains (ToLower (vm_ProjectID vm)) project \<and>
          \<not> Contains (ToLower (vm_Name vm)) project then False
      else True)"

fun lookup_vms :: "string \<Rightarrow> string \<Rightarrow> VM option list \<Rightarrow> ip list" where
  "lookup_vms svc project [] = []"
| "lookup_vms svc project (v # vs) = (case v of
      None \<Rightarrow> lookup_vms svc project vs
    | Some vm \<Rightarrow>
        if \<not> vm_matches svc project vm then lookup_vms svc project vs
        else case ParseIP (vm_IPAddress vm) of
               Some i \<Rightarrow> i # lookup_vms svc project vs
             | None \<Rightarrow> lookup_vms svc project vs)"

definition LookupIP :: "VM option list \<Rightarrow> string \<Rightarrow> (lookup_error, ip list) result" where
  "LookupIP vms host0 =
     (let host = ToLower (TrimSuffix host0 ''.'')
      in case zone_match host of
           None \<Rightarrow> Inl (NotLocalName host)
         | Some (svc, project) \<Rightarrow>
             let ips = lookup_vms svc project vms
             in if length ips = 0 then Inl (NoVM host) else Inr ips)"

definition projectName :: "VM \<Rightarrow> string" where
  "projectName vm = (if vm_ProjectID vm = [] then ''default'' else vm_ProjectID vm)"

fun LookupHost :: "VM option list \<Rightarrow> string \<Rightarrow> (lookup_error, string) result" where
  "LookupHost [] ip = Inl (NoVM ip)"
| "LookupHost (v # vs) ip = (case v of
      None \<Rightarrow> LookupHost vs ip
    | Some vm \<Rightarrow>
        if vm_IPAddress vm = ip then Inr (vm_ServiceName vm @ ''.'' @ projectName vm @ ''.local'')
        else LookupHost vs ip)"

subsection \<open>Authoritative server\<close>

datatype qtype = TypeA | TypeAAAA | TypePTR | TypeNS | TypeSOA | TypeOther

datatype rr =
    RR_A string nat ip
  | RR_PTR string nat string
  | RR_NS string nat string
  | RR_SOA string nat string string

record dns_msg =
  Question :: "(string \<times> qtype) list"
  Answer :: "rr list"
  Authoritative :: bool
  NameError :: bool

record dns_server =
  baseDomain :: string
  gatewayIP :: "ip option"

definition NewServer :: "string \<Rightarrow> ip option \<Rightarrow> dns_server" where
  "NewServer base gw = \<lparr>baseDomain = ToLower (TrimSuffix base ''.''), gatewayIP = gw\<rparr>"

fun resolveVM :: "VM option list \<Rightarrow> dns_msg \<Rightarrow> string \<Rightarrow> string \<Rightarrow> dns_msg" where
  "resolveVM [] m svc project = m"
| "resolveVM (v # vs) m svc project = (case v of
      None \<Rightarrow> resolveVM vs m svc project
    | Some vm \<Rightarrow>
        if \<not> vm_matches svc project vm then resolveVM vs m svc project
        else case Option.bind (ParseIP (vm_IPAddress vm)) To4 of
               None \<Rightarrow> resolveVM vs m svc project
             | Some a \<Rightarrow>
                 resolveVM vs (m\<lparr>Answer := Answer m @ [RR_A (fst (Question m ! 0)) 30 a]\<rparr>) svc project)"

definition handleA :: "(string \<Rightarrow> string) \<Rightarrow> dns_server \<Rightarrow> VM option list \<Rightarrow> dns_msg \<Rightarrow> string \<Rightarrow> dns_msg" where
  "handleA Fqdn s vms m name =
     (if \<not> HasSuffix name (Fqdn (baseDomain s)) \<and> name \<noteq> Fqdn (baseDomain s)
      then m\<lparr>Authoritative := False, NameError := True\<rparr>
      else
        let subdomain = TrimSuffix (TrimSuffix name (Fqdn (baseDomain s))) ''.''
        in case Cut (CHR ''.'') subdomain of
             Some (svc, project) \<Rightarrow> resolveVM vms m svc project
           | None \<Rightarrow>
               (case gatewayIP s of
                  None \<Rightarrow> m
                | Some gw \<Rightarrow> m\<lparr>Answer := Answer m @ [RR_A name 300 gw]\<rparr>))"

definition ptrToIP :: "string \<Rightarrow> ip option" where
  "ptrToIP name0 =
     (let name1 = TrimSuffix name0 ''.'';
          name2 = TrimSuffix name1 ''.in-addr.arpa'';
          name = TrimSuffix name2 ''.ip6.arpa'';
          parts = Split (CHR ''.'') name
      in if length parts \<noteq> 4 then None
         else ParseIP (parts ! 3 @ ''.'' @ parts ! 2 @ ''.'' @ parts ! 1 @ ''.'' @ parts ! 0))"

fun ptr_vm :: "VM option list \<Rightarrow> string \<Rightarrow> VM option" where
  "ptr_vm [] ip = None"
| "ptr_vm (v # vs) ip = (case v of
      None \<Rightarrow> ptr_vm vs ip
    | Some vm \<Rightarrow> if vm_IPAddress vm = ip then Some vm else ptr_vm vs ip)"

definition handlePTR :: "dns_server \<Rightarrow> VM option list \<Rightarrow> dns_msg \<Rightarrow> string \<Rightarrow> dns_msg" where
  "handlePTR s vms m name = (case ptrToIP name of
      None \<Rightarrow> m\<lparr>NameError := True\<rparr>
    | Some i \<Rightarrow>
        (case ptr_vm vms (IP_String i) of
           Some vm \<Rightarrow>
             m\<lparr>Answer := Answer m @ [RR_PTR name 300
                 (vm_ServiceName vm @ ''.'' @ ToLower (vm_ProjectID vm) @ ''.'' @ baseDomain s @ ''.'')]\<rparr>
         | None \<Rightarrow> m\<lparr>NameError := True\<rparr>))"

definition handleNS :: "dns_server \<Rightarrow> dns_msg \<Rightarrow> string \<Rightarrow> dns_msg" where
  "handleNS s m name = m\<lparr>Answer := Answer m @ [RR_NS name 86400 (''ns1.'' @ baseDomain s @ ''.'')]\<rparr>"

definition handleSOA :: "dns_server \<Rightarrow> dns_msg \<Rightarrow> string \<Rightarrow> dns_msg" where
  "handleSOA s m name =
     m\<lparr>Answer := Answer m @ [RR_SOA name 300 (''ns1.'' @ baseDomain s @ ''.'') (''admin.'' @ baseDomain s @ ''.'')]\<rparr>"

definition handleDNS :: "(string \<Rightarrow> string) \<Rightarrow> dns_server \<Rightarrow> VM option list \<Rightarrow> (string \<times> qtype) list \<Rightarrow> dns_msg" where
  "handleDNS Fqdn s vms questions =
     (let m = \<lparr>Question = questions, Answer = [], Authoritative = True, NameError = False\<rparr>
      in if length questions = 0 then m
         else
           let (qname, qt) = questions ! 0;
               fqdn = Fqdn (ToLower qname)
           in case qt of
                TypeA \<Rightarrow> handleA Fqdn s vms m fqdn
              | TypeAAAA \<Rightarrow> m
              | TypePTR \<Rightarrow> handlePTR s vms m fqdn
              | TypeNS \<Rightarrow> handleNS s m fqdn
              | TypeSOA \<Rightarrow> handleSOA s m fqdn
              | TypeOther \<Rightarrow> m\<lparr>Authoritative := False, NameError := True\<rparr>)"

subsection \<open>Project slugs and automatic domains\<close>

function collapse_hyphens :: "string \<Rightarrow> string" where
  "collapse_hyphens slug =
     (if Contains slug ''--'' then collapse_hyphens (ReplaceAll slug ''--'' ''-'') else slug)"
  by pat_completeness auto
termination
  by (relation "measure length") (simp_all add: length_ReplaceAll)

declare collapse_hyphens.simps [simp del]

definition slug_of :: "string \<Rightarrow> string" where
  "slug_of name =
     (let slug = ToLower name;
          slug = ReplaceAll slug '' '' ''-'';
          slug = ReplaceAll slug ''_'' ''-'';
          slug = filter (\<lambda>c. is_lower c \<or> is_digit c \<or> c = CHR ''-'') slug;
          slug = collapse_hyphens slug;
          slug = Trim slug ''-''
      in if slug = [] then ''app'' else slug)"

definition projectSlug :: "Project \<Rightarrow> string" where
  "projectSlug p = slug_of (pr_Name p)"

text \<open>
  The \<open>domains\<close> table, keyed by the domain with the row's project (\<open>None\<close> for SQL NULL) and its JSON
  column; the position in the list is the order of \<open>created_at\<close>, which an upsert leaves alone. The
  \<open>VMID\<close> field is not part of the JSON.
\<close>

type_synonym domain_table = "(string \<times> (string option \<times> Domain)) list"

definition nullableStr :: "string \<Rightarrow> string option" where
  "nullableStr s = (if s = [] then None else Some s)"

definition AddDomain :: "bool \<Rightarrow> string \<Rightarrow> Domain \<Rightarrow> domain_table \<Rightarrow> domain_table" where
  "AddDomain ok projectID d tbl =
     (if ok then AList.update (d_Domain d) (nullableStr projectID, d\<lparr>d_VMID := []\<rparr>) tbl else tbl)"

definition ListDomains :: "domain_table \<Rightarrow> string \<Rightarrow> Domain list" where
  "ListDomains tbl projectID = map (snd \<circ> snd) (filter (\<lambda>(_, p, _). p = Some projectID) tbl)"

definition RemoveDomain :: "bool \<Rightarrow> string \<Rightarrow> string \<Rightarrow> domain_table \<Rightarrow> domain_table \<times> bool" where
  "RemoveDomain ok projectID domain tbl =
     (if \<not> ok then (tbl, False)
      else let tbl' = filter (\<lambda>(k, p, _). \<not> (k = domain \<and> p = Some projectID)) tbl
           in (tbl', length tbl' < length tbl))"

record DomainManager =
  dm_baseDomain :: string
  dm_gatewayIP :: string

definition NewDomainManager :: "string \<Rightarrow> string \<Rightarrow> DomainManager" where
  "NewDomainManager base gw = \<lparr>dm_baseDomain = ToLower (TrimSuffix base ''.''), dm_gatewayIP = gw\<rparr>"

text \<open>\<open>lookup\<close> is the host's resolver: the addresses of a name, or \<open>None\<close> on an error.\<close>

definition VerifyDomain :: "(string \<Rightarrow> string list option) \<Rightarrow> DomainManager \<Rightarrow> Domain \<Rightarrow> bool" where
  "VerifyDomain lookup dm d = (case lookup (d_Domain d) of
      None \<Rightarrow> False
    | Some ips \<Rightarrow> if length ips = 0 then False else list_ex (\<lambda>i. i = dm_gatewayIP dm) ips)"

definition verifyDomain :: "(string \<Rightarrow> string list option) \<Rightarrow> DomainManager \<Rightarrow> Domain \<Rightarrow> Domain" where
  "verifyDomain lookup dm d =
     (if VerifyDomain lookup dm d then d\<lparr>d_Status := ''verified''\<rparr> else d\<lparr>d_Status := ''unverified''\<rparr>)"

definition GetPreviewDomain :: "DomainManager \<Rightarrow> Project \<Rightarrow> string" where
  "GetPreviewDomain dm p = projectSlug p @ ''.preview.'' @ dm_baseDomain dm"

definition GetProductionDomain :: "DomainManager \<Rightarrow> Project \<Rightarrow> string" where
  "GetProductionDomain dm p = projectSlug p @ ''.'' @ dm_baseDomain dm"

definition new_domain :: "Project \<Rightarrow> string \<Rightarrow> string \<Rightarrow> Domain" where
  "new_domain p name kind =
     \<lparr>d_ProjectID = pr_ID p, d_VMID = [], d_Domain = name, d_Type = kind, d_Status = ''pending''\<rparr>"

definition AssignDomains ::
    "(string \<Rightarrow> string list option) \<Rightarrow> bool \<times> bool \<Rightarrow> DomainManager \<Rightarrow> Project \<Rightarrow> domain_table \<Rightarrow>
     (unit, Domain list) result \<times> domain_table" where
  "AssignDomains lookup oks dm p tbl =
     (if dm_baseDomain dm = [] then (Inl (), tbl)
      else
        let slug = projectSlug p;
            preview = new_domain p (slug @ ''.preview.'' @ dm_baseDomain dm) ''preview'';
            tbl1 = AddDomain (fst oks) (pr_ID p) preview tbl;
            prod = new_domain p (slug @ ''.'' @ dm_baseDomain dm) ''production'';
            tbl2 = AddDomain (snd oks) (pr_ID p) prod tbl1
        in (Inr [verifyDomain lookup dm preview, verifyDomain lookup dm prod], tbl2))"

subsection \<open>Lemmas: resolver\<close>

lemma zone_match_Some:
  "zone_match host = Some (svc, project) \<longleftrightarrow>
     host = svc @ ''.'' @ project @ ''.local'' \<and> svc \<noteq> [] \<and> project \<noteq> [] \<and>
     list_all zone_char svc \<and> list_all zone_char project"
proof
  assume "zone_match host = Some (svc, project)"
  then have "Split (CHR ''.'') host = [svc, project, ''local'']"
      and rest: "svc \<noteq> []" "project \<noteq> []" "list_all zone_char svc" "list_all zone_char project"
    by (auto simp: zone_match_def split: list.splits if_splits)
  then have "host = Join ''.'' [svc, project, ''local'']"
    by (metis Join_Split)
  with rest show "host = svc @ ''.'' @ project @ ''.local'' \<and> svc \<noteq> [] \<and> project \<noteq> [] \<and>
      list_all zone_char svc \<and> list_all zone_char project"
    by simp
next
  assume asm: "host = svc @ ''.'' @ project @ ''.local'' \<and> svc \<noteq> [] \<and> project \<noteq> [] \<and>
      list_all zone_char svc \<and> list_all zone_char project"
  then have dots: "CHR ''.'' \<notin> set svc" "CHR ''.'' \<notin> set project"
    by (auto simp: list_all_iff zone_char_def char_class_defs)
  have "Split (CHR ''.'') (Join ''.'' [svc, project, ''local'']) = [svc, project, ''local'']"
    using dots by (intro Split_Join) simp_all
  then have "Split (CHR ''.'') host = [svc, project, ''local'']"
    using asm by simp
  with asm show "zone_match host = Some (svc, project)"
    by (simp add: zone_match_def)
qed

lemma set_lookup_vms:
  "set (lookup_vms svc project vms) =
     {i. \<exists>vm. Some vm \<in> set vms \<and> vm_matches svc project vm \<and> ParseIP (vm_IPAddress vm) = Some i}"
  by (induction vms) (auto split: option.splits)

lemma ptr_vm_Some:
  "ptr_vm vms ip = Some vm \<Longrightarrow> Some vm \<in> set vms \<and> vm_IPAddress vm = ip"
  by (induction vms) (auto split: option.splits if_splits)

lemma ptr_vm_None: "ptr_vm vms ip = None \<longleftrightarrow> (\<forall>vm. Some vm \<in> set vms \<longrightarrow> vm_IPAddress vm \<noteq> ip)"
  by (induction vms) (auto split: option.splits)

subsection \<open>Lemmas: reverse names\<close>

definition ptr_name :: "ip \<Rightarrow> string" where
  "ptr_name a = v4_string (rev a) @ ''.in-addr.arpa.''"

lemma TrimSuffix_other: "\<not> HasSuffix s p \<Longrightarrow> TrimSuffix s p = s"
  by (simp add: TrimSuffix_def)

lemma last_v4_string:
  assumes "a \<noteq> []"
  shows "is_digit (last (v4_string a))"
proof -
  have "last (Join ''.'' (map f xs)) = last (f (last xs))" if "xs \<noteq> []" "\<And>x. f x \<noteq> []" for f and xs :: ip
    using that
  proof (induction xs)
    case (Cons x xs)
    then show ?case by (cases xs) (auto simp: Join_not_Nil)
  qed simp
  then show ?thesis
    using assms string_of_nat_digits [of "unat (last a)"]
    by (simp add: v4_string_def list_all_iff)
qed

lemma ptrToIP_ptr_name:
  assumes "length a = 4"
  shows "ptrToIP (ptr_name a) = Some (v4_prefix @ a)"
proof -
  obtain b0 b1 b2 b3 where a: "a = [b0, b1, b2, b3]"
    using assms by (auto simp: numeral_eq_Suc length_Suc_conv)
  have one: "TrimSuffix (ptr_name a) ''.'' = v4_string (rev a) @ ''.in-addr.arpa''"
    using TrimSuffix_append [of "v4_string (rev a) @ ''.in-addr.arpa''" "''.''"] by (simp add: ptr_name_def)
  have "v4_string (rev a) \<noteq> []"
    using a by (simp add: v4_string_def)
  then have "\<not> HasSuffix (v4_string (rev a)) ''.ip6.arpa''"
    using last_v4_string [of "rev a"] a by (auto simp: HasSuffix_iff is_digit_def)
  then have three: "TrimSuffix (v4_string (rev a)) ''.ip6.arpa'' = v4_string (rev a)"
    by (rule TrimSuffix_other)
  have split: "Split (CHR ''.'') (v4_string (rev a)) = map (\<lambda>b. string_of_nat (unat b)) (rev a)"
    unfolding v4_string_def using a by (intro Split_Join) (auto simp: list_all_iff)
  have "v4_string a = string_of_nat (unat b0) @ ''.'' @ string_of_nat (unat b1) @ ''.'' @
      string_of_nat (unat b2) @ ''.'' @ string_of_nat (unat b3)"
    using a by (simp add: v4_string_def)
  then show ?thesis
    unfolding ptrToIP_def Let_def one TrimSuffix_append three split
    using ParseIP_v4_string [OF assms] a by (simp add: numeral_eq_Suc)
qed

subsection \<open>Lemmas: slugs\<close>

definition label_char :: "char \<Rightarrow> bool" where
  "label_char c \<longleftrightarrow> is_lower c \<or> is_digit c \<or> c = CHR ''-''"

definition valid_label :: "string \<Rightarrow> bool" where
  "valid_label s \<longleftrightarrow> s \<noteq> [] \<and> list_all label_char s \<and> hd s \<noteq> CHR ''-'' \<and> last s \<noteq> CHR ''-'' \<and>
     \<not> Contains s ''--''"

lemma collapse_hyphens_post:
  "\<not> Contains (collapse_hyphens s) ''--'' \<and> set (collapse_hyphens s) \<subseteq> insert (CHR ''-'') (set s)"
proof (induction s rule: collapse_hyphens.induct)
  case (1 s)
  show ?case
  proof (cases "Contains s ''--''")
    case True
    with 1 set_ReplaceAll [of s "''--''" "''-''"] show ?thesis
      by (subst (1 2) collapse_hyphens.simps) auto
  next
    case False
    then show ?thesis by (subst (1 2) collapse_hyphens.simps) auto
  qed
qed

lemma Contains_Trim: "Contains (Trim s cs) t \<Longrightarrow> Contains s t"
  using Trim_sublist [of s cs] unfolding Contains_iff by (metis append.assoc)

lemma slug_of_valid: "valid_label (slug_of name)"
proof -
  define f where "f = filter (\<lambda>c. is_lower c \<or> is_digit c \<or> c = CHR ''-'')
      (ReplaceAll (ReplaceAll (ToLower name) '' '' ''-'') ''_'' ''-'')"
  define t where "t = Trim (collapse_hyphens f) ''-''"
  have slug: "slug_of name = (if t = [] then ''app'' else t)"
    by (simp add: slug_of_def Let_def t_def f_def)
  have "set t \<subseteq> insert (CHR ''-'') (set f)"
    unfolding t_def using set_Trim collapse_hyphens_post by fast
  then have chars: "list_all label_char t"
    by (auto simp: list_all_iff label_char_def f_def)
  have "\<not> Contains t ''--''"
    unfolding t_def using Contains_Trim collapse_hyphens_post by blast
  moreover have "t \<noteq> [] \<Longrightarrow> hd t \<noteq> CHR ''-'' \<and> last t \<noteq> CHR ''-''"
    unfolding t_def using hd_Trim [of _ "''-''"] last_Trim [of _ "''-''"] by simp
  moreover have "valid_label ''app''"
    by code_simp
  ultimately show ?thesis
    using slug chars by (simp add: valid_label_def)
qed

lemma Trim_id:
  assumes "s \<noteq> []" "hd s \<notin> set cs" "last s \<notin> set cs"
  shows "Trim s cs = s"
proof -
  have "dropWhile (\<lambda>c. c \<in> set cs) s = s"
    using assms(1,2) by (cases s) simp_all
  moreover have "dropWhile (\<lambda>c. c \<in> set cs) (rev s) = rev s"
    using assms(1,3) by (cases s rule: rev_cases) simp_all
  ultimately show ?thesis
    by (simp add: Trim_def TrimLeftF_def TrimRightF_def)
qed

lemma slug_of_valid_id:
  assumes "valid_label s"
  shows "slug_of s = s"
proof -
  have chars: "label_char c" if "c \<in> set s" for c
    using assms that by (auto simp: valid_label_def list_all_iff)
  have low: "ToLower s = s"
    using chars by (intro ToLower_id) (fastforce simp: label_char_def char_class_defs)
  have "CHR '' '' \<notin> set s" "CHR ''_'' \<notin> set s"
    using chars [of "CHR '' ''"] chars [of "CHR ''_''"] by (auto simp: label_char_def char_class_defs)
  then have "map (\<lambda>c. if c = CHR '' '' then CHR ''-'' else c) s = s" "map (\<lambda>c. if c = CHR ''_'' then CHR ''-'' else c) s = s"
    by (auto intro!: map_idI)
  moreover have "filter (\<lambda>c. is_lower c \<or> is_digit c \<or> c = CHR ''-'') s = s"
    using chars by (auto intro!: filter_True simp: label_char_def)
  moreover have "collapse_hyphens s = s"
    using assms by (subst collapse_hyphens.simps) (simp add: valid_label_def)
  moreover have "Trim s ''-'' = s"
    using assms by (intro Trim_id) (simp_all add: valid_label_def)
  ultimately show ?thesis
    using assms low by (simp add: slug_of_def Let_def ReplaceAll_char valid_label_def del: map_map)
qed

subsection \<open>Lemmas: domain table\<close>

lemma ListDomains_mem:
  "d \<in> set (ListDomains tbl q) \<longleftrightarrow> (\<exists>k. (k, Some q, d) \<in> set tbl)"
  by (force simp: ListDomains_def)

lemma AddDomain_distinct: "distinct (map fst tbl) \<Longrightarrow> distinct (map fst (AddDomain ok p d tbl))"
  by (simp add: AddDomain_def distinct_update)

lemma set_update_distinct:
  "distinct (map fst xs) \<Longrightarrow>
   set (AList.update k v xs) = insert (k, v) {(k', v') \<in> set xs. k' \<noteq> k}"
  by (induction xs) (auto simp: rev_image_eqI)

lemma set_AddDomain:
  "distinct (map fst tbl) \<Longrightarrow>
   set (AddDomain True p d tbl) =
     insert (d_Domain d, nullableStr p, d\<lparr>d_VMID := []\<rparr>) {(k, r) \<in> set tbl. k \<noteq> d_Domain d}"
  by (simp add: AddDomain_def set_update_distinct)

definition table_ok :: "domain_table \<Rightarrow> bool" where
  "table_ok tbl \<longleftrightarrow> distinct (map fst tbl) \<and> (\<forall>(k, p, d) \<in> set tbl. d_Domain d = k)"

lemma AddDomain_table_ok: "table_ok tbl \<Longrightarrow> table_ok (AddDomain ok p d tbl)"
proof (cases ok)
  case True
  assume "table_ok tbl"
  with True show ?thesis
    using set_AddDomain [of tbl p d] AddDomain_distinct [of tbl True p d]
    by (auto simp: table_ok_def)
qed (simp add: AddDomain_def)

subsection \<open>Properties\<close>

definition demo_vms :: "VM option list" where
  "demo_vms = [None, Some (zero_VM\<lparr>vm_ServiceName := ''web'', vm_ProjectID := ''shop'', vm_IPAddress := ''10.42.0.10''\<rparr>),
     Some (zero_VM\<lparr>vm_ServiceName := ''db'', vm_ProjectID := ''shop'', vm_IPAddress := ''10.42.0.11''\<rparr>)]"

definition demo_project :: "string \<Rightarrow> Project" where
  "demo_project i = zero_Project\<lparr>pr_ID := i, pr_Name := ''My_Shop!''\<rparr>"



text \<open>
  A project slug is always a valid DNS label. It is non-empty, consists of lower-case letters,
  digits and single inner hyphens only, and slugging a slug changes nothing; the loop that collapses
  hyphens terminates on every name.
\<close>

theorem projectSlug_valid:
  "valid_label (projectSlug p) \<and> slug_of (projectSlug p) = projectSlug p"
  unfolding projectSlug_def using slug_of_valid slug_of_valid_id by blast

text \<open>
  C17: reverse lookups invert the address. For every IPv4 address the PTR name under \<open>in-addr.arpa\<close>
  is parsed back to that address, and \<open>handlePTR\<close> answers with the name of a VM that has it, or with a
  name error exactly when no VM has it.
\<close>

theorem handlePTR_correct:
  assumes "length a = 4" "Answer m = []" "\<not> NameError m"
  shows "ptrToIP (ptr_name a) = Some (v4_prefix @ a) \<and>
    (case Answer (handlePTR s vms m (ptr_name a)) of
       [RR_PTR n ttl target] \<Rightarrow> n = ptr_name a \<and> \<not> NameError (handlePTR s vms m (ptr_name a)) \<and>
         (\<exists>vm. Some vm \<in> set vms \<and> vm_IPAddress vm = v4_string a \<and>
           target = vm_ServiceName vm @ ''.'' @ ToLower (vm_ProjectID vm) @ ''.'' @ baseDomain s @ ''.'')
     | _ \<Rightarrow> Answer (handlePTR s vms m (ptr_name a)) = [] \<and> NameError (handlePTR s vms m (ptr_name a)) \<and>
         (\<forall>vm. Some vm \<in> set vms \<longrightarrow> vm_IPAddress vm \<noteq> v4_string a))"
proof (cases "ptr_vm vms (v4_string a)")
  case None
  then show ?thesis
    using assms ptrToIP_ptr_name ptr_vm_None [of vms "v4_string a"]
    by (simp add: handlePTR_def IP_String_v4)
next
  case (Some vm)
  then show ?thesis
    using assms ptrToIP_ptr_name ptr_vm_Some [OF Some]
    by (auto simp: handlePTR_def IP_String_v4)
qed

theorem handlePTR_correct_witness:
  "ptrToIP (ptr_name [10, 42, 0, 10]) = Some (v4_prefix @ [10, 42, 0, 10])"
  using handlePTR_correct [of "[10, 42, 0, 10]" "\<lparr>Question = [], Answer = [], Authoritative = True, NameError = False\<rparr>"]
  by simp

text \<open>
  The zone check ignores label boundaries. With a resolver library whose \<open>Fqdn\<close> appends the final
  dot, an A query for any dot-free text immediately followed by the base domain, such as a different
  registered name that merely ends in it, is answered authoritatively with the gateway's address.
\<close>

theorem handleA_suffix:
  assumes "\<And>n. n \<noteq> [] \<Longrightarrow> last n \<noteq> CHR ''.'' \<Longrightarrow> Fqdn n = n @ ''.''"
    and "baseDomain s \<noteq> []" "last (baseDomain s) \<noteq> CHR ''.''" "gatewayIP s = Some gw"
    and "CHR ''.'' \<notin> set x" "ToLower (x @ baseDomain s) = x @ baseDomain s"
  shows "handleDNS Fqdn s vms [(x @ baseDomain s, TypeA)] =
    \<lparr>Question = [(x @ baseDomain s, TypeA)], Answer = [RR_A (x @ baseDomain s @ ''.'') 300 gw],
     Authoritative = True, NameError = False\<rparr>"
proof -
  have base: "Fqdn (baseDomain s) = baseDomain s @ ''.''" "Fqdn (x @ baseDomain s) = x @ baseDomain s @ ''.''"
    using assms by simp_all
  have "\<not> HasSuffix x ''.''"
    using assms(5) by (auto simp: HasSuffix_iff)
  then have "TrimSuffix (TrimSuffix (x @ baseDomain s @ ''.'') (baseDomain s @ ''.'')) ''.'' = x"
    by (simp add: TrimSuffix_other)
  moreover have "Cut (CHR ''.'') x = None"
    using assms(5) by (simp add: Cut_None_iff)
  ultimately show ?thesis
    using assms(4,6) base by (simp add: handleDNS_def handleA_def Let_def)
qed

theorem handleA_suffix_witness:
  "Answer (handleDNS (\<lambda>n. if n \<noteq> [] \<and> last n = CHR ''.'' then n else n @ ''.'') (NewServer ''porter.dev'' (Some [1, 2, 3, 4])) []
     [(''not'' @ ''porter.dev'', TypeA)]) = [RR_A ''notporter.dev.'' 300 [1, 2, 3, 4]]"
proof -
  have base: "baseDomain (NewServer ''porter.dev'' (Some [1, 2, 3, 4])) = ''porter.dev''"
    by code_simp
  have "ToLower (''not'' @ ''porter.dev'') = ''not'' @ ''porter.dev''"
    by code_simp
  then show ?thesis
    using handleA_suffix [of "\<lambda>n. if n \<noteq> [] \<and> last n = CHR ''.'' then n else n @ ''.''"
        "NewServer ''porter.dev'' (Some [1, 2, 3, 4])" "[1, 2, 3, 4]" "''not''" "[]"]
    by (simp only: base) (simp add: NewServer_def)
qed

text \<open>
  Assigning domains to a project takes them away from every other project. When both inserts
  succeed, the project's stored domains include its preview and production names with the status
  \<open>pending\<close> whatever the verification found, and no other project keeps a domain of either name, so
  two projects with the same slug overwrite each other.
\<close>

theorem AssignDomains_stored:
  assumes "table_ok tbl" "dm_baseDomain dm \<noteq> []" "pr_ID p \<noteq> []" "q \<noteq> pr_ID p"
  shows "let tbl' = snd (AssignDomains lookup (True, True) dm p tbl)
    in table_ok tbl' \<and>
       {new_domain p (GetPreviewDomain dm p) ''preview'', new_domain p (GetProductionDomain dm p) ''production''}
         \<subseteq> set (ListDomains tbl' (pr_ID p)) \<and>
       (\<forall>d \<in> set (ListDomains tbl' q). d_Domain d \<noteq> GetPreviewDomain dm p \<and> d_Domain d \<noteq> GetProductionDomain dm p)"
proof -
  define preview where "preview = new_domain p (GetPreviewDomain dm p) ''preview''"
  define prod where "prod = new_domain p (GetProductionDomain dm p) ''production''"
  define tbl1 where "tbl1 = AddDomain True (pr_ID p) preview tbl"
  define tbl2 where "tbl2 = AddDomain True (pr_ID p) prod tbl1"
  have tbl2: "snd (AssignDomains lookup (True, True) dm p tbl) = tbl2"
    using assms(2) by (simp add: AssignDomains_def Let_def tbl1_def tbl2_def preview_def prod_def
        GetPreviewDomain_def GetProductionDomain_def)
  have ok: "table_ok tbl1" "table_ok tbl2"
    using assms(1) by (simp_all add: tbl1_def tbl2_def AddDomain_table_ok)
  have names: "d_Domain preview = GetPreviewDomain dm p" "d_Domain prod = GetProductionDomain dm p"
    and vmid: "preview\<lparr>d_VMID := []\<rparr> = preview" "prod\<lparr>d_VMID := []\<rparr> = prod"
    by (simp_all add: preview_def prod_def new_domain_def)
  have neq: "GetPreviewDomain dm p \<noteq> GetProductionDomain dm p"
    by (simp add: GetPreviewDomain_def GetProductionDomain_def)
  have rows: "set tbl2 = {(d_Domain prod, Some (pr_ID p), prod), (d_Domain preview, Some (pr_ID p), preview)} \<union>
      {(k, r) \<in> set tbl. k \<noteq> d_Domain preview \<and> k \<noteq> d_Domain prod}"
    using assms(1,3) ok neq vmid unfolding tbl2_def tbl1_def
    by (subst set_AddDomain; simp add: table_ok_def AddDomain_distinct)
      (auto simp: set_AddDomain nullableStr_def names)
  have "d_Domain d \<noteq> GetPreviewDomain dm p \<and> d_Domain d \<noteq> GetProductionDomain dm p"
    if "d \<in> set (ListDomains tbl2 q)" for d
    using that assms(1,4) by (auto simp: ListDomains_mem rows names table_ok_def)
  moreover have "{preview, prod} \<subseteq> set (ListDomains tbl2 (pr_ID p))"
    by (auto simp: ListDomains_mem rows)
  ultimately show ?thesis
    using ok(2) by (simp only: tbl2 Let_def preview_def prod_def) simp
qed

theorem AssignDomains_stored_witness:
  "let dm = NewDomainManager ''porter.dev'' ''1.2.3.4'';
       tbl1 = snd (AssignDomains (\<lambda>_. None) (True, True) dm (demo_project ''p1'') []);
       tbl2 = snd (AssignDomains (\<lambda>_. None) (True, True) dm (demo_project ''p2'') tbl1)
   in length (ListDomains tbl1 ''p1'') = 2 \<and> length (ListDomains tbl2 ''p1'') = 0 \<and>
      new_domain (demo_project ''p2'') ''my-shop.porter.dev'' ''production'' \<in> set (ListDomains tbl2 ''p2'')"
proof -
  let ?dm = "NewDomainManager ''porter.dev'' ''1.2.3.4''"
  let ?tbl1 = "snd (AssignDomains (\<lambda>_. None) (True, True) ?dm (demo_project ''p1'') [])"
  have ok: "table_ok ?tbl1" and base: "dm_baseDomain ?dm \<noteq> []" and ids: "pr_ID (demo_project ''p2'') \<noteq> []"
      "''p1'' \<noteq> pr_ID (demo_project ''p2'')"
      and name: "GetProductionDomain ?dm (demo_project ''p2'') = ''my-shop.porter.dev''"
    by code_simp+
  have "new_domain (demo_project ''p2'') (GetProductionDomain ?dm (demo_project ''p2'')) ''production''
      \<in> set (ListDomains (snd (AssignDomains (\<lambda>_. None) (True, True) ?dm (demo_project ''p2'') ?tbl1)) (pr_ID (demo_project ''p2'')))"
    using AssignDomains_stored [OF ok base ids, of "\<lambda>_. None"] unfolding Let_def by blast
  moreover have "length (ListDomains ?tbl1 ''p1'') = 2"
      "length (ListDomains (snd (AssignDomains (\<lambda>_. None) (True, True) ?dm (demo_project ''p2'') ?tbl1)) ''p1'') = 0"
    by code_simp+
  moreover have "pr_ID (demo_project ''p2'') = ''p2''"
    by code_simp
  ultimately show ?thesis
    unfolding Let_def name by (simp only:)
qed

end
