(* ===== verification/Cron_Jobs.thy ===== *)
theory Cron_Jobs
  imports Types
begin

text \<open>
  The cron scheduler (\<open>internal/cron/runner.go\<close>) and the \<open>crons\<close> table it reads
  (\<open>internal/store/store.go\<close>): matching of five-field expressions, and one pass of the scheduler over
  the stored jobs. The conversion of an instant to civil time and its RFC 3339 text are arguments
  (\<open>civil\<close>, \<open>rfc3339\<close>), and so is the database clock that \<open>TouchCron\<close> writes.
\<close>

subsection \<open>Matching\<close>

record civil_time =
  ct_Year :: int
  ct_Month :: nat
  ct_Day :: nat
  ct_Hour :: nat
  ct_Minute :: nat
  ct_Weekday :: nat

text \<open>Go's \<open>%\<close> on the values that reach it: the dividend is never negative here.\<close>

definition matchPart :: "string \<Rightarrow> string \<Rightarrow> int \<Rightarrow> int \<Rightarrow> bool" where
  "matchPart part val mn mx =
     (let (base, step) = (case Cut (CHR ''/'') part of
            None \<Rightarrow> (part, 1)
          | Some (b, rest) \<Rightarrow>
              (b, case Atoi rest of Some s \<Rightarrow> if s > 0 then s else 1 | None \<Rightarrow> 1));
          bounds =
            (if base = ''*'' then Some (mn, mx)
             else case Cut (CHR ''-'') base of
                    Some (x, y) \<Rightarrow>
                      (case (Atoi x, Atoi y) of (Some a, Some b) \<Rightarrow> Some (a, b) | _ \<Rightarrow> None)
                  | None \<Rightarrow> (case Atoi base of Some v \<Rightarrow> Some (v, v) | None \<Rightarrow> None))
      in case bounds of
           None \<Rightarrow> False
         | Some (lo, hi) \<Rightarrow>
             (case Atoi val of
                None \<Rightarrow> False
              | Some v \<Rightarrow> if v < lo \<or> v > hi then False else (v - lo) mod step = 0))"

definition fieldMatch :: "string \<Rightarrow> string \<Rightarrow> int \<Rightarrow> int \<Rightarrow> bool" where
  "fieldMatch field val mn mx =
     (if field = ''*'' then True
      else list_ex (\<lambda>part. matchPart part val mn mx) (Split (CHR '','') field))"

definition cron_dow :: "civil_time \<Rightarrow> string" where
  "cron_dow t = (if ct_Weekday t = 0 then ''7'' else string_of_nat (ct_Weekday t))"

definition Matches :: "string \<Rightarrow> civil_time \<Rightarrow> bool" where
  "Matches expr t =
     (let fields = Fields expr
      in if length fields \<noteq> 5 then False
         else fieldMatch (fields ! 0) (string_of_nat (ct_Minute t)) 0 59 \<and>
              fieldMatch (fields ! 1) (string_of_nat (ct_Hour t)) 0 23 \<and>
              fieldMatch (fields ! 2) (string_of_nat (ct_Day t)) 1 31 \<and>
              fieldMatch (fields ! 3) (string_of_nat (ct_Month t)) 1 12 \<and>
              fieldMatch (fields ! 4) (cron_dow t) 0 7)"

subsection \<open>The table\<close>

record Cron =
  cr_ID :: string
  cr_ProjectID :: string
  cr_Name :: string
  cr_Schedule :: string
  cr_JobImage :: string
  cr_Active :: bool
  cr_LastRun :: "time option"
  cr_CreatedAt :: time

text \<open>
  The rows in the order of \<open>created_at\<close>. An empty project id is passed as NULL, which the \<open>NOT NULL\<close>
  column rejects on insert and on update, so \<open>PutCron\<close> logs the error and leaves the table alone. The
  creation time is not read back.
\<close>

type_synonym cron_table = "Cron list"

fun upsert_cron :: "Cron \<Rightarrow> cron_table \<Rightarrow> cron_table" where
  "upsert_cron c [] = [c\<lparr>cr_LastRun := None, cr_CreatedAt := 0\<rparr>]"
| "upsert_cron c (r # rs) =
     (if cr_ID r = cr_ID c
      then r\<lparr>cr_Name := cr_Name c, cr_Schedule := cr_Schedule c, cr_JobImage := cr_JobImage c,
             cr_Active := cr_Active c\<rparr> # rs
      else r # upsert_cron c rs)"

definition PutCron :: "Cron \<Rightarrow> cron_table \<Rightarrow> cron_table" where
  "PutCron c tbl = (if cr_ProjectID c = [] then tbl else upsert_cron c tbl)"

definition ListAllCrons :: "cron_table \<Rightarrow> Cron list" where
  "ListAllCrons tbl = filter (\<lambda>c. cr_ProjectID c \<noteq> []) tbl"

definition ListCrons :: "cron_table \<Rightarrow> string \<Rightarrow> Cron list" where
  "ListCrons tbl projectID = filter (\<lambda>c. cr_ProjectID c \<noteq> [] \<and> cr_ProjectID c = projectID) tbl"

definition GetCron :: "cron_table \<Rightarrow> string \<Rightarrow> Cron option" where
  "GetCron tbl i = find (\<lambda>c. cr_ID c = i \<and> cr_ProjectID c \<noteq> []) tbl"

definition DeleteCron :: "string \<Rightarrow> cron_table \<Rightarrow> cron_table \<times> bool" where
  "DeleteCron i tbl =
     (let tbl' = filter (\<lambda>c. cr_ID c \<noteq> i) tbl in (tbl', length tbl' < length tbl))"

definition TouchCron :: "time \<Rightarrow> string \<Rightarrow> cron_table \<Rightarrow> cron_table" where
  "TouchCron dbnow i tbl = map (\<lambda>c. if cr_ID c = i then c\<lparr>cr_LastRun := Some dbnow\<rparr> else c) tbl"

subsection \<open>One pass of the scheduler\<close>

record cron_state =
  cs_crons :: cron_table
  cs_daemon :: "string list"
  cs_puts :: "VM list"
  cs_boots :: "VM list"

text \<open>
  \<open>cs_puts\<close> are the VMs handed to \<open>PutVM\<close> and \<open>cs_boots\<close> those handed to the booter; whether the
  database keeps such a VM is the matter of the \<open>replicas\<close> table.
\<close>

text \<open>\<open>unix\<close> is the second of the Unix epoch; \<open>hasBooter\<close> says whether a booter is attached.\<close>

definition unix :: "time \<Rightarrow> int" where
  "unix t = t div 1000000000"

definition job_vm :: "time \<Rightarrow> Cron \<Rightarrow> VM" where
  "job_vm now c = zero_VM\<lparr>vm_ID := ''cron-'' @ cr_ID c @ ''-'' @ Itoa (unix now), vm_Name := cr_Name c @ ''-job'',
     vm_ProjectID := cr_ProjectID c, vm_ServiceName := ''cron'', vm_State := StatePending,
     vm_HealthStatus := HealthChecking, vm_Image := cr_JobImage c, vm_ReplicaIndex := -1, vm_CreatedAt := now\<rparr>"

definition fire :: "(time \<Rightarrow> string) \<Rightarrow> bool \<Rightarrow> time \<Rightarrow> Cron \<Rightarrow> cron_state \<Rightarrow> cron_state" where
  "fire rfc3339 hasBooter now c st =
     (let st1 = st\<lparr>cs_crons := TouchCron now (cr_ID c) (cs_crons st)\<rparr>;
          st2 = st1\<lparr>cs_daemon := cs_daemon st1 @
                  [''cron '' @ cr_Name c @ '' triggered job '' @ cr_JobImage c @ '' at '' @ rfc3339 now]\<rparr>
      in if \<not> hasBooter then st2
         else st2\<lparr>cs_puts := cs_puts st2 @ [job_vm now c], cs_boots := cs_boots st2 @ [job_vm now c]\<rparr>)"

definition same_minute :: "civil_time \<Rightarrow> civil_time \<Rightarrow> bool" where
  "same_minute a b = (ct_Year a = ct_Year b \<and> ct_Month a = ct_Month b \<and> ct_Day a = ct_Day b \<and>
     ct_Hour a = ct_Hour b \<and> ct_Minute a = ct_Minute b)"

definition due :: "(time \<Rightarrow> civil_time) \<Rightarrow> time \<Rightarrow> Cron \<Rightarrow> bool" where
  "due civil now c =
     (if \<not> cr_Active c \<or> cr_Schedule c = [] then False
      else if \<not> Matches (cr_Schedule c) (civil now) then False
      else case cr_LastRun c of
             Some l \<Rightarrow> \<not> same_minute (civil l) (civil now)
           | None \<Rightarrow> True)"

fun fire_all :: "(time \<Rightarrow> civil_time) \<Rightarrow> (time \<Rightarrow> string) \<Rightarrow> bool \<Rightarrow> time \<Rightarrow> Cron list \<Rightarrow> cron_state \<Rightarrow> cron_state" where
  "fire_all civil rfc3339 hasBooter now [] st = st"
| "fire_all civil rfc3339 hasBooter now (c # cs) st =
     fire_all civil rfc3339 hasBooter now cs
       (if due civil now c then fire rfc3339 hasBooter now c st else st)"

definition fireDue :: "(time \<Rightarrow> civil_time) \<Rightarrow> (time \<Rightarrow> string) \<Rightarrow> bool \<Rightarrow> time \<Rightarrow> cron_state \<Rightarrow> cron_state" where
  "fireDue civil rfc3339 hasBooter now st =
     fire_all civil rfc3339 hasBooter now (ListAllCrons (cs_crons st)) st"

definition NewRunner_poll :: "int \<Rightarrow> int" where
  "NewRunner_poll poll = (if poll \<le> 0 then 30 * 1000000000 else poll)"

subsection \<open>Reference semantics of cron expressions\<close>

text \<open>
  The abstract syntax of a field: a list of parts, each a wildcard, a range or a value with an
  optional step; \<open>part_text\<close> prints it and \<open>part_holds\<close> says what it means.
\<close>

datatype cron_base = Star | Range nat nat | Value nat

type_synonym cron_part = "cron_base \<times> nat option"

fun base_text :: "cron_base \<Rightarrow> string" where
  "base_text Star = ''*''"
| "base_text (Range a b) = string_of_nat a @ ''-'' @ string_of_nat b"
| "base_text (Value a) = string_of_nat a"

fun part_text :: "cron_part \<Rightarrow> string" where
  "part_text (b, None) = base_text b"
| "part_text (b, Some s) = base_text b @ ''/'' @ string_of_nat s"

definition field_text :: "cron_part list \<Rightarrow> string" where
  "field_text ps = Join '','' (map part_text ps)"

fun base_range :: "nat \<Rightarrow> nat \<Rightarrow> cron_base \<Rightarrow> nat \<times> nat" where
  "base_range mn mx Star = (mn, mx)"
| "base_range mn mx (Range a b) = (a, b)"
| "base_range mn mx (Value a) = (a, a)"

definition part_holds :: "nat \<Rightarrow> nat \<Rightarrow> cron_part \<Rightarrow> nat \<Rightarrow> bool" where
  "part_holds mn mx p v \<longleftrightarrow>
     (let (lo, hi) = base_range mn mx (fst p); step = (case snd p of Some s \<Rightarrow> s | None \<Rightarrow> 1)
      in lo \<le> v \<and> v \<le> hi \<and> step dvd v - lo)"

definition field_holds :: "nat \<Rightarrow> nat \<Rightarrow> cron_part list \<Rightarrow> nat \<Rightarrow> bool" where
  "field_holds mn mx ps v \<longleftrightarrow> (\<exists>p \<in> set ps. part_holds mn mx p v)"

definition small_part :: "cron_part \<Rightarrow> bool" where
  "small_part p \<longleftrightarrow> (case fst p of Star \<Rightarrow> True | Range a b \<Rightarrow> a < 2 ^ 63 \<and> b < 2 ^ 63 | Value a \<Rightarrow> a < 2 ^ 63) \<and>
     (case snd p of None \<Rightarrow> True | Some s \<Rightarrow> 0 < s \<and> s < 2 ^ 63)"

subsection \<open>Lemmas: matching\<close>

lemma Atoi_nat: "n < 2 ^ 63 \<Longrightarrow> Atoi (string_of_nat n) = Some (int n)"
  by (rule Atoi_string_of_nat) (metis of_nat_less_iff of_nat_numeral of_nat_power)

lemma not_in_number:
  "CHR ''/'' \<notin> set (string_of_nat n)" "CHR ''-'' \<notin> set (string_of_nat n)"
  "CHR '','' \<notin> set (string_of_nat n)" "CHR ''*'' \<notin> set (string_of_nat n)"
  by (rule string_of_nat_no_char, simp add: is_digit_def)+

lemma number_not_star: "string_of_nat n \<noteq> ''*''" "string_of_nat n @ s \<noteq> ''*''"
  using not_in_number(4) [of n] by (cases "string_of_nat n"; auto)+

lemma slash_not_in_base: "CHR ''/'' \<notin> set (base_text b)"
  by (cases b) (auto simp: not_in_number)

lemma comma_not_in_part: "CHR '','' \<notin> set (part_text p)"
  by (cases p rule: part_text.cases; case_tac b) (auto simp: not_in_number)

definition base_bounds :: "string \<Rightarrow> int \<Rightarrow> int \<Rightarrow> (int \<times> int) option" where
  "base_bounds base mn mx =
     (if base = ''*'' then Some (mn, mx)
      else case Cut (CHR ''-'') base of
             Some (x, y) \<Rightarrow> (case (Atoi x, Atoi y) of (Some a, Some b) \<Rightarrow> Some (a, b) | _ \<Rightarrow> None)
           | None \<Rightarrow> (case Atoi base of Some v \<Rightarrow> Some (v, v) | None \<Rightarrow> None))"

lemma base_bounds_text:
  assumes "small_part (b, s)"
  shows "base_bounds (base_text b) (int mn) (int mx) =
    Some (int (fst (base_range mn mx b)), int (snd (base_range mn mx b)))"
proof (cases b)
  case Star
  then show ?thesis by (simp add: base_bounds_def)
next
  case (Range x y)
  then have "Atoi (string_of_nat x) = Some (int x)" "Atoi (string_of_nat y) = Some (int y)"
    using assms by (simp_all add: small_part_def Atoi_nat)
  with Range show ?thesis
    by (simp add: base_bounds_def number_not_star not_in_number)
next
  case (Value x)
  then have "Atoi (string_of_nat x) = Some (int x)"
    using assms by (simp add: small_part_def Atoi_nat)
  moreover have "Cut (CHR ''-'') (string_of_nat x) = None"
    by (simp add: Cut_None_iff not_in_number)
  ultimately show ?thesis
    using Value by (simp add: base_bounds_def number_not_star)
qed

lemma step_dvd: "lo \<le> v \<Longrightarrow> (int v - int lo) mod int s = 0 \<longleftrightarrow> s dvd v - lo"
proof -
  assume "lo \<le> v"
  then have "int v - int lo = int (v - lo)"
    by simp
  then show ?thesis
    by (metis dvd_eq_mod_eq_0 of_nat_dvd_iff)
qed

lemma matchPart_text:
  assumes "small_part p" "v < 2 ^ 63"
  shows "matchPart (part_text p) (string_of_nat v) (int mn) (int mx) \<longleftrightarrow> part_holds mn mx p v"
proof -
  obtain b s where p: "p = (b, s)"
    by (cases p)
  let ?step = "case s of Some n \<Rightarrow> n | None \<Rightarrow> 1"
  have cut: "(case Cut (CHR ''/'') (part_text p) of
        None \<Rightarrow> (part_text p, 1)
      | Some (b, rest) \<Rightarrow> (b, case Atoi rest of Some s \<Rightarrow> if s > 0 then s else 1 | None \<Rightarrow> 1)) =
      (base_text b, int ?step)"
  proof (cases s)
    case None
    then show ?thesis
      using p slash_not_in_base [of b] Cut_None_iff [of "CHR ''/''" "base_text b"] by simp
  next
    case (Some n)
    then have "Atoi (string_of_nat n) = Some (int n)" "0 < n"
      using assms(1) p by (simp_all add: small_part_def Atoi_nat)
    with Some p show ?thesis
      by (simp add: slash_not_in_base)
  qed
  have "matchPart (part_text p) (string_of_nat v) (int mn) (int mx) =
      (case base_bounds (base_text b) (int mn) (int mx) of
         None \<Rightarrow> False
       | Some (lo, hi) \<Rightarrow> (case Atoi (string_of_nat v) of None \<Rightarrow> False
           | Some w \<Rightarrow> if w < lo \<or> w > hi then False else (w - lo) mod int ?step = 0))"
    unfolding matchPart_def cut by (simp add: base_bounds_def)
  also have "\<dots> = (let (lo, hi) = base_range mn mx b in lo \<le> v \<and> v \<le> hi \<and> ?step dvd v - lo)"
    using base_bounds_text [of b s mn mx] assms p step_dvd [of "fst (base_range mn mx b)" v ?step]
    by (auto simp: Atoi_nat case_prod_beta Let_def)
  finally show ?thesis
    using p by (simp add: part_holds_def)
qed

lemma base_text_not_Nil: "base_text b \<noteq> []"
  by (cases b) simp_all

lemma part_text_not_Nil: "part_text p \<noteq> []"
  by (cases p rule: part_text.cases) (simp_all add: base_text_not_Nil)

lemma part_text_star: "part_text p = ''*'' \<longleftrightarrow> p = (Star, None)"
proof -
  have base: "base_text b = ''*'' \<longleftrightarrow> b = Star" for b
    by (cases b) (simp_all add: number_not_star)
  have "base_text b @ ''/'' @ s \<noteq> ''*''" for b s
    using base_text_not_Nil [of b] by (cases "base_text b") auto
  then show ?thesis
    using base by (cases p rule: part_text.cases) auto
qed

lemma number_chars: "c \<in> set (string_of_nat n) \<Longrightarrow> is_digit c"
  using string_of_nat_digits [of n] by (auto simp: list_all_iff)

lemma part_text_no_space: "c \<in> set (part_text p) \<Longrightarrow> \<not> is_space c"
proof -
  have digit: "is_digit c \<Longrightarrow> \<not> is_space c" for c
    by (auto simp: char_class_defs)
  have base: "c \<in> set (base_text b) \<Longrightarrow> \<not> is_space c" for c b
    by (cases b) (auto dest!: number_chars digit simp: is_space_def)
  show "c \<in> set (part_text p) \<Longrightarrow> \<not> is_space c"
    by (cases p rule: part_text.cases) (auto dest!: number_chars digit base simp: is_space_def)
qed

lemma set_Join: "set (Join sep xs) \<subseteq> set sep \<union> \<Union>(set ` set xs)"
  by (induction sep xs rule: Join.induct) auto

lemma field_text_ok:
  assumes "ps \<noteq> []"
  shows "field_text ps \<noteq> [] \<and> list_all (\<lambda>c. \<not> is_space c) (field_text ps)"
proof -
  obtain q qs where "ps = q # qs"
    using assms by (cases ps) auto
  then have "field_text ps \<noteq> []"
    by (simp add: field_text_def Join_not_Nil part_text_not_Nil)
  moreover have "\<not> is_space c" if "c \<in> set (field_text ps)" for c
    using that set_Join [of "'',''" "map part_text ps"] part_text_no_space
    by (auto simp: field_text_def is_space_def)
  ultimately show ?thesis
    by (simp add: list_all_iff)
qed

lemma Split_field_text: "ps \<noteq> [] \<Longrightarrow> Split (CHR '','') (field_text ps) = map part_text ps"
  unfolding field_text_def by (intro Split_Join) (simp_all add: list_all_iff comma_not_in_part)

lemma fieldMatch_text:
  assumes "ps \<noteq> []" "list_all small_part ps" "v < 2 ^ 63" "mn \<le> v" "v \<le> mx"
  shows "fieldMatch (field_text ps) (string_of_nat v) (int mn) (int mx) \<longleftrightarrow> field_holds mn mx ps v"
proof (cases "field_text ps = ''*''")
  case True
  then have "map part_text ps = [''*'']"
    using Split_field_text [OF assms(1)] Split_no_sep [of "CHR '',''" "''*''"] by simp
  then have "ps = [(Star, None)]"
    by (auto simp: part_text_star)
  with assms True show ?thesis
    by (simp add: fieldMatch_def field_holds_def part_holds_def)
next
  case False
  with assms show ?thesis
    by (auto simp: fieldMatch_def Split_field_text field_holds_def list_ex_iff list_all_iff matchPart_text)
qed

subsection \<open>Lemmas: the scheduler pass\<close>

lemma fire_boots:
  "cs_boots (fire f hb now c st) = cs_boots st @ (if hb then [job_vm now c] else [])"
  "cs_puts (fire f hb now c st) = cs_puts st @ (if hb then [job_vm now c] else [])"
  "cs_crons (fire f hb now c st) = TouchCron now (cr_ID c) (cs_crons st)"
  by (simp_all add: fire_def Let_def)

lemma fire_all_boots:
  "cs_boots (fire_all civil f hb now cs st) =
     cs_boots st @ (if hb then map (job_vm now) (filter (due civil now) cs) else [])"
  by (induction cs arbitrary: st) (auto simp: fire_boots)

lemma fire_all_none: "filter (due civil now) cs = [] \<Longrightarrow> fire_all civil f hb now cs st = st"
  by (induction cs arbitrary: st) (auto split: if_splits)

lemma fire_all_crons:
  "cs_crons (fire_all civil f hb now cs st) =
     map (\<lambda>c. if \<exists>d \<in> set cs. due civil now d \<and> cr_ID d = cr_ID c then c\<lparr>cr_LastRun := Some now\<rparr> else c)
       (cs_crons st)"
proof (induction cs arbitrary: st)
  case Nil
  show ?case by simp
next
  case (Cons d cs)
  show ?case
    by (auto simp: Cons.IH fire_boots TouchCron_def)
qed

lemma Matches_same_minute:
  assumes "same_minute a b" "ct_Weekday a = ct_Weekday b"
  shows "Matches expr a = Matches expr b"
  using assms by (simp add: Matches_def same_minute_def cron_dow_def Let_def)

lemma fireDue_settled:
  assumes "same_minute (civil now) (civil now')" "ct_Weekday (civil now) = ct_Weekday (civil now')"
  shows "filter (due civil now') (ListAllCrons (cs_crons (fireDue civil f hb now st))) = []"
proof -
  let ?cs = "ListAllCrons (cs_crons st)"
  have trans: "same_minute l (civil now) \<longleftrightarrow> same_minute l (civil now')" for l
    using assms(1) by (auto simp: same_minute_def)
  have "\<not> due civil now' c"
    if c: "c \<in> set (cs_crons (fireDue civil f hb now st))" "cr_ProjectID c \<noteq> []" for c
  proof -
    obtain c0 where c0: "c0 \<in> set (cs_crons st)"
      and eq: "c = (if \<exists>d \<in> set ?cs. due civil now d \<and> cr_ID d = cr_ID c0 then c0\<lparr>cr_LastRun := Some now\<rparr> else c0)"
      using c(1) unfolding fireDue_def fire_all_crons set_map by blast
    show ?thesis
    proof (cases "\<exists>d \<in> set ?cs. due civil now d \<and> cr_ID d = cr_ID c0")
      case True
      then have "cr_LastRun c = Some now"
        using eq by simp
      with assms(1) show ?thesis
        by (simp add: due_def)
    next
      case False
      then have "c = c0"
        using eq by (simp only: if_False)
      then have "c \<in> set ?cs"
        using c0 c(2) by (simp add: ListAllCrons_def)
      with False \<open>c = c0\<close> have "\<not> due civil now c"
        by auto
      then show ?thesis
        using Matches_same_minute [OF assms] trans by (auto simp: due_def split: option.splits if_splits)
    qed
  qed
  then show ?thesis
    by (auto simp: ListAllCrons_def filter_empty_conv)
qed

subsection \<open>Properties\<close>

definition valid_civil :: "civil_time \<Rightarrow> bool" where
  "valid_civil t \<longleftrightarrow> ct_Minute t \<le> 59 \<and> ct_Hour t \<le> 23 \<and> 1 \<le> ct_Day t \<and> ct_Day t \<le> 31 \<and>
     1 \<le> ct_Month t \<and> ct_Month t \<le> 12 \<and> ct_Weekday t \<le> 6"

definition good_field :: "cron_part list \<Rightarrow> bool" where
  "good_field ps \<longleftrightarrow> ps \<noteq> [] \<and> list_all small_part ps"

definition demo_civil :: "time \<Rightarrow> civil_time" where
  "demo_civil t = \<lparr>ct_Year = 2026, ct_Month = 11, ct_Day = 15, ct_Hour = 9,
     ct_Minute = nat (t div 60000000000) mod 60, ct_Weekday = 0\<rparr>"

definition demo_cron :: Cron where
  "demo_cron = \<lparr>cr_ID = ''c1'', cr_ProjectID = ''p1'', cr_Name = ''nightly'', cr_Schedule = ''*/5 * * * *'',
     cr_JobImage = ''busybox'', cr_Active = True, cr_LastRun = None, cr_CreatedAt = 0\<rparr>"

definition demo_state :: cron_state where
  "demo_state = \<lparr>cs_crons = [demo_cron], cs_daemon = [], cs_puts = [], cs_boots = []\<rparr>"

text \<open>
  C24: cron expressions mean what their syntax says. For every expression built from comma lists of
  wildcards, values and ranges with optional steps, \<open>Matches\<close> agrees with the reference semantics of
  the five fields at every time; Sunday counts as day 7 and never as day 0.
\<close>

theorem Matches_reference:
  assumes "list_all good_field [mi, ho, dm, mo, dw]" "valid_civil t"
  shows "Matches (Join '' '' (map field_text [mi, ho, dm, mo, dw])) t \<longleftrightarrow>
    field_holds 0 59 mi (ct_Minute t) \<and> field_holds 0 23 ho (ct_Hour t) \<and> field_holds 1 31 dm (ct_Day t) \<and>
    field_holds 1 12 mo (ct_Month t) \<and> field_holds 0 7 dw (if ct_Weekday t = 0 then 7 else ct_Weekday t)"
proof -
  have "Fields (Join '' '' (map field_text [mi, ho, dm, mo, dw])) = map field_text [mi, ho, dm, mo, dw]"
    using assms(1) field_text_ok by (intro Fields_Join) (auto simp: good_field_def)
  then have "Matches (Join '' '' (map field_text [mi, ho, dm, mo, dw])) t \<longleftrightarrow>
      fieldMatch (field_text mi) (string_of_nat (ct_Minute t)) 0 59 \<and>
      fieldMatch (field_text ho) (string_of_nat (ct_Hour t)) 0 23 \<and>
      fieldMatch (field_text dm) (string_of_nat (ct_Day t)) 1 31 \<and>
      fieldMatch (field_text mo) (string_of_nat (ct_Month t)) 1 12 \<and>
      fieldMatch (field_text dw) (cron_dow t) 0 7"
    unfolding Matches_def Let_def by (simp add: numeral_eq_Suc)
  moreover have "cron_dow t = string_of_nat (if ct_Weekday t = 0 then 7 else ct_Weekday t)"
  proof -
    have "string_of_nat 7 = ''7''"
      by code_simp
    then show ?thesis by (simp add: cron_dow_def)
  qed
  ultimately show ?thesis
    using assms fieldMatch_text [of mi "ct_Minute t" 0 59] fieldMatch_text [of ho "ct_Hour t" 0 23]
      fieldMatch_text [of dm "ct_Day t" 1 31] fieldMatch_text [of mo "ct_Month t" 1 12]
      fieldMatch_text [of dw "if ct_Weekday t = 0 then 7 else ct_Weekday t" 0 7]
    by (simp add: good_field_def valid_civil_def)
qed

theorem Matches_reference_witness:
  "\<not> Matches (Join '' '' (map field_text [[(Star, Some 5)], [(Range 8 18, None)], [(Star, None)], [(Star, None)], [(Value 0, None)]]))
       (demo_civil 0) \<and>
   Matches (Join '' '' (map field_text [[(Star, Some 5)], [(Range 8 18, None)], [(Star, None)], [(Star, None)], [(Value 7, None)]]))
       (demo_civil 0)"
proof -
  have "valid_civil (demo_civil 0)"
    by (simp add: valid_civil_def demo_civil_def)
  then show ?thesis
    using Matches_reference [of "[(Star, Some 5)]" "[(Range 8 18, None)]" "[(Star, None)]" "[(Star, None)]" "[(Value 0, None)]"]
      Matches_reference [of "[(Star, Some 5)]" "[(Range 8 18, None)]" "[(Star, None)]" "[(Star, None)]" "[(Value 7, None)]"]
    by (simp add: good_field_def small_part_def field_holds_def part_holds_def demo_civil_def)
qed



end
