(* ===== verification/Network.thy ===== *)
theory Network
  imports Netip Types
begin

text \<open>
  Address allocation: \<open>internal/netmgr/netmgr.go\<close> (project subnets, replica addresses, MAC addresses,
  TAP devices) and \<open>internal/runtime/network.go\<close> (the hash-based allocator of the Firecracker
  runtime). Host commands are run by an argument \<open>run\<close> that says whether a command line succeeds; the
  model returns the commands in the order they were issued.
\<close>

subsection \<open>Hashes, hardware addresses and printing from the standard library\<close>

definition fnv64a :: "string \<Rightarrow> 64 word" where
  "fnv64a s = foldl (\<lambda>h c. (h XOR of_nat (byte c)) * 1099511628211) 14695981039346656037 s"

definition fnv32a :: "string \<Rightarrow> 32 word" where
  "fnv32a s = foldl (\<lambda>h c. (h XOR of_nat (byte c)) * 16777619) 2166136261 s"

definition hex2 :: "8 word \<Rightarrow> string" where
  "hex2 b = hex_string (unat b div 16) @ hex_string (unat b mod 16)"

definition mac_String :: "8 word list \<Rightarrow> string" where
  "mac_String m = Join '':'' (map hex2 m)"

fun leading_ones :: "nat \<Rightarrow> 8 word \<Rightarrow> nat \<times> 8 word" where
  "leading_ones 0 v = (0, v)"
| "leading_ones (Suc n) v =
     (if v AND 0x80 \<noteq> 0 then (let (k, w) = leading_ones n (push_bit 1 v) in (Suc k, w)) else (0, v))"

fun simpleMaskLength :: "ip \<Rightarrow> nat option" where
  "simpleMaskLength [] = Some 0"
| "simpleMaskLength (v # vs) =
     (if v = 0xff then map_option (\<lambda>n. n + 8) (simpleMaskLength vs)
      else let (k, w) = leading_ones 8 v
           in if w \<noteq> 0 \<or> (\<exists>u \<in> set vs. u \<noteq> 0) then None else Some k)"

definition net_String :: "IPNet \<Rightarrow> string" where
  "net_String n = (case simpleMaskLength (net_Mask n) of
      Some l \<Rightarrow> IP_String (net_IP n) @ ''/'' @ string_of_nat l
    | None \<Rightarrow> IP_String (net_IP n) @ ''/'' @ concat (map hex2 (net_Mask n)))"

text \<open>
  One \<open>%d\<close> of \<open>fmt.Sscanf\<close>: blanks are skipped, a newline is an error, then an optional sign and digits
  of a 64-bit integer.
\<close>

definition scan_int :: "string \<Rightarrow> (int \<times> string) option" where
  "scan_int s =
     (let s1 = dropWhile (\<lambda>c. is_space c \<and> byte c \<noteq> 10) s;
          neg = (s1 \<noteq> [] \<and> hd s1 = CHR ''-'');
          s2 = (if s1 \<noteq> [] \<and> (hd s1 = CHR ''-'' \<or> hd s1 = CHR ''+'') then tl s1 else s1);
          ds = takeWhile is_digit s2;
          v = (if neg then - int (nat_of_digits ds) else int (nat_of_digits ds))
      in if ds = [] \<or> \<not> in_int64 v then None else Some (v, dropWhile is_digit s2))"

definition scan_dot :: "string \<Rightarrow> string option" where
  "scan_dot s = (if s \<noteq> [] \<and> hd s = CHR ''.'' then Some (tl s) else None)"

text \<open>\<open>fmt.Sscanf(s, "%d.%d.%d.", ...)\<close>\<close>

definition scan_subnet :: "string \<Rightarrow> (int \<times> int \<times> int) option" where
  "scan_subnet s =
     Option.bind (scan_int s) (\<lambda>(a, s). Option.bind (scan_dot s) (\<lambda>s.
     Option.bind (scan_int s) (\<lambda>(b, s). Option.bind (scan_dot s) (\<lambda>s.
     Option.bind (scan_int s) (\<lambda>(c, s). Option.bind (scan_dot s) (\<lambda>_. Some (a, b, c)))))))"

subsection \<open>Project subnets\<close>

datatype net_error =
    Exhausted | BadSubnet string | NotIPv4 | IndexOutOfRange int | OctetOutOfRange int
  | NotLinux | CreateTAP string | AssignGateway string string | TAPUp string

record NetManager =
  nextSubnet :: int

definition NewNetManager :: NetManager where
  "NewNetManager = \<lparr>nextSubnet = 0\<rparr>"

definition AllocateSubnet :: "NetManager \<Rightarrow> (net_error, IPNet) result \<times> NetManager" where
  "AllocateSubnet n =
     (if nextSubnet n > 255 then (Inl Exhausted, n)
      else
        let sub = ''10.42.'' @ Itoa (nextSubnet n) @ ''.0/24'';
            n' = n\<lparr>nextSubnet := wrap64 (nextSubnet n + 1)\<rparr>
        in case ParseCIDR sub of
             None \<Rightarrow> (Inl (BadSubnet sub), n')
           | Some ipnet \<Rightarrow> (Inr ipnet, n'))"

definition AllocateProjectSubnet :: "NetManager \<Rightarrow> string \<times> NetManager" where
  "AllocateProjectSubnet n = (case AllocateSubnet n of
      (Inl e, n') \<Rightarrow> (''10.42.0.0/24'', n')
    | (Inr ipn, n') \<Rightarrow> (net_String ipn, n'))"

definition AllocateIP :: "IPNet \<Rightarrow> int \<Rightarrow> (net_error, ip) result" where
  "AllocateIP subnet replicaIndex = (case To4 (net_IP subnet) of
      None \<Rightarrow> Inl NotIPv4
    | Some ip \<Rightarrow>
        if replicaIndex < 0 \<or> replicaIndex > 245 then Inl (IndexOutOfRange replicaIndex)
        else Inr (ip[3 := of_int (10 + replicaIndex)]))"

definition GatewayIP :: "IPNet \<Rightarrow> ip option" where
  "GatewayIP subnet = (case To4 (net_IP subnet) of None \<Rightarrow> None | Some ip \<Rightarrow> Some (ip[3 := 1]))"

definition DeterministicMAC :: "string \<Rightarrow> 8 word list" where
  "DeterministicMAC vmID =
     (let sum = fnv64a vmID
      in [0x06, ucast (drop_bit 40 sum), ucast (drop_bit 32 sum), ucast (drop_bit 24 sum),
          ucast (drop_bit 16 sum), ucast (drop_bit 8 sum)])"

subsection \<open>VM networks\<close>

record BootSpec =
  bs_MacAddress :: string
  bs_HostDevName :: string
  bs_CIDR :: string
  bs_GatewayAddr :: string

definition bootShortID :: "string \<Rightarrow> string" where
  "bootShortID vmID = (if length vmID > 8 then take 8 vmID else vmID)"

definition ip_cmd :: "string list \<Rightarrow> string list" where
  "ip_cmd args = ''ip'' # args"

definition tap_commands :: "string \<Rightarrow> string \<Rightarrow> string list \<times> string list \<times> string list \<times> string list" where
  "tap_commands tapName gw =
     (ip_cmd [''link'', ''del'', tapName],
      ip_cmd [''tuntap'', ''add'', ''dev'', tapName, ''mode'', ''tap''],
      ip_cmd [''addr'', ''replace'', gw @ ''/24'', ''dev'', tapName],
      ip_cmd [''link'', ''set'', ''dev'', tapName, ''up''])"

definition AllocateVMNetwork ::
    "bool \<Rightarrow> (string list \<Rightarrow> bool) \<Rightarrow> string \<Rightarrow> int \<Rightarrow> string \<Rightarrow>
     (net_error, BootSpec) result \<times> string list list" where
  "AllocateVMNetwork linux run subnetCIDR replicaIndex vmID =
     (if \<not> linux then (Inl NotLinux, [])
      else case scan_subnet subnetCIDR of
        None \<Rightarrow> (Inl (BadSubnet subnetCIDR), [])
      | Some (a, b, c) \<Rightarrow>
          if replicaIndex < 0 \<or> replicaIndex > 245 then (Inl (IndexOutOfRange replicaIndex), [])
          else
            let pre = Itoa a @ ''.'' @ Itoa b @ ''.'' @ Itoa c @ ''.'';
                ip = pre @ Itoa (10 + replicaIndex);
                gw = pre @ ''1'';
                mac = mac_String (DeterministicMAC vmID);
                tapName = ''tap-'' @ bootShortID vmID;
                (del, add, addr, up) = tap_commands tapName gw
            in if \<not> run add then (Inl (CreateTAP tapName), [del, add])
               else if \<not> run addr then (Inl (AssignGateway gw tapName), [del, add, addr, del])
               else if \<not> run up then (Inl (TAPUp tapName), [del, add, addr, up, del])
               else (Inr \<lparr>bs_MacAddress = mac, bs_HostDevName = tapName, bs_CIDR = ip @ ''/24'',
                           bs_GatewayAddr = gw\<rparr>, [del, add, addr, up]))"

definition netmgr_AllocateVMNetwork30 :: "int \<Rightarrow> int \<Rightarrow> string \<Rightarrow> (net_error, BootSpec) result" where
  "netmgr_AllocateVMNetwork30 baseThirdOctet replicaIndex vmID =
     (if baseThirdOctet < 0 \<or> baseThirdOctet > 252 then Inl (OctetOutOfRange baseThirdOctet)
      else if replicaIndex < 0 \<or> replicaIndex > 63 then Inl (IndexOutOfRange replicaIndex)
      else
        let base4 = replicaIndex * 4;
            gw = ''10.42.'' @ Itoa baseThirdOctet @ ''.'' @ Itoa (base4 + 1);
            guest = ''10.42.'' @ Itoa baseThirdOctet @ ''.'' @ Itoa (base4 + 2)
        in Inr \<lparr>bs_MacAddress = mac_String (DeterministicMAC vmID), bs_HostDevName = ''tap-'' @ bootShortID vmID,
                bs_CIDR = guest @ ''/30'', bs_GatewayAddr = gw\<rparr>)"

subsection \<open>The runtime's allocator\<close>

record ReplicaNetworkSpec =
  rn_Subnet :: string
  rn_IPAddress :: string
  rn_Gateway :: string
  rn_MAC :: string
  rn_Bridge :: string
  rn_TapName :: string

record NetworkManager =
  nm_bridge :: string
  nm_base :: string

definition NewNetworkManager :: "string \<Rightarrow> string \<Rightarrow> NetworkManager" where
  "NewNetworkManager bridge base =
     \<lparr>nm_bridge = (if bridge = [] then ''porter-br0'' else bridge), nm_base = (if base = [] then ''10.42'' else base)\<rparr>"

definition replica_hash :: "string \<Rightarrow> int \<Rightarrow> 32 word" where
  "replica_hash projectID replicaIndex = fnv32a (projectID @ '':'' @ Itoa replicaIndex)"

definition runtime_AllocateVMNetwork ::
    "NetworkManager \<Rightarrow> string \<Rightarrow> int \<Rightarrow> string \<Rightarrow> (net_error, ReplicaNetworkSpec) result" where
  "runtime_AllocateVMNetwork m projectID replicaIndex vmID =
     (if replicaIndex < 0 \<or> replicaIndex > 245 then Inl (IndexOutOfRange replicaIndex)
      else
        let o' = replica_hash projectID replicaIndex;
            third = int (unat (o' mod 253));
            guest = nm_base m @ ''.'' @ Itoa third @ ''.'' @ Itoa (10 + replicaIndex);
            gateway = nm_base m @ ''.'' @ Itoa third @ ''.'' @ Itoa 1
        in Inr \<lparr>rn_Subnet = nm_base m @ ''.'' @ Itoa third @ ''.0.0/24'', rn_IPAddress = guest,
                rn_Gateway = gateway, rn_MAC = mac_String (DeterministicMAC vmID), rn_Bridge = nm_bridge m,
                rn_TapName = ''tap'' @ hex_string (unat o')\<rparr>)"

definition runtime_AllocateVMNetwork30 ::
    "NetworkManager \<Rightarrow> string \<Rightarrow> int \<Rightarrow> string \<Rightarrow> (net_error, ReplicaNetworkSpec) result" where
  "runtime_AllocateVMNetwork30 m projectID replicaIndex vmID =
     (if replicaIndex < 0 \<or> replicaIndex > 63 then Inl (IndexOutOfRange replicaIndex)
      else
        let o' = replica_hash projectID replicaIndex;
            third = int (unat (o' mod 253));
            base4 = replicaIndex * 4;
            gateway = nm_base m @ ''.'' @ Itoa third @ ''.'' @ Itoa (base4 + 1);
            guest = nm_base m @ ''.'' @ Itoa third @ ''.'' @ Itoa (base4 + 2)
        in Inr \<lparr>rn_Subnet = nm_base m @ ''.'' @ Itoa third @ ''.'' @ Itoa base4 @ ''/30'', rn_IPAddress = guest,
                rn_Gateway = gateway, rn_MAC = mac_String (DeterministicMAC vmID), rn_Bridge = nm_bridge m,
                rn_TapName = ''tap'' @ hex_string (unat o')\<rparr>)"

subsection \<open>Lemmas: parsing of printed networks\<close>

lemma decimal_texts:
  "string_of_nat 10 = ''10''" "string_of_nat 42 = ''42''" "string_of_nat 0 = ''0''"
  "string_of_nat 24 = ''24''" "string_of_nat 30 = ''30''" "string_of_nat 1 = ''1''"
  by code_simp+

lemma ParseAddr_v4_string:
  assumes "length a = 4"
  shows "ParseAddr (v4_string a) = Some a"
proof -
  obtain x where x: "ParseAddr (v4_string a) = Some x" "As16 x = v4_prefix @ a"
    using ParseIP_v4_string [OF assms] by (auto simp: ParseIP_def)
  have "addr_family (v4_string a) = Some (CHR ''.'')"
  proof -
    obtain b bs where a: "a = b # bs" "bs \<noteq> []"
      using assms by (cases a; cases "tl a") auto
    then have "v4_string a = string_of_nat (unat b) @ CHR ''.'' # v4_string bs"
      by (cases bs) (simp_all add: v4_string_def)
    then show ?thesis
      using string_of_nat_digits by (simp add: addr_family_digits)
  qed
  then show ?thesis
    using assms by (simp add: ParseAddr_def parse_v4_string)
qed

lemma slash_not_in_v4_string: "CHR ''/'' \<notin> set (v4_string a)"
proof -
  have "CHR ''/'' \<notin> set (string_of_nat n)" for n
    by (rule string_of_nat_no_char) (simp add: is_digit_def)
  moreover have "set (Join ''.'' xs) \<subseteq> {CHR ''.''} \<union> \<Union>(set ` set xs)" for xs
    by (induction "''.''" xs rule: Join.induct) auto
  ultimately show ?thesis
    unfolding v4_string_def by fastforce
qed

lemma length_CIDRMask: "length (CIDRMask n 32) = 4"
  by (simp add: CIDRMask_def)

lemma ParseCIDR_v4_string:
  assumes "length a = 4" "n \<le> 32"
  shows "ParseCIDR (v4_string a @ ''/'' @ string_of_nat n) =
    Some \<lparr>net_IP = and_bytes a (CIDRMask n 32), net_Mask = CIDRMask n 32\<rparr>"
proof -
  have "dtoi (string_of_nat n) = Some n"
    using assms(2) string_of_nat_digits [of n] by (simp add: dtoi_def)
  moreover have "Mask (v4_prefix @ a) (CIDRMask n 32) = Some (and_bytes a (CIDRMask n 32))"
    using assms(1) by (simp add: Mask_def length_CIDRMask v4_prefix_def)
  ultimately show ?thesis
    using assms slash_not_in_v4_string [of a]
    by (simp add: ParseCIDR_def ParseAddr_v4_string As16_def Let_def)
qed

lemma unat_of_nat8: "n \<le> 255 \<Longrightarrow> unat (of_nat n :: 8 word) = n"
  by (simp add: unat_of_nat)

lemma v4_text:
  assumes "i \<le> 255" "j \<le> 255"
  shows "v4_string [10, 42, of_nat i, of_nat j] = ''10.42.'' @ string_of_nat i @ ''.'' @ string_of_nat j"
proof -
  have "unat (10 :: 8 word) = 10" "unat (42 :: 8 word) = 42"
    by simp_all
  then show ?thesis
    using assms by (simp add: v4_string_def unat_of_nat8 decimal_texts)
qed

lemma masks: "CIDRMask 24 32 = [255, 255, 255, 0]" "CIDRMask 30 32 = [255, 255, 255, 252]"
  by code_simp+

lemma and_255: "x AND 255 = (x :: 8 word)"
proof -
  have "(255 :: 8 word) = - 1"
    by simp
  then show ?thesis
    by (simp only: and.right_neutral)
qed

lemma Itoa_nat: "Itoa (int n) = string_of_nat n"
  by (simp add: Itoa_def)

definition subnet_net :: "nat \<Rightarrow> IPNet" where
  "subnet_net i = \<lparr>net_IP = [10, 42, of_nat i, 0], net_Mask = [255, 255, 255, 0]\<rparr>"

lemma ParseCIDR_subnet:
  assumes "i \<le> 255"
  shows "ParseCIDR (''10.42.'' @ string_of_nat i @ ''.0/24'') = Some (subnet_net i)"
proof -
  have "''10.42.'' @ string_of_nat i @ ''.0/24'' = v4_string [10, 42, of_nat i, of_nat 0] @ ''/'' @ string_of_nat 24"
    using v4_text [OF assms, of 0] by (simp add: decimal_texts)
  then show ?thesis
    using ParseCIDR_v4_string [of "[10, 42, of_nat i, of_nat 0]" 24]
    by (simp add: masks subnet_net_def and_bytes_def and_255)
qed

lemma net_String_subnet:
  assumes "i \<le> 255"
  shows "net_String (subnet_net i) = ''10.42.'' @ string_of_nat i @ ''.0/24''"
proof -
  have "simpleMaskLength [255, 255, 255, 0] = Some 24"
    by code_simp
  moreover have "IP_String [10, 42, of_nat i, 0] = ''10.42.'' @ string_of_nat i @ ''.0''"
    using v4_text [OF assms, of 0] by (simp add: IP_String_def To4_def decimal_texts)
  ultimately show ?thesis
    by (simp add: net_String_def subnet_net_def decimal_texts)
qed

lemma AllocateSubnet_ok:
  "i \<le> 255 \<Longrightarrow> AllocateSubnet \<lparr>nextSubnet = int i\<rparr> = (Inr (subnet_net i), \<lparr>nextSubnet = int i + 1\<rparr>)"
  by (simp add: AllocateSubnet_def Itoa_nat ParseCIDR_subnet [simplified] in_int64_def Let_def)

lemma AllocateIP_subnet:
  assumes "i \<le> 255" "0 \<le> r" "r \<le> 245"
  shows "AllocateIP (subnet_net i) r = Inr [10, 42, of_nat i, of_int (10 + r)]"
  using assms by (simp add: AllocateIP_def subnet_net_def To4_def numeral_eq_Suc)

text \<open>The results of \<open>k\<close> successive calls of \<open>AllocateProjectSubnet\<close>.\<close>

fun project_subnets :: "nat \<Rightarrow> NetManager \<Rightarrow> string list" where
  "project_subnets 0 n = []"
| "project_subnets (Suc k) n =
     (case AllocateProjectSubnet n of (s, n') \<Rightarrow> s # project_subnets k n')"

lemma project_subnets_exhausted:
  "i > 255 \<Longrightarrow> project_subnets k \<lparr>nextSubnet = i\<rparr> = replicate k ''10.42.0.0/24''"
  by (induction k) (simp_all add: AllocateProjectSubnet_def AllocateSubnet_def)

lemma project_subnets_from:
  "i \<le> 256 \<Longrightarrow> project_subnets k \<lparr>nextSubnet = int i\<rparr> =
     map (\<lambda>j. ''10.42.'' @ string_of_nat j @ ''.0/24'') [i..<min (i + k) 256] @ replicate (i + k - 256) ''10.42.0.0/24''"
proof (induction k arbitrary: i)
  case 0
  then show ?case by simp
next
  case (Suc k)
  show ?case
  proof (cases "i = 256")
    case True
    then show ?thesis
      using project_subnets_exhausted [of 256 "Suc k"] by simp
  next
    case False
    then have i: "i \<le> 255"
      using Suc.prems by simp
    let ?f = "\<lambda>j. ''10.42.'' @ string_of_nat j @ ''.0/24''"
    have "AllocateProjectSubnet \<lparr>nextSubnet = int i\<rparr> = (?f i, \<lparr>nextSubnet = int (Suc i)\<rparr>)"
      using i by (simp add: AllocateProjectSubnet_def AllocateSubnet_ok net_String_subnet)
    then have "project_subnets (Suc k) \<lparr>nextSubnet = int i\<rparr> = ?f i # project_subnets k \<lparr>nextSubnet = int (Suc i)\<rparr>"
      by (simp only: project_subnets.simps prod.case)
    also have "\<dots> = ?f i # map ?f [Suc i..<min (Suc i + k) 256] @ replicate (Suc i + k - 256) ''10.42.0.0/24''"
      using i by (subst Suc.IH) simp_all
    also have "\<dots> = map ?f (i # [Suc i..<min (i + Suc k) 256]) @ replicate (i + Suc k - 256) ''10.42.0.0/24''"
      by simp
    also have "i # [Suc i..<min (i + Suc k) 256] = [i..<min (i + Suc k) 256]"
      using i by (subst upt_conv_Cons) simp_all
    finally show ?thesis .
  qed
qed

lemma subnet_text_inject:
  "''10.42.'' @ string_of_nat i @ ''.0/24'' = ''10.42.'' @ string_of_nat j @ ''.0/24'' \<longleftrightarrow> i = j"
  by simp

subsection \<open>Lemmas: addresses\<close>

lemma of_nat_octet_inject: "i \<le> 255 \<Longrightarrow> j \<le> 255 \<Longrightarrow> (of_nat i :: 8 word) = of_nat j \<longleftrightarrow> i = j"
  by (metis unat_of_nat8)

lemma of_int_octet: "0 \<le> r \<Longrightarrow> (of_int (10 + r) :: 8 word) = of_nat (nat (10 + r))"
  by (rule of_nat_nat [symmetric]) simp

lemma of_int_octet_inject:
  assumes "0 \<le> r" "r \<le> 245" "0 \<le> s" "s \<le> 245"
  shows "(of_int (10 + r) :: 8 word) = of_int (10 + s) \<longleftrightarrow> r = s"
  using assms of_nat_octet_inject [of "nat (10 + r)" "nat (10 + s)"]
  by (simp only: of_int_octet) (simp add: eq_nat_nat_iff)

lemma octet_not_gateway:
  assumes "0 \<le> r" "r \<le> 245"
  shows "(of_int (10 + r) :: 8 word) \<noteq> 1"
  using assms of_nat_octet_inject [of "nat (10 + r)" 1]
  by (simp only: of_int_octet) simp

lemma block30:
  assumes "r < 64" "k < 4"
  shows "(of_nat (4 * r + k) :: 8 word) AND 252 = of_nat (4 * r)"
proof -
  have "list_all (\<lambda>r. list_all (\<lambda>k. (of_nat (4 * r + k) :: 8 word) AND 252 = of_nat (4 * r)) [0..<4]) [0..<64]"
    by code_simp
  then show ?thesis
    using assms by (simp add: list_all_iff)
qed

lemma hex_string_length: "n < 16 ^ k \<Longrightarrow> 0 < k \<Longrightarrow> length (hex_string n) \<le> k"
proof (induction k arbitrary: n)
  case 0
  then show ?case by simp
next
  case (Suc k)
  show ?case
  proof (cases "n < 16")
    case True
    then show ?thesis by (subst hex_string.simps) (simp add: Let_def)
  next
    case False
    then have "0 < k"
      using Suc.prems by (cases k) auto
    moreover have "n div 16 < 16 ^ k"
      using Suc.prems by (simp add: less_mult_imp_div_less mult.commute)
    ultimately have "length (hex_string (n div 16)) \<le> k"
      using Suc.IH by blast
    with False show ?thesis by (subst hex_string.simps) (simp add: Let_def)
  qed
qed

subsection \<open>Properties\<close>

text \<open>
  C26: project subnets are unique until the address space is used up. The first 256 calls of
  \<open>AllocateProjectSubnet\<close> on a new manager return the pairwise different networks 10.42.0.0/24 to
  10.42.255.0/24; every later call returns 10.42.0.0/24 again, the network of the first project.
\<close>

theorem project_subnets_unique:
  "project_subnets k NewNetManager =
     map (\<lambda>j. ''10.42.'' @ string_of_nat j @ ''.0/24'') [0..<min k 256] @ replicate (k - 256) ''10.42.0.0/24'' \<and>
   distinct (take 256 (project_subnets k NewNetManager))"
proof -
  have all: "project_subnets k NewNetManager =
      map (\<lambda>j. ''10.42.'' @ string_of_nat j @ ''.0/24'') [0..<min k 256] @ replicate (k - 256) ''10.42.0.0/24''"
    using project_subnets_from [of 0 k] by (simp add: NewNetManager_def)
  have "take 256 (project_subnets k NewNetManager) =
      map (\<lambda>j. ''10.42.'' @ string_of_nat j @ ''.0/24'') [0..<min k 256]"
    unfolding all by simp
  then show ?thesis
    using all by (simp add: distinct_map inj_on_def)
qed

text \<open>
  Allocated addresses never collide. The addresses of two replicas are equal only when they are the
  same replica of the same subnet, no replica gets the gateway address of any subnet, and every address
  lies inside its own subnet; the last admissible replica (245) gets the broadcast address.
\<close>

theorem AllocateIP_unique:
  assumes "i \<le> 255" "j \<le> 255" "AllocateIP (subnet_net i) r = Inr a" "AllocateIP (subnet_net j) s = Inr b"
  shows "AllocateSubnet \<lparr>nextSubnet = int i\<rparr> = (Inr (subnet_net i), \<lparr>nextSubnet = int i + 1\<rparr>) \<and>
    (a = b \<longleftrightarrow> i = j \<and> r = s) \<and> GatewayIP (subnet_net j) \<noteq> Some a \<and> net_Contains (subnet_net i) a \<and>
    (r = 245 \<longrightarrow> a = [10, 42, of_nat i, 255])"
proof -
  have rs: "0 \<le> r" "r \<le> 245" "0 \<le> s" "s \<le> 245"
    using assms(3,4) by (auto simp: AllocateIP_def subnet_net_def To4_def split: if_splits)
  then have ab: "a = [10, 42, of_nat i, of_int (10 + r)]" "b = [10, 42, of_nat j, of_int (10 + s)]"
    using assms AllocateIP_subnet by auto
  have "a = b \<longleftrightarrow> i = j \<and> r = s"
    using of_nat_octet_inject [OF assms(1,2)] of_int_octet_inject [OF rs] unfolding ab by blast
  moreover have "GatewayIP (subnet_net j) \<noteq> Some a"
    using octet_not_gateway [OF rs(1,2)]
    by (auto simp: ab GatewayIP_def subnet_net_def To4_def numeral_eq_Suc)
  moreover have "net_Contains (subnet_net i) a"
    by (simp add: ab net_Contains_def subnet_net_def to4_or_same_def To4_def and_bytes_def)
  ultimately show ?thesis
    using AllocateSubnet_ok [OF assms(1)] ab(1) by simp
qed

theorem AllocateIP_unique_witness:
  "GatewayIP (subnet_net 3) \<noteq> Some [10, 42, 3, 10] \<and> net_Contains (subnet_net 3) [10, 42, 3, 10]"
proof -
  have "AllocateIP (subnet_net 3) 0 = Inr [10, 42, 3, 10]"
    by code_simp
  from AllocateIP_unique [OF _ _ this this] show ?thesis by simp
qed

text \<open>
  Host networking does not leak TAP devices. \<open>AllocateVMNetwork\<close> issues its four commands in order
  and stops at the first one that fails; whenever a command after the creation of the device fails, the
  last command it issues deletes that device; and the device name fits the kernel's 15 characters. Two
  VM ids with the same first eight characters share one device, which the second allocation deletes.
\<close>

theorem AllocateVMNetwork_tap:
  assumes "AllocateVMNetwork linux run cidr r vmID = (res, cmds)" "cmds \<noteq> []"
    and "take 8 vmID' = take 8 vmID"
  shows "\<exists>gw. let tap = ''tap-'' @ take 8 vmID; (del, add, addr, up) = tap_commands tap gw in
    length tap \<le> 15 \<and> tap = ''tap-'' @ bootShortID vmID' \<and> hd cmds = del \<and>
    (case res of
       Inr spec \<Rightarrow> cmds = [del, add, addr, up] \<and> run add \<and> run addr \<and> run up \<and> bs_HostDevName spec = tap
     | Inl e \<Rightarrow> cmds = [del, add] \<and> \<not> run add \<or>
         run add \<and> last cmds = del \<and> (cmds = [del, add, addr, del] \<and> \<not> run addr \<or>
           cmds = [del, add, addr, up, del] \<and> run addr \<and> \<not> run up))"
proof -
  obtain a b c where sc: "scan_subnet cidr = Some (a, b, c)"
    using assms(1,2) by (auto simp: AllocateVMNetwork_def split: if_splits option.splits)
  let ?gw = "(Itoa a @ ''.'' @ Itoa b @ ''.'' @ Itoa c @ ''.'') @ ''1''"
  have short: "bootShortID v = take 8 v" for v
    by (simp add: bootShortID_def)
  show ?thesis
    using assms sc
    by (intro exI [of _ ?gw])
      (auto simp: AllocateVMNetwork_def Let_def tap_commands_def short split: if_splits)
qed

theorem AllocateVMNetwork_tap_witness:
  "\<exists>e cmds. AllocateVMNetwork True (\<lambda>c. c ! 1 \<noteq> ''addr'') ''10.42.3.0/24'' 0 ''cron-abc-1'' = (Inl e, cmds) \<and>
     last cmds = [''ip'', ''link'', ''del'', ''tap-cron-abc'']"
proof -
  let ?r = "AllocateVMNetwork True (\<lambda>c. c ! 1 \<noteq> ''addr'') ''10.42.3.0/24'' 0 ''cron-abc-1''"
  obtain e cmds where r: "?r = (Inl e, cmds)" "cmds \<noteq> []" "length cmds = 4"
  proof (cases ?r)
    case (Pair res cmds)
    have "isl (fst ?r)" "length (snd ?r) = 4" "snd ?r \<noteq> []"
      by code_simp+
    with Pair that show ?thesis
      by (cases res) auto
  qed
  from AllocateVMNetwork_tap [OF r(1,2), of "''cron-abc-2''"] r show ?thesis
    by (auto simp: Let_def tap_commands_def ip_cmd_def numeral_eq_Suc)
qed

text \<open>
  The /30 layout gives every VM its own block. For third octets up to 252 and replica indexes up to
  63 the allocator succeeds; the guest's network is the four-address block at four times the index, the
  gateway is the block's first and the guest its second host address, both lie in that block, and
  different replicas get different blocks.
\<close>

theorem AllocateVMNetwork30_blocks:
  assumes "t \<le> 252" "r < 64" "s < 64"
  shows "\<exists>spec net gw. netmgr_AllocateVMNetwork30 (int t) (int r) vmID = Inr spec \<and>
    ParseCIDR (bs_CIDR spec) = Some net \<and> ParseIP (bs_GatewayAddr spec) = Some gw \<and>
    net_IP net = [10, 42, of_nat t, of_nat (4 * r)] \<and> net_Mask net = [255, 255, 255, 252] \<and>
    gw = v4_prefix @ [10, 42, of_nat t, of_nat (4 * r + 1)] \<and> net_Contains net gw \<and>
    net_Contains net [10, 42, of_nat t, of_nat (4 * r + 2)] \<and>
    ((of_nat (4 * r) :: 8 word) = of_nat (4 * s) \<longleftrightarrow> r = s)"
proof -
  have nums: "int r * 4 + 2 = int (4 * r + 2)" "int r * 4 + 1 = int (4 * r + 1)"
    and le: "t \<le> 255" "4 * r + 2 \<le> 255" "4 * r + 1 \<le> 255"
    using assms by simp_all
  have guest: "''10.42.'' @ Itoa (int t) @ ''.'' @ Itoa (int r * 4 + 2) = v4_string [10, 42, of_nat t, of_nat (4 * r + 2)]"
    and gw: "''10.42.'' @ Itoa (int t) @ ''.'' @ Itoa (int r * 4 + 1) = v4_string [10, 42, of_nat t, of_nat (4 * r + 1)]"
    unfolding nums Itoa_nat v4_text [OF le(1,2)] v4_text [OF le(1,3)] by (rule refl)+
  define spec where "spec = \<lparr>bs_MacAddress = mac_String (DeterministicMAC vmID), bs_HostDevName = ''tap-'' @ bootShortID vmID,
    bs_CIDR = v4_string [10, 42, of_nat t, of_nat (4 * r + 2)] @ ''/30'',
    bs_GatewayAddr = v4_string [10, 42, of_nat t, of_nat (4 * r + 1)]\<rparr>"
  have "netmgr_AllocateVMNetwork30 (int t) (int r) vmID = Inr spec"
    using assms unfolding netmgr_AllocateVMNetwork30_def Let_def guest gw spec_def by simp
  moreover define net where "net = \<lparr>net_IP = [10, 42, of_nat t, of_nat (4 * r)], net_Mask = [255, 255, 255, 252 :: 8 word]\<rparr>"
  have block: "(of_nat (4 * r + k) :: 8 word) AND 252 = of_nat (4 * r)" if "k < 4" for k
    by (rule block30 [OF assms(2) that])
  have "ParseCIDR (bs_CIDR spec) = Some net"
    using ParseCIDR_v4_string [of "[10, 42, of_nat t, of_nat (4 * r + 2)]" 30] block [of 2]
    by (simp add: spec_def net_def masks and_bytes_def and_255 decimal_texts del: of_nat_add of_nat_mult)
  moreover have "ParseIP (bs_GatewayAddr spec) = Some (v4_prefix @ [10, 42, of_nat t, of_nat (4 * r + 1)])"
    unfolding spec_def using ParseIP_v4_string [of "[10, 42, of_nat t, of_nat (4 * r + 1)]"] by simp
  moreover have "net_Contains net (v4_prefix @ [10, 42, of_nat t, of_nat (4 * r + 1)])"
      "net_Contains net [10, 42, of_nat t, of_nat (4 * r + 2)]"
    using block [of 0] block [of 1] block [of 2] To4_v4 [of "[10, 42, of_nat t, of_nat (4 * r + 1)]"]
    by (simp_all add: net_Contains_def net_def to4_or_same_def To4_def [of "[_, _, _, _]"] and_bytes_def
        del: of_nat_add of_nat_mult)
  moreover have "(of_nat (4 * r) :: 8 word) = of_nat (4 * s) \<longleftrightarrow> r = s"
    using assms of_nat_octet_inject [of "4 * r" "4 * s"] by simp
  ultimately show ?thesis
    unfolding net_def by (intro exI [of _ spec] exI conjI) simp_all
qed

theorem AllocateVMNetwork30_blocks_witness:
  "\<exists>spec net. netmgr_AllocateVMNetwork30 (int 7) (int 5) ''vm-1'' = Inr spec \<and>
     ParseCIDR (bs_CIDR spec) = Some net \<and> net_IP net = [10, 42, 7, 20]"
  using AllocateVMNetwork30_blocks [of 7 5 6 "''vm-1''"] by auto

text \<open>
  The runtime's allocator returns a subnet that is not a network. For the default base every
  successful \<open>AllocateVMNetwork\<close> of the runtime reports a subnet text with five octets, which
  \<open>net.ParseCIDR\<close> rejects; its TAP name always fits the kernel's limit.
\<close>

theorem runtime_subnet_malformed:
  assumes "runtime_AllocateVMNetwork (NewNetworkManager bridge []) projectID r vmID = Inr spec"
  shows "ParseCIDR (rn_Subnet spec) = None \<and> length (rn_TapName spec) \<le> 15"
proof -
  define t where "t = unat (replica_hash projectID r mod 253)"
  have spec: "rn_Subnet spec = ''10.42.'' @ string_of_nat t @ ''.0.0/24''"
      "rn_TapName spec = ''tap'' @ hex_string (unat (replica_hash projectID r))"
    using assms by (auto simp: runtime_AllocateVMNetwork_def NewNetworkManager_def Let_def t_def Itoa_def
        unat_mod_distrib split: if_splits)
  have slash: "CHR ''/'' \<notin> set (string_of_nat t)"
    by (rule string_of_nat_no_char) (simp add: is_digit_def)
  have "Cut (CHR ''/'') ((''10.42.'' @ string_of_nat t @ ''.0.0'') @ CHR ''/'' # ''24'')
      = Some (''10.42.'' @ string_of_nat t @ ''.0.0'', ''24'')"
    by (rule Cut_append) (simp add: slash)
  moreover have "ParseAddr (''10.42.'' @ string_of_nat t @ ''.0.0'') = None"
  proof -
    have "Split (CHR ''.'') (Join ''.'' [''10'', ''42'', string_of_nat t, ''0'', ''0'']) = [''10'', ''42'', string_of_nat t, ''0'', ''0'']"
      by (rule Split_Join) simp_all
    then have "parse_v4 (''10.42.'' @ string_of_nat t @ ''.0.0'') = None"
      by (simp add: parse_v4_def Let_def)
    then show ?thesis
      by (simp add: ParseAddr_def)
  qed
  ultimately have "ParseCIDR (rn_Subnet spec) = None"
    unfolding spec by (simp add: ParseCIDR_def)
  moreover have "unat (replica_hash projectID r) < 16 ^ 8"
    using unsigned_less [of "replica_hash projectID r", where ?'a = nat] by simp
  then have "length (hex_string (unat (replica_hash projectID r))) \<le> 8"
    by (rule hex_string_length) simp
  ultimately show ?thesis
    using spec(2) by simp
qed

theorem runtime_subnet_malformed_witness:
  "\<exists>spec. runtime_AllocateVMNetwork (NewNetworkManager [] []) ''p1'' 0 ''vm-1'' = Inr spec \<and>
     ParseCIDR (rn_Subnet spec) = None"
proof -
  obtain spec where "runtime_AllocateVMNetwork (NewNetworkManager [] []) ''p1'' 0 ''vm-1'' = Inr spec"
    by (simp add: runtime_AllocateVMNetwork_def Let_def)
  with runtime_subnet_malformed [OF this] show ?thesis by blast
qed

end
