(* ===== verification/Rbac.thy ===== *)
theory Rbac
  imports Porter_Prelude
begin

text \<open>
  Authorization: the capability engine (\<open>internal/rbac/rbac.go\<close>), its PostgreSQL resolver and the
  assignment operations (\<open>internal/store/rbac_scoped.go\<close>), the tenancy queries
  (\<open>internal/store/tenancy.go\<close>), the role-based checks (\<open>internal/store/store.go\<close>) and the decision
  \<open>granted\<close> of the HTTP middleware (\<open>internal/api/api.go\<close>). The tables are lists of rows in a record;
  a nullable column is an option, and scanning a NULL into a Go string is an error, as is a row that
  does not exist. The engine is a function of its resolver; the locale \<open>resolver\<close> is the contract of
  that interface and is interpreted on the tables.
\<close>

subsection \<open>Capability engine\<close>

record Scope =
  sc_Type :: string
  sc_ID :: string

record Assignment =
  as_PrincipalType :: string
  as_PrincipalID :: string
  as_Scope :: Scope
  as_RoleID :: string

record RoleCapability =
  rc_Capability :: string
  rc_Effect :: string

datatype rbac_error = MissingInput | AssignmentsFailed | AncestorsFailed | CapabilitiesFailed

fun scopeIn :: "Scope \<Rightarrow> Scope list \<Rightarrow> bool" where
  "scopeIn s [] = False"
| "scopeIn s (x # xs) = (if x = s then True else scopeIn s xs)"

text \<open>
  The three methods of the \<open>Resolver\<close> interface; \<open>None\<close> is an error. The set of matching role ids is a
  Go map; \<open>roles_in_scope\<close> lists its keys once each, and nothing below depends on their order.
\<close>

record resolver_ops =
  AssignmentsForPrincipal :: "string \<Rightarrow> string \<Rightarrow> Assignment list option"
  RoleCapabilities :: "string list \<Rightarrow> RoleCapability list option"
  ScopeAncestors_op :: "Scope \<Rightarrow> Scope list option"

definition roles_in_scope :: "Scope \<Rightarrow> Scope list \<Rightarrow> Assignment list \<Rightarrow> string list" where
  "roles_in_scope scope ancestors assignments =
     remdups (map as_RoleID (filter (\<lambda>a. as_Scope a = scope \<or> scopeIn (as_Scope a) ancestors) assignments))"

fun tally :: "string \<Rightarrow> RoleCapability list \<Rightarrow> bool \<times> bool \<Rightarrow> bool \<times> bool" where
  "tally capability [] acc = acc"
| "tally capability (c # cs) (allowed, denied) =
     (if rc_Capability c \<noteq> capability then tally capability cs (allowed, denied)
      else if rc_Effect c = ''deny'' then tally capability cs (allowed, True)
      else tally capability cs (True, denied))"

definition HasCapability ::
    "resolver_ops \<Rightarrow> string \<Rightarrow> string \<Rightarrow> string \<Rightarrow> Scope \<Rightarrow> (rbac_error, bool) result" where
  "HasCapability r principalType principalID capability scope =
     (if principalType = [] \<or> principalID = [] \<or> capability = [] then Inl MissingInput
      else case AssignmentsForPrincipal r principalType principalID of
        None \<Rightarrow> Inl AssignmentsFailed
      | Some assignments \<Rightarrow>
          if length assignments = 0 then Inr False
          else case ScopeAncestors_op r scope of
            None \<Rightarrow> Inl AncestorsFailed
          | Some ancestors \<Rightarrow>
              let matching = roles_in_scope scope ancestors assignments
              in if length matching = 0 then Inr False
                 else case RoleCapabilities r matching of
                   None \<Rightarrow> Inl CapabilitiesFailed
                 | Some caps \<Rightarrow>
                     let (allowed, denied) = tally capability caps (False, False)
                     in if denied then Inr False else Inr allowed)"

subsection \<open>Tables\<close>

record User =
  us_ID :: string
  us_Username :: string
  us_Role :: string
  us_Email :: string
  us_NotifyOptIn :: bool
  us_PasswordHash :: string
  us_Salt :: string

record Role =
  ro_ID :: string
  ro_Name :: string
  ro_IsAdmin :: bool
  ro_SeesAll :: bool
  ro_IsDefault :: bool
  ro_IsSystem :: bool

record rbac_db =
  role_assignments :: "Assignment list"
  role_permissions :: "(string \<times> string \<times> string) list"
  users :: "User list"
  roles :: "Role list"
  org_members :: "(string \<times> string \<times> string) list"
  project_members :: "(string \<times> string \<times> string) list"
  project_org :: "(string \<times> string option) list"
  group_org :: "(string \<times> string option) list"
  group_projects :: "(string \<times> string) list"
  env_project :: "(string \<times> string option) list"
  team_org :: "(string \<times> string option) list"

text \<open>\<open>QueryRow(...).Scan(&s)\<close> on a nullable column selected by its key.\<close>

definition scan_row :: "(string \<times> string option) list \<Rightarrow> string \<Rightarrow> string option" where
  "scan_row tbl k = (case map_of tbl k of Some (Some v) \<Rightarrow> Some v | _ \<Rightarrow> None)"

definition store_AssignmentsForPrincipal :: "rbac_db \<Rightarrow> string \<Rightarrow> string \<Rightarrow> Assignment list" where
  "store_AssignmentsForPrincipal db principalType principalID =
     filter (\<lambda>a. as_PrincipalType a = principalType \<and> as_PrincipalID a = principalID) (role_assignments db)"

definition store_RoleCapabilities :: "rbac_db \<Rightarrow> string list \<Rightarrow> RoleCapability list" where
  "store_RoleCapabilities db roleIDs =
     (if length roleIDs = 0 then []
      else map (\<lambda>(_, p, e). \<lparr>rc_Capability = p, rc_Effect = e\<rparr>)
             (filter (\<lambda>(r, _, _). r \<in> set roleIDs) (role_permissions db)))"

fun dedupe_from :: "Scope list \<Rightarrow> Scope list \<Rightarrow> Scope list" where
  "dedupe_from seen [] = []"
| "dedupe_from seen (s # ss) = (if s \<in> set seen then dedupe_from seen ss else s # dedupe_from (s # seen) ss)"

definition dedupeScopes :: "Scope list \<Rightarrow> Scope list" where
  "dedupeScopes ss = dedupe_from [] ss"

definition push_scope :: "string \<Rightarrow> string option \<Rightarrow> Scope list" where
  "push_scope t i = (case i of Some x \<Rightarrow> if x \<noteq> [] then [\<lparr>sc_Type = t, sc_ID = x\<rparr>] else [] | None \<Rightarrow> [])"

abbreviation platform :: Scope where
  "platform \<equiv> \<lparr>sc_Type = ''platform'', sc_ID = []\<rparr>"

definition project_parents :: "rbac_db \<Rightarrow> string \<Rightarrow> Scope list" where
  "project_parents db i =
     concat (map (\<lambda>(g, _). push_scope ''team'' (Some g) @ push_scope ''org'' (scan_row (group_org db) g))
       (filter (\<lambda>(_, p). p = i) (group_projects db))) @
     push_scope ''org'' (scan_row (project_org db) i)"

definition ScopeAncestors :: "rbac_db \<Rightarrow> Scope \<Rightarrow> Scope list" where
  "ScopeAncestors db scope =
     dedupeScopes
       ((if sc_Type scope = ''environment'' then
           (case scan_row (env_project db) (sc_ID scope) of
              None \<Rightarrow> []
            | Some projectID \<Rightarrow>
                push_scope ''project'' (Some projectID) @
                dedupeScopes (project_parents db projectID @ [platform]))
         else if sc_Type scope = ''project'' then project_parents db (sc_ID scope)
         else if sc_Type scope = ''team'' then
           push_scope ''org'' (scan_row (group_org db) (sc_ID scope)) @
           push_scope ''org'' (scan_row (team_org db) (sc_ID scope))
         else []) @ [platform])"

definition store_resolver :: "rbac_db \<Rightarrow> resolver_ops" where
  "store_resolver db =
     \<lparr>AssignmentsForPrincipal = (\<lambda>t i. Some (store_AssignmentsForPrincipal db t i)),
      RoleCapabilities = (\<lambda>ids. Some (store_RoleCapabilities db ids)),
      ScopeAncestors_op = (\<lambda>s. Some (ScopeAncestors db s))\<rparr>"

definition AssignRole :: "Assignment \<Rightarrow> rbac_db \<Rightarrow> rbac_db" where
  "AssignRole a db =
     (if a \<in> set (role_assignments db) then db else db\<lparr>role_assignments := role_assignments db @ [a]\<rparr>)"

definition RevokeRole :: "Assignment \<Rightarrow> rbac_db \<Rightarrow> rbac_db" where
  "RevokeRole a db = db\<lparr>role_assignments := filter (\<lambda>b. b \<noteq> a) (role_assignments db)\<rparr>"

definition store_HasCapability :: "rbac_db \<Rightarrow> string \<Rightarrow> string \<Rightarrow> string \<Rightarrow> string \<Rightarrow> string \<Rightarrow> bool" where
  "store_HasCapability db principalType principalID capability scopeType scopeID =
     (case HasCapability (store_resolver db) principalType principalID capability
             \<lparr>sc_Type = scopeType, sc_ID = scopeID\<rparr> of
        Inl e \<Rightarrow> False | Inr ok \<Rightarrow> ok)"

definition ScopedDeny :: "rbac_db \<Rightarrow> string \<Rightarrow> string \<Rightarrow> string \<Rightarrow> string \<Rightarrow> string \<Rightarrow> bool" where
  "ScopedDeny db principalType principalID capability scopeType scopeID =
     (let assignments = store_AssignmentsForPrincipal db principalType principalID
      in if length assignments = 0 then False
         else
           let scope = \<lparr>sc_Type = scopeType, sc_ID = scopeID\<rparr>;
               ancestors = ScopeAncestors db scope;
               roleIDs = map as_RoleID (filter (\<lambda>a. as_Scope a = scope \<or> as_Scope a \<in> set ancestors) assignments)
           in if length roleIDs = 0 then False
              else list_ex (\<lambda>(r, p, e). r \<in> set roleIDs \<and> p = capability \<and> e = ''deny'') (role_permissions db))"

subsection \<open>Role checks and tenancy\<close>

definition GetUserByUsername :: "rbac_db \<Rightarrow> string \<Rightarrow> User option" where
  "GetUserByUsername db username = find (\<lambda>u. us_Username u = username) (users db)"

definition GetRole :: "rbac_db \<Rightarrow> string \<Rightarrow> Role option" where
  "GetRole db i = find (\<lambda>r. ro_ID r = i) (roles db)"

definition RolePermissions :: "rbac_db \<Rightarrow> string \<Rightarrow> string list" where
  "RolePermissions db roleID =
     (if roleID = [] then [] else map (\<lambda>(_, p, _). p) (filter (\<lambda>(r, _, _). r = roleID) (role_permissions db)))"

definition roleGrants :: "rbac_db \<Rightarrow> string \<Rightarrow> string \<Rightarrow> bool" where
  "roleGrants db role permission =
     (if role = [] then False else list_ex (\<lambda>p. p = permission) (RolePermissions db role))"

definition HasPermission :: "rbac_db \<Rightarrow> string \<Rightarrow> string \<Rightarrow> bool" where
  "HasPermission db username permission = (case GetUserByUsername db username of
      None \<Rightarrow> False
    | Some u \<Rightarrow> list_ex (\<lambda>p. p = permission) (RolePermissions db (us_Role u)))"

definition IsPlatformAdmin :: "rbac_db \<Rightarrow> string \<Rightarrow> bool" where
  "IsPlatformAdmin db username = (case GetUserByUsername db username of
      None \<Rightarrow> False
    | Some u \<Rightarrow> (case GetRole db (us_Role u) of None \<Rightarrow> False | Some r \<Rightarrow> ro_IsAdmin r))"

definition member_role :: "(string \<times> string \<times> string) list \<Rightarrow> string \<Rightarrow> string \<Rightarrow> string" where
  "member_role tbl container userID =
     (case find (\<lambda>(c, u, _). c = container \<and> u = userID) tbl of Some (_, _, role) \<Rightarrow> role | None \<Rightarrow> [])"

definition OrgRoleForUser :: "rbac_db \<Rightarrow> string \<Rightarrow> string \<Rightarrow> string" where
  "OrgRoleForUser db orgID username =
     (if orgID = [] \<or> username = [] then []
      else case GetUserByUsername db username of
        None \<Rightarrow> []
      | Some u \<Rightarrow> member_role (org_members db) orgID (us_ID u))"

definition ProjectRoleForUser :: "rbac_db \<Rightarrow> string \<Rightarrow> string \<Rightarrow> string" where
  "ProjectRoleForUser db projectID username =
     (if projectID = [] \<or> username = [] then []
      else case GetUserByUsername db username of
        None \<Rightarrow> []
      | Some u \<Rightarrow>
          let role = member_role (project_members db) projectID (us_ID u)
          in if role \<noteq> [] then role
             else
               let orgID = (case map_of (project_org db) projectID of Some (Some o') \<Rightarrow> o' | _ \<Rightarrow> [])
               in if orgID = [] then [] else member_role (org_members db) orgID (us_ID u))"

definition HasProjectPermission :: "rbac_db \<Rightarrow> string \<Rightarrow> string \<Rightarrow> string \<Rightarrow> bool" where
  "HasProjectPermission db projectID username permission =
     (let role = ProjectRoleForUser db projectID username
      in if role = [] then
           (if \<not> IsPlatformAdmin db username then False
            else case GetUserByUsername db username of
              None \<Rightarrow> False
            | Some u \<Rightarrow> roleGrants db (us_Role u) permission)
         else roleGrants db role permission)"

definition HasOrgPermission :: "rbac_db \<Rightarrow> string \<Rightarrow> string \<Rightarrow> string \<Rightarrow> bool" where
  "HasOrgPermission db orgID username permission =
     (let role = OrgRoleForUser db orgID username
      in if role = [] then
           (if \<not> IsPlatformAdmin db username then False
            else case GetUserByUsername db username of
              None \<Rightarrow> False
            | Some u \<Rightarrow> roleGrants db (us_Role u) permission)
         else roleGrants db role permission)"

definition UserOrgIDs :: "rbac_db \<Rightarrow> string \<Rightarrow> string list" where
  "UserOrgIDs db username = (case GetUserByUsername db username of
      None \<Rightarrow> []
    | Some u \<Rightarrow> map fst (filter (\<lambda>(_, i, _). i = us_ID u) (org_members db)))"

fun any_org_grants :: "rbac_db \<Rightarrow> string \<Rightarrow> string \<Rightarrow> string list \<Rightarrow> bool" where
  "any_org_grants db username permission [] = False"
| "any_org_grants db username permission (o' # os) =
     (let role = OrgRoleForUser db o' username
      in if role \<noteq> [] \<and> roleGrants db role permission then True
         else any_org_grants db username permission os)"

definition HasPermissionAnywhere :: "rbac_db \<Rightarrow> string \<Rightarrow> string \<Rightarrow> bool" where
  "HasPermissionAnywhere db username permission =
     (if any_org_grants db username permission (UserOrgIDs db username) then True
      else HasPermission db username permission)"

definition OrgForGroup :: "rbac_db \<Rightarrow> string \<Rightarrow> string" where
  "OrgForGroup db g = (case scan_row (group_org db) g of Some o' \<Rightarrow> o' | None \<Rightarrow> [])"

definition ProjectForEnvironment :: "rbac_db \<Rightarrow> string \<Rightarrow> string" where
  "ProjectForEnvironment db e = (case scan_row (env_project db) e of Some p \<Rightarrow> p | None \<Rightarrow> [])"

definition GroupRoleForUser :: "rbac_db \<Rightarrow> string \<Rightarrow> string \<Rightarrow> string" where
  "GroupRoleForUser db g username = OrgRoleForUser db (OrgForGroup db g) username"

definition UserScopes :: "rbac_db \<Rightarrow> string \<Rightarrow> Scope list" where
  "UserScopes db username =
     (case GetUserByUsername db username of
        None \<Rightarrow> []
      | Some u \<Rightarrow> map (\<lambda>(p, _, _). \<lparr>sc_Type = ''project'', sc_ID = p\<rparr>)
          (filter (\<lambda>(_, i, _). i = us_ID u) (project_members db))) @
     concat (map (\<lambda>orgID.
       \<lparr>sc_Type = ''org'', sc_ID = orgID\<rparr> #
       concat (map (\<lambda>(g, _).
         \<lparr>sc_Type = ''team'', sc_ID = g\<rparr> #
         map (\<lambda>(_, p). \<lparr>sc_Type = ''project'', sc_ID = p\<rparr>) (filter (\<lambda>(g', _). g' = g) (group_projects db)))
         (filter (\<lambda>(_, o'). o' = Some orgID) (group_org db))))
       (UserOrgIDs db username))"

subsection \<open>Role administration\<close>

definition AddRolePermission :: "string \<Rightarrow> string \<Rightarrow> rbac_db \<Rightarrow> rbac_db" where
  "AddRolePermission roleID permission db =
     (if list_ex (\<lambda>(r, p, _). r = roleID \<and> p = permission) (role_permissions db) then db
      else db\<lparr>role_permissions := role_permissions db @ [(roleID, permission, ''allow'')]\<rparr>)"

definition RemoveRolePermission :: "string \<Rightarrow> string \<Rightarrow> rbac_db \<Rightarrow> rbac_db" where
  "RemoveRolePermission roleID permission db =
     db\<lparr>role_permissions := filter (\<lambda>(r, p, _). \<not> (r = roleID \<and> p = permission)) (role_permissions db)\<rparr>"

text \<open>\<open>oks\<close> says for each statement of the transaction whether it succeeds; an error rolls back.\<close>

fun insert_perms :: "string \<Rightarrow> string list \<Rightarrow> bool list \<Rightarrow> rbac_db \<Rightarrow> rbac_db option" where
  "insert_perms roleID [] oks db = Some db"
| "insert_perms roleID (p # ps) oks db =
     (case oks of
        [] \<Rightarrow> insert_perms roleID ps [] (AddRolePermission roleID p db)
      | ok # rest \<Rightarrow> if \<not> ok then None else insert_perms roleID ps rest (AddRolePermission roleID p db))"

definition SetRolePermissions :: "string \<Rightarrow> string list \<Rightarrow> bool list \<Rightarrow> rbac_db \<Rightarrow> bool \<times> rbac_db" where
  "SetRolePermissions roleID perms oks db =
     (let cleared = db\<lparr>role_permissions := filter (\<lambda>(r, _, _). r \<noteq> roleID) (role_permissions db)\<rparr>
      in case insert_perms roleID perms oks cleared of None \<Rightarrow> (False, db) | Some db' \<Rightarrow> (True, db'))"

subsection \<open>The middleware's decision\<close>

text \<open>\<open>projID\<close> is the path value \<open>projectId\<close>, \<open>orgID\<close> the organization header; empty when absent.\<close>

definition granted :: "rbac_db \<Rightarrow> string \<Rightarrow> string \<Rightarrow> string \<Rightarrow> string \<Rightarrow> bool" where
  "granted db projID orgID username perm =
     (let (scopeType, scopeID) =
            (if projID \<noteq> [] then (''project'', projID)
             else if orgID \<noteq> [] then (''org'', orgID)
             else (''platform'', []));
          early =
            (if projID = [] \<and> orgID \<noteq> [] then
               (if store_HasCapability db ''user'' username perm scopeType scopeID then Some True
                else if ScopedDeny db ''user'' username perm scopeType scopeID then Some False
                else if OrgRoleForUser db orgID username \<noteq> [] then Some (HasOrgPermission db orgID username perm)
                else None)
             else None)
      in case early of
           Some b \<Rightarrow> b
         | None \<Rightarrow>
             if store_HasCapability db ''user'' username perm scopeType scopeID then True
             else if ScopedDeny db ''user'' username perm scopeType scopeID then False
             else if scopeType = ''project'' then HasProjectPermission db scopeID username perm
             else HasPermissionAnywhere db username perm)"

subsection \<open>Contract of the resolver interface\<close>

lemma scopeIn_iff [go_simps]: "scopeIn s xs \<longleftrightarrow> s \<in> set xs"
  by (induction xs) auto

lemma tally_iff:
  "tally cap cs (a, d) =
     (a \<or> (\<exists>c \<in> set cs. rc_Capability c = cap \<and> rc_Effect c \<noteq> ''deny''),
      d \<or> (\<exists>c \<in> set cs. rc_Capability c = cap \<and> rc_Effect c = ''deny''))"
  by (induction cs arbitrary: a d) auto

text \<open>
  What the engine relies on: the resolver answers, with all assignments of the principal (\<open>held\<close>), the
  entries of exactly the listed roles (\<open>entries\<close>) and the ancestors of a scope (\<open>above\<close>).
\<close>

locale resolver =
  fixes r :: resolver_ops
    and held :: "string \<Rightarrow> string \<Rightarrow> Assignment set"
    and entries :: "string \<Rightarrow> RoleCapability set"
    and above :: "Scope \<Rightarrow> Scope set"
  assumes assignments_law: "\<exists>xs. AssignmentsForPrincipal r t i = Some xs \<and> set xs = held t i"
    and capabilities_law: "\<exists>cs. RoleCapabilities r ids = Some cs \<and> set cs = \<Union>(entries ` set ids)"
    and ancestors_law: "\<exists>ss. ScopeAncestors_op r s = Some ss \<and> set ss = above s"
begin

definition in_force :: "string \<Rightarrow> string \<Rightarrow> Scope \<Rightarrow> RoleCapability set" where
  "in_force t i s = \<Union>{entries (as_RoleID a) | a. a \<in> held t i \<and> (as_Scope a = s \<or> as_Scope a \<in> above s)}"

definition allow_entry :: "string \<Rightarrow> string \<Rightarrow> string \<Rightarrow> Scope \<Rightarrow> bool" where
  "allow_entry t i cap s \<longleftrightarrow> (\<exists>c \<in> in_force t i s. rc_Capability c = cap \<and> rc_Effect c \<noteq> ''deny'')"

definition deny_entry :: "string \<Rightarrow> string \<Rightarrow> string \<Rightarrow> Scope \<Rightarrow> bool" where
  "deny_entry t i cap s \<longleftrightarrow> (\<exists>c \<in> in_force t i s. rc_Capability c = cap \<and> rc_Effect c = ''deny'')"

lemma HasCapability_law:
  assumes "t \<noteq> []" "i \<noteq> []" "cap \<noteq> []"
  shows "HasCapability r t i cap s = Inr (allow_entry t i cap s \<and> \<not> deny_entry t i cap s)"
proof -
  obtain xs ss where xs: "AssignmentsForPrincipal r t i = Some xs" "set xs = held t i"
    and ss: "ScopeAncestors_op r s = Some ss" "set ss = above s"
    using assignments_law ancestors_law by metis
  let ?ids = "roles_in_scope s ss xs"
  obtain cs where cs: "RoleCapabilities r ?ids = Some cs" "set cs = \<Union>(entries ` set ?ids)"
    using capabilities_law by metis
  have ids: "set ?ids = as_RoleID ` {a \<in> held t i. as_Scope a = s \<or> as_Scope a \<in> above s}"
    using xs ss by (auto simp: roles_in_scope_def go_simps)
  have force: "in_force t i s = set cs"
    unfolding cs(2) ids in_force_def by blast
  show ?thesis
  proof (cases "?ids = []")
    case True
    then have "set cs = {}"
      using cs(2) by simp
    with True xs ss assms force show ?thesis
      by (simp add: HasCapability_def Let_def allow_entry_def deny_entry_def)
  next
    case False
    then have "xs \<noteq> []"
      by (auto simp: roles_in_scope_def)
    with False xs ss cs assms force show ?thesis
      by (simp add: HasCapability_def Let_def tally_iff allow_entry_def deny_entry_def)
  qed
qed

end

subsection \<open>The tables implement the interface\<close>

lemma set_store_RoleCapabilities:
  "set (store_RoleCapabilities db ids) =
     \<Union>((\<lambda>r. {\<lparr>rc_Capability = p, rc_Effect = e\<rparr> | p e. (r, p, e) \<in> set (role_permissions db)}) ` set ids)"
proof (cases "ids = []")
  case False
  have "x \<in> set (store_RoleCapabilities db ids) \<longleftrightarrow>
      (\<exists>r p e. (r, p, e) \<in> set (role_permissions db) \<and> r \<in> set ids \<and> x = \<lparr>rc_Capability = p, rc_Effect = e\<rparr>)" for x
    using False by (force simp: store_RoleCapabilities_def)
  then show ?thesis by blast
qed (simp add: store_RoleCapabilities_def)

interpretation tables: resolver "store_resolver db"
    "\<lambda>t i. {a \<in> set (role_assignments db). as_PrincipalType a = t \<and> as_PrincipalID a = i}"
    "\<lambda>r. {\<lparr>rc_Capability = p, rc_Effect = e\<rparr> | p e. (r, p, e) \<in> set (role_permissions db)}"
    "\<lambda>s. set (ScopeAncestors db s)" for db
  by unfold_locales
    (auto simp: store_resolver_def store_AssignmentsForPrincipal_def set_store_RoleCapabilities)

text \<open>The rows of \<open>role_permissions\<close> in force for a principal at a scope.\<close>

definition row_in_force :: "rbac_db \<Rightarrow> string \<Rightarrow> string \<Rightarrow> string \<Rightarrow> Scope \<Rightarrow> string \<Rightarrow> bool" where
  "row_in_force db t i cap s e \<longleftrightarrow>
     (\<exists>a \<in> set (role_assignments db). as_PrincipalType a = t \<and> as_PrincipalID a = i \<and>
        (as_Scope a = s \<or> as_Scope a \<in> set (ScopeAncestors db s)) \<and>
        (as_RoleID a, cap, e) \<in> set (role_permissions db))"

lemma tables_in_force:
  "\<lparr>rc_Capability = cap, rc_Effect = e\<rparr> \<in> tables.in_force db t i s \<longleftrightarrow> row_in_force db t i cap s e"
  by (auto simp: tables.in_force_def row_in_force_def)

lemma ex_capability: "(\<exists>c :: RoleCapability. P c) \<longleftrightarrow> (\<exists>cap e. P \<lparr>rc_Capability = cap, rc_Effect = e\<rparr>)"
  by (metis RoleCapability.surjective old.unit.exhaust)

lemma tables_allow: "tables.allow_entry db t i cap s \<longleftrightarrow> (\<exists>e. e \<noteq> ''deny'' \<and> row_in_force db t i cap s e)"
  unfolding tables.allow_entry_def Bex_def ex_capability by (auto simp: tables_in_force)

lemma tables_deny: "tables.deny_entry db t i cap s \<longleftrightarrow> row_in_force db t i cap s ''deny''"
  unfolding tables.deny_entry_def Bex_def ex_capability by (auto simp: tables_in_force)

lemma store_HasCapability_iff:
  "store_HasCapability db t i cap st si \<longleftrightarrow>
     t \<noteq> [] \<and> i \<noteq> [] \<and> cap \<noteq> [] \<and>
     (\<exists>e. e \<noteq> ''deny'' \<and> row_in_force db t i cap \<lparr>sc_Type = st, sc_ID = si\<rparr> e) \<and>
     \<not> row_in_force db t i cap \<lparr>sc_Type = st, sc_ID = si\<rparr> ''deny''"
proof (cases "t = [] \<or> i = [] \<or> cap = []")
  case True
  then show ?thesis by (auto simp: store_HasCapability_def HasCapability_def)
next
  case False
  then show ?thesis
    by (simp add: store_HasCapability_def tables.HasCapability_law tables_allow tables_deny)
qed

lemma ScopedDeny_iff:
  "ScopedDeny db t i cap st si \<longleftrightarrow> row_in_force db t i cap \<lparr>sc_Type = st, sc_ID = si\<rparr> ''deny''"
proof -
  let ?s = "\<lparr>sc_Type = st, sc_ID = si\<rparr>"
  let ?as = "store_AssignmentsForPrincipal db t i"
  let ?ids = "map as_RoleID (filter (\<lambda>a. as_Scope a = ?s \<or> as_Scope a \<in> set (ScopeAncestors db ?s)) ?as)"
  have "ScopedDeny db t i cap st si \<longleftrightarrow>
      list_ex (\<lambda>(r, p, e). r \<in> set ?ids \<and> p = cap \<and> e = ''deny'') (role_permissions db)"
    by (cases "?as = []"; cases "?ids = []") (auto simp: ScopedDeny_def Let_def list_ex_iff)
  also have "\<dots> \<longleftrightarrow> (\<exists>r. r \<in> set ?ids \<and> (r, cap, ''deny'') \<in> set (role_permissions db))"
    by (auto simp: list_ex_iff)
  also have "\<dots> \<longleftrightarrow> row_in_force db t i cap ?s ''deny''"
    by (auto simp: row_in_force_def store_AssignmentsForPrincipal_def)
  finally show ?thesis .
qed

subsection \<open>Lemmas: scopes, roles\<close>

lemma set_dedupe_from: "set (dedupe_from seen ss) = set ss - set seen"
  by (induction ss arbitrary: seen) auto

lemma distinct_dedupe_from: "distinct (dedupe_from seen ss)"
  by (induction ss arbitrary: seen) (auto simp: set_dedupe_from)

lemma set_dedupeScopes [simp]: "set (dedupeScopes ss) = set ss"
  by (simp add: dedupeScopes_def set_dedupe_from)

lemma ScopeAncestors_platform: "platform \<in> set (ScopeAncestors db s)" "distinct (ScopeAncestors db s)"
  by (simp_all add: ScopeAncestors_def) (simp add: dedupeScopes_def distinct_dedupe_from)

lemma roleGrants_iff: "roleGrants db role perm \<longleftrightarrow> role \<noteq> [] \<and> (\<exists>e. (role, perm, e) \<in> set (role_permissions db))"
  by (auto simp: roleGrants_def RolePermissions_def list_ex_iff rev_image_eqI) force

lemma any_org_grants_iff:
  "any_org_grants db u perm os \<longleftrightarrow>
     (\<exists>o' \<in> set os. OrgRoleForUser db o' u \<noteq> [] \<and> roleGrants db (OrgRoleForUser db o' u) perm)"
  by (induction os) (auto simp: Let_def)

lemma HasProjectPermission_iff:
  "HasProjectPermission db p u perm \<longleftrightarrow>
     (if ProjectRoleForUser db p u \<noteq> [] then roleGrants db (ProjectRoleForUser db p u) perm
      else IsPlatformAdmin db u \<and> (\<exists>usr. GetUserByUsername db u = Some usr \<and> roleGrants db (us_Role usr) perm))"
  by (auto simp: HasProjectPermission_def Let_def split: option.splits)

lemma granted_project:
  "p \<noteq> [] \<Longrightarrow> granted db p o' u perm \<longleftrightarrow>
     store_HasCapability db ''user'' u perm ''project'' p \<or>
     \<not> ScopedDeny db ''user'' u perm ''project'' p \<and> HasProjectPermission db p u perm"
  by (auto simp: granted_def)

lemma granted_org:
  "o' \<noteq> [] \<Longrightarrow> granted db [] o' u perm \<longleftrightarrow>
     store_HasCapability db ''user'' u perm ''org'' o' \<or>
     \<not> ScopedDeny db ''user'' u perm ''org'' o' \<and>
     (if OrgRoleForUser db o' u \<noteq> [] then HasOrgPermission db o' u perm else HasPermissionAnywhere db u perm)"
  by (auto simp: granted_def)

lemma insert_perms_Some:
  "insert_perms roleID ps oks db = Some db' \<Longrightarrow>
     (\<exists>rows. role_permissions db' = role_permissions db @ rows \<and> (\<forall>(r, p, e) \<in> set rows. r = roleID)) \<and>
     {p. \<exists>e. (roleID, p, e) \<in> set (role_permissions db')} =
       {p. \<exists>e. (roleID, p, e) \<in> set (role_permissions db)} \<union> set ps"
proof (induction ps arbitrary: oks db)
  case Nil
  then show ?case by simp
next
  case (Cons p ps)
  then obtain oks' where step: "insert_perms roleID ps oks' (AddRolePermission roleID p db) = Some db'"
    by (auto split: list.splits if_splits)
  obtain rows where rows: "role_permissions (AddRolePermission roleID p db) = role_permissions db @ rows"
      "\<forall>(r, p, e) \<in> set rows. r = roleID"
      "{q. \<exists>e. (roleID, q, e) \<in> set (role_permissions (AddRolePermission roleID p db))} =
        insert p {q. \<exists>e. (roleID, q, e) \<in> set (role_permissions db)}"
    by (cases "list_ex (\<lambda>(r, p', _). r = roleID \<and> p' = p) (role_permissions db)")
      (auto simp: AddRolePermission_def list_ex_iff)
  from Cons.IH [OF step] obtain rows' where rows': "role_permissions db' = role_permissions (AddRolePermission roleID p db) @ rows'"
      "\<forall>(r, p, e) \<in> set rows'. r = roleID" by blast
  have "role_permissions db' = role_permissions db @ (rows @ rows')" "\<forall>(r, p, e) \<in> set (rows @ rows'). r = roleID"
    using rows rows' by auto
  with Cons.IH [OF step] rows(3) show ?case by auto
qed

subsection \<open>Properties\<close>

definition demo_db :: rbac_db where
  "demo_db = \<lparr>
     role_assignments = [\<lparr>as_PrincipalType = ''user'', as_PrincipalID = ''ann'',
       as_Scope = \<lparr>sc_Type = ''org'', sc_ID = ''o1''\<rparr>, as_RoleID = ''dev''\<rparr>],
     role_permissions = [(''dev'', ''project.read'', ''allow''), (''dev'', ''project.delete'', ''deny''),
       (''owner'', ''project.create'', ''allow'')],
     users = [\<lparr>us_ID = ''u1'', us_Username = ''ann'', us_Role = ''none'', us_Email = [], us_NotifyOptIn = False, us_PasswordHash = [], us_Salt = []\<rparr>,
       \<lparr>us_ID = ''u2'', us_Username = ''bob'', us_Role = ''none'', us_Email = [], us_NotifyOptIn = False, us_PasswordHash = [], us_Salt = []\<rparr>],
     roles = [\<lparr>ro_ID = ''none'', ro_Name = ''none'', ro_IsAdmin = False, ro_SeesAll = False, ro_IsDefault = True,
       ro_IsSystem = False\<rparr>],
     org_members = [(''o2'', ''u2'', ''owner'')], project_members = [],
     project_org = [(''p1'', Some ''o1'')], group_org = [], group_projects = [], env_project = [(''e1'', Some ''p1'')],
     team_org = []\<rparr>"




text \<open>
  Naming a foreign organization in the header does not restrict a request. For a user who is not a
  member of the named organization and has no assignments of its own, the decision is the one for any
  organization the user belongs to, so a permission held in one organization is granted for another.
\<close>

theorem granted_foreign_org:
  assumes "o' \<noteq> []" "OrgRoleForUser db o' u = []" "store_AssignmentsForPrincipal db ''user'' u = []"
  shows "granted db [] o' u perm \<longleftrightarrow> HasPermissionAnywhere db u perm"
proof -
  have "\<not> row_in_force db ''user'' u perm s e" for s e
    using assms(3) by (auto simp: row_in_force_def store_AssignmentsForPrincipal_def filter_empty_conv)
  then show ?thesis
    using assms by (simp add: granted_org store_HasCapability_iff ScopedDeny_iff)
qed

theorem granted_foreign_org_witness:
  "OrgRoleForUser demo_db ''o1'' ''bob'' = [] \<and> granted demo_db [] ''o1'' ''bob'' ''project.create''"
proof -
  have "OrgRoleForUser demo_db ''o1'' ''bob'' = []" "store_AssignmentsForPrincipal demo_db ''user'' ''bob'' = []"
      "HasPermissionAnywhere demo_db ''bob'' ''project.create''"
    by code_simp+
  then show ?thesis
    using granted_foreign_org [of "''o1''" demo_db "''bob''" "''project.create''"] by simp
qed

text \<open>
  The role checks ignore the effect column. A user's global role grants a permission exactly when
  the role has any row for it, so a row that denies the permission to a role counts as a grant there.
\<close>

theorem HasPermission_ignores_effect:
  "HasPermission db u perm \<longleftrightarrow>
     (\<exists>usr. GetUserByUsername db u = Some usr \<and> us_Role usr \<noteq> [] \<and>
        (\<exists>e. (us_Role usr, perm, e) \<in> set (role_permissions db)))"
proof -
  have "list_ex (\<lambda>p. p = perm) (RolePermissions db r) \<longleftrightarrow> r \<noteq> [] \<and> (\<exists>e. (r, perm, e) \<in> set (role_permissions db))" for r
    using roleGrants_iff [of db r perm] by (cases "r = []") (auto simp: roleGrants_def RolePermissions_def)
  then show ?thesis
    by (simp add: HasPermission_def split: option.splits)
qed

text \<open>
  Replacing a role's permissions is atomic. When a statement of the transaction fails nothing
  changes; when it succeeds the role has exactly the given permissions and every other role's rows are
  what they were.
\<close>

theorem SetRolePermissions_atomic:
  "case SetRolePermissions roleID perms oks db of (ok, db') \<Rightarrow>
     if ok then {p. \<exists>e. (roleID, p, e) \<in> set (role_permissions db')} = set perms \<and>
       filter (\<lambda>(r, _, _). r \<noteq> roleID) (role_permissions db') = filter (\<lambda>(r, _, _). r \<noteq> roleID) (role_permissions db)
     else db' = db"
proof (cases "insert_perms roleID perms oks (db\<lparr>role_permissions := filter (\<lambda>(r, _, _). r \<noteq> roleID) (role_permissions db)\<rparr>)")
  case None
  then show ?thesis by (simp add: SetRolePermissions_def Let_def)
next
  case (Some db')
  from insert_perms_Some [OF this] obtain rows where
      rows: "role_permissions db' = filter (\<lambda>(r, _, _). r \<noteq> roleID) (role_permissions db) @ rows"
        "\<forall>(r, p, e) \<in> set rows. r = roleID"
      and perms: "{p. \<exists>e. (roleID, p, e) \<in> set (role_permissions db')} = set perms"
    by auto
  have "filter (\<lambda>(r, _, _). r \<noteq> roleID) rows = []"
    using rows(2) by (auto simp: filter_empty_conv)
  with Some rows(1) perms show ?thesis
    by (simp add: SetRolePermissions_def Let_def filter_filter)
qed

end
