(* ===== verification/Judge.thy ===== *)
theory Judge
  imports Porter_Prelude "HOL-Library.AList" Complex_Main
begin

text \<open>
  The judgment client (\<open>internal/judge/judge.go\<close>): \<open>Evaluate\<close> sends all questions of a caller in one
  request and decodes the typed answers. The service behind the endpoint is the argument \<open>do_post\<close>.
  A JSON text is the value it parses to, and a number is the float it denotes; \<open>json.Unmarshal\<close> into a
  struct is spelled out: a null changes nothing, keys match fields up to case, a later key overrides an
  earlier one, unknown keys are skipped, and a value of the wrong type is an error. A Go map is the list
  of its entries; where the code ranges over a map, the model goes through that list.
\<close>

subsection \<open>JSON values\<close>

datatype json =
    JNull
  | JBool bool
  | JNum rat
  | JStr string
  | JArr "json list"
  | JObj "(string \<times> json) list"

fun dec_string :: "json \<Rightarrow> string \<Rightarrow> string option" where
  "dec_string JNull old = Some old"
| "dec_string (JStr s) old = Some s"
| "dec_string _ old = None"

fun dec_float :: "json \<Rightarrow> rat \<Rightarrow> rat option" where
  "dec_float JNull old = Some old"
| "dec_float (JNum r) old = Some r"
| "dec_float _ old = None"

fun dec_entries :: "(json \<Rightarrow> 'a option) \<Rightarrow> (string \<times> json) list \<Rightarrow> (string \<times> 'a) list \<Rightarrow> (string \<times> 'a) list option" where
  "dec_entries f [] m = Some m"
| "dec_entries f ((k, v) # kvs) m = (case f v of None \<Rightarrow> None | Some x \<Rightarrow> dec_entries f kvs (AList.update k x m))"

fun dec_map :: "(json \<Rightarrow> 'a option) \<Rightarrow> json \<Rightarrow> (string \<times> 'a) list \<Rightarrow> (string \<times> 'a) list option" where
  "dec_map f JNull old = Some []"
| "dec_map f (JObj kvs) old = dec_entries f kvs old"
| "dec_map f _ old = None"

abbreviation dec_float_map :: "json \<Rightarrow> (string \<times> rat) list \<Rightarrow> (string \<times> rat) list option" where
  "dec_float_map \<equiv> dec_map (\<lambda>v. dec_float v 0)"

abbreviation dec_string_map :: "json \<Rightarrow> (string \<times> string) list \<Rightarrow> (string \<times> string) list option" where
  "dec_string_map \<equiv> dec_map (\<lambda>v. dec_string v [])"

text \<open>\<open>Unmarshal\<close> into a struct, given what one key does to it.\<close>

fun dec_fields :: "(string \<Rightarrow> json \<Rightarrow> 'r \<Rightarrow> 'r option) \<Rightarrow> (string \<times> json) list \<Rightarrow> 'r \<Rightarrow> 'r option" where
  "dec_fields f [] r = Some r"
| "dec_fields f ((k, v) # kvs) r = (case f k v r of None \<Rightarrow> None | Some r' \<Rightarrow> dec_fields f kvs r')"

fun dec_struct :: "(string \<Rightarrow> json \<Rightarrow> 'r \<Rightarrow> 'r option) \<Rightarrow> json \<Rightarrow> 'r \<Rightarrow> 'r option" where
  "dec_struct f JNull r = Some r"
| "dec_struct f (JObj kvs) r = dec_fields f kvs r"
| "dec_struct f _ r = None"

subsection \<open>Questions and answers\<close>

record ChoiceQ =
  cq_Instructions :: string
  cq_Criteria :: "(string \<times> string) list"

record NoulQ =
  nq_Instructions :: string
  nq_TrueMeans :: string
  nq_FalseMeans :: string

record ScoreQ =
  sq_Instructions :: string
  sq_Levels :: "string list"

record ChoiceA =
  ca_Choice :: string
  ca_Probabilities :: "(string \<times> rat) list"
  ca_Confidence :: rat

record ScoreA =
  sa_Value :: rat
  sa_Legend :: "(string \<times> string) list"
  sa_Probabilities :: "(string \<times> rat) list"
  sa_Confidence :: rat

record Answers =
  an_Choices :: "(string \<times> ChoiceA) list"
  an_Nouls :: "(string \<times> rat) list"
  an_Scores :: "(string \<times> ScoreA) list"

abbreviation zero_ChoiceA :: ChoiceA where
  "zero_ChoiceA \<equiv> \<lparr>ca_Choice = [], ca_Probabilities = [], ca_Confidence = 0\<rparr>"

abbreviation zero_ScoreA :: ScoreA where
  "zero_ScoreA \<equiv> \<lparr>sa_Value = 0, sa_Legend = [], sa_Probabilities = [], sa_Confidence = 0\<rparr>"

text \<open>Reading a missing key of a Go map gives the zero value.\<close>

definition choice_of :: "Answers \<Rightarrow> string \<Rightarrow> ChoiceA" where
  "choice_of ans i = (case map_of (an_Choices ans) i of Some a \<Rightarrow> a | None \<Rightarrow> zero_ChoiceA)"

definition noul_of :: "Answers \<Rightarrow> string \<Rightarrow> rat" where
  "noul_of ans i = (case map_of (an_Nouls ans) i of Some a \<Rightarrow> a | None \<Rightarrow> 0)"

definition score_of :: "Answers \<Rightarrow> string \<Rightarrow> ScoreA" where
  "score_of ans i = (case map_of (an_Scores ans) i of Some a \<Rightarrow> a | None \<Rightarrow> zero_ScoreA)"

subsection \<open>The client\<close>

record Client =
  cl_Key :: string
  cl_Model :: string
  cl_Endpoint :: string

definition client_model :: "Client \<Rightarrow> string" where
  "client_model c = (if cl_Model c \<noteq> [] then cl_Model c else ''jev-latest'')"

definition client_endpoint :: "Client \<Rightarrow> string" where
  "client_endpoint c =
     (if cl_Endpoint c \<noteq> [] then cl_Endpoint c else ''https://api.typesafe.ai/v1/systemone'')"

record wireQuestion =
  wq_Type :: string
  wq_Instructions :: string
  wq_Criteria :: json

record wireRequest =
  wr_State :: json
  wr_Model :: string
  wr_Questions :: "(string \<times> wireQuestion) list"

datatype http_outcome =
    NoRequest
  | NoResponse
  | Response int "json option"

datatype judge_error =
    MissingKey
  | NoQuestions
  | RequestFailed
  | HTTPStatus int
  | BadBody
  | DecodeChoice string
  | DecodeNoul string
  | DecodeScore string

definition choice_field :: "string \<Rightarrow> json \<Rightarrow> ChoiceA \<Rightarrow> ChoiceA option" where
  "choice_field k v a =
     (if EqualFold k ''choice'' then map_option (\<lambda>x. a\<lparr>ca_Choice := x\<rparr>) (dec_string v (ca_Choice a))
      else if EqualFold k ''probabilities'' then
        map_option (\<lambda>x. a\<lparr>ca_Probabilities := x\<rparr>) (dec_float_map v (ca_Probabilities a))
      else if EqualFold k ''confidence'' then
        map_option (\<lambda>x. a\<lparr>ca_Confidence := x\<rparr>) (dec_float v (ca_Confidence a))
      else Some a)"

definition noul_field :: "string \<Rightarrow> json \<Rightarrow> rat \<Rightarrow> rat option" where
  "noul_field k v a = (if EqualFold k ''noul'' then dec_float v a else Some a)"

definition score_field :: "string \<Rightarrow> json \<Rightarrow> ScoreA \<Rightarrow> ScoreA option" where
  "score_field k v a =
     (if EqualFold k ''score'' then map_option (\<lambda>x. a\<lparr>sa_Value := x\<rparr>) (dec_float v (sa_Value a))
      else if EqualFold k ''legend'' then
        map_option (\<lambda>x. a\<lparr>sa_Legend := x\<rparr>) (dec_string_map v (sa_Legend a))
      else if EqualFold k ''probabilities'' then
        map_option (\<lambda>x. a\<lparr>sa_Probabilities := x\<rparr>) (dec_float_map v (sa_Probabilities a))
      else if EqualFold k ''confidence'' then
        map_option (\<lambda>x. a\<lparr>sa_Confidence := x\<rparr>) (dec_float v (sa_Confidence a))
      else Some a)"

definition body_field :: "string \<Rightarrow> json \<Rightarrow> (string \<times> json) list \<Rightarrow> (string \<times> json) list option" where
  "body_field k v a = (if EqualFold k ''answers'' then dec_map Some v a else Some a)"

text \<open>The three loops that fill \<open>wire\<close>, and the three that decode the answers.\<close>

definition wire_choice :: "ChoiceQ \<Rightarrow> wireQuestion" where
  "wire_choice q = \<lparr>wq_Type = ''choice'', wq_Instructions = cq_Instructions q,
     wq_Criteria = JObj (map (\<lambda>(opt, rubric). (opt, JStr rubric)) (cq_Criteria q))\<rparr>"

definition wire_noul :: "NoulQ \<Rightarrow> wireQuestion" where
  "wire_noul q = \<lparr>wq_Type = ''noul'', wq_Instructions = nq_Instructions q,
     wq_Criteria = JObj [(''true'', JStr (nq_TrueMeans q)), (''false'', JStr (nq_FalseMeans q))]\<rparr>"

definition wire_score :: "ScoreQ \<Rightarrow> wireQuestion" where
  "wire_score q = \<lparr>wq_Type = ''score'', wq_Instructions = sq_Instructions q,
     wq_Criteria = JArr (map JStr (sq_Levels q))\<rparr>"

fun put_all :: "('q \<Rightarrow> 'v) \<Rightarrow> (string \<times> 'q) list \<Rightarrow> (string \<times> 'v) list \<Rightarrow> (string \<times> 'v) list" where
  "put_all f [] m = m"
| "put_all f ((i, q) # qs) m = put_all f qs (AList.update i (f q) m)"

fun decode_all ::
    "(json \<Rightarrow> 'a option) \<Rightarrow> (string \<Rightarrow> judge_error) \<Rightarrow> (string \<times> json) list \<Rightarrow> string list \<Rightarrow> (string \<times> 'a) list
       \<Rightarrow> (judge_error, (string \<times> 'a) list) result" where
  "decode_all dec err body [] m = Inr m"
| "decode_all dec err body (i # ids) m =
     (case Option.bind (map_of body i) dec of
        None \<Rightarrow> Inl (err i)
      | Some a \<Rightarrow> decode_all dec err body ids (AList.update i a m))"

type_synonym judger =
  "json \<Rightarrow> (string \<times> ChoiceQ) list \<Rightarrow> (string \<times> NoulQ) list \<Rightarrow> (string \<times> ScoreQ) list \<Rightarrow> (judge_error, Answers) result"

definition Evaluate :: "(string \<Rightarrow> string \<Rightarrow> wireRequest \<Rightarrow> http_outcome) \<Rightarrow> Client \<Rightarrow> judger" where
  "Evaluate do_post c state choices nouls scores =
     (if cl_Key c = [] then Inl MissingKey
      else let wire = put_all wire_score scores (put_all wire_noul nouls (put_all wire_choice choices []))
      in if length wire = 0 then Inl NoQuestions
      else case do_post (client_endpoint c) (''Bearer '' @ cl_Key c)
             \<lparr>wr_State = state, wr_Model = client_model c, wr_Questions = wire\<rparr> of
        NoRequest \<Rightarrow> Inl RequestFailed
      | NoResponse \<Rightarrow> Inl RequestFailed
      | Response status text \<Rightarrow>
          if status \<ge> 400 then Inl (HTTPStatus status)
          else case Option.bind text (\<lambda>v. dec_struct body_field v []) of
            None \<Rightarrow> Inl BadBody
          | Some body \<Rightarrow>
              case decode_all (\<lambda>v. dec_struct choice_field v zero_ChoiceA) DecodeChoice body (map fst choices) [] of
                Inl e \<Rightarrow> Inl e
              | Inr cs \<Rightarrow>
                  case decode_all (\<lambda>v. dec_struct noul_field v 0) DecodeNoul body (map fst nouls) [] of
                    Inl e \<Rightarrow> Inl e
                  | Inr ns \<Rightarrow>
                      case decode_all (\<lambda>v. dec_struct score_field v zero_ScoreA) DecodeScore body (map fst scores) [] of
                        Inl e \<Rightarrow> Inl e
                      | Inr ss \<Rightarrow> Inr \<lparr>an_Choices = cs, an_Nouls = ns, an_Scores = ss\<rparr>)"

subsection \<open>Lemmas\<close>

lemma map_of_put_all: "map_of (put_all f qs m) i = (case map_of (rev qs) i of Some q \<Rightarrow> Some (f q) | None \<Rightarrow> map_of m i)"
  by (induction f qs m rule: put_all.induct) (auto simp: update_conv' map_add_def split: option.splits)

lemma put_all_keys: "fst ` set (put_all f qs m) = fst ` set qs \<union> fst ` set m"
  by (induction f qs m rule: put_all.induct) (auto simp: dom_update)

text \<open>A decoding loop returns exactly the asked ids, each decoded from its own entry of the body.\<close>

lemma decode_all_Inr:
  assumes "decode_all dec err body ids m = Inr m'"
  shows "map_of m' i = (if i \<in> set ids then Option.bind (map_of body i) dec else map_of m i) \<and>
    (\<forall>i \<in> set ids. Option.bind (map_of body i) dec \<noteq> None)"
  using assms
proof (induction ids arbitrary: m)
  case (Cons j ids)
  then obtain a where a: "Option.bind (map_of body j) dec = Some a"
      "decode_all dec err body ids (AList.update j a m) = Inr m'"
    by (auto split: option.splits)
  from Cons.IH [OF this(2)] a(1) show ?case
    by (auto simp: update_conv')
qed simp

lemma decode_all_Inl:
  "decode_all dec err body ids m = Inl e \<Longrightarrow> \<exists>i \<in> set ids. e = err i \<and> Option.bind (map_of body i) dec = None"
  by (induction ids arbitrary: m) (auto split: option.splits)

lemma decode_all_dom:
  assumes "decode_all dec err body ids [] = Inr m'"
  shows "dom (map_of m') = set ids"
  using decode_all_Inr [OF assms] by (auto simp: dom_def)

lemma Evaluate_no_key: "cl_Key c = [] \<Longrightarrow> Evaluate do_post c state choices nouls scores = Inl MissingKey"
  by (simp add: Evaluate_def)

lemma Evaluate_answers:
  assumes "Evaluate do_post c state choices nouls scores = Inr ans"
  shows "dom (map_of (an_Choices ans)) = fst ` set choices \<and>
    dom (map_of (an_Nouls ans)) = fst ` set nouls \<and>
    dom (map_of (an_Scores ans)) = fst ` set scores"
proof -
  from assms obtain body where
      "decode_all (\<lambda>v. dec_struct choice_field v zero_ChoiceA) DecodeChoice body (map fst choices) [] = Inr (an_Choices ans)"
      "decode_all (\<lambda>v. dec_struct noul_field v 0) DecodeNoul body (map fst nouls) [] = Inr (an_Nouls ans)"
      "decode_all (\<lambda>v. dec_struct score_field v zero_ScoreA) DecodeScore body (map fst scores) [] = Inr (an_Scores ans)"
    by (auto simp: Evaluate_def Let_def split: if_splits http_outcome.splits option.splits sum.splits)
  from this [THEN decode_all_dom] show ?thesis by simp
qed

end
