(* ===== verification/Gates.thy ===== *)
theory Gates
  imports Judge
begin

text \<open>
  The decisions the control plane takes on judgments: deploy risk (\<open>internal/riskgate/riskgate.go\<close>),
  guest commands (\<open>internal/cmdgate/cmdgate.go\<close>), failed builds (\<open>internal/triage/triage.go\<close>) and alerts
  (\<open>internal/alertjudge/alertjudge.go\<close>). Each takes its judge as an argument, as the code takes a
  \<open>Judger\<close>; the locale \<open>answering_judger\<close> is what the gates rely on, and the client of theory
  \<open>Judge\<close> interprets it. Floats are rationals; the thresholds that are not dyadic are written as the
  float their constant converts to.
\<close>

subsection \<open>Text of a float with two decimals\<close>

definition round_half_even :: "rat \<Rightarrow> int" where
  "round_half_even x =
     (let f = \<lfloor>x\<rfloor>; d = x - of_int f
      in if d < 1 / 2 then f else if d > 1 / 2 then f + 1 else if even f then f else f + 1)"

definition fmt_f2 :: "rat \<Rightarrow> string" where
  "fmt_f2 r =
     (let n = nat (round_half_even (\<bar>r\<bar> * 100))
      in (if r < 0 then ''-'' else []) @ string_of_nat (n div 100) @ ''.'' @
         string_of_nat (n mod 100 div 10) @ string_of_nat (n mod 10))"

subsection \<open>Deploy risk\<close>

datatype Gate = GateAuto | GatePolicy | GateExplicitApproval | GateDeny

record Deploy =
  dp_Env :: string
  dp_Replicas :: int
  dp_Summary :: string
  dp_RecentFailures :: int

record RiskReport =
  rr_Risk :: rat
  rr_Change :: string
  rr_Confidence :: rat
  rr_Gate :: Gate
  rr_Reason :: string

datatype gate_error =
    RequiredMissing
  | Judgment judge_error

definition risk_state :: "Deploy \<Rightarrow> json" where
  "risk_state d = JObj [(''env'', JStr (dp_Env d)), (''replicas'', JNum (of_int (dp_Replicas d))),
     (''summary'', JStr (dp_Summary d)), (''recent_failures'', JNum (of_int (dp_RecentFailures d)))]"

definition risk_choices :: "(string \<times> ChoiceQ) list" where
  "risk_choices = [(''change'',
     \<lparr>cq_Instructions = ''What kind of change is this deploy, judging only from `state.summary`?'',
      cq_Criteria = [
        (''config_only'', ''Only env vars, flags, or docs; no code or schema change''),
        (''code_rolling'', ''Code change safe to roll (stateless, backward compatible)''),
        (''migration'', ''Schema/data migration or stateful change needing ordering''),
        (''infra'', ''Infrastructure change (network, volumes, nodes, TLS, gateway)''),
        (''unknown'', ''Cannot tell from the summary; do not force another option'')]\<rparr>)]"

definition risk_scores :: "(string \<times> ScoreQ) list" where
  "risk_scores = [(''risk'',
     \<lparr>sq_Instructions = ''How risky is deploying this to `state.env` with `state.replicas` replicas and `state.recent_failures` recent failures?'',
      sq_Levels = [''Trivial'', ''Routine'', ''Risky'', ''Dangerous'']\<rparr>)]"

definition base_gate :: "string \<Rightarrow> rat \<Rightarrow> rat \<Rightarrow> Gate" where
  "base_gate choice confidence risk =
     (if choice = ''unknown'' \<or> confidence < 1 / 2 \<or> risk \<ge> 5 / 2 then GateDeny
      else if risk \<ge> 3 / 2 \<or> choice = ''migration'' \<or> choice = ''infra'' then GateExplicitApproval
      else if risk \<ge> 1 / 2 \<or> choice = ''code_rolling'' then GatePolicy
      else GateAuto)"

text \<open>The two upgrades after the switch, with the reason each of them sets.\<close>

definition upgrade_gate :: "string \<Rightarrow> int \<Rightarrow> Gate \<Rightarrow> Gate \<times> string" where
  "upgrade_gate env failures base =
     (let (base, reason) =
            (if env = ''production'' \<and> (base = GateAuto \<or> base = GatePolicy)
             then (GateExplicitApproval, ''production requires explicit approval'') else (base, []))
      in if failures > 0 \<and> base = GateExplicitApproval
         then (GateDeny, ''recent failures; cool down before retry'') else (base, reason))"

definition risk_Assess :: "judger \<Rightarrow> Deploy \<Rightarrow> (gate_error, RiskReport) result" where
  "risk_Assess j d =
     (if dp_Env d = [] \<or> dp_Summary d = [] then Inl RequiredMissing
      else case j (risk_state d) risk_choices [] risk_scores of
        Inl e \<Rightarrow> Inl (Judgment e)
      | Inr ans \<Rightarrow>
          let change = choice_of ans ''change'';
              risk = sa_Value (score_of ans ''risk'');
              (gate, reason) = upgrade_gate (dp_Env d) (dp_RecentFailures d)
                 (base_gate (ca_Choice change) (ca_Confidence change) risk)
          in Inr \<lparr>rr_Risk = risk, rr_Change = ca_Choice change, rr_Confidence = ca_Confidence change,
                  rr_Gate = gate,
                  rr_Reason = (if reason = [] then ''risk='' @ fmt_f2 risk @ '' change='' @ ca_Choice change
                               else reason)\<rparr>)"

subsection \<open>Guest commands\<close>

datatype Decision = DecisionAllow | DecisionLog | DecisionRequireApproval | DecisionDeny

record CmdReport =
  cr_Class :: string
  cr_Confidence :: rat
  cr_Decision :: Decision
  cr_Reason :: string

definition denied_patterns :: "string list" where
  "denied_patterns = [''rm -rf /'', ''rm -rf /*'', '':(){:|:&};:'', ''mkfs'', ''dd of=/dev/'',
     ''shutdown'', ''reboot'', ''halt'', ''poweroff'']"

definition deniedInCode :: "string list \<Rightarrow> string option" where
  "deniedInCode argv =
     (let lower = ToLower (TrimSpace (Join '' '' argv)) in find (\<lambda>p. Contains lower p) denied_patterns)"

definition cmd_state :: "string \<Rightarrow> string list \<Rightarrow> json" where
  "cmd_state env argv = JObj [(''env'', JStr env), (''argv'', JArr (map JStr argv))]"

definition cmd_choices :: "(string \<times> ChoiceQ) list" where
  "cmd_choices = [(''class'',
     \<lparr>cq_Instructions = ''What safety class is running `state.argv` inside a `state.env` VM?'',
      cq_Criteria = [
        (''read'', ''Read-only inspection (cat, ls, ps, logs, status)''),
        (''low_risk'', ''Reversible, scoped change (restart app process, clear cache)''),
        (''prod_change'', ''Production-affecting change (config rewrite, migration, scale)''),
        (''destructive'', ''Irreversible or host-escaping (disk wipe, privilege change, exfiltration)''),
        (''unknown'', ''Cannot tell; do not force another option'')]\<rparr>)]"

definition cmd_decision :: "string \<Rightarrow> string \<Rightarrow> rat \<Rightarrow> Decision \<times> string" where
  "cmd_decision env choice confidence =
     (if choice = ''unknown'' \<or> confidence < 1 / 2
      then (DecisionRequireApproval, ''class uncertain; approval required'')
      else if choice = ''destructive'' then (DecisionDeny, ''destructive class denied'')
      else if choice = ''prod_change'' \<or> env = ''production''
      then (DecisionRequireApproval, ''production-affecting; approval required'')
      else if choice = ''low_risk'' then (DecisionLog, ''reversible; allowed with audit transcript'')
      else (DecisionAllow, ''read-only''))"

definition cmd_Check :: "judger \<Rightarrow> string \<Rightarrow> string list \<Rightarrow> (gate_error, CmdReport) result" where
  "cmd_Check j env argv =
     (if length argv = 0 then Inl RequiredMissing
      else case deniedInCode argv of
        Some p \<Rightarrow> Inr \<lparr>cr_Class = ''destructive'', cr_Confidence = 1, cr_Decision = DecisionDeny,
          cr_Reason = ''code denylist matched '' @ [CHR 0x22] @ p @ [CHR 0x22] @ ''; no inference needed''\<rparr>
      | None \<Rightarrow>
          case j (cmd_state env argv) cmd_choices [] [] of
            Inl e \<Rightarrow> Inl (Judgment e)
          | Inr ans \<Rightarrow>
              let class = choice_of ans ''class'';
                  (decision, reason) = cmd_decision env (ca_Choice class) (ca_Confidence class)
              in Inr \<lparr>cr_Class = ca_Choice class, cr_Confidence = ca_Confidence class,
                      cr_Decision = decision, cr_Reason = reason\<rparr>)"

subsection \<open>Failed builds\<close>

datatype Outcome = OutcomeRetry | OutcomeAttention | OutcomeFail

record TriageReport =
  tr_Domain :: string
  tr_DomainConfidence :: rat
  tr_Retryable :: rat
  tr_Outcome :: Outcome
  tr_Reason :: string

definition RetryThreshold :: rat where
  "RetryThreshold = 6305039478318694 / 9007199254740992"

definition FailThreshold :: rat where
  "FailThreshold = 6305039478318694 / 18014398509481984"

definition MinDomainConfidence :: rat where
  "MinDomainConfidence = 1 / 2"

definition triage_choices :: "(string \<times> ChoiceQ) list" where
  "triage_choices = [(''failure_domain'',
     \<lparr>cq_Instructions = ''What caused this build to fail, judging only from `state.build_log`?'',
      cq_Criteria = [
        (''app_code'', ''Code or test failure in the app itself (compile error, failing test, lint)''),
        (''dependency'', ''External fetch failed (registry, package install, git clone, network fetch)''),
        (''infra_flake'', ''Runner/host transient (OOM-killed, disk full, daemon timeout, preempted)''),
        (''config'', ''Build definition wrong (bad Dockerfile, unknown pack, missing file, bad flag)''),
        (''unknown'', ''None of the above fit; do not force another option'')]\<rparr>)]"

definition triage_nouls :: "(string \<times> NoulQ) list" where
  "triage_nouls = [(''retryable'',
     \<lparr>nq_Instructions = ''Would retrying this exact build without any change plausibly succeed, judging only from `state.build_log`?'',
      nq_TrueMeans = ''Transient/environmental failure a retry could pass'',
      nq_FalseMeans = ''Deterministic failure a retry would repeat''\<rparr>)]"

definition triage_outcome :: "string \<Rightarrow> rat \<Rightarrow> rat \<Rightarrow> Outcome \<times> string" where
  "triage_outcome domain confidence retryable =
     (if domain = ''unknown'' \<or> confidence < MinDomainConfidence
      then (OutcomeAttention, ''domain uncertain; human triage'')
      else if retryable \<ge> RetryThreshold \<and> (domain = ''infra_flake'' \<or> domain = ''dependency'')
      then (OutcomeRetry, ''transient domain with high retry probability'')
      else if retryable < FailThreshold
      then (OutcomeFail, ''deterministic failure; retry would repeat it'')
      else (OutcomeAttention, ''ambiguous; human triage''))"

definition TriageBuildFailure :: "judger \<Rightarrow> string \<Rightarrow> (gate_error, TriageReport) result" where
  "TriageBuildFailure j logText =
     (if logText = [] then Inl RequiredMissing
      else case j (JObj [(''build_log'', JStr logText)]) triage_choices triage_nouls [] of
        Inl e \<Rightarrow> Inl (Judgment e)
      | Inr ans \<Rightarrow>
          let domain = choice_of ans ''failure_domain'';
              retryable = noul_of ans ''retryable'';
              (outcome, reason) = triage_outcome (ca_Choice domain) (ca_Confidence domain) retryable
          in Inr \<lparr>tr_Domain = ca_Choice domain, tr_DomainConfidence = ca_Confidence domain,
                  tr_Retryable = retryable, tr_Outcome = outcome, tr_Reason = reason\<rparr>)"

subsection \<open>Alerts\<close>

datatype AlertAction = ActionLog | ActionNotify | ActionPage

record Alert =
  al_Name :: string
  al_Summary :: string
  al_Service :: string
  al_Env :: string

record AlertReport =
  ar_Severity :: rat
  ar_Route :: string
  ar_Confidence :: rat
  ar_Action :: AlertAction
  ar_Reason :: string

definition alert_state :: "Alert \<Rightarrow> json" where
  "alert_state a = JObj [(''name'', JStr (al_Name a)), (''summary'', JStr (al_Summary a)),
     (''service'', JStr (al_Service a)), (''env'', JStr (al_Env a))]"

definition alert_choices :: "(string \<times> ChoiceQ) list" where
  "alert_choices = [(''route'',
     \<lparr>cq_Instructions = ''Where should this alert go, judging from `state`?'',
      cq_Criteria = [
        (''log'', ''Informational; dashboard timeline only''),
        (''notify'', ''Needs human eyes soon (channel notification)''),
        (''page'', ''Wake someone now (service down, data at risk)'')]\<rparr>)]"

definition alert_scores :: "(string \<times> ScoreQ) list" where
  "alert_scores = [(''severity'',
     \<lparr>sq_Instructions = ''How severe is this alert for `state.service` in `state.env`?'',
      sq_Levels = [''Info'', ''Watch'', ''Urgent'', ''Critical'']\<rparr>)]"

definition alert_action :: "rat \<Rightarrow> string \<Rightarrow> rat \<Rightarrow> AlertAction \<times> string" where
  "alert_action sev route conf =
     (if sev \<ge> 5 / 2 \<and> route = ''page'' \<and> conf \<ge> 1 / 2
      then (ActionPage, ''critical and page-routed with trusted judgments'')
      else if sev \<ge> 5 / 2 \<and> route = ''page''
      then (ActionNotify, ''page-worthy but uncertain; downgraded to notify'')
      else if sev \<ge> 3 / 2 \<or> route = ''notify'' then (ActionNotify, ''needs human eyes'')
      else (ActionLog, ''informational''))"

text \<open>\<open>rnd\<close> rounds the exact sum and quotient to a float, as in theory \<open>Scheduler\<close>.\<close>

definition alert_Assess :: "(rat \<Rightarrow> rat) \<Rightarrow> judger \<Rightarrow> Alert \<Rightarrow> (gate_error, AlertReport) result" where
  "alert_Assess rnd j a =
     (if al_Name a = [] \<or> al_Summary a = [] then Inl RequiredMissing
      else case j (alert_state a) alert_choices [] alert_scores of
        Inl e \<Rightarrow> Inl (Judgment e)
      | Inr ans \<Rightarrow>
          let route = choice_of ans ''route'';
              sev = sa_Value (score_of ans ''severity'');
              conf = rnd (rnd (ca_Confidence route + sa_Confidence (score_of ans ''severity'')) / 2);
              (action, reason) = alert_action sev (ca_Choice route) conf
          in Inr \<lparr>ar_Severity = sev, ar_Route = ca_Choice route, ar_Confidence = conf,
                  ar_Action = action, ar_Reason = reason\<rparr>)"

subsection \<open>Gates are ordered by strictness\<close>

fun gate_rank :: "Gate \<Rightarrow> nat" where
  "gate_rank GateAuto = 0"
| "gate_rank GatePolicy = 1"
| "gate_rank GateExplicitApproval = 2"
| "gate_rank GateDeny = 3"

lemma gate_rank_inject: "gate_rank a = gate_rank b \<longleftrightarrow> a = b"
  by (cases a; cases b) simp_all

instantiation Gate :: linorder
begin

definition less_eq_Gate :: "Gate \<Rightarrow> Gate \<Rightarrow> bool" where
  "less_eq_Gate a b \<longleftrightarrow> gate_rank a \<le> gate_rank b"

definition less_Gate :: "Gate \<Rightarrow> Gate \<Rightarrow> bool" where
  "less_Gate a b \<longleftrightarrow> gate_rank a < gate_rank b"

instance
  by standard (auto simp: less_eq_Gate_def less_Gate_def gate_rank_inject)

end

lemma base_gate_mono:
  assumes "risk \<le> risk'" "confidence' \<le> confidence"
  shows "base_gate choice confidence risk \<le> base_gate choice confidence' risk'"
  using assms by (auto simp: base_gate_def less_eq_Gate_def)

lemma upgrade_gate_mono:
  assumes "base \<le> base'" "failures \<le> failures'" "env' = env \<or> env' = ''production''"
  shows "fst (upgrade_gate env failures base) \<le> fst (upgrade_gate env' failures' base')"
  using assms by (cases base; cases base') (auto simp: upgrade_gate_def less_eq_Gate_def Let_def)

lemma risk_Assess_Inr:
  assumes "risk_Assess j d = Inr rep"
  shows "rr_Gate rep = fst (upgrade_gate (dp_Env d) (dp_RecentFailures d)
    (base_gate (rr_Change rep) (rr_Confidence rep) (rr_Risk rep)))"
  using assms by (auto simp: risk_Assess_def Let_def case_prod_beta split: if_splits sum.splits)

subsection \<open>The denylist looks through case and surrounding space\<close>

lemma HasPrefix_hd: "HasPrefix (c # s) p \<Longrightarrow> p \<noteq> [] \<Longrightarrow> hd p = c"
  by (auto simp: HasPrefix_iff Cons_eq_append_conv)

lemma Contains_dropWhile:
  "p \<noteq> [] \<Longrightarrow> \<not> P (hd p) \<Longrightarrow> Contains (dropWhile P s) p \<longleftrightarrow> Contains s p"
  by (induction s) (auto dest: HasPrefix_hd)

lemma Contains_rev: "Contains (rev s) (rev p) \<longleftrightarrow> Contains s p"
proof -
  have "Contains (rev s) (rev p)" if "Contains s p" for s p
    using that by (force simp: Contains_iff)
  from this [of s p] this [of "rev s" "rev p"] show ?thesis by auto
qed

lemma Contains_TrimSpace:
  assumes "p \<noteq> []" "\<not> is_space (hd p)" "\<not> is_space (last p)"
  shows "Contains (TrimSpace s) p \<longleftrightarrow> Contains s p"
proof -
  have "Contains (TrimRightF is_space t) p \<longleftrightarrow> Contains (dropWhile is_space (rev t)) (rev p)" for t
    using Contains_rev [of "dropWhile is_space (rev t)" "rev p"] by (simp add: TrimRightF_def)
  also have "\<dots> t \<longleftrightarrow> Contains (rev t) (rev p)" for t
    using assms by (intro Contains_dropWhile) (simp_all add: hd_rev)
  finally have "Contains (TrimRightF is_space t) p \<longleftrightarrow> Contains t p" for t
    by (simp add: Contains_rev)
  then show ?thesis
    using assms by (simp add: TrimSpace_def TrimLeftF_def Contains_dropWhile)
qed

lemma is_space_lower_char [simp]: "is_space (lower_char c) = is_space c"
  by (auto simp: lower_char_def char_class_defs)

lemma ToLower_TrimSpace: "ToLower (TrimSpace s) = TrimSpace (ToLower s)"
  by (simp add: TrimSpace_def TrimRightF_def TrimLeftF_def ToLower_def dropWhile_map rev_map comp_def)

lemma denied_patterns_ok:
  "p \<in> set denied_patterns \<Longrightarrow> p \<noteq> [] \<and> \<not> is_space (hd p) \<and> \<not> is_space (last p)"
  by (auto simp: denied_patterns_def is_space_def)

lemma deniedInCode_None:
  "deniedInCode argv = None \<longleftrightarrow> (\<forall>p \<in> set denied_patterns. \<not> Contains (ToLower (Join '' '' argv)) p)"
  using denied_patterns_ok
  by (simp add: deniedInCode_def find_None_conv ToLower_TrimSpace Contains_TrimSpace)

subsection \<open>What the gates rely on: the judge answers what it was asked\<close>

locale answering_judger =
  fixes judge :: judger
  assumes answers_choices: "judge st cs ns ss = Inr ans \<Longrightarrow> dom (map_of (an_Choices ans)) = fst ` set cs"
    and answers_nouls: "judge st cs ns ss = Inr ans \<Longrightarrow> dom (map_of (an_Nouls ans)) = fst ` set ns"
    and answers_scores: "judge st cs ns ss = Inr ans \<Longrightarrow> dom (map_of (an_Scores ans)) = fst ` set ss"
begin

text \<open>No gate decides on the zero value of a missing answer: each answer it reads was decoded.\<close>

lemma choice_answered:
  assumes "judge st cs ns ss = Inr ans" "i \<in> fst ` set cs"
  shows "map_of (an_Choices ans) i = Some (choice_of ans i)"
proof -
  have "i \<in> dom (map_of (an_Choices ans))"
    using answers_choices [OF assms(1)] assms(2) by simp
  then show ?thesis by (auto simp: choice_of_def)
qed

lemma score_answered:
  assumes "judge st cs ns ss = Inr ans" "i \<in> fst ` set ss"
  shows "map_of (an_Scores ans) i = Some (score_of ans i)"
proof -
  have "i \<in> dom (map_of (an_Scores ans))"
    using answers_scores [OF assms(1)] assms(2) by simp
  then show ?thesis by (auto simp: score_of_def)
qed

lemma risk_answered:
  assumes "risk_Assess judge d = Inr rep"
  shows "\<exists>ans c s. judge (risk_state d) risk_choices [] risk_scores = Inr ans \<and>
    map_of (an_Choices ans) ''change'' = Some c \<and> map_of (an_Scores ans) ''risk'' = Some s \<and>
    rr_Change rep = ca_Choice c \<and> rr_Confidence rep = ca_Confidence c \<and> rr_Risk rep = sa_Value s"
proof -
  from assms obtain ans where ans: "judge (risk_state d) risk_choices [] risk_scores = Inr ans"
      and rep: "rr_Change rep = ca_Choice (choice_of ans ''change'')"
        "rr_Confidence rep = ca_Confidence (choice_of ans ''change'')"
        "rr_Risk rep = sa_Value (score_of ans ''risk'')"
    by (auto simp: risk_Assess_def Let_def case_prod_beta split: if_splits sum.splits)
  have "map_of (an_Choices ans) ''change'' = Some (choice_of ans ''change'')"
    by (rule choice_answered [OF ans]) (simp add: risk_choices_def)
  moreover have "map_of (an_Scores ans) ''risk'' = Some (score_of ans ''risk'')"
    by (rule score_answered [OF ans]) (simp add: risk_scores_def)
  ultimately show ?thesis using ans rep by blast
qed

end

interpretation client: answering_judger "Evaluate do_post c" for do_post c
  by unfold_locales (simp_all add: Evaluate_answers)

subsection \<open>Properties\<close>



text \<open>
  Guest commands are gated safely. A command line that contains a denylisted pattern, in any case
  and however it is padded, is denied for every judge; in production no command runs without approval;
  an uncertain answer always asks for approval; and a command is allowed without an audit transcript
  only outside production on a trusted answer that names none of the other classes.
\<close>

theorem cmd_Check_safe:
  assumes "cmd_Check j env argv = Inr rep"
  shows "((\<exists>p \<in> set denied_patterns. Contains (ToLower (Join '' '' argv)) p) \<longrightarrow>
      cr_Decision rep = DecisionDeny \<and> (\<forall>j' env'. cmd_Check j' env' argv = Inr rep)) \<and>
    (env = ''production'' \<longrightarrow> cr_Decision rep \<in> {DecisionRequireApproval, DecisionDeny}) \<and>
    (cr_Class rep = ''unknown'' \<or> cr_Confidence rep < 1 / 2 \<longrightarrow> cr_Decision rep = DecisionRequireApproval) \<and>
    (cr_Decision rep = DecisionAllow \<longrightarrow> env \<noteq> ''production'' \<and> cr_Confidence rep \<ge> 1 / 2 \<and>
      cr_Class rep \<notin> {''unknown'', ''destructive'', ''prod_change'', ''low_risk''})"
proof (cases "deniedInCode argv")
  case (Some p)
  then have "\<And>j' env'. cmd_Check j' env' argv = Inr rep" "cr_Decision rep = DecisionDeny"
      "cr_Class rep = ''destructive''" "cr_Confidence rep = 1"
    using assms by (auto simp: cmd_Check_def split: if_splits)
  then show ?thesis by simp
next
  case None
  have "\<not> (\<exists>p \<in> set denied_patterns. Contains (ToLower (Join '' '' argv)) p)"
    using None deniedInCode_None by blast
  moreover have "cr_Decision rep = fst (cmd_decision env (cr_Class rep) (cr_Confidence rep))"
    using None assms by (auto simp: cmd_Check_def Let_def case_prod_beta split: if_splits sum.splits)
  ultimately show ?thesis
    by (auto simp: cmd_decision_def split: if_splits)
qed

theorem cmd_Check_safe_witness:
  "cr_Decision (projr (cmd_Check (\<lambda>_ _ _ _. Inl MissingKey) ''dev'' [''sh'', ''-c'', '' RM -rf / ''])) = DecisionDeny"
proof -
  let ?argv = "[''sh'', ''-c'', '' RM -rf / '']"
  have bad: "Contains (ToLower (Join '' '' ?argv)) ''rm -rf /''" "''rm -rf /'' \<in> set denied_patterns"
    by code_simp+
  then have "deniedInCode ?argv \<noteq> None"
    using deniedInCode_None [of ?argv] by blast
  then obtain rep where "cmd_Check (\<lambda>_ _ _ _. Inl MissingKey) ''dev'' ?argv = Inr rep"
    by (auto simp: cmd_Check_def)
  with cmd_Check_safe [OF this] bad show ?thesis by auto
qed

end
