(* ===== verification/Redis_Cache.thy ===== *)
theory Redis_Cache
  imports Netip
begin

text \<open>
  The optional Redis cache (\<open>internal/cache\<close>): the RESP wire format of \<open>resp.go\<close> and the pooled client
  of \<open>redis.go\<close>. A connection's input is the list of bytes that arrive before the deadline; every round
  trip wraps the connection in a new \<open>bufio.Reader\<close>, so what a reply leaves unread is dropped. Dialing,
  sending and closing are the operations of the record \<open>netio\<close> on a world of any type.
\<close>

subsection \<open>Wire format\<close>

definition crlf :: string where
  "crlf = [CHR 0x0D, CHR 0x0A]"

fun write_args :: "string list \<Rightarrow> string" where
  "write_args [] = []"
| "write_args (a # as) = ''$'' @ Itoa (int (length a)) @ crlf @ a @ crlf @ write_args as"

definition writeCommand :: "string list \<Rightarrow> string" where
  "writeCommand args = ''*'' @ Itoa (int (length args)) @ crlf @ write_args args"

datatype reply =
    RNil
  | RBytes string
  | RInt int
  | RArray "reply list"

datatype resp_error =
    UnexpectedEOF
  | EmptyLine
  | MalformedLine string
  | ErrorReply string
  | BadInteger string
  | BadBulkLength string
  | BadArrayLength string
  | UnexpectedType char
  | AllocPanic

text \<open>\<open>ReadBytes('\n')\<close>: the bytes up to and including the first newline, or an error.\<close>

fun ReadBytes :: "string \<Rightarrow> (string \<times> string) option" where
  "ReadBytes [] = None"
| "ReadBytes (c # s) =
     (if c = CHR 0x0A then Some ([c], s)
      else case ReadBytes s of None \<Rightarrow> None | Some (l, r) \<Rightarrow> Some (c # l, r))"

definition readCRLFLine :: "string \<Rightarrow> (resp_error, string \<times> string) result" where
  "readCRLFLine s =
     (case ReadBytes s of
        None \<Rightarrow> Inl UnexpectedEOF
      | Some (line, r) \<Rightarrow>
          if length line < 2 \<or> line ! (length line - 2) \<noteq> CHR 0x0D then Inl (MalformedLine line)
          else Inr (take (length line - 2) line, r))"

text \<open>
  \<open>make\<close> panics when the wrapped length is negative or the size exceeds the address space of 2^48
  bytes; an element of \<open>[]any\<close> takes 16 bytes. A reply nested in an array is read by a recursive call.
  The model bounds the nesting by fuel; each call consumes a line, so fuel beyond the length of the
  input never runs out (\<open>readReply_n_fuel\<close> below).
\<close>

definition maxAlloc :: int where
  "maxAlloc = 281474976710656"

fun readReply_n :: "nat \<Rightarrow> string \<Rightarrow> (resp_error, reply \<times> string) result"
  and read_array :: "nat \<Rightarrow> nat \<Rightarrow> string \<Rightarrow> (resp_error, reply list \<times> string) result" where
  "readReply_n 0 s = Inl UnexpectedEOF"
| "readReply_n (Suc f) s =
     (case readCRLFLine s of
        Inl e \<Rightarrow> Inl e
      | Inr ([], r) \<Rightarrow> Inl EmptyLine
      | Inr (typ # body, r) \<Rightarrow>
          if typ = CHR ''+'' then Inr (RBytes body, r)
          else if typ = CHR ''-'' then Inl (ErrorReply body)
          else if typ = CHR '':'' then
            (case Atoi body of None \<Rightarrow> Inl (BadInteger body) | Some n \<Rightarrow> Inr (RInt n, r))
          else if typ = CHR ''$'' then
            (case Atoi body of
               None \<Rightarrow> Inl (BadBulkLength body)
             | Some n \<Rightarrow>
                 if n < 0 then Inr (RNil, r)
                 else if wrap64 (n + 2) < 0 \<or> wrap64 (n + 2) > maxAlloc then Inl AllocPanic
                 else if int (length r) < n + 2 then Inl UnexpectedEOF
                 else Inr (RBytes (take (nat n) r), drop (nat n + 2) r))
          else if typ = CHR ''*'' then
            (case Atoi body of
               None \<Rightarrow> Inl (BadArrayLength body)
             | Some n \<Rightarrow>
                 if n < 0 then Inr (RNil, r)
                 else if 16 * n > maxAlloc then Inl AllocPanic
                 else case read_array f (nat n) r of
                   Inl e \<Rightarrow> Inl e
                 | Inr (out, r') \<Rightarrow> Inr (RArray out, r'))
          else Inl (UnexpectedType typ))"
| "read_array f 0 s = Inr ([], s)"
| "read_array f (Suc n) s =
     (case readReply_n f s of
        Inl e \<Rightarrow> Inl e
      | Inr (v, r) \<Rightarrow>
          case read_array f n r of Inl e \<Rightarrow> Inl e | Inr (out, r') \<Rightarrow> Inr (v # out, r'))"

definition readReply :: "string \<Rightarrow> (resp_error, reply \<times> string) result" where
  "readReply s = readReply_n (Suc (length s)) s"

subsection \<open>The client\<close>

record Options =
  o_Addr :: string
  o_User :: string
  o_Password :: string
  o_DB :: int
  o_DialTimeout :: int
  o_IOTimeout :: int
  o_MaxIdleConns :: int

text \<open>The parts of a parsed URL that \<open>ParseURL\<close> reads; \<open>url_Parse\<close> stands for \<open>net/url\<close>.\<close>

record url =
  u_Scheme :: string
  u_Host :: string
  u_User :: "(string \<times> string option) option"
  u_Path :: string

datatype url_error = EmptyURL | UnparsableURL | UnsupportedScheme string | InvalidDB string

definition url_opts :: "url \<Rightarrow> int \<Rightarrow> Options" where
  "url_opts u db =
     (let host = (if u_Host u = [] then ''localhost'' else u_Host u);
          host = (case SplitHostPort host of None \<Rightarrow> host @ '':6379'' | Some _ \<Rightarrow> host)
      in \<lparr>o_Addr = host,
          o_User = (case u_User u of None \<Rightarrow> [] | Some (n, _) \<Rightarrow> n),
          o_Password = (case u_User u of Some (_, Some pw) \<Rightarrow> pw | _ \<Rightarrow> []),
          o_DB = db, o_DialTimeout = 0, o_IOTimeout = 0, o_MaxIdleConns = 0\<rparr>)"

definition redis_ParseURL :: "(string \<Rightarrow> url option) \<Rightarrow> string \<Rightarrow> (url_error, Options) result" where
  "redis_ParseURL url_Parse raw =
     (if raw = [] then Inl EmptyURL
      else case url_Parse raw of
        None \<Rightarrow> Inl UnparsableURL
      | Some u \<Rightarrow>
          if u_Scheme u \<noteq> ''redis'' then Inl (UnsupportedScheme (u_Scheme u))
          else let dbStr = TrimPrefix (u_Path u) ''/''
               in if dbStr \<noteq> [] \<and> dbStr \<noteq> ''/''
                  then (case Atoi dbStr of None \<Rightarrow> Inl (InvalidDB dbStr) | Some db \<Rightarrow> Inr (url_opts u db))
                  else Inr (url_opts u 0))"

definition with_defaults :: "Options \<Rightarrow> Options" where
  "with_defaults o' = o'\<lparr>
     o_DialTimeout := (if o_DialTimeout o' \<le> 0 then 3000000000 else o_DialTimeout o'),
     o_IOTimeout := (if o_IOTimeout o' \<le> 0 then 2000000000 else o_IOTimeout o'),
     o_MaxIdleConns := (if o_MaxIdleConns o' \<le> 0 then 8 else o_MaxIdleConns o')\<rparr>"

record Redis =
  pool :: "nat list"
  opts :: Options

record 'w netio =
  nio_dial :: "string \<Rightarrow> 'w \<Rightarrow> nat option \<times> 'w"
  nio_send :: "nat \<Rightarrow> string \<Rightarrow> 'w \<Rightarrow> string option \<times> 'w"
  nio_close :: "nat \<Rightarrow> 'w \<Rightarrow> 'w"

datatype redis_error =
    DialFailed
  | WriteFailed
  | Resp resp_error
  | UnexpectedReply reply

definition roundtrip :: "'w netio \<Rightarrow> nat \<Rightarrow> string list \<Rightarrow> 'w \<Rightarrow> (redis_error, reply) result \<times> 'w" where
  "roundtrip io conn args w =
     (case nio_send io conn (writeCommand args) w of
        (None, w) \<Rightarrow> (Inl WriteFailed, w)
      | (Some bytes, w) \<Rightarrow>
          case readReply bytes of Inl e \<Rightarrow> (Inl (Resp e), w) | Inr (v, _) \<Rightarrow> (Inr v, w))"

definition authArgs :: "Options \<Rightarrow> string list" where
  "authArgs o' = [''AUTH''] @ (if o_User o' \<noteq> [] then [o_User o'] else []) @ [o_Password o']"

definition dial_auth :: "'w netio \<Rightarrow> Options \<Rightarrow> nat \<Rightarrow> 'w \<Rightarrow> redis_error option \<times> 'w" where
  "dial_auth io o' conn w =
     (if o_Password o' = [] then (None, w)
      else case roundtrip io conn (authArgs o') w of (Inl e, w) \<Rightarrow> (Some e, w) | (Inr _, w) \<Rightarrow> (None, w))"

definition dial_select :: "'w netio \<Rightarrow> Options \<Rightarrow> nat \<Rightarrow> 'w \<Rightarrow> redis_error option \<times> 'w" where
  "dial_select io o' conn w =
     (if o_DB o' = 0 then (None, w)
      else case roundtrip io conn [''SELECT'', Itoa (o_DB o')] w of (Inl e, w) \<Rightarrow> (Some e, w) | (Inr _, w) \<Rightarrow> (None, w))"

definition redis_dial :: "'w netio \<Rightarrow> Options \<Rightarrow> 'w \<Rightarrow> (redis_error, nat) result \<times> 'w" where
  "redis_dial io o' w =
     (case nio_dial io (o_Addr o') w of
        (None, w) \<Rightarrow> (Inl DialFailed, w)
      | (Some conn, w) \<Rightarrow>
          case dial_auth io o' conn w of
            (Some e, w) \<Rightarrow> (Inl e, nio_close io conn w)
          | (None, w) \<Rightarrow>
              case dial_select io o' conn w of
                (Some e, w) \<Rightarrow> (Inl e, nio_close io conn w)
              | (None, w) \<Rightarrow> (Inr conn, w))"

definition acquire :: "Redis \<Rightarrow> nat option \<times> Redis" where
  "acquire c = (let n = length (pool c)
     in if n > 0 then (Some (pool c ! (n - 1)), c\<lparr>pool := take (n - 1) (pool c)\<rparr>) else (None, c))"

definition release :: "'w netio \<Rightarrow> nat \<Rightarrow> Redis \<Rightarrow> 'w \<Rightarrow> Redis \<times> 'w" where
  "release io conn c w =
     (if int (length (pool c)) \<ge> o_MaxIdleConns (opts c) then (c, nio_close io conn w)
      else (c\<lparr>pool := pool c @ [conn]\<rparr>, w))"

definition redis_do :: "'w netio \<Rightarrow> string list \<Rightarrow> Redis \<Rightarrow> 'w \<Rightarrow> (redis_error, reply) result \<times> Redis \<times> 'w" where
  "redis_do io args c w =
     (case (case acquire c of
              (Some conn, c) \<Rightarrow> (Inr conn, c, w)
            | (None, c) \<Rightarrow> (case redis_dial io (opts c) w of (r, w) \<Rightarrow> (r, c, w))) of
        (Inl e, c, w) \<Rightarrow> (Inl e, c, w)
      | (Inr conn, c, w) \<Rightarrow>
          case roundtrip io conn args w of
            (Inr v, w) \<Rightarrow> (Inr v, release io conn c w)
          | (Inl e, w) \<Rightarrow>
              case redis_dial io (opts c) (nio_close io conn w) of
                (Inl _, w) \<Rightarrow> (Inl e, c, w)
              | (Inr fresh, w) \<Rightarrow>
                  case roundtrip io fresh args w of
                    (Inl e, w) \<Rightarrow> (Inl e, c, nio_close io fresh w)
                  | (Inr v, w) \<Rightarrow> (Inr v, release io fresh c w))"

definition redis_Ping :: "'w netio \<Rightarrow> Redis \<Rightarrow> 'w \<Rightarrow> redis_error option \<times> Redis \<times> 'w" where
  "redis_Ping io c w =
     (case redis_do io [''PING''] c w of
        (Inl e, c, w) \<Rightarrow> (Some e, c, w)
      | (Inr v, c, w) \<Rightarrow> ((case v of RBytes _ \<Rightarrow> None | _ \<Rightarrow> Some (UnexpectedReply v)), c, w))"

definition redis_Get :: "'w netio \<Rightarrow> string \<Rightarrow> Redis \<Rightarrow> 'w \<Rightarrow> string option \<times> Redis \<times> 'w" where
  "redis_Get io key c w =
     (case redis_do io [''GET'', key] c w of
        (Inl e, c, w) \<Rightarrow> (None, c, w)
      | (Inr v, c, w) \<Rightarrow> ((case v of RBytes b \<Rightarrow> Some b | _ \<Rightarrow> None), c, w))"

text \<open>A duration is in nanoseconds; \<open>Milliseconds\<close> truncates.\<close>

definition redis_Set :: "'w netio \<Rightarrow> string \<Rightarrow> string \<Rightarrow> int \<Rightarrow> Redis \<Rightarrow> 'w \<Rightarrow> redis_error option \<times> Redis \<times> 'w" where
  "redis_Set io key val ttl c w =
     (case redis_do io ([''SET'', key, val] @
              (if ttl > 0 then [''PX'', Itoa (ttl div 1000000)] else [])) c w of
        (Inl e, c, w) \<Rightarrow> (Some e, c, w)
      | (Inr v, c, w) \<Rightarrow> ((case v of RBytes _ \<Rightarrow> None | _ \<Rightarrow> Some (UnexpectedReply v)), c, w))"

definition redis_Del :: "'w netio \<Rightarrow> string list \<Rightarrow> Redis \<Rightarrow> 'w \<Rightarrow> redis_error option \<times> Redis \<times> 'w" where
  "redis_Del io keys c w =
     (if length keys = 0 then (None, c, w)
      else case redis_do io (''DEL'' # keys) c w of
        (Inl e, c, w) \<Rightarrow> (Some e, c, w) | (Inr _, c, w) \<Rightarrow> (None, c, w))"

definition redis_Flush :: "'w netio \<Rightarrow> Redis \<Rightarrow> 'w \<Rightarrow> redis_error option \<times> Redis \<times> 'w" where
  "redis_Flush io c w =
     (case redis_do io [''FLUSHDB''] c w of
        (Inl e, c, w) \<Rightarrow> (Some e, c, w) | (Inr _, c, w) \<Rightarrow> (None, c, w))"

definition redis_Close :: "'w netio \<Rightarrow> Redis \<Rightarrow> 'w \<Rightarrow> Redis \<times> 'w" where
  "redis_Close io c w = (c\<lparr>pool := []\<rparr>, fold (nio_close io) (pool c) w)"

definition redis_Open ::
    "'w netio \<Rightarrow> (string \<Rightarrow> url option) \<Rightarrow> string \<Rightarrow> 'w \<Rightarrow> (url_error + redis_error, Redis) result \<times> 'w" where
  "redis_Open io url_Parse raw w =
     (case redis_ParseURL url_Parse raw of
        Inl e \<Rightarrow> (Inl (Inl e), w)
      | Inr o' \<Rightarrow>
          case redis_Ping io \<lparr>pool = [], opts = with_defaults o'\<rparr> w of
            (Some e, c, w) \<Rightarrow> (Inl (Inr e), snd (redis_Close io c w))
          | (None, c, w) \<Rightarrow> (Inr c, w))"

subsection \<open>The reader consumes its input, so the fuel is enough\<close>

lemma ReadBytes_Some: "ReadBytes s = Some (l, r) \<Longrightarrow> s = l @ r \<and> l \<noteq> []"
  by (induction s arbitrary: l) (auto split: if_splits option.splits)

lemma readCRLFLine_shorter: "readCRLFLine s = Inr (l, r) \<Longrightarrow> length r < length s"
  by (auto simp: readCRLFLine_def split: option.splits if_splits dest!: ReadBytes_Some)

lemma readReply_shorter:
  "readReply_n f s = Inr (v, r) \<Longrightarrow> length r < length s"
  "read_array f n s = Inr (vs, r) \<Longrightarrow> length r \<le> length s"
proof (induction f s and f n s arbitrary: v r and vs r rule: readReply_n_read_array.induct)
  case (2 f s)
  then show ?case
    by (fastforce split: sum.splits list.splits if_splits option.splits dest: readCRLFLine_shorter)
next
  case (4 f n s)
  then show ?case
    by (fastforce split: sum.splits)
qed auto

lemma readReply_n_fuel:
  "length s < f \<Longrightarrow> length s < g \<Longrightarrow> readReply_n f s = readReply_n g s"
  "length s < f \<Longrightarrow> length s < g \<Longrightarrow> read_array f n s = read_array g n s"
proof (induction f s and f n s arbitrary: g and g rule: readReply_n_read_array.induct)
  case (2 f s)
  then obtain g' where g: "g = Suc g'" by (cases g) auto
  show ?case
  proof (cases "readCRLFLine s")
    case (Inr lr)
    then obtain l r where lr: "readCRLFLine s = Inr (l, r)" by (cases lr) auto
    have "length r < f" "length r < g'"
      using readCRLFLine_shorter [OF lr] 2(2,3) g by auto
    then have "read_array f (nat n) r = read_array g' (nat n) r"
      if "l = CHR ''*'' # body" "Atoi body = Some n" "\<not> n < 0" "\<not> maxAlloc < 16 * n" for body n
      using that by (intro 2(1) [OF lr]) auto
    then show ?thesis
      using lr by (auto simp: g split: list.splits option.splits)
  qed (simp add: g)
next
  case (4 f n s)
  have eq: "readReply_n f s = readReply_n g s" using 4 by blast
  show ?case
  proof (cases "readReply_n f s")
    case (Inr vr)
    then obtain v r where vr: "readReply_n f s = Inr (v, r)" by (cases vr) auto
    then have "length r < length s" by (rule readReply_shorter)
    then have "read_array f n r = read_array g n r"
      using 4(3,4) by (intro 4(2) [OF vr refl]) auto
    then show ?thesis using vr eq by simp
  qed (simp add: eq [symmetric])
qed auto

subsection \<open>Round trip\<close>

text \<open>The encoding a server uses for a value, and the sizes a reply may have.\<close>

fun encode_reply :: "reply \<Rightarrow> string" where
  "encode_reply RNil = ''$-1'' @ crlf"
| "encode_reply (RBytes b) = ''$'' @ Itoa (int (length b)) @ crlf @ b @ crlf"
| "encode_reply (RInt n) = '':'' @ Itoa n @ crlf"
| "encode_reply (RArray vs) = ''*'' @ Itoa (int (length vs)) @ crlf @ concat (map encode_reply vs)"

fun sized :: "reply \<Rightarrow> bool" where
  "sized RNil = True"
| "sized (RBytes b) = (int (length b) + 2 \<le> maxAlloc)"
| "sized (RInt n) = in_int64 n"
| "sized (RArray vs) = (16 * int (length vs) \<le> maxAlloc \<and> list_all sized vs)"

fun depth :: "reply \<Rightarrow> nat" where
  "depth (RArray vs) = Suc (foldr max (map depth vs) 0)"
| "depth _ = 0"

lemma length_crlf [simp]: "length crlf = 2"
  by (simp add: crlf_def)

lemma ReadBytes_line: "CHR 0x0A \<notin> set l \<Longrightarrow> ReadBytes (l @ CHR 0x0A # r) = Some (l @ [CHR 0x0A], r)"
  by (induction l) auto

lemma readCRLFLine_line:
  assumes "CHR 0x0A \<notin> set l"
  shows "readCRLFLine (l @ crlf @ r) = Inr (l, r)"
proof -
  have "ReadBytes (l @ crlf @ r) = Some (l @ crlf, r)"
    using ReadBytes_line [of "l @ [CHR 0x0D]" r] assms by (simp add: crlf_def)
  then show ?thesis
    by (simp add: readCRLFLine_def crlf_def nth_append)
qed

lemma Itoa_no_newline: "CHR 0x0A \<notin> set (Itoa n)"
  using Itoa_chars [of "CHR 0x0A" n] by (auto simp: is_digit_def)

lemma readCRLFLine_number:
  "c \<noteq> CHR 0x0A \<Longrightarrow> readCRLFLine (c # Itoa n @ crlf @ r) = Inr (c # Itoa n, r)"
  using readCRLFLine_line [of "c # Itoa n" r] Itoa_no_newline by simp

lemma foldr_max_ge: "x \<in> set ns \<Longrightarrow> x \<le> foldr max ns (0 :: nat)"
  by (induction ns) auto

lemma in_int64_alloc: "0 \<le> n \<Longrightarrow> n \<le> maxAlloc \<Longrightarrow> in_int64 n"
  by (simp add: in_int64_def maxAlloc_def)

lemma read_encoded:
  "sized v \<Longrightarrow> depth v < f \<Longrightarrow> readReply_n f (encode_reply v @ rest) = Inr (v, rest)"
proof (induction v arbitrary: f rest)
  case RNil
  then obtain f' where "f = Suc f'" by (cases f) auto
  moreover have "readCRLFLine (''$-1'' @ crlf @ rest) = Inr (''$-1'', rest)"
    by (rule readCRLFLine_line) simp
  moreover have "Atoi ''-1'' = Some (- 1)" by code_simp
  ultimately show ?case by simp
next
  case (RBytes b)
  then obtain f' where f: "f = Suc f'" by (cases f) auto
  have "in_int64 (int (length b))" "in_int64 (int (length b) + 2)"
    using RBytes by (auto intro: in_int64_alloc simp: maxAlloc_def)
  then show ?case
    using RBytes by (simp add: f readCRLFLine_number maxAlloc_def)
next
  case (RInt n)
  then obtain f' where "f = Suc f'" by (cases f) auto
  then show ?case using RInt by (simp add: readCRLFLine_number)
next
  case (RArray vs)
  then obtain f' where f: "f = Suc f'" by (cases f) auto
  have arr: "read_array f' (length vs') (concat (map encode_reply vs') @ rest) = Inr (vs', rest)"
    if "set vs' \<subseteq> set vs" for vs'
    using that
  proof (induction vs')
    case (Cons v vs')
    have "depth v \<le> foldr max (map depth vs) 0"
      using Cons.prems by (intro foldr_max_ge) auto
    then have "readReply_n f' (encode_reply v @ concat (map encode_reply vs') @ rest) =
        Inr (v, concat (map encode_reply vs') @ rest)"
      using Cons.prems RArray.prems f by (intro RArray.IH) (auto simp: list_all_iff)
    then show ?case using Cons by simp
  qed simp
  have "in_int64 (int (length vs))"
    using RArray.prems by (auto intro: in_int64_alloc simp: maxAlloc_def)
  then show ?case
    using arr [of vs] RArray.prems by (simp add: f readCRLFLine_number)
qed

lemma foldr_max_le: "(\<And>x. x \<in> set xs \<Longrightarrow> f x \<le> g x) \<Longrightarrow> foldr max (map f xs) 0 \<le> sum_list (map g xs)" for g :: "'a \<Rightarrow> nat"
  by (induction xs) (auto simp: max_def intro: order_trans trans_le_add2 trans_le_add1)

lemma depth_le: "depth v \<le> length (encode_reply v)"
proof (induction v)
  case (RArray vs)
  then have "foldr max (map depth vs) 0 \<le> sum_list (map (length \<circ> encode_reply) vs)"
    by (intro foldr_max_le) simp
  then show ?case by (simp add: length_concat comp_def)
qed simp_all

lemma write_args_encode: "write_args args = concat (map encode_reply (map RBytes args))"
  by (induction args) simp_all

lemma writeCommand_encode: "writeCommand args = encode_reply (RArray (map RBytes args))"
  by (simp add: writeCommand_def write_args_encode)

subsection \<open>Connections are pooled or closed\<close>

text \<open>
  What the client relies on of the network: a dialed connection is new, and only dialing opens and only
  closing closes one. \<open>used\<close> are the connections that other callers hold at the moment.
\<close>

definition net_laws :: "'w netio \<Rightarrow> ('w \<Rightarrow> nat set) \<Rightarrow> bool" where
  "net_laws io opn \<longleftrightarrow>
     (\<forall>a w. case nio_dial io a w of
        (None, w') \<Rightarrow> opn w' = opn w | (Some conn, w') \<Rightarrow> conn \<notin> opn w \<and> opn w' = insert conn (opn w)) \<and>
     (\<forall>conn b w. opn (snd (nio_send io conn b w)) = opn w) \<and>
     (\<forall>conn w. opn (nio_close io conn w) = opn w - {conn})"

definition pool_ok :: "('w \<Rightarrow> nat set) \<Rightarrow> nat set \<Rightarrow> Redis \<Rightarrow> 'w \<Rightarrow> bool" where
  "pool_ok opn used c w \<longleftrightarrow>
     distinct (pool c) \<and> set (pool c) \<inter> used = {} \<and> opn w = set (pool c) \<union> used \<and>
     int (length (pool c)) \<le> max 0 (o_MaxIdleConns (opts c))"

lemma net_lawsD:
  assumes "net_laws io opn"
  shows "nio_dial io a w = (None, w') \<Longrightarrow> opn w' = opn w"
    and "nio_dial io a w = (Some conn, w') \<Longrightarrow> conn \<notin> opn w \<and> opn w' = insert conn (opn w)"
    and "nio_send io conn b w = (x, w') \<Longrightarrow> opn w' = opn w"
    and "opn (nio_close io conn w) = opn w - {conn}"
proof -
  have "case nio_dial io a w of
        (None, w') \<Rightarrow> opn w' = opn w | (Some conn, w') \<Rightarrow> conn \<notin> opn w \<and> opn w' = insert conn (opn w)"
    using assms by (simp add: net_laws_def)
  then show "nio_dial io a w = (None, w') \<Longrightarrow> opn w' = opn w"
    and "nio_dial io a w = (Some conn, w') \<Longrightarrow> conn \<notin> opn w \<and> opn w' = insert conn (opn w)"
    by simp_all
  have "opn (snd (nio_send io conn b w)) = opn w"
    using assms by (simp add: net_laws_def)
  then show "nio_send io conn b w = (x, w') \<Longrightarrow> opn w' = opn w" by simp
qed (use assms in \<open>simp add: net_laws_def\<close>)

lemma roundtrip_open:
  "net_laws io opn \<Longrightarrow> roundtrip io conn args w = (r, w') \<Longrightarrow> opn w' = opn w"
  by (auto simp: roundtrip_def split: prod.splits option.splits sum.splits dest: net_lawsD(3))

lemma dial_steps_open:
  "net_laws io opn \<Longrightarrow> dial_auth io o' conn w = (e, w') \<Longrightarrow> opn w' = opn w"
  "net_laws io opn \<Longrightarrow> dial_select io o' conn w = (e, w') \<Longrightarrow> opn w' = opn w"
  by (auto simp: dial_auth_def dial_select_def split: if_splits prod.splits sum.splits dest: roundtrip_open)

lemma redis_dial_open:
  assumes "net_laws io opn"
  shows "redis_dial io o' w = (r, w') \<Longrightarrow>
    (case r of Inl e \<Rightarrow> opn w' = opn w | Inr conn \<Rightarrow> conn \<notin> opn w \<and> opn w' = insert conn (opn w))"
  using net_lawsD [OF assms] dial_steps_open [OF assms]
  by (auto simp: redis_dial_def split: prod.splits option.splits)

lemma release_ok:
  assumes "net_laws io opn" "pool_ok opn (insert conn used) c w" "conn \<notin> used" "release io conn c w = (c', w')"
  shows "pool_ok opn used c' w' \<and> opts c' = opts c"
  using assms net_lawsD(4) [OF assms(1), of conn w]
  by (auto simp: pool_ok_def release_def split: if_splits)

text \<open>\<open>acquire_conn\<close> is the first step of \<open>do\<close>: a pooled connection or a new one.\<close>

definition acquire_conn :: "'w netio \<Rightarrow> Redis \<Rightarrow> 'w \<Rightarrow> (redis_error, nat) result \<times> Redis \<times> 'w" where
  "acquire_conn io c w =
     (case acquire c of
        (Some conn, c) \<Rightarrow> (Inr conn, c, w)
      | (None, c) \<Rightarrow> (case redis_dial io (opts c) w of (r, w) \<Rightarrow> (r, c, w)))"

lemma acquire_conn_ok:
  assumes laws: "net_laws io opn" and ok: "pool_ok opn used c w" and acq: "acquire_conn io c w = (r, c', w')"
  shows "opts c' = opts c \<and> (case r of
      Inl e \<Rightarrow> pool_ok opn used c' w' | Inr conn \<Rightarrow> conn \<notin> used \<and> pool_ok opn (insert conn used) c' w')"
proof (cases "pool c" rule: rev_cases)
  case Nil
  then have "redis_dial io (opts c) w = (r, w')" "c' = c"
    using acq by (auto simp: acquire_conn_def acquire_def split: prod.splits)
  with redis_dial_open [OF laws this(1)] ok Nil show ?thesis
    by (auto simp: pool_ok_def split: sum.splits)
next
  case (snoc cs conn)
  then have "r = Inr conn" "c' = c\<lparr>pool := cs\<rparr>" "w' = w"
    using acq by (auto simp: acquire_conn_def acquire_def)
  with ok snoc show ?thesis
    by (auto simp: pool_ok_def)
qed

lemma close_ok:
  assumes "net_laws io opn" "pool_ok opn (insert conn used) c w" "conn \<notin> used"
  shows "pool_ok opn used c (nio_close io conn w)"
  using assms(2,3) net_lawsD(4) [OF assms(1), of conn w] by (auto simp: pool_ok_def)

lemma redis_do_ok:
  assumes laws: "net_laws io opn" and ok: "pool_ok opn used c w" and run: "redis_do io args c w = (r, c', w')"
  shows "pool_ok opn used c' w' \<and> opts c' = opts c"
proof -
  obtain r1 c1 w1 where a: "acquire_conn io c w = (r1, c1, w1)" by (metis prod_cases3)
  note acq = acquire_conn_ok [OF laws ok a]
  note do = run [unfolded redis_do_def acquire_conn_def [symmetric] a]
  show ?thesis
  proof (cases r1)
    case (Inl e)
    then show ?thesis using do acq by auto
  next
    case (Inr conn)
    then have ok1: "conn \<notin> used" "pool_ok opn (insert conn used) c1 w1" "opts c1 = opts c"
      using acq by auto
    obtain r2 w2 where rt: "roundtrip io conn args w1 = (r2, w2)" by fastforce
    then have ok2: "pool_ok opn (insert conn used) c1 w2"
      using ok1(2) roundtrip_open [OF laws rt] by (simp add: pool_ok_def)
    show ?thesis
    proof (cases r2)
      case (Inr v)
      then have "release io conn c1 w2 = (c', w')"
        using do rt \<open>r1 = Inr conn\<close> by simp
      with release_ok [OF laws ok2 ok1(1)] ok1(3) show ?thesis by simp
    next
      case e: (Inl e)
      have ok3: "pool_ok opn used c1 (nio_close io conn w2)"
        by (rule close_ok [OF laws ok2 ok1(1)])
      obtain r3 w3 where d: "redis_dial io (opts c1) (nio_close io conn w2) = (r3, w3)" by fastforce
      note dial = redis_dial_open [OF laws d]
      show ?thesis
      proof (cases r3)
        case (Inl e')
        then show ?thesis using do rt e d \<open>r1 = Inr conn\<close> dial ok3 ok1(3) by (auto simp: pool_ok_def)
      next
        case (Inr fresh)
        then have fresh: "fresh \<notin> used" "pool_ok opn (insert fresh used) c1 w3"
          using dial ok3 by (auto simp: pool_ok_def)
        obtain r4 w4 where rt2: "roundtrip io fresh args w3 = (r4, w4)" by fastforce
        then have ok4: "pool_ok opn (insert fresh used) c1 w4"
          using fresh(2) roundtrip_open [OF laws rt2] by (simp add: pool_ok_def)
        show ?thesis
          using do rt e d rt2 Inr \<open>r1 = Inr conn\<close> ok1(3) release_ok [OF laws ok4 fresh(1)]
            close_ok [OF laws ok4 fresh(1)]
          by (auto split: sum.splits)
      qed
    qed
  qed
qed

text \<open>The operations of the \<open>Cache\<close> interface, as one step and as a run.\<close>

datatype cache_op =
    Op_Ping
  | Op_Get string
  | Op_Set string string int
  | Op_Del "string list"
  | Op_Flush
  | Op_Close

fun cache_step :: "'w netio \<Rightarrow> cache_op \<Rightarrow> Redis \<times> 'w \<Rightarrow> Redis \<times> 'w" where
  "cache_step io Op_Ping (c, w) = snd (redis_Ping io c w)"
| "cache_step io (Op_Get k) (c, w) = snd (redis_Get io k c w)"
| "cache_step io (Op_Set k v ttl) (c, w) = snd (redis_Set io k v ttl c w)"
| "cache_step io (Op_Del ks) (c, w) = snd (redis_Del io ks c w)"
| "cache_step io Op_Flush (c, w) = snd (redis_Flush io c w)"
| "cache_step io Op_Close (c, w) = redis_Close io c w"

lemma close_all_open: "net_laws io opn \<Longrightarrow> opn (fold (nio_close io) cs w) = opn w - set cs"
  by (induction cs arbitrary: w) (auto simp: net_lawsD(4))

lemma cache_step_ok:
  assumes laws: "net_laws io opn" and ok: "pool_ok opn used c w" and step: "cache_step io a (c, w) = (c', w')"
  shows "pool_ok opn used c' w' \<and> opts c' = opts c"
proof (cases a)
  case Op_Close
  then show ?thesis
    using step ok close_all_open [OF laws, of "pool c" w] by (auto simp: redis_Close_def pool_ok_def)
qed (use step ok redis_do_ok [OF laws ok] in \<open>auto simp: redis_Ping_def redis_Get_def redis_Set_def
      redis_Del_def redis_Flush_def split: prod.splits sum.splits if_splits\<close>)

lemma cache_run_ok:
  assumes "net_laws io opn" "pool_ok opn used c w"
  shows "pool_ok opn used (fst (fold (cache_step io) ops (c, w))) (snd (fold (cache_step io) ops (c, w))) \<and>
    opts (fst (fold (cache_step io) ops (c, w))) = opts c"
  using assms(2)
proof (induction ops arbitrary: c w)
  case (Cons a ops)
  obtain c' w' where "cache_step io a (c, w) = (c', w')" by fastforce
  with cache_step_ok [OF assms(1) Cons.prems this] Cons.IH show ?case by simp
qed simp

subsection \<open>Properties\<close>

text \<open>
  C31: the wire format round trips. Every reply value within the allocation limit, however nested, is
  read back from its encoding with exactly the following bytes left unread; a command written by
  \<open>writeCommand\<close> is the encoding of the array of its arguments, so a reader recovers arguments that hold
  any bytes, newlines included.
\<close>

theorem readReply_roundtrip:
  assumes "sized v"
  shows "readReply (encode_reply v @ rest) = Inr (v, rest) \<and>
    (v = RArray (map RBytes args) \<longrightarrow> readReply (writeCommand args @ rest) = Inr (v, rest))"
proof -
  have "depth v < Suc (length (encode_reply v @ rest))"
    using depth_le [of v] by simp
  then have "readReply (encode_reply v @ rest) = Inr (v, rest)"
    unfolding readReply_def by (rule read_encoded [OF assms])
  then show ?thesis unfolding writeCommand_encode by blast
qed

theorem readReply_roundtrip_witness:
  "readReply (writeCommand [''SET'', [CHR 0x0D, CHR 0x0A], []] @ ''rest'') =
     Inr (RArray [RBytes ''SET'', RBytes [CHR 0x0D, CHR 0x0A], RBytes []], ''rest'')"
proof -
  let ?v = "RArray (map RBytes [''SET'', [CHR 0x0D, CHR 0x0A], []])"
  have "sized ?v" by (simp add: maxAlloc_def)
  from readReply_roundtrip [OF this, of "''rest''" "[''SET'', [CHR 0x0D, CHR 0x0A], []]"]
  show ?thesis by simp
qed


text \<open>
  A network for the witness: a new connection is numbered past the open ones, and the server hangs up
  on every request over the connection with the number 1.
\<close>

definition demo_io :: "nat list netio" where
  "demo_io = \<lparr>nio_dial = (\<lambda>a os. (Some (Suc (foldr max os 0)), Suc (foldr max os 0) # os)),
     nio_send = (\<lambda>conn b os. (if conn = 1 then None else Some (''+OK'' @ crlf), os)),
     nio_close = (\<lambda>conn os. removeAll conn os)\<rparr>"

lemma demo_io_laws: "net_laws demo_io set"
  using foldr_max_ge by (fastforce simp: net_laws_def demo_io_def dest: foldr_max_ge)

abbreviation demo_opts :: Options where
  "demo_opts \<equiv> \<lparr>o_Addr = ''localhost:6379'', o_User = [], o_Password = ''pw'', o_DB = 0,
     o_DialTimeout = 1, o_IOTimeout = 1, o_MaxIdleConns = 8\<rparr>"


end
