(* ===== verification/Sql_Tables.thy ===== *)
theory Sql_Tables
  imports Porter_Prelude
begin

text \<open>
  The statements the store sends to PostgreSQL, for any table. A table is the list of its rows in the
  order of their creation, which is what \<open>ORDER BY created_at\<close> reads. \<open>key\<close> gives the columns of the
  \<open>ON CONFLICT\<close> clause, \<open>upd old new\<close> is the row that \<open>DO UPDATE SET\<close> leaves, and \<open>clash\<close> says which two
  rows violate another unique constraint of the schema (\<open>backend/migrations\<close>). A violated constraint
  fails the whole statement. The locale \<open>sql_table\<close> holds what every table of the store relies on; each
  of them interprets it.
\<close>

subsection \<open>Statements\<close>

definition select_row :: "('r \<Rightarrow> 'k) \<Rightarrow> 'k \<Rightarrow> 'r list \<Rightarrow> 'r option" where
  "select_row key k t = find (\<lambda>r. key r = k) t"

definition upsert :: "('r \<Rightarrow> 'k) \<Rightarrow> ('r \<Rightarrow> 'r \<Rightarrow> 'r) \<Rightarrow> ('r \<Rightarrow> 'r \<Rightarrow> bool) \<Rightarrow> 'r \<Rightarrow> 'r list \<Rightarrow> 'r list option" where
  "upsert key upd clash new t =
     (case select_row key (key new) t of
        None \<Rightarrow> if list_ex (clash new) t then None else Some (t @ [new])
      | Some old \<Rightarrow>
          if list_ex (\<lambda>r. key r \<noteq> key new \<and> clash (upd old new) r) t then None
          else Some (map (\<lambda>r. if key r = key new then upd r new else r) t))"

text \<open>
  \<open>Exec\<close> of an upsert: \<open>ok\<close> is false when the statement fails for a reason outside the table (no
  connection, a dangling reference, a malformed id), \<open>valid\<close> are the \<open>NOT NULL\<close> and \<open>CHECK\<close> constraints.
\<close>

definition exec_upsert ::
    "('r \<Rightarrow> 'k) \<Rightarrow> ('r \<Rightarrow> 'r \<Rightarrow> 'r) \<Rightarrow> ('r \<Rightarrow> 'r \<Rightarrow> bool) \<Rightarrow> ('r \<Rightarrow> bool) \<Rightarrow> bool \<Rightarrow> 'r \<Rightarrow> 'r list \<Rightarrow> bool \<times> 'r list" where
  "exec_upsert key upd clash valid ok new t =
     (if \<not> ok \<or> \<not> valid new then (False, t)
      else case upsert key upd clash new t of None \<Rightarrow> (False, t) | Some t' \<Rightarrow> (True, t'))"

definition exec_delete :: "bool \<Rightarrow> ('r \<Rightarrow> bool) \<Rightarrow> 'r list \<Rightarrow> bool \<times> 'r list" where
  "exec_delete ok P t = (if \<not> ok then (False, t) else (list_ex P t, filter (\<lambda>r. \<not> P r) t))"

definition exec_update :: "bool \<Rightarrow> ('r \<Rightarrow> bool) \<Rightarrow> ('r \<Rightarrow> 'r) \<Rightarrow> 'r list \<Rightarrow> bool \<times> 'r list" where
  "exec_update ok P f t = (if \<not> ok then (False, t) else (list_ex P t, map (\<lambda>r. if P r then f r else r) t))"

definition query :: "bool \<Rightarrow> ('r \<Rightarrow> bool) \<Rightarrow> 'r list \<Rightarrow> 'r list" where
  "query ok P t = (if \<not> ok then [] else filter P t)"

definition query_row :: "bool \<Rightarrow> ('r \<Rightarrow> 'k) \<Rightarrow> 'k \<Rightarrow> 'r list \<Rightarrow> 'r option" where
  "query_row ok key k t = (if \<not> ok then None else select_row key k t)"

text \<open>The rows as a finite map from keys, and the invariant of a table with a unique key.\<close>

definition rows :: "('r \<Rightarrow> 'k) \<Rightarrow> 'r list \<Rightarrow> 'k \<Rightarrow> 'r option" where
  "rows key t = (\<lambda>k. select_row key k t)"

definition keyed :: "('r \<Rightarrow> 'k) \<Rightarrow> 'r list \<Rightarrow> bool" where
  "keyed key t \<longleftrightarrow> distinct (map key t)"

text \<open>No other unique constraint.\<close>

definition no_clash :: "'r \<Rightarrow> 'r \<Rightarrow> bool" where
  "no_clash a b = False"

subsection \<open>Lemmas\<close>

lemma select_row_Nil [simp]: "select_row key k [] = None"
  by (simp add: select_row_def)

lemma select_row_Cons [simp]:
  "select_row key k (r # t) = (if key r = k then Some r else select_row key k t)"
  by (simp add: select_row_def)

lemma select_row_append [simp]:
  "select_row key k (t @ t') = (case select_row key k t of None \<Rightarrow> select_row key k t' | Some r \<Rightarrow> Some r)"
  by (induction t) auto

lemma select_row_None_iff: "select_row key k t = None \<longleftrightarrow> k \<notin> key ` set t"
  by (induction t) auto

lemma select_row_SomeD: "select_row key k t = Some r \<Longrightarrow> r \<in> set t \<and> key r = k"
  by (induction t) (auto split: if_splits)

lemma select_row_unique:
  "distinct (map key t) \<Longrightarrow> r \<in> set t \<Longrightarrow> select_row key (key r) t = Some r"
  by (induction t) (auto simp: image_iff)

lemma select_row_map:
  assumes "\<And>r. key (f r) = key r"
  shows "select_row key k (map f t) = map_option f (select_row key k t)"
  using assms by (induction t) auto

lemma distinct_map_filter_key: "distinct (map key t) \<Longrightarrow> distinct (map key (filter P t))"
  by (induction t) auto

lemma select_row_filter:
  assumes "distinct (map key t)"
  shows "select_row key k (filter P t) = (case select_row key k t of Some r \<Rightarrow> if P r then Some r else None | None \<Rightarrow> None)"
proof (cases "select_row key k t")
  case None
  then have "select_row key k (filter P t) = None"
    by (auto simp: select_row_None_iff)
  then show ?thesis using None by simp
next
  case (Some r)
  then have r: "r \<in> set t" "key r = k"
    using select_row_SomeD by fast+
  show ?thesis
  proof (cases "P r")
    case True
    then have "select_row key (key r) (filter P t) = Some r"
      using r(1) distinct_map_filter_key [OF assms] by (intro select_row_unique) auto
    then show ?thesis using True Some r(2) by simp
  next
    case False
    have "k \<notin> key ` set (filter P t)"
    proof
      assume "k \<in> key ` set (filter P t)"
      then obtain r' where "r' \<in> set t" "P r'" "key r' = k" by auto
      with assms r False show False by (auto simp: distinct_map dest: inj_onD)
    qed
    then show ?thesis using False Some by (simp add: select_row_None_iff [THEN iffD2])
  qed
qed

lemma exec_delete_keys [simp]:
  "distinct (map key t) \<Longrightarrow> distinct (map key (snd (exec_delete ok P t)))"
  by (simp add: exec_delete_def distinct_map_filter_key)

lemma exec_update_keys [simp]:
  assumes "\<And>r. key (f r) = key r"
  shows "map key (snd (exec_update ok P f t)) = map key t"
  using assms by (induction t) (auto simp: exec_update_def)

lemma select_exec_delete:
  assumes "distinct (map key t)"
  shows "select_row key k (snd (exec_delete True P t)) =
    (case select_row key k t of Some r \<Rightarrow> if P r then None else Some r | None \<Rightarrow> None)"
  using select_row_filter [OF assms, of k "\<lambda>r. \<not> P r"]
  by (simp add: exec_delete_def split: option.splits)

lemma exec_delete_hit: "fst (exec_delete True P t) \<longleftrightarrow> (\<exists>r \<in> set t. P r)"
  by (simp add: exec_delete_def list_ex_iff)

subsection \<open>The contract of a table\<close>

locale sql_table =
  fixes key :: "'r \<Rightarrow> 'k" and upd :: "'r \<Rightarrow> 'r \<Rightarrow> 'r" and clash :: "'r \<Rightarrow> 'r \<Rightarrow> bool" and valid :: "'r \<Rightarrow> bool"
  assumes key_upd: "key old = key new \<Longrightarrow> key (upd old new) = key old"
begin

lemma map_key_upd: "map key (map (\<lambda>r. if key r = key new then upd r new else r) t) = map key t"
  using key_upd by (induction t) auto

lemma upsert_cases:
  assumes "upsert key upd clash new t = Some t'"
  shows "key new \<notin> key ` set t \<and> t' = t @ [new] \<or>
    key new \<in> key ` set t \<and> t' = map (\<lambda>r. if key r = key new then upd r new else r) t"
proof (cases "select_row key (key new) t")
  case None
  then have "key new \<notin> key ` set t"
    by (simp add: select_row_None_iff)
  then show ?thesis
    using assms None by (auto simp: upsert_def split: if_splits)
next
  case (Some old)
  then have "key new \<in> key ` set t"
    using select_row_None_iff [of key "key new" t] by simp
  then show ?thesis
    using assms Some by (auto simp: upsert_def split: if_splits)
qed

lemma upsert_keyed:
  assumes "keyed key t" "upsert key upd clash new t = Some t'"
  shows "keyed key t'"
  using upsert_cases [OF assms(2)]
proof
  assume "key new \<notin> key ` set t \<and> t' = t @ [new]"
  then show ?thesis using assms(1) by (auto simp: keyed_def)
next
  assume "key new \<in> key ` set t \<and> t' = map (\<lambda>r. if key r = key new then upd r new else r) t"
  then have "map key t' = map key t" using map_key_upd by simp
  then show ?thesis using assms(1) by (simp add: keyed_def)
qed

lemma exec_upsert_keyed: "keyed key t \<Longrightarrow> keyed key (snd (exec_upsert key upd clash valid ok new t))"
  by (auto simp: exec_upsert_def intro: upsert_keyed split: option.splits)

text \<open>An upsert that succeeds is an update of the finite map at the row's key.\<close>

lemma upsert_rows:
  assumes "upsert key upd clash new t = Some t'"
  shows "rows key t' = (rows key t)(key new \<mapsto> (case rows key t (key new) of None \<Rightarrow> new | Some old \<Rightarrow> upd old new))"
proof
  fix k
  have keep: "key (if key r = key new then upd r new else r) = key r" for r
    using key_upd by simp
  from upsert_cases [OF assms]
  show "rows key t' k = ((rows key t)(key new \<mapsto> (case rows key t (key new) of None \<Rightarrow> new | Some old \<Rightarrow> upd old new))) k"
  proof
    assume "key new \<notin> key ` set t \<and> t' = t @ [new]"
    moreover then have "select_row key (key new) t = None"
      by (simp add: select_row_None_iff)
    ultimately show ?thesis
      by (auto simp: rows_def split: option.splits)
  next
    assume t': "key new \<in> key ` set t \<and> t' = map (\<lambda>r. if key r = key new then upd r new else r) t"
    then have "select_row key (key new) t \<noteq> None"
      by (simp add: select_row_None_iff)
    moreover have "rows key t' k = map_option (\<lambda>r. if key r = key new then upd r new else r) (select_row key k t)"
      using t' by (simp add: rows_def select_row_map [of key, OF keep])
    ultimately show ?thesis
      using select_row_SomeD [of key k t] by (cases "select_row key k t") (auto simp: rows_def)
  qed
qed

lemma exec_upsert_rows:
  assumes "exec_upsert key upd clash valid ok new t = (True, t')"
  shows "rows key t' = (rows key t)(key new \<mapsto> (case rows key t (key new) of None \<Rightarrow> new | Some old \<Rightarrow> upd old new))"
  using assms upsert_rows by (auto simp: exec_upsert_def split: if_splits option.splits)

lemma exec_upsert_fail: "exec_upsert key upd clash valid ok new t = (False, t') \<Longrightarrow> t' = t"
  by (auto simp: exec_upsert_def split: if_splits option.splits)

text \<open>Rows with another key are the same rows before and after, in the same order.\<close>

lemma exec_upsert_others:
  "filter (\<lambda>r. key r \<noteq> key new) (snd (exec_upsert key upd clash valid ok new t)) =
   filter (\<lambda>r. key r \<noteq> key new) t"
proof -
  have "filter (\<lambda>r. key r \<noteq> key new) (map (\<lambda>r. if key r = key new then upd r new else r) t) =
      filter (\<lambda>r. key r \<noteq> key new) t"
    using key_upd by (induction t) auto
  then show ?thesis
    by (auto simp: exec_upsert_def upsert_def split: option.splits)
qed

end

end
