(* ===== verification/Store_Tables.thy ===== *)
theory Store_Tables
  imports Sql_Tables Types Judge
begin

text \<open>
  The tables of \<open>internal/store/store.go\<close> that hold one kind of row each: stacks, API keys, volumes,
  alerts, hooks, drains, redirects, firewall rules, environments, settings, members, builds, networks,
  DNS records, secrets, golden images, metrics, health events, build logs and feedback. Every operation
  takes the outcome of its statement (\<open>ok\<close>) first; a statement the database rejects leaves the table as
  it is. \<open>created_at\<close> is the position of the row. An optional text column holds NULL for the empty text and
  is read back as the empty text; a column declared \<open>NOT NULL\<close> rejects it. \<open>collate\<close> is the database's
  order of texts.
\<close>

subsection \<open>Stacks\<close>

record Stack =
  sk_ID :: string
  sk_Name :: string
  sk_OrgID :: string
  sk_Source :: string
  sk_ComposeYAML :: string

definition stack_upd :: "Stack \<Rightarrow> Stack \<Rightarrow> Stack" where
  "stack_upd old new = new\<lparr>sk_ID := sk_ID old\<rparr>"

definition stack_clash :: "Stack \<Rightarrow> Stack \<Rightarrow> bool" where
  "stack_clash a b = (sk_Name a = sk_Name b)"

definition PutStack :: "bool \<Rightarrow> Stack \<Rightarrow> Stack list \<Rightarrow> Stack list" where
  "PutStack ok st t = snd (exec_upsert sk_ID stack_upd stack_clash (\<lambda>_. True) ok st t)"

definition ListStacks :: "bool \<Rightarrow> Stack list \<Rightarrow> Stack list" where
  "ListStacks ok t = query ok (\<lambda>_. True) t"

definition GetStack :: "bool \<Rightarrow> string \<Rightarrow> Stack list \<Rightarrow> Stack option" where
  "GetStack ok i t = query_row ok sk_ID i t"

definition DeleteStack :: "bool \<Rightarrow> string \<Rightarrow> Stack list \<Rightarrow> bool \<times> Stack list" where
  "DeleteStack ok i t = exec_delete ok (\<lambda>r. sk_ID r = i) t"

interpretation stacks: sql_table sk_ID stack_upd stack_clash "\<lambda>_. True"
  by unfold_locales (simp add: stack_upd_def)

subsection \<open>API keys\<close>

record APIKey =
  ak_ID :: string
  ak_UserID :: string
  ak_Name :: string
  ak_TokenHash :: string
  ak_LastUsed :: "time option"

definition apikey_upd :: "APIKey \<Rightarrow> APIKey \<Rightarrow> APIKey" where
  "apikey_upd old new = old\<lparr>ak_Name := ak_Name new, ak_TokenHash := ak_TokenHash new\<rparr>"

definition apikey_valid :: "APIKey \<Rightarrow> bool" where
  "apikey_valid k = (ak_UserID k \<noteq> [])"

definition PutAPIKey :: "bool \<Rightarrow> APIKey \<Rightarrow> APIKey list \<Rightarrow> APIKey list" where
  "PutAPIKey ok k t = snd (exec_upsert ak_ID apikey_upd no_clash apikey_valid ok (k\<lparr>ak_LastUsed := None\<rparr>) t)"

definition ListAPIKeys :: "bool \<Rightarrow> string \<Rightarrow> APIKey list \<Rightarrow> APIKey list" where
  "ListAPIKeys ok userID t = query ok (\<lambda>k. userID \<noteq> [] \<and> ak_UserID k = userID) t"

definition DeleteAPIKey :: "bool \<Rightarrow> string \<Rightarrow> APIKey list \<Rightarrow> bool \<times> APIKey list" where
  "DeleteAPIKey ok i t = exec_delete ok (\<lambda>k. ak_ID k = i) t"

definition GetAPIKeyByHash :: "bool \<Rightarrow> string \<Rightarrow> APIKey list \<Rightarrow> APIKey option" where
  "GetAPIKeyByHash ok h t = query_row ok ak_TokenHash h t"

interpretation api_keys: sql_table ak_ID apikey_upd no_clash apikey_valid
  by unfold_locales (simp add: apikey_upd_def)

subsection \<open>Volumes\<close>

record Volume =
  vo_ID :: string
  vo_ProjectID :: string
  vo_Name :: string
  vo_SizeMiB :: int
  vo_Path :: string

definition statusOf :: "Volume \<Rightarrow> string" where
  "statusOf v = (if vo_Path v = [] then ''provisioning'' else ''mounted'')"

text \<open>A row is the volume with its status column; the unique constraint is on the project and name.\<close>

type_synonym volume_row = "Volume \<times> string"

definition volume_key :: "volume_row \<Rightarrow> string \<times> string" where
  "volume_key r = (vo_ProjectID (fst r), vo_Name (fst r))"

definition volume_upd :: "volume_row \<Rightarrow> volume_row \<Rightarrow> volume_row" where
  "volume_upd old new =
     ((fst old)\<lparr>vo_SizeMiB := vo_SizeMiB (fst new), vo_Path := vo_Path (fst new)\<rparr>, snd new)"

definition volume_clash :: "volume_row \<Rightarrow> volume_row \<Rightarrow> bool" where
  "volume_clash a b = (vo_ID (fst a) = vo_ID (fst b))"

definition volume_valid :: "volume_row \<Rightarrow> bool" where
  "volume_valid r = (vo_ProjectID (fst r) \<noteq> [])"

definition PutVolume :: "bool \<Rightarrow> Volume \<Rightarrow> volume_row list \<Rightarrow> volume_row list" where
  "PutVolume ok v t = snd (exec_upsert volume_key volume_upd volume_clash volume_valid ok (v, statusOf v) t)"

definition ListVolumes :: "bool \<Rightarrow> string \<Rightarrow> volume_row list \<Rightarrow> Volume list" where
  "ListVolumes ok projectID t =
     map fst (query ok (\<lambda>r. projectID \<noteq> [] \<and> vo_ProjectID (fst r) = projectID) t)"

definition GetVolume :: "bool \<Rightarrow> string \<Rightarrow> volume_row list \<Rightarrow> Volume option" where
  "GetVolume ok i t = map_option fst (query_row ok (\<lambda>r. vo_ID (fst r)) i t)"

definition DeleteVolume :: "bool \<Rightarrow> string \<Rightarrow> volume_row list \<Rightarrow> bool \<times> volume_row list" where
  "DeleteVolume ok i t = exec_delete ok (\<lambda>r. vo_ID (fst r) = i) t"

definition ResizeVolume :: "bool \<Rightarrow> string \<Rightarrow> int \<Rightarrow> volume_row list \<Rightarrow> bool \<times> volume_row list" where
  "ResizeVolume ok i sizeMiB t =
     exec_update ok (\<lambda>r. vo_ID (fst r) = i) (\<lambda>(v, s). (v\<lparr>vo_SizeMiB := sizeMiB\<rparr>, s)) t"

interpretation volumes: sql_table volume_key volume_upd volume_clash volume_valid
  by unfold_locales (simp add: volume_key_def volume_upd_def)

subsection \<open>Alert rules\<close>

record AlertRule =
  ar_ID :: string
  ar_ProjectID :: string
  ar_Name :: string
  ar_Metric :: string
  ar_Threshold :: rat
  ar_Op :: string
  ar_CooldownS :: int
  ar_Silenced :: bool

definition alert_upd :: "AlertRule \<Rightarrow> AlertRule \<Rightarrow> AlertRule" where
  "alert_upd old new = new\<lparr>ar_ID := ar_ID old, ar_ProjectID := ar_ProjectID old\<rparr>"

definition alert_valid :: "AlertRule \<Rightarrow> bool" where
  "alert_valid a = (ar_ProjectID a \<noteq> [])"

definition PutAlert :: "bool \<Rightarrow> AlertRule \<Rightarrow> AlertRule list \<Rightarrow> AlertRule list" where
  "PutAlert ok a t = snd (exec_upsert ar_ID alert_upd no_clash alert_valid ok a t)"

definition ListAlerts :: "bool \<Rightarrow> string \<Rightarrow> AlertRule list \<Rightarrow> AlertRule list" where
  "ListAlerts ok projectID t = query ok (\<lambda>a. projectID \<noteq> [] \<and> ar_ProjectID a = projectID) t"

definition GetAlert :: "bool \<Rightarrow> string \<Rightarrow> AlertRule list \<Rightarrow> AlertRule option" where
  "GetAlert ok i t = query_row ok ar_ID i t"

definition DeleteAlert :: "bool \<Rightarrow> string \<Rightarrow> AlertRule list \<Rightarrow> bool \<times> AlertRule list" where
  "DeleteAlert ok i t = exec_delete ok (\<lambda>a. ar_ID a = i) t"

definition SetAlertSilenced :: "bool \<Rightarrow> string \<Rightarrow> bool \<Rightarrow> AlertRule list \<Rightarrow> bool \<times> AlertRule list" where
  "SetAlertSilenced ok i silenced t = exec_update ok (\<lambda>a. ar_ID a = i) (\<lambda>a. a\<lparr>ar_Silenced := silenced\<rparr>) t"

interpretation alerts: sql_table ar_ID alert_upd no_clash alert_valid
  by unfold_locales (simp add: alert_upd_def)

subsection \<open>Hooks\<close>

text \<open>A nil slice of events is sent as NULL, which the column rejects.\<close>

record Hook =
  hk_ID :: string
  hk_ProjectID :: string
  hk_Name :: string
  hk_URL :: string
  hk_Events :: "string list option"
  hk_Active :: bool

definition hook_upd :: "Hook \<Rightarrow> Hook \<Rightarrow> Hook" where
  "hook_upd old new = new\<lparr>hk_ID := hk_ID old, hk_ProjectID := hk_ProjectID old\<rparr>"

definition hook_valid :: "Hook \<Rightarrow> bool" where
  "hook_valid h = (hk_ProjectID h \<noteq> [] \<and> hk_Events h \<noteq> None)"

definition PutHook :: "bool \<Rightarrow> Hook \<Rightarrow> Hook list \<Rightarrow> Hook list" where
  "PutHook ok h t = snd (exec_upsert hk_ID hook_upd no_clash hook_valid ok h t)"

definition ListHooks :: "bool \<Rightarrow> string \<Rightarrow> Hook list \<Rightarrow> Hook list" where
  "ListHooks ok projectID t = query ok (\<lambda>h. projectID \<noteq> [] \<and> hk_ProjectID h = projectID) t"

definition DeleteHook :: "bool \<Rightarrow> string \<Rightarrow> Hook list \<Rightarrow> bool \<times> Hook list" where
  "DeleteHook ok i t = exec_delete ok (\<lambda>h. hk_ID h = i) t"

interpretation hooks: sql_table hk_ID hook_upd no_clash hook_valid
  by unfold_locales (simp add: hook_upd_def)

subsection \<open>Drains\<close>

record Drain =
  dr_ID :: string
  dr_ProjectID :: string
  dr_Name :: string
  dr_Endpoint :: string
  dr_Kind :: string
  dr_Active :: bool

definition drain_upd :: "Drain \<Rightarrow> Drain \<Rightarrow> Drain" where
  "drain_upd old new = new\<lparr>dr_ID := dr_ID old, dr_ProjectID := dr_ProjectID old\<rparr>"

definition drain_valid :: "Drain \<Rightarrow> bool" where
  "drain_valid d = (dr_ProjectID d \<noteq> [])"

definition PutDrain :: "bool \<Rightarrow> Drain \<Rightarrow> Drain list \<Rightarrow> Drain list" where
  "PutDrain ok d t = snd (exec_upsert dr_ID drain_upd no_clash drain_valid ok d t)"

definition ListDrains :: "bool \<Rightarrow> string \<Rightarrow> Drain list \<Rightarrow> Drain list" where
  "ListDrains ok projectID t = query ok (\<lambda>d. projectID \<noteq> [] \<and> dr_ProjectID d = projectID) t"

definition DeleteDrain :: "bool \<Rightarrow> string \<Rightarrow> Drain list \<Rightarrow> bool \<times> Drain list" where
  "DeleteDrain ok i t = exec_delete ok (\<lambda>d. dr_ID d = i) t"

interpretation drains: sql_table dr_ID drain_upd no_clash drain_valid
  by unfold_locales (simp add: drain_upd_def)

subsection \<open>Redirects\<close>

record Redirect =
  rd_ID :: string
  rd_ProjectID :: string
  rd_Source :: string
  rd_Target :: string
  rd_Permanent :: bool

definition redirect_upd :: "Redirect \<Rightarrow> Redirect \<Rightarrow> Redirect" where
  "redirect_upd old new = new\<lparr>rd_ID := rd_ID old, rd_ProjectID := rd_ProjectID old\<rparr>"

definition redirect_valid :: "Redirect \<Rightarrow> bool" where
  "redirect_valid r = (rd_ProjectID r \<noteq> [])"

definition PutRedirect :: "bool \<Rightarrow> Redirect \<Rightarrow> Redirect list \<Rightarrow> Redirect list" where
  "PutRedirect ok r t = snd (exec_upsert rd_ID redirect_upd no_clash redirect_valid ok r t)"

definition ListRedirects :: "bool \<Rightarrow> string \<Rightarrow> Redirect list \<Rightarrow> Redirect list" where
  "ListRedirects ok projectID t = query ok (\<lambda>r. projectID \<noteq> [] \<and> rd_ProjectID r = projectID) t"

definition DeleteRedirect :: "bool \<Rightarrow> string \<Rightarrow> Redirect list \<Rightarrow> bool \<times> Redirect list" where
  "DeleteRedirect ok i t = exec_delete ok (\<lambda>r. rd_ID r = i) t"

interpretation redirects: sql_table rd_ID redirect_upd no_clash redirect_valid
  by unfold_locales (simp add: redirect_upd_def)

subsection \<open>Firewall rules\<close>

text \<open>Rules are listed by priority; the creation time is not read back.\<close>

definition firewall_upd :: "FirewallRule \<Rightarrow> FirewallRule \<Rightarrow> FirewallRule" where
  "firewall_upd old new = new\<lparr>fw_ID := fw_ID old, fw_ProjectID := fw_ProjectID old\<rparr>"

definition firewall_valid :: "FirewallRule \<Rightarrow> bool" where
  "firewall_valid r = (fw_ProjectID r \<noteq> [])"

definition PutFirewallRule :: "bool \<Rightarrow> FirewallRule \<Rightarrow> FirewallRule list \<Rightarrow> FirewallRule list" where
  "PutFirewallRule ok r t = snd (exec_upsert fw_ID firewall_upd no_clash firewall_valid ok (r\<lparr>fw_CreatedAt := 0\<rparr>) t)"

definition ListFirewallRules :: "bool \<Rightarrow> string \<Rightarrow> FirewallRule list \<Rightarrow> FirewallRule list" where
  "ListFirewallRules ok projectID t =
     sort_slice (\<lambda>a b. fw_Priority a < fw_Priority b)
       (query ok (\<lambda>r. projectID \<noteq> [] \<and> fw_ProjectID r = projectID) t)"

definition GetFirewallRule :: "bool \<Rightarrow> string \<Rightarrow> FirewallRule list \<Rightarrow> FirewallRule option" where
  "GetFirewallRule ok i t = query_row ok fw_ID i t"

definition DeleteFirewallRule :: "bool \<Rightarrow> string \<Rightarrow> FirewallRule list \<Rightarrow> bool \<times> FirewallRule list" where
  "DeleteFirewallRule ok i t = exec_delete ok (\<lambda>r. fw_ID r = i) t"

interpretation firewall_rules: sql_table fw_ID firewall_upd no_clash firewall_valid
  by unfold_locales (simp add: firewall_upd_def)

subsection \<open>Environments\<close>

record Environment =
  en_ID :: string
  en_ProjectID :: string
  en_Name :: string
  en_Branch :: string
  en_URL :: string
  en_EnvDomain :: string

definition environment_key :: "Environment \<Rightarrow> string \<times> string" where
  "environment_key e = (en_ProjectID e, en_Name e)"

definition environment_upd :: "Environment \<Rightarrow> Environment \<Rightarrow> Environment" where
  "environment_upd old new =
     old\<lparr>en_Branch := en_Branch new, en_URL := en_URL new, en_EnvDomain := en_EnvDomain new\<rparr>"

definition environment_clash :: "Environment \<Rightarrow> Environment \<Rightarrow> bool" where
  "environment_clash a b = (en_ID a = en_ID b)"

definition environment_valid :: "Environment \<Rightarrow> bool" where
  "environment_valid e = (en_ProjectID e \<noteq> [])"

definition PutEnvironment :: "bool \<Rightarrow> Environment \<Rightarrow> Environment list \<Rightarrow> Environment list" where
  "PutEnvironment ok e t =
     snd (exec_upsert environment_key environment_upd environment_clash environment_valid ok e t)"

definition ListEnvironments :: "bool \<Rightarrow> string \<Rightarrow> Environment list \<Rightarrow> Environment list" where
  "ListEnvironments ok projectID t = query ok (\<lambda>e. projectID \<noteq> [] \<and> en_ProjectID e = projectID) t"

definition GetEnvironment :: "bool \<Rightarrow> string \<Rightarrow> Environment list \<Rightarrow> Environment option" where
  "GetEnvironment ok i t = query_row ok en_ID i t"

definition DeleteEnvironment :: "bool \<Rightarrow> string \<Rightarrow> Environment list \<Rightarrow> bool \<times> Environment list" where
  "DeleteEnvironment ok i t = exec_delete ok (\<lambda>e. en_ID e = i) t"

interpretation environments: sql_table environment_key environment_upd environment_clash environment_valid
  by unfold_locales (simp add: environment_key_def environment_upd_def)

subsection \<open>Project settings and members\<close>

text \<open>A section's data is a JSON object, or null for a nil map.\<close>

record settings_row =
  ps_ProjectID :: string
  ps_Section :: string
  ps_Data :: "(string \<times> json) list option"

definition settings_key :: "settings_row \<Rightarrow> string \<times> string" where
  "settings_key r = (ps_ProjectID r, ps_Section r)"

definition settings_upd :: "settings_row \<Rightarrow> settings_row \<Rightarrow> settings_row" where
  "settings_upd old new = old\<lparr>ps_Data := ps_Data new\<rparr>"

definition PutProjectSettings ::
    "bool \<Rightarrow> string \<Rightarrow> string \<Rightarrow> (string \<times> json) list option \<Rightarrow> settings_row list \<Rightarrow> settings_row list" where
  "PutProjectSettings ok projectID section data t =
     snd (exec_upsert settings_key settings_upd no_clash (\<lambda>_. True) ok
       \<lparr>ps_ProjectID = projectID, ps_Section = section, ps_Data = data\<rparr> t)"

definition GetProjectSettings ::
    "bool \<Rightarrow> string \<Rightarrow> string \<Rightarrow> settings_row list \<Rightarrow> (string \<times> json) list option" where
  "GetProjectSettings ok projectID section t =
     (case query_row ok settings_key (projectID, section) t of None \<Rightarrow> None | Some r \<Rightarrow> ps_Data r)"

interpretation settings: sql_table settings_key settings_upd no_clash "\<lambda>_. True"
  by unfold_locales (simp add: settings_key_def settings_upd_def)

record ProjectMember =
  pm_ProjectID :: string
  pm_UserID :: string
  pm_Role :: string
  pm_Invited :: bool

definition member_key :: "ProjectMember \<Rightarrow> string \<times> string" where
  "member_key m = (pm_ProjectID m, pm_UserID m)"

definition member_upd :: "ProjectMember \<Rightarrow> ProjectMember \<Rightarrow> ProjectMember" where
  "member_upd old new = old\<lparr>pm_Role := pm_Role new, pm_Invited := pm_Invited new\<rparr>"

definition PutProjectMember :: "bool \<Rightarrow> ProjectMember \<Rightarrow> ProjectMember list \<Rightarrow> ProjectMember list" where
  "PutProjectMember ok m t = snd (exec_upsert member_key member_upd no_clash (\<lambda>_. True) ok m t)"

definition ListProjectMembers :: "bool \<Rightarrow> string \<Rightarrow> ProjectMember list \<Rightarrow> ProjectMember list" where
  "ListProjectMembers ok projectID t = query ok (\<lambda>m. pm_ProjectID m = projectID) t"

definition DeleteProjectMember :: "bool \<Rightarrow> string \<Rightarrow> string \<Rightarrow> ProjectMember list \<Rightarrow> bool \<times> ProjectMember list" where
  "DeleteProjectMember ok projectID userID t =
     exec_delete ok (\<lambda>m. pm_ProjectID m = projectID \<and> pm_UserID m = userID) t"

interpretation project_members: sql_table member_key member_upd no_clash "\<lambda>_. True"
  by unfold_locales (simp add: member_key_def member_upd_def)

subsection \<open>Builds\<close>

record Build =
  bd_ID :: string
  bd_ProjectID :: string
  bd_GitURL :: string
  bd_Branch :: string
  bd_BuildStatus :: string
  bd_Image :: string
  bd_Log :: string

definition build_upd :: "Build \<Rightarrow> Build \<Rightarrow> Build" where
  "build_upd old new = new\<lparr>bd_ID := bd_ID old, bd_ProjectID := bd_ProjectID old\<rparr>"

definition build_valid :: "Build \<Rightarrow> bool" where
  "build_valid b = (bd_ProjectID b \<noteq> [])"

definition PutBuild :: "bool \<Rightarrow> Build \<Rightarrow> Build list \<Rightarrow> Build list" where
  "PutBuild ok b t = snd (exec_upsert bd_ID build_upd no_clash build_valid ok b t)"

definition ListBuilds :: "bool \<Rightarrow> string \<Rightarrow> Build list \<Rightarrow> Build list" where
  "ListBuilds ok projectID t = query ok (\<lambda>b. projectID \<noteq> [] \<and> bd_ProjectID b = projectID) t"

definition GetBuild :: "bool \<Rightarrow> string \<Rightarrow> Build list \<Rightarrow> Build option" where
  "GetBuild ok i t = query_row ok bd_ID i t"

definition DeleteBuild :: "bool \<Rightarrow> string \<Rightarrow> Build list \<Rightarrow> bool \<times> Build list" where
  "DeleteBuild ok i t = exec_delete ok (\<lambda>b. bd_ID b = i) t"

interpretation builds: sql_table bd_ID build_upd no_clash build_valid
  by unfold_locales (simp add: build_upd_def)

subsection \<open>Networks\<close>

record Net =
  nw_ID :: string
  nw_ProjectID :: string
  nw_Name :: string
  nw_CIDR :: string
  nw_Driver :: string

definition network_key :: "Net \<Rightarrow> string \<times> string" where
  "network_key n = (nw_ProjectID n, nw_Name n)"

definition network_upd :: "Net \<Rightarrow> Net \<Rightarrow> Net" where
  "network_upd old new = old\<lparr>nw_CIDR := nw_CIDR new, nw_Driver := nw_Driver new\<rparr>"

definition network_clash :: "Net \<Rightarrow> Net \<Rightarrow> bool" where
  "network_clash a b = (nw_ID a = nw_ID b)"

definition network_valid :: "Net \<Rightarrow> bool" where
  "network_valid n = (nw_ProjectID n \<noteq> [])"

definition PutNetwork :: "bool \<Rightarrow> Net \<Rightarrow> Net list \<Rightarrow> Net list" where
  "PutNetwork ok n t = snd (exec_upsert network_key network_upd network_clash network_valid ok n t)"

definition ListNetworks :: "bool \<Rightarrow> string \<Rightarrow> Net list \<Rightarrow> Net list" where
  "ListNetworks ok projectID t = query ok (\<lambda>n. projectID \<noteq> [] \<and> nw_ProjectID n = projectID) t"

definition DeleteNetwork :: "bool \<Rightarrow> string \<Rightarrow> Net list \<Rightarrow> bool \<times> Net list" where
  "DeleteNetwork ok i t = exec_delete ok (\<lambda>n. nw_ID n = i) t"

interpretation networks: sql_table network_key network_upd network_clash network_valid
  by unfold_locales (simp add: network_key_def network_upd_def)

subsection \<open>DNS records\<close>

record DNSRecord =
  dn_ID :: string
  dn_ProjectID :: string
  dn_Name :: string
  dn_Type :: string
  dn_Value :: string
  dn_TTL :: int

definition dns_key :: "DNSRecord \<Rightarrow> string \<times> string" where
  "dns_key r = (dn_ProjectID r, dn_Name r)"

definition dns_upd :: "DNSRecord \<Rightarrow> DNSRecord \<Rightarrow> DNSRecord" where
  "dns_upd old new = old\<lparr>dn_Type := dn_Type new, dn_Value := dn_Value new, dn_TTL := dn_TTL new\<rparr>"

definition dns_clash :: "DNSRecord \<Rightarrow> DNSRecord \<Rightarrow> bool" where
  "dns_clash a b = (dn_ID a = dn_ID b)"

definition dns_valid :: "DNSRecord \<Rightarrow> bool" where
  "dns_valid r = (dn_ProjectID r \<noteq> [])"

text \<open>These report the error: the first component is whether the statement succeeded.\<close>

definition AddDNSRecord :: "bool \<Rightarrow> DNSRecord \<Rightarrow> DNSRecord list \<Rightarrow> bool \<times> DNSRecord list" where
  "AddDNSRecord ok r t = exec_upsert dns_key dns_upd dns_clash dns_valid ok r t"

definition ListDNSRecords :: "(string \<Rightarrow> string \<Rightarrow> bool) \<Rightarrow> bool \<Rightarrow> string \<Rightarrow> DNSRecord list \<Rightarrow> DNSRecord list" where
  "ListDNSRecords collate ok projectID t =
     sort_slice (\<lambda>a b. collate (dn_Name a) (dn_Name b)) (query ok (\<lambda>r. dn_ProjectID r = projectID) t)"

definition RemoveDNSRecord :: "bool \<Rightarrow> string \<Rightarrow> string \<Rightarrow> DNSRecord list \<Rightarrow> bool \<times> DNSRecord list" where
  "RemoveDNSRecord ok projectID name t =
     (ok, snd (exec_delete ok (\<lambda>r. dn_ProjectID r = projectID \<and> dn_Name r = name) t))"

interpretation dns_records: sql_table dns_key dns_upd dns_clash dns_valid
  by unfold_locales (simp add: dns_key_def dns_upd_def)

subsection \<open>Secrets\<close>

record Secret =
  se_ID :: string
  se_ProjectID :: string
  se_Name :: string
  se_ValueEncrypted :: string

definition secret_key :: "Secret \<Rightarrow> string \<times> string" where
  "secret_key s = (se_ProjectID s, se_Name s)"

definition secret_upd :: "Secret \<Rightarrow> Secret \<Rightarrow> Secret" where
  "secret_upd old new = old\<lparr>se_ValueEncrypted := se_ValueEncrypted new\<rparr>"

definition secret_clash :: "Secret \<Rightarrow> Secret \<Rightarrow> bool" where
  "secret_clash a b = (se_ID a = se_ID b)"

definition secret_valid :: "Secret \<Rightarrow> bool" where
  "secret_valid s = (se_ProjectID s \<noteq> [])"

definition PutSecret :: "bool \<Rightarrow> Secret \<Rightarrow> Secret list \<Rightarrow> bool \<times> Secret list" where
  "PutSecret ok s t = exec_upsert secret_key secret_upd secret_clash secret_valid ok s t"

definition ListSecrets :: "(string \<Rightarrow> string \<Rightarrow> bool) \<Rightarrow> bool \<Rightarrow> string \<Rightarrow> Secret list \<Rightarrow> Secret list" where
  "ListSecrets collate ok projectID t =
     sort_slice (\<lambda>a b. collate (se_Name a) (se_Name b)) (query ok (\<lambda>s. se_ProjectID s = projectID) t)"

definition DeleteSecret :: "bool \<Rightarrow> string \<Rightarrow> Secret list \<Rightarrow> bool \<times> Secret list" where
  "DeleteSecret ok i t = (ok, snd (exec_delete ok (\<lambda>s. se_ID s = i) t))"

interpretation secrets: sql_table secret_key secret_upd secret_clash secret_valid
  by unfold_locales (simp add: secret_key_def secret_upd_def)

subsection \<open>Golden images\<close>

record GoldenImage =
  gi_ID :: string
  gi_Name :: string
  gi_Image :: string
  gi_Description :: string
  gi_VCPUs :: int
  gi_MemMiB :: int
  gi_Ports :: "Port list"
  gi_Env :: smap
  gi_Tags :: "string list"
  gi_Logo :: string
  gi_Version :: string
  gi_Kind :: string
  gi_Rootfs :: string
  gi_Kernel :: string
  gi_Architecture :: string
  gi_RootfsSHA256 :: string
  gi_KernelSHA256 :: string
  gi_Status :: string
  gi_ValidatedAt :: "time option"

text \<open>
  A row: its id column and the image that \<open>ListGoldenImages\<close> puts together from the \<open>data\<close> column and
  the artifact columns. An update by name writes a new \<open>data\<close> and keeps the id column.
\<close>

record golden_row =
  gr_id :: string
  gr_image :: GoldenImage

definition golden_key :: "golden_row \<Rightarrow> string" where
  "golden_key r = gi_Name (gr_image r)"

definition golden_upd :: "golden_row \<Rightarrow> golden_row \<Rightarrow> golden_row" where
  "golden_upd old new = new\<lparr>gr_id := gr_id old\<rparr>"

definition golden_clash :: "golden_row \<Rightarrow> golden_row \<Rightarrow> bool" where
  "golden_clash a b = (gr_id a = gr_id b)"

definition default_to :: "string \<Rightarrow> string \<Rightarrow> string" where
  "default_to d s = (if s = [] then d else s)"

definition golden_defaults :: "GoldenImage \<Rightarrow> GoldenImage" where
  "golden_defaults gi = gi\<lparr>gi_Kind := default_to ''custom'' (gi_Kind gi),
     gi_Architecture := default_to ''x86_64'' (gi_Architecture gi),
     gi_Status := default_to ''unknown'' (gi_Status gi),
     gi_Version := default_to ''v1'' (gi_Version gi)\<rparr>"

definition PutGoldenImage :: "bool \<Rightarrow> GoldenImage \<Rightarrow> golden_row list \<Rightarrow> bool \<times> golden_row list" where
  "PutGoldenImage ok gi t =
     exec_upsert golden_key golden_upd golden_clash (\<lambda>_. True) ok
       \<lparr>gr_id = gi_ID gi, gr_image = golden_defaults gi\<rparr> t"

definition ListGoldenImages :: "(string \<Rightarrow> string \<Rightarrow> bool) \<Rightarrow> bool \<Rightarrow> golden_row list \<Rightarrow> GoldenImage list" where
  "ListGoldenImages collate ok t =
     map gr_image (sort_slice (\<lambda>a b. collate (golden_key a) (golden_key b)) (query ok (\<lambda>_. True) t))"

definition DeleteGoldenImage :: "bool \<Rightarrow> string \<Rightarrow> golden_row list \<Rightarrow> bool \<times> golden_row list" where
  "DeleteGoldenImage ok i t = (ok, snd (exec_delete ok (\<lambda>r. gr_id r = i) t))"

interpretation golden_images: sql_table golden_key golden_upd golden_clash "\<lambda>_. True"
  by unfold_locales (simp add: golden_key_def golden_upd_def)

subsection \<open>Metrics, health events, build logs and feedback\<close>

record MetricSample =
  ms_VMID :: string
  ms_Metric :: string
  ms_Value :: rat
  ms_TS :: time

definition AddMetric :: "bool \<Rightarrow> MetricSample \<Rightarrow> MetricSample list \<Rightarrow> bool \<times> MetricSample list" where
  "AddMetric ok m t = (if ok then (True, t @ [m]) else (False, t))"

definition limit_or :: "int \<Rightarrow> int \<Rightarrow> nat" where
  "limit_or d n = nat (if n \<le> 0 then d else n)"

text \<open>\<open>ORDER BY ts DESC LIMIT n\<close>.\<close>

definition newest :: "('r \<Rightarrow> time) \<Rightarrow> nat \<Rightarrow> 'r list \<Rightarrow> 'r list" where
  "newest ts n t = take n (sort_slice (\<lambda>a b. ts b < ts a) t)"

definition ListMetrics :: "bool \<Rightarrow> string \<Rightarrow> int \<Rightarrow> MetricSample list \<Rightarrow> MetricSample list" where
  "ListMetrics ok vmID limit t =
     newest ms_TS (limit_or 100 limit) (query ok (\<lambda>m. vmID \<noteq> [] \<and> ms_VMID m = vmID) t)"

record HealthEvent =
  he_VMID :: string
  he_ProjectID :: string
  he_Status :: string
  he_Detail :: string
  he_TS :: time

definition AddHealthEvent :: "bool \<Rightarrow> HealthEvent \<Rightarrow> HealthEvent list \<Rightarrow> bool \<times> HealthEvent list" where
  "AddHealthEvent ok e t = (if ok then (True, t @ [e]) else (False, t))"

text \<open>A row without a VM id holds NULL there and cannot be scanned, so it is skipped after the limit.\<close>

definition ListHealthEvents :: "bool \<Rightarrow> string \<Rightarrow> int \<Rightarrow> HealthEvent list \<Rightarrow> HealthEvent list" where
  "ListHealthEvents ok projectID limit t =
     filter (\<lambda>e. he_VMID e \<noteq> [])
       (newest he_TS (limit_or 50 limit) (query ok (\<lambda>e. projectID \<noteq> [] \<and> he_ProjectID e = projectID) t))"

record build_log_row =
  bl_project :: string
  bl_build :: string
  bl_line :: string

definition AppendBuildLogFor :: "bool \<Rightarrow> string \<Rightarrow> string \<Rightarrow> string \<Rightarrow> build_log_row list \<Rightarrow> build_log_row list" where
  "AppendBuildLogFor ok projectID buildID line t =
     (if ok then t @ [\<lparr>bl_project = projectID, bl_build = buildID, bl_line = line\<rparr>] else t)"

definition AppendBuildLog :: "bool \<Rightarrow> string \<Rightarrow> string \<Rightarrow> build_log_row list \<Rightarrow> build_log_row list" where
  "AppendBuildLog ok projectID line t = AppendBuildLogFor ok projectID [] line t"

text \<open>The last \<open>n\<close> of the matching rows by their serial number, oldest first.\<close>

definition TailBuildLogs :: "bool \<Rightarrow> string \<Rightarrow> int \<Rightarrow> build_log_row list \<Rightarrow> string list" where
  "TailBuildLogs ok projectID n t =
     rev (take (limit_or 200 n) (rev (map bl_line (query ok (\<lambda>r. bl_project r = projectID) t))))"

definition TailBuildLogsFor :: "bool \<Rightarrow> string \<Rightarrow> string \<Rightarrow> int \<Rightarrow> build_log_row list \<Rightarrow> string list" where
  "TailBuildLogsFor ok projectID buildID n t =
     rev (take (limit_or 200 n) (rev (map bl_line
       (query ok (\<lambda>r. bl_project r = projectID \<and> buildID \<noteq> [] \<and> bl_build r = buildID) t))))"

record Feedback =
  fb_ID :: string
  fb_Subject :: string
  fb_Message :: string
  fb_Category :: string
  fb_Username :: string
  fb_ProjectID :: string

definition PutFeedback :: "bool \<Rightarrow> Feedback \<Rightarrow> Feedback list \<Rightarrow> Feedback list" where
  "PutFeedback ok f t = (if \<not> ok \<or> fb_ID f \<in> fb_ID ` set t then t else t @ [f])"

definition ListFeedback :: "bool \<Rightarrow> int \<Rightarrow> Feedback list \<Rightarrow> Feedback list" where
  "ListFeedback ok limit t =
     take (nat (if limit \<le> 0 \<or> limit > 500 then 100 else limit)) (rev (query ok (\<lambda>_. True) t))"

subsection \<open>Tables whose key is not the id\<close>

text \<open>
  Volumes, environments, networks, DNS records and secrets are upserted by project and name and also have
  an id that must be unique. The id survives an update.
\<close>

locale sql_table_id = sql_table key upd clash valid
  for key :: "'r \<Rightarrow> 'k" and upd :: "'r \<Rightarrow> 'r \<Rightarrow> 'r" and clash :: "'r \<Rightarrow> 'r \<Rightarrow> bool" and valid :: "'r \<Rightarrow> bool" +
  fixes ident :: "'r \<Rightarrow> 'i"
  assumes clash_ident: "clash a b \<longleftrightarrow> ident a = ident b"
    and ident_upd: "ident (upd old new) = ident old"
begin

lemma exec_upsert_idents:
  assumes "distinct (map ident t)"
  shows "distinct (map ident (snd (exec_upsert key upd clash valid ok new t)))"
proof (cases "upsert key upd clash new t")
  case (Some t')
  have "map ident (map (\<lambda>r. if key r = key new then upd r new else r) t) = map ident t"
    by (simp add: ident_upd)
  moreover have "key new \<notin> key ` set t \<longrightarrow> ident new \<notin> ident ` set t"
  proof
    assume "key new \<notin> key ` set t"
    then have "\<not> list_ex (clash new) t"
      using Some by (auto simp: upsert_def select_row_None_iff [THEN iffD2] split: if_splits)
    then show "ident new \<notin> ident ` set t"
      by (auto simp: list_ex_iff clash_ident)
  qed
  moreover have "distinct (map ident (t @ [new]))" if "ident new \<notin> ident ` set t"
    using that assms by simp
  ultimately have "distinct (map ident t')"
    using upsert_cases [OF Some] assms by metis
  then show ?thesis
    using assms Some by (simp add: exec_upsert_def)
qed (simp add: exec_upsert_def assms)

end

interpretation volumes: sql_table_id volume_key volume_upd volume_clash volume_valid "\<lambda>r. vo_ID (fst r)"
  by unfold_locales (simp_all add: volume_clash_def volume_upd_def)

interpretation environments: sql_table_id environment_key environment_upd environment_clash environment_valid en_ID
  by unfold_locales (simp_all add: environment_clash_def environment_upd_def)

interpretation networks: sql_table_id network_key network_upd network_clash network_valid nw_ID
  by unfold_locales (simp_all add: network_clash_def network_upd_def)

interpretation dns_records: sql_table_id dns_key dns_upd dns_clash dns_valid dn_ID
  by unfold_locales (simp_all add: dns_clash_def dns_upd_def)

interpretation secrets: sql_table_id secret_key secret_upd secret_clash secret_valid se_ID
  by unfold_locales (simp_all add: secret_clash_def secret_upd_def)

interpretation golden_images: sql_table_id golden_key golden_upd golden_clash "\<lambda>_. True" gr_id
  by unfold_locales (simp_all add: golden_clash_def golden_upd_def)

subsection \<open>Tables of projects\<close>

text \<open>
  In each of these tables a row belongs to a project and an update leaves it there. A write by key
  therefore changes the rows of no project but the one it names and the one that holds the key already.
\<close>

locale project_table = sql_table key upd clash valid
  for key :: "'r \<Rightarrow> 'k" and upd :: "'r \<Rightarrow> 'r \<Rightarrow> 'r" and clash :: "'r \<Rightarrow> 'r \<Rightarrow> bool" and valid :: "'r \<Rightarrow> bool" +
  fixes proj :: "'r \<Rightarrow> string"
  assumes proj_upd: "key old = key new \<Longrightarrow> proj (upd old new) = proj old"
begin

lemma exec_upsert_frame:
  assumes "q \<noteq> proj new" "q \<notin> proj ` set (filter (\<lambda>r. key r = key new) t)"
  shows "filter (\<lambda>r. proj r = q) (snd (exec_upsert key upd clash valid ok new t)) = filter (\<lambda>r. proj r = q) t"
proof (cases "upsert key upd clash new t")
  case (Some t')
  have "filter (\<lambda>r. proj r = q) (map (\<lambda>r. if key r = key new then upd r new else r) t) = filter (\<lambda>r. proj r = q) t"
    using assms(2) proj_upd by (induction t) auto
  then have "filter (\<lambda>r. proj r = q) t' = filter (\<lambda>r. proj r = q) t"
    using upsert_cases [OF Some] assms(1) by auto
  then show ?thesis using Some by (simp add: exec_upsert_def)
qed (simp add: exec_upsert_def)

end

lemma exec_delete_frame:
  assumes "q \<notin> proj ` set (filter P t)"
  shows "filter (\<lambda>r. proj r = q) (snd (exec_delete ok P t)) = filter (\<lambda>r. proj r = q) t"
  using assms by (induction t) (auto simp: exec_delete_def split: if_splits)

lemma exec_update_frame:
  assumes "q \<notin> proj ` set (filter P t)" "\<And>r. proj (f r) = proj r"
  shows "filter (\<lambda>r. proj r = q) (snd (exec_update ok P f t)) = filter (\<lambda>r. proj r = q) t"
  using assms by (induction t) (auto simp: exec_update_def split: if_splits)

interpretation volumes: project_table volume_key volume_upd volume_clash volume_valid "\<lambda>r. vo_ProjectID (fst r)"
  by unfold_locales (simp add: volume_upd_def)

interpretation alerts: project_table ar_ID alert_upd no_clash alert_valid ar_ProjectID
  by unfold_locales (simp add: alert_upd_def)

interpretation hooks: project_table hk_ID hook_upd no_clash hook_valid hk_ProjectID
  by unfold_locales (simp add: hook_upd_def)

interpretation drains: project_table dr_ID drain_upd no_clash drain_valid dr_ProjectID
  by unfold_locales (simp add: drain_upd_def)

interpretation redirects: project_table rd_ID redirect_upd no_clash redirect_valid rd_ProjectID
  by unfold_locales (simp add: redirect_upd_def)

interpretation firewall_rules: project_table fw_ID firewall_upd no_clash firewall_valid fw_ProjectID
  by unfold_locales (simp add: firewall_upd_def)

interpretation environments: project_table environment_key environment_upd environment_clash environment_valid en_ProjectID
  by unfold_locales (simp add: environment_upd_def)

interpretation settings: project_table settings_key settings_upd no_clash "\<lambda>_. True" ps_ProjectID
  by unfold_locales (simp add: settings_upd_def)

interpretation project_members: project_table member_key member_upd no_clash "\<lambda>_. True" pm_ProjectID
  by unfold_locales (simp add: member_upd_def)

interpretation builds: project_table bd_ID build_upd no_clash build_valid bd_ProjectID
  by unfold_locales (simp add: build_upd_def)

interpretation networks: project_table network_key network_upd network_clash network_valid nw_ProjectID
  by unfold_locales (simp add: network_upd_def)

interpretation dns_records: project_table dns_key dns_upd dns_clash dns_valid dn_ProjectID
  by unfold_locales (simp add: dns_upd_def)

interpretation secrets: project_table secret_key secret_upd secret_clash secret_valid se_ProjectID
  by unfold_locales (simp add: secret_upd_def)

end
