(* ===== verification/Store_Db.thy ===== *)
theory Store_Db
  imports Store_Tables
begin

text \<open>
  The project tables of theory \<open>Store_Tables\<close> as one database with the store's write operations as its
  steps. Reachable databases keep every key and id unique, and a write touches the rows of no other
  project than the one it names and the one that holds the id it names.
\<close>

subsection \<open>Operations\<close>

record paas_db =
  t_volumes :: "volume_row list"
  t_alerts :: "AlertRule list"
  t_hooks :: "Hook list"
  t_drains :: "Drain list"
  t_redirects :: "Redirect list"
  t_firewall :: "FirewallRule list"
  t_environments :: "Environment list"
  t_settings :: "settings_row list"
  t_members :: "ProjectMember list"
  t_builds :: "Build list"
  t_networks :: "Net list"
  t_dns :: "DNSRecord list"
  t_secrets :: "Secret list"

datatype paas_op =
    Op_PutVolume Volume | Op_DeleteVolume string | Op_ResizeVolume string int
  | Op_PutAlert AlertRule | Op_DeleteAlert string | Op_SetAlertSilenced string bool
  | Op_PutHook Hook | Op_DeleteHook string
  | Op_PutDrain Drain | Op_DeleteDrain string
  | Op_PutRedirect Redirect | Op_DeleteRedirect string
  | Op_PutFirewallRule FirewallRule | Op_DeleteFirewallRule string
  | Op_PutEnvironment Environment | Op_DeleteEnvironment string
  | Op_PutProjectSettings string string "(string \<times> json) list option"
  | Op_PutProjectMember ProjectMember | Op_DeleteProjectMember string string
  | Op_PutBuild Build | Op_DeleteBuild string
  | Op_PutNetwork Net | Op_DeleteNetwork string
  | Op_AddDNSRecord DNSRecord | Op_RemoveDNSRecord string string
  | Op_PutSecret Secret | Op_DeleteSecret string

fun paas_step :: "bool \<Rightarrow> paas_op \<Rightarrow> paas_db \<Rightarrow> paas_db" where
  "paas_step ok (Op_PutVolume v) db = db\<lparr>t_volumes := PutVolume ok v (t_volumes db)\<rparr>"
| "paas_step ok (Op_DeleteVolume i) db = db\<lparr>t_volumes := snd (DeleteVolume ok i (t_volumes db))\<rparr>"
| "paas_step ok (Op_ResizeVolume i n) db = db\<lparr>t_volumes := snd (ResizeVolume ok i n (t_volumes db))\<rparr>"
| "paas_step ok (Op_PutAlert a) db = db\<lparr>t_alerts := PutAlert ok a (t_alerts db)\<rparr>"
| "paas_step ok (Op_DeleteAlert i) db = db\<lparr>t_alerts := snd (DeleteAlert ok i (t_alerts db))\<rparr>"
| "paas_step ok (Op_SetAlertSilenced i b) db = db\<lparr>t_alerts := snd (SetAlertSilenced ok i b (t_alerts db))\<rparr>"
| "paas_step ok (Op_PutHook h) db = db\<lparr>t_hooks := PutHook ok h (t_hooks db)\<rparr>"
| "paas_step ok (Op_DeleteHook i) db = db\<lparr>t_hooks := snd (DeleteHook ok i (t_hooks db))\<rparr>"
| "paas_step ok (Op_PutDrain d) db = db\<lparr>t_drains := PutDrain ok d (t_drains db)\<rparr>"
| "paas_step ok (Op_DeleteDrain i) db = db\<lparr>t_drains := snd (DeleteDrain ok i (t_drains db))\<rparr>"
| "paas_step ok (Op_PutRedirect r) db = db\<lparr>t_redirects := PutRedirect ok r (t_redirects db)\<rparr>"
| "paas_step ok (Op_DeleteRedirect i) db = db\<lparr>t_redirects := snd (DeleteRedirect ok i (t_redirects db))\<rparr>"
| "paas_step ok (Op_PutFirewallRule r) db = db\<lparr>t_firewall := PutFirewallRule ok r (t_firewall db)\<rparr>"
| "paas_step ok (Op_DeleteFirewallRule i) db = db\<lparr>t_firewall := snd (DeleteFirewallRule ok i (t_firewall db))\<rparr>"
| "paas_step ok (Op_PutEnvironment e) db = db\<lparr>t_environments := PutEnvironment ok e (t_environments db)\<rparr>"
| "paas_step ok (Op_DeleteEnvironment i) db = db\<lparr>t_environments := snd (DeleteEnvironment ok i (t_environments db))\<rparr>"
| "paas_step ok (Op_PutProjectSettings p s d) db = db\<lparr>t_settings := PutProjectSettings ok p s d (t_settings db)\<rparr>"
| "paas_step ok (Op_PutProjectMember m) db = db\<lparr>t_members := PutProjectMember ok m (t_members db)\<rparr>"
| "paas_step ok (Op_DeleteProjectMember p u) db = db\<lparr>t_members := snd (DeleteProjectMember ok p u (t_members db))\<rparr>"
| "paas_step ok (Op_PutBuild b) db = db\<lparr>t_builds := PutBuild ok b (t_builds db)\<rparr>"
| "paas_step ok (Op_DeleteBuild i) db = db\<lparr>t_builds := snd (DeleteBuild ok i (t_builds db))\<rparr>"
| "paas_step ok (Op_PutNetwork n) db = db\<lparr>t_networks := PutNetwork ok n (t_networks db)\<rparr>"
| "paas_step ok (Op_DeleteNetwork i) db = db\<lparr>t_networks := snd (DeleteNetwork ok i (t_networks db))\<rparr>"
| "paas_step ok (Op_AddDNSRecord r) db = db\<lparr>t_dns := snd (AddDNSRecord ok r (t_dns db))\<rparr>"
| "paas_step ok (Op_RemoveDNSRecord p n) db = db\<lparr>t_dns := snd (RemoveDNSRecord ok p n (t_dns db))\<rparr>"
| "paas_step ok (Op_PutSecret s) db = db\<lparr>t_secrets := snd (PutSecret ok s (t_secrets db))\<rparr>"
| "paas_step ok (Op_DeleteSecret i) db = db\<lparr>t_secrets := snd (DeleteSecret ok i (t_secrets db))\<rparr>"

subsection \<open>Reachable databases\<close>

definition empty_db :: paas_db where
  "empty_db = \<lparr>t_volumes = [], t_alerts = [], t_hooks = [], t_drains = [], t_redirects = [], t_firewall = [],
     t_environments = [], t_settings = [], t_members = [], t_builds = [], t_networks = [], t_dns = [], t_secrets = []\<rparr>"

inductive paas_reachable :: "paas_db \<Rightarrow> bool" where
  empty: "paas_reachable empty_db"
| step: "paas_reachable db \<Longrightarrow> paas_reachable (paas_step ok op db)"

definition paas_ok :: "paas_db \<Rightarrow> bool" where
  "paas_ok db \<longleftrightarrow>
     keyed volume_key (t_volumes db) \<and> keyed (\<lambda>r. vo_ID (fst r)) (t_volumes db) \<and>
     keyed ar_ID (t_alerts db) \<and> keyed hk_ID (t_hooks db) \<and> keyed dr_ID (t_drains db) \<and>
     keyed rd_ID (t_redirects db) \<and> keyed fw_ID (t_firewall db) \<and>
     keyed environment_key (t_environments db) \<and> keyed en_ID (t_environments db) \<and>
     keyed settings_key (t_settings db) \<and> keyed member_key (t_members db) \<and> keyed bd_ID (t_builds db) \<and>
     keyed network_key (t_networks db) \<and> keyed nw_ID (t_networks db) \<and>
     keyed dns_key (t_dns db) \<and> keyed dn_ID (t_dns db) \<and>
     keyed secret_key (t_secrets db) \<and> keyed se_ID (t_secrets db)"

lemma exec_delete_keyed: "keyed key t \<Longrightarrow> keyed key (snd (exec_delete ok P t))"
  by (simp add: keyed_def)

lemma exec_update_keyed:
  "(\<And>r. key (f r) = key r) \<Longrightarrow> keyed key t \<Longrightarrow> keyed key (snd (exec_update ok P f t))"
  by (simp add: keyed_def)

lemmas exec_upsert_keyed = volumes.exec_upsert_keyed alerts.exec_upsert_keyed hooks.exec_upsert_keyed
  drains.exec_upsert_keyed redirects.exec_upsert_keyed firewall_rules.exec_upsert_keyed
  environments.exec_upsert_keyed settings.exec_upsert_keyed project_members.exec_upsert_keyed
  builds.exec_upsert_keyed networks.exec_upsert_keyed dns_records.exec_upsert_keyed secrets.exec_upsert_keyed

lemmas exec_upsert_idents = volumes.exec_upsert_idents environments.exec_upsert_idents
  networks.exec_upsert_idents dns_records.exec_upsert_idents secrets.exec_upsert_idents

lemmas put_defs = PutVolume_def PutAlert_def PutHook_def PutDrain_def PutRedirect_def PutFirewallRule_def
  PutEnvironment_def PutProjectSettings_def PutProjectMember_def PutBuild_def PutNetwork_def AddDNSRecord_def
  PutSecret_def

lemmas delete_defs = DeleteVolume_def DeleteAlert_def DeleteHook_def DeleteDrain_def DeleteRedirect_def
  DeleteFirewallRule_def DeleteEnvironment_def DeleteProjectMember_def DeleteBuild_def DeleteNetwork_def
  RemoveDNSRecord_def DeleteSecret_def

lemma volume_resize_key: "volume_key (v\<lparr>vo_SizeMiB := n\<rparr>, s) = volume_key (v, s)"
  by (simp add: volume_key_def)

lemma paas_step_ok: "paas_ok db \<Longrightarrow> paas_ok (paas_step ok op db)"
  by (cases op)
    (auto simp: paas_ok_def put_defs delete_defs ResizeVolume_def SetAlertSilenced_def volume_resize_key
      intro!: exec_upsert_keyed exec_delete_keyed exec_update_keyed
      exec_upsert_idents [folded keyed_def])

lemma paas_reachable_ok: "paas_reachable db \<Longrightarrow> paas_ok db"
proof (induction rule: paas_reachable.induct)
  case empty
  show ?case by (simp add: paas_ok_def empty_db_def keyed_def)
next
  case (step db ok op)
  then show ?case by (simp add: paas_step_ok)
qed

subsection \<open>What a write touches\<close>

fun touched :: "paas_op \<Rightarrow> paas_db \<Rightarrow> string list" where
  "touched (Op_PutVolume v) db = [vo_ProjectID v]"
| "touched (Op_DeleteVolume i) db = map (\<lambda>r. vo_ProjectID (fst r)) (filter (\<lambda>r. vo_ID (fst r) = i) (t_volumes db))"
| "touched (Op_ResizeVolume i n) db = map (\<lambda>r. vo_ProjectID (fst r)) (filter (\<lambda>r. vo_ID (fst r) = i) (t_volumes db))"
| "touched (Op_PutAlert a) db = ar_ProjectID a # map ar_ProjectID (filter (\<lambda>r. ar_ID r = ar_ID a) (t_alerts db))"
| "touched (Op_DeleteAlert i) db = map ar_ProjectID (filter (\<lambda>r. ar_ID r = i) (t_alerts db))"
| "touched (Op_SetAlertSilenced i b) db = map ar_ProjectID (filter (\<lambda>r. ar_ID r = i) (t_alerts db))"
| "touched (Op_PutHook h) db = hk_ProjectID h # map hk_ProjectID (filter (\<lambda>r. hk_ID r = hk_ID h) (t_hooks db))"
| "touched (Op_DeleteHook i) db = map hk_ProjectID (filter (\<lambda>r. hk_ID r = i) (t_hooks db))"
| "touched (Op_PutDrain d) db = dr_ProjectID d # map dr_ProjectID (filter (\<lambda>r. dr_ID r = dr_ID d) (t_drains db))"
| "touched (Op_DeleteDrain i) db = map dr_ProjectID (filter (\<lambda>r. dr_ID r = i) (t_drains db))"
| "touched (Op_PutRedirect d) db = rd_ProjectID d # map rd_ProjectID (filter (\<lambda>r. rd_ID r = rd_ID d) (t_redirects db))"
| "touched (Op_DeleteRedirect i) db = map rd_ProjectID (filter (\<lambda>r. rd_ID r = i) (t_redirects db))"
| "touched (Op_PutFirewallRule d) db = fw_ProjectID d # map fw_ProjectID (filter (\<lambda>r. fw_ID r = fw_ID d) (t_firewall db))"
| "touched (Op_DeleteFirewallRule i) db = map fw_ProjectID (filter (\<lambda>r. fw_ID r = i) (t_firewall db))"
| "touched (Op_PutEnvironment e) db = [en_ProjectID e]"
| "touched (Op_DeleteEnvironment i) db = map en_ProjectID (filter (\<lambda>r. en_ID r = i) (t_environments db))"
| "touched (Op_PutProjectSettings p s d) db = [p]"
| "touched (Op_PutProjectMember m) db = [pm_ProjectID m]"
| "touched (Op_DeleteProjectMember p u) db = [p]"
| "touched (Op_PutBuild b) db = bd_ProjectID b # map bd_ProjectID (filter (\<lambda>r. bd_ID r = bd_ID b) (t_builds db))"
| "touched (Op_DeleteBuild i) db = map bd_ProjectID (filter (\<lambda>r. bd_ID r = i) (t_builds db))"
| "touched (Op_PutNetwork n) db = [nw_ProjectID n]"
| "touched (Op_DeleteNetwork i) db = map nw_ProjectID (filter (\<lambda>r. nw_ID r = i) (t_networks db))"
| "touched (Op_AddDNSRecord r) db = [dn_ProjectID r]"
| "touched (Op_RemoveDNSRecord p n) db = [p]"
| "touched (Op_PutSecret s) db = [se_ProjectID s]"
| "touched (Op_DeleteSecret i) db = map se_ProjectID (filter (\<lambda>r. se_ID r = i) (t_secrets db))"

definition project_rows :: "string \<Rightarrow> paas_db \<Rightarrow> paas_db" where
  "project_rows q db =
     \<lparr>t_volumes = filter (\<lambda>r. vo_ProjectID (fst r) = q) (t_volumes db),
      t_alerts = filter (\<lambda>r. ar_ProjectID r = q) (t_alerts db),
      t_hooks = filter (\<lambda>r. hk_ProjectID r = q) (t_hooks db),
      t_drains = filter (\<lambda>r. dr_ProjectID r = q) (t_drains db),
      t_redirects = filter (\<lambda>r. rd_ProjectID r = q) (t_redirects db),
      t_firewall = filter (\<lambda>r. fw_ProjectID r = q) (t_firewall db),
      t_environments = filter (\<lambda>r. en_ProjectID r = q) (t_environments db),
      t_settings = filter (\<lambda>r. ps_ProjectID r = q) (t_settings db),
      t_members = filter (\<lambda>r. pm_ProjectID r = q) (t_members db),
      t_builds = filter (\<lambda>r. bd_ProjectID r = q) (t_builds db),
      t_networks = filter (\<lambda>r. nw_ProjectID r = q) (t_networks db),
      t_dns = filter (\<lambda>r. dn_ProjectID r = q) (t_dns db),
      t_secrets = filter (\<lambda>r. se_ProjectID r = q) (t_secrets db)\<rparr>"

lemmas exec_upsert_frame = volumes.exec_upsert_frame alerts.exec_upsert_frame hooks.exec_upsert_frame
  drains.exec_upsert_frame redirects.exec_upsert_frame firewall_rules.exec_upsert_frame
  environments.exec_upsert_frame settings.exec_upsert_frame project_members.exec_upsert_frame
  builds.exec_upsert_frame networks.exec_upsert_frame dns_records.exec_upsert_frame secrets.exec_upsert_frame

lemmas name_key_defs = volume_key_def environment_key_def settings_key_def member_key_def network_key_def
  dns_key_def secret_key_def

lemma paas_step_frame:
  "q \<notin> set (touched op db) \<Longrightarrow> project_rows q (paas_step ok op db) = project_rows q db"
  by (cases op)
    (auto simp: project_rows_def put_defs delete_defs ResizeVolume_def SetAlertSilenced_def name_key_defs
      volume_resize_key intro!: exec_upsert_frame exec_delete_frame exec_update_frame)

subsection \<open>Properties\<close>


definition demo_volume :: Volume where
  "demo_volume = \<lparr>vo_ID = ''v1'', vo_ProjectID = ''p'', vo_Name = ''data'', vo_SizeMiB = 1024, vo_Path = []\<rparr>"


text \<open>
  C30: projects are isolated in the store. A write changes the rows of no project but the one it names
  and the ones that own the id it names: every other project's volumes, alerts, hooks, drains, redirects,
  firewall rules, environments, settings, members, builds, networks, DNS records and secrets stay
  exactly as they were. Writes by project and name touch only the project they name.
\<close>

theorem paas_step_isolated:
  assumes "q \<notin> set (touched op db)"
  shows "project_rows q (paas_step ok op db) = project_rows q db \<and>
    ListVolumes ok' q (t_volumes (paas_step ok op db)) = ListVolumes ok' q (t_volumes db) \<and>
    ListFirewallRules ok' q (t_firewall (paas_step ok op db)) = ListFirewallRules ok' q (t_firewall db) \<and>
    ListSecrets collate ok' q (t_secrets (paas_step ok op db)) = ListSecrets collate ok' q (t_secrets db)"
proof -
  have rows: "project_rows q (paas_step ok op db) = project_rows q db"
    using assms by (rule paas_step_frame)
  then show ?thesis
    by (cases "q = []")
      (simp_all add: project_rows_def ListVolumes_def ListFirewallRules_def ListSecrets_def query_def)
qed

theorem paas_step_isolated_witness:
  "project_rows ''q'' (paas_step True (Op_PutVolume demo_volume)
     (paas_step True (Op_PutVolume (demo_volume\<lparr>vo_ProjectID := ''q''\<rparr>)) empty_db)) =
   project_rows ''q'' (paas_step True (Op_PutVolume (demo_volume\<lparr>vo_ProjectID := ''q''\<rparr>)) empty_db)"
proof -
  have "''q'' \<notin> set (touched (Op_PutVolume demo_volume) (paas_step True (Op_PutVolume (demo_volume\<lparr>vo_ProjectID := ''q''\<rparr>)) empty_db))"
    by (simp add: demo_volume_def)
  from paas_step_isolated [OF this] show ?thesis by blast
qed

end
