(* ===== verification/Store_Core.thy ===== *)
theory Store_Core
  imports Store_Tables Log_Rings
begin

text \<open>
  The core tables of \<open>internal/store\<close>: replicas, projects behind the read-through cache, deployments,
  servers, microVM rows, usage meters, durable events and tasks. Replicas and projects are stored as the
  JSON text of the whole struct, which reads back as the struct without the fields tagged \<open>json:"-"\<close>.
  The \<open>CHECK\<close>, \<open>NOT NULL\<close> and \<open>UNIQUE\<close> constraints are those of \<open>backend/migrations\<close>.
\<close>

subsection \<open>Replicas\<close>

definition replica_valid :: "VM \<Rightarrow> bool" where
  "replica_valid vm =
     (vm_State vm \<in> {''pending'', ''booting'', ''running'', ''stopping'', ''stopped'', ''failed''} \<and>
      vm_HealthStatus vm \<in> {''healthy'', ''unhealthy'', ''checking''})"

definition replica_upd :: "VM \<Rightarrow> VM \<Rightarrow> VM" where
  "replica_upd old new = new"

definition replica_clash :: "VM \<Rightarrow> VM \<Rightarrow> bool" where
  "replica_clash a b =
     (vm_ProjectID a \<noteq> [] \<and> vm_ProjectID a = vm_ProjectID b \<and> vm_ReplicaIndex a = vm_ReplicaIndex b)"

definition PutVM :: "bool \<Rightarrow> VM \<Rightarrow> VM list \<Rightarrow> VM list" where
  "PutVM ok vm t = snd (exec_upsert vm_ID replica_upd replica_clash replica_valid ok vm t)"

definition GetVM :: "bool \<Rightarrow> string \<Rightarrow> VM list \<Rightarrow> VM option" where
  "GetVM ok i t = query_row ok vm_ID i t"

definition ListVMs :: "bool \<Rightarrow> VM list \<Rightarrow> VM list" where
  "ListVMs ok t = query ok (\<lambda>_. True) t"

definition ListReplicas :: "bool \<Rightarrow> string \<Rightarrow> VM list \<Rightarrow> VM list" where
  "ListReplicas ok projectID t =
     sort_slice (\<lambda>a b. vm_ReplicaIndex a < vm_ReplicaIndex b)
       (query ok (\<lambda>vm. projectID \<noteq> [] \<and> vm_ProjectID vm = projectID) t)"

text \<open>
  \<open>DeleteVM\<close> also deletes domains by VM id, but no domain row has one: \<open>AddDomain\<close> writes neither the
  column nor the field. The traffic and log rings of the VM are dropped.
\<close>

definition DeleteVM :: "bool \<Rightarrow> string \<Rightarrow> VM list \<times> store_rings \<Rightarrow> VM list \<times> store_rings" where
  "DeleteVM ok i s = (case s of (t, rings) \<Rightarrow>
     (snd (exec_delete ok (\<lambda>vm. vm_ID vm = i) t),
      rings\<lparr>st_traffic := (st_traffic rings)(i := []), st_logs := (st_logs rings)(i := [])\<rparr>))"

definition DeleteReplicasByProject :: "bool \<Rightarrow> string \<Rightarrow> VM list \<Rightarrow> VM list" where
  "DeleteReplicasByProject ok projectID t =
     snd (exec_delete ok (\<lambda>vm. projectID \<noteq> [] \<and> vm_ProjectID vm = projectID) t)"

interpretation replicas: sql_table vm_ID replica_upd replica_clash replica_valid
  by unfold_locales (simp add: replica_upd_def)

subsection \<open>Projects and their cache\<close>

record project_row =
  pj_data :: Project
  pj_kind :: string
  pj_org :: string
  pj_tags :: "string list"
  pj_status :: string

definition statusFromProject :: "Project \<Rightarrow> string" where
  "statusFromProject p =
     (if length (pr_VMIDs p) = 0 then ''pending''
      else if pr_Source p = ''compose'' then ''deploying'' else ''running'')"

definition project_row_of :: "Project \<Rightarrow> project_row" where
  "project_row_of p = \<lparr>pj_data = p\<lparr>pr_ComposeYAML := []\<rparr>,
     pj_kind = (if pr_Source p = ''compose'' then ''compose'' else ''single_image''),
     pj_org = pr_OrgID p, pj_tags = [], pj_status = statusFromProject p\<rparr>"

definition project_key :: "project_row \<Rightarrow> string" where
  "project_key r = pr_ID (pj_data r)"

definition project_upd :: "project_row \<Rightarrow> project_row \<Rightarrow> project_row" where
  "project_upd old new = new\<lparr>pj_tags := pj_tags old\<rparr>"

definition project_clash :: "project_row \<Rightarrow> project_row \<Rightarrow> bool" where
  "project_clash a b = (pr_Name (pj_data a) = pr_Name (pj_data b))"

definition project_valid :: "project_row \<Rightarrow> bool" where
  "project_valid r = (0 \<le> pr_ReplicasDesired (pj_data r))"

interpretation projects: sql_table project_key project_upd project_clash project_valid
  by unfold_locales (simp add: project_key_def project_upd_def)

text \<open>
  The cache holds the JSON of what a load returned; \<open>hit\<close> says whether a key is still live (not expired
  and reachable), \<open>cok\<close> whether a write to the cache succeeds.
\<close>

record project_store =
  ps_rows :: "project_row list"
  ps_cache :: "string \<rightharpoonup> Project"

definition cacheDel :: "bool \<Rightarrow> string list \<Rightarrow> project_store \<Rightarrow> project_store" where
  "cacheDel cok ks s = (if cok then s\<lparr>ps_cache := (\<lambda>k. if k \<in> set ks then None else ps_cache s k)\<rparr> else s)"

definition cachedGet ::
    "bool \<Rightarrow> bool \<Rightarrow> string \<Rightarrow> int \<Rightarrow> (project_store \<Rightarrow> Project option) \<Rightarrow> project_store \<Rightarrow> Project option \<times> project_store" where
  "cachedGet hit cok key ttl load s =
     (case (if hit then ps_cache s key else None) of
        Some b \<Rightarrow> (Some b, s)
      | None \<Rightarrow>
          case load s of
            None \<Rightarrow> (None, s)
          | Some b \<Rightarrow> (Some b, if cok \<and> ttl > 0 then s\<lparr>ps_cache := (ps_cache s)(key \<mapsto> b)\<rparr> else s))"

definition PutProject :: "bool \<Rightarrow> bool \<Rightarrow> Project \<Rightarrow> project_store \<Rightarrow> project_store" where
  "PutProject cok ok p s =
     (let s = cacheDel cok [''project:'' @ pr_ID p] s
      in s\<lparr>ps_rows := snd (exec_upsert project_key project_upd project_clash project_valid ok (project_row_of p) (ps_rows s))\<rparr>)"

definition GetProject :: "bool \<Rightarrow> bool \<Rightarrow> bool \<Rightarrow> string \<Rightarrow> project_store \<Rightarrow> Project option \<times> project_store" where
  "GetProject hit cok ok i s =
     cachedGet hit cok (''project:'' @ i) (15 * 1000000000)
       (\<lambda>s. map_option pj_data (query_row ok project_key i (ps_rows s))) s"

definition ListProjects :: "bool \<Rightarrow> project_store \<Rightarrow> Project list" where
  "ListProjects ok s = map pj_data (query ok (\<lambda>_. True) (ps_rows s))"

definition ListProjectsByOrg :: "bool \<Rightarrow> string \<Rightarrow> project_store \<Rightarrow> Project list" where
  "ListProjectsByOrg ok orgID s = map pj_data (query ok (\<lambda>r. orgID \<noteq> [] \<and> pj_org r = orgID) (ps_rows s))"

definition DeleteProject :: "bool \<Rightarrow> string \<Rightarrow> project_store \<Rightarrow> project_store" where
  "DeleteProject ok i s = s\<lparr>ps_rows := snd (exec_delete ok (\<lambda>r. project_key r = i) (ps_rows s))\<rparr>"

definition SetProjectOrg :: "bool \<Rightarrow> string \<Rightarrow> string \<Rightarrow> project_store \<Rightarrow> project_store" where
  "SetProjectOrg ok i orgID s =
     s\<lparr>ps_rows := snd (exec_update ok (\<lambda>r. project_key r = i) (\<lambda>r. r\<lparr>pj_org := orgID\<rparr>) (ps_rows s))\<rparr>"

definition SetProjectTags :: "bool \<Rightarrow> string \<Rightarrow> string list \<Rightarrow> project_store \<Rightarrow> project_store" where
  "SetProjectTags ok i tags s =
     s\<lparr>ps_rows := snd (exec_update ok (\<lambda>r. project_key r = i) (\<lambda>r. r\<lparr>pj_tags := tags\<rparr>) (ps_rows s))\<rparr>"

subsection \<open>Deployments\<close>

definition build_statuses :: "string list" where
  "build_statuses = [''pending'', ''building'', ''queued'', ''ready'', ''failed'', ''preview'', ''live'']"

text \<open>
  The version label, guest base and environment columns are declared \<open>NOT NULL\<close>, and the insert passes
  NULL for an empty text. The revision column is a serial number, never read back, so a newer row comes
  first in a listing.
\<close>

definition deployment_valid :: "Deployment \<Rightarrow> bool" where
  "deployment_valid d =
     (dep_ProjectID d \<noteq> [] \<and> dep_BuildStatus d \<in> set build_statuses \<and>
      dep_VersionLabel d \<noteq> [] \<and> dep_GuestBase d \<noteq> [] \<and> dep_Environment d \<noteq> [])"

definition deployment_upd :: "Deployment \<Rightarrow> Deployment \<Rightarrow> Deployment" where
  "deployment_upd old new = new\<lparr>dep_ID := dep_ID old, dep_ProjectID := dep_ProjectID old, dep_GuestBase := dep_GuestBase old,
     dep_CreatedAt := dep_CreatedAt old\<rparr>"

text \<open>The two defaulting steps at the start of \<open>CreateDeployment\<close>, which also change the caller's struct.\<close>

definition weight_defaults :: "Deployment \<Rightarrow> Deployment" where
  "weight_defaults d =
     (let d1 = (if dep_RouteWeight d = 0 \<and> dep_RolloutPercent d \<noteq> 0
                then d\<lparr>dep_RouteWeight := dep_RolloutPercent d\<rparr> else d)
      in if dep_RolloutPercent d1 = 0 then d1\<lparr>dep_RolloutPercent := dep_RouteWeight d1\<rparr> else d1)"

definition CreateDeployment :: "time \<Rightarrow> bool \<Rightarrow> Deployment \<Rightarrow> Deployment list \<Rightarrow> bool \<times> Deployment list" where
  "CreateDeployment dbnow ok d t =
     exec_upsert dep_ID deployment_upd no_clash deployment_valid ok
       ((weight_defaults d)\<lparr>dep_Revision := 0, dep_CreatedAt := dbnow\<rparr>) t"

definition ListDeployments :: "bool \<Rightarrow> string \<Rightarrow> Deployment list \<Rightarrow> Deployment list" where
  "ListDeployments ok projectID t =
     (if projectID = [] then []
      else map (\<lambda>d. if dep_RouteWeight d = 0 then d\<lparr>dep_RouteWeight := dep_RolloutPercent d\<rparr> else d)
             (rev (query ok (\<lambda>d. dep_ProjectID d = projectID) t)))"

definition DeleteDeployment :: "bool \<Rightarrow> string \<Rightarrow> string \<Rightarrow> Deployment list \<Rightarrow> bool \<times> Deployment list" where
  "DeleteDeployment ok projectID i t =
     (ok, snd (exec_delete ok (\<lambda>d. dep_ProjectID d = projectID \<and> dep_ID d = i) t))"

definition GetDeployment :: "bool \<Rightarrow> string \<Rightarrow> string \<Rightarrow> Deployment list \<Rightarrow> Deployment option" where
  "GetDeployment ok projectID i t = find (\<lambda>d. dep_ID d = i) (ListDeployments ok projectID t)"

fun checks_passed :: "DeploymentCheck list \<Rightarrow> bool" where
  "checks_passed [] = True"
| "checks_passed (c # cs) = (if dc_Status c \<noteq> ''passed'' then False else checks_passed cs)"

definition AllChecksPassed :: "Deployment \<Rightarrow> bool" where
  "AllChecksPassed d = (if length (dep_Checks d) = 0 then True else checks_passed (dep_Checks d))"

interpretation deployments: sql_table dep_ID deployment_upd no_clash deployment_valid
  by unfold_locales (simp add: deployment_upd_def)

subsection \<open>Servers\<close>

record Server =
  sv_ID :: string
  sv_Name :: string
  sv_Address :: string
  sv_Status :: string
  sv_VCPUs :: int
  sv_MemMiB :: int
  sv_OS :: string
  sv_Arch :: string
  sv_Version :: string
  sv_Projects :: int
  sv_VMs :: int
  sv_LastSeen :: "time option"

text \<open>
  \<open>None\<close> is the zero time. \<open>PutServer\<close> writes the name, address and status only; a new row has the
  column defaults and no last-seen time. The field \<open>CreatedAt\<close> of the struct is neither written nor scanned
  by the store and is left out.
\<close>

definition server_row :: "Server \<Rightarrow> Server" where
  "server_row s = \<lparr>sv_ID = sv_ID s, sv_Name = sv_Name s, sv_Address = sv_Address s, sv_Status = sv_Status s,
     sv_VCPUs = 0, sv_MemMiB = 0, sv_OS = [], sv_Arch = [], sv_Version = [], sv_Projects = 0, sv_VMs = 0,
     sv_LastSeen = None\<rparr>"

definition server_upd :: "Server \<Rightarrow> Server \<Rightarrow> Server" where
  "server_upd old new = old\<lparr>sv_Name := sv_Name new, sv_Address := sv_Address new, sv_Status := sv_Status new\<rparr>"

definition server_clash :: "Server \<Rightarrow> Server \<Rightarrow> bool" where
  "server_clash a b = (sv_Name a = sv_Name b)"

definition PutServer :: "bool \<Rightarrow> Server \<Rightarrow> Server list \<Rightarrow> Server list" where
  "PutServer ok s t = snd (exec_upsert sv_ID server_upd server_clash (\<lambda>_. True) ok (server_row s) t)"

definition GetServer :: "bool \<Rightarrow> string \<Rightarrow> Server list \<Rightarrow> Server option" where
  "GetServer ok i t = query_row ok sv_ID i t"

definition ListServers :: "bool \<Rightarrow> Server list \<Rightarrow> Server list" where
  "ListServers ok t = query ok (\<lambda>_. True) t"

record ServerHeartbeat =
  hb_ID :: string
  hb_Address :: string
  hb_Status :: string
  hb_VCPUs :: int
  hb_MemMiB :: int
  hb_OS :: string
  hb_Arch :: string
  hb_Version :: string
  hb_Projects :: int
  hb_VMs :: int

definition ApplyHeartbeat :: "time \<Rightarrow> bool \<Rightarrow> ServerHeartbeat \<Rightarrow> Server list \<Rightarrow> bool \<times> Server list" where
  "ApplyHeartbeat dbnow ok h t =
     exec_update ok (\<lambda>s. sv_ID s = hb_ID h)
       (\<lambda>s. s\<lparr>sv_Address := hb_Address h, sv_Status := hb_Status h, sv_VCPUs := hb_VCPUs h, sv_MemMiB := hb_MemMiB h,
          sv_OS := hb_OS h, sv_Arch := hb_Arch h, sv_Version := hb_Version h, sv_Projects := hb_Projects h,
          sv_VMs := hb_VMs h, sv_LastSeen := Some dbnow\<rparr>) t"

definition DeleteServer :: "bool \<Rightarrow> string \<Rightarrow> Server list \<Rightarrow> bool \<times> Server list" where
  "DeleteServer ok i t = exec_delete ok (\<lambda>s. sv_ID s = i) t"

interpretation servers: sql_table sv_ID server_upd server_clash "\<lambda>_. True"
  by unfold_locales (simp add: server_upd_def)

subsection \<open>MicroVM rows, usage meters, events and tasks\<close>

record micro_vm =
  mv_id :: string
  mv_replica :: string
  mv_node :: string
  mv_state :: string
  mv_cpu_millicores :: int
  mv_mem_mib :: int

definition microvm_upd :: "micro_vm \<Rightarrow> micro_vm \<Rightarrow> micro_vm" where
  "microvm_upd old new = new"

definition UpsertMicroVM ::
    "bool \<Rightarrow> string \<Rightarrow> string \<Rightarrow> string \<Rightarrow> string \<Rightarrow> int \<Rightarrow> int \<Rightarrow> micro_vm list \<Rightarrow> bool \<times> micro_vm list" where
  "UpsertMicroVM ok i replicaID nodeID state cpuMillicores memMiB t =
     exec_upsert mv_id microvm_upd no_clash (\<lambda>_. True) ok
       \<lparr>mv_id = i, mv_replica = replicaID, mv_node = nodeID, mv_state = state,
        mv_cpu_millicores = cpuMillicores, mv_mem_mib = memMiB\<rparr> t"

definition SetMicroVMState :: "bool \<Rightarrow> string \<Rightarrow> string \<Rightarrow> micro_vm list \<Rightarrow> bool \<times> micro_vm list" where
  "SetMicroVMState ok i state t = (ok, snd (exec_update ok (\<lambda>m. mv_id m = i) (\<lambda>m. m\<lparr>mv_state := state\<rparr>) t))"

definition DeleteMicroVM :: "bool \<Rightarrow> string \<Rightarrow> micro_vm list \<Rightarrow> bool \<times> micro_vm list" where
  "DeleteMicroVM ok i t = (ok, snd (exec_delete ok (\<lambda>m. mv_id m = i) t))"

definition ListMicroVMsByReplica :: "bool \<Rightarrow> string \<Rightarrow> micro_vm list \<Rightarrow> string list" where
  "ListMicroVMsByReplica ok replicaID t = map mv_id (query ok (\<lambda>m. mv_replica m = replicaID) t)"

interpretation micro_vms: sql_table mv_id microvm_upd no_clash "\<lambda>_. True"
  by unfold_locales (simp add: microvm_upd_def)

record usage_event =
  ue_project :: string
  ue_resource :: string
  ue_meter :: string
  ue_quantity :: rat
  ue_unit :: string
  ue_key :: string

text \<open>The unique index is on the non-empty idempotency keys; \<open>ON CONFLICT DO NOTHING\<close> keeps the first.\<close>

definition RecordUsage :: "bool \<Rightarrow> string \<Rightarrow> string \<Rightarrow> string \<Rightarrow> rat \<Rightarrow> string \<Rightarrow> string \<Rightarrow> usage_event list \<Rightarrow> usage_event list" where
  "RecordUsage ok projectID resourceRef meter quantity unit idempotencyKey t =
     (if projectID = [] \<or> meter = [] \<or> \<not> ok then t
      else if idempotencyKey \<noteq> [] \<and> idempotencyKey \<in> ue_key ` set t then t
      else t @ [\<lparr>ue_project = projectID, ue_resource = resourceRef, ue_meter = meter, ue_quantity = quantity,
                 ue_unit = (if unit = [] then ''count'' else unit), ue_key = idempotencyKey\<rparr>])"

record Event =
  ev_Name :: string
  ev_Version :: int
  ev_Payload :: "(string \<times> json) list"
  ev_ScopeType :: string
  ev_ScopeID :: string
  ev_ActorType :: string
  ev_ActorID :: string
  ev_CorrelationID :: string
  ev_IdempotencyKey :: string
  ev_ResourceRef :: string

definition AppendEvent :: "bool \<Rightarrow> Event \<Rightarrow> Event list \<Rightarrow> bool \<times> Event list" where
  "AppendEvent ok e t =
     (if ok then (True, t @ [e\<lparr>ev_Version := (if ev_Version e = 0 then 1 else ev_Version e)\<rparr>]) else (False, t))"

record audit_event =
  ad_ActorType :: string
  ad_ActorID :: string
  ad_Action :: string
  ad_ResourceRef :: string
  ad_RequestID :: string
  ad_Outcome :: string

definition AppendAudit ::
    "bool \<Rightarrow> string \<Rightarrow> string \<Rightarrow> string \<Rightarrow> string \<Rightarrow> string \<Rightarrow> string \<Rightarrow> audit_event list \<Rightarrow> bool \<times> audit_event list" where
  "AppendAudit ok actorType actorID action resourceRef requestID outcome t =
     (if ok then (True, t @ [\<lparr>ad_ActorType = actorType, ad_ActorID = actorID, ad_Action = action,
        ad_ResourceRef = resourceRef, ad_RequestID = requestID, ad_Outcome = outcome\<rparr>]) else (False, t))"

record task_row =
  tk_id :: string
  tk_kind :: string
  tk_payload :: string
  tk_status :: string
  tk_lock :: "string option"
  tk_progress :: string
  tk_error :: string
  tk_attempts :: int

text \<open>\<open>CreateTask\<close> returns the id of the row it inserted or found; \<open>newid\<close> is the generated one.\<close>

definition CreateTask :: "bool \<Rightarrow> string \<Rightarrow> string \<Rightarrow> string \<Rightarrow> string \<Rightarrow> task_row list \<Rightarrow> string option \<times> task_row list" where
  "CreateTask ok newid kind payload lockKey t =
     (let lock = (if lockKey \<noteq> [] then Some lockKey else None)
      in if \<not> ok then (None, t)
      else case find (\<lambda>r. lock \<noteq> None \<and> tk_lock r = lock) t of
        Some r \<Rightarrow> (Some (tk_id r), map (\<lambda>x. if tk_lock x = lock then x\<lparr>tk_kind := kind\<rparr> else x) t)
      | None \<Rightarrow> (Some newid, t @ [\<lparr>tk_id = newid, tk_kind = kind, tk_payload = payload, tk_status = ''queued'',
                  tk_lock = lock, tk_progress = ''{}'', tk_error = [], tk_attempts = 0\<rparr>]))"

definition UpdateTaskStatus :: "bool \<Rightarrow> string \<Rightarrow> string \<Rightarrow> string \<Rightarrow> string \<Rightarrow> task_row list \<Rightarrow> bool \<times> task_row list" where
  "UpdateTaskStatus ok i status progress errText t =
     (ok, snd (exec_update ok (\<lambda>r. tk_id r = i)
        (\<lambda>r. r\<lparr>tk_status := status, tk_progress := progress, tk_error := errText, tk_attempts := tk_attempts r + 1\<rparr>) t))"

end
