(* ===== verification/Controllers.thy ===== *)
theory Controllers
  imports Store_Core
begin

text \<open>
  The reconciliation framework of \<open>internal/controller\<close> and its node and deployment controllers. Every
  statement a controller sends is numbered by the counter \<open>cw_stmt\<close>; the environment says for each number
  whether the database executes the statement, what the clock shows and whether the project cache answers.
  A pass reconciles the objects as they were listed at its beginning.
\<close>

subsection \<open>The manager\<close>

definition reconcileAll :: "('s \<Rightarrow> 'o list option \<times> 's) \<Rightarrow> ('o \<Rightarrow> 's \<Rightarrow> bool \<times> 's) \<Rightarrow> 's \<Rightarrow> 's" where
  "reconcileAll listing reconcile s = (case listing s of
      (None, s') \<Rightarrow> s'
    | (Some objs, s') \<Rightarrow> fold (\<lambda>obj s. snd (reconcile obj s)) objs s')"

record ctl_env =
  ce_db :: "nat \<Rightarrow> bool"
  ce_clock :: "nat \<Rightarrow> time"
  ce_hit :: "nat \<Rightarrow> bool"
  ce_cok :: "nat \<Rightarrow> bool"

record ctl_world =
  cw_servers :: "Server list"
  cw_projects :: project_store
  cw_deployments :: "Deployment list"
  cw_builds :: "Build list"
  cw_replicas :: "VM list"
  cw_stmt :: nat

definition stmt :: "nat \<Rightarrow> ctl_world \<Rightarrow> ctl_world" where
  "stmt n w = w\<lparr>cw_stmt := cw_stmt w + n\<rparr>"

subsection \<open>The node controller\<close>

definition serverHasCapability :: "Server \<Rightarrow> string \<Rightarrow> bool" where
  "serverHasCapability srv c =
     (if c \<in> {''kvm'', ''firecracker'', ''buildkit'', ''tap'', ''storage''} then True else False)"

text \<open>
  \<open>node_advance\<close> is the switch of \<open>Reconcile\<close> with the bodies of its handlers: the server as the handler
  leaves it, before the handler stores it.
\<close>

definition reconcileReady :: "time \<Rightarrow> Server \<Rightarrow> Server" where
  "reconcileReady now srv = (case sv_LastSeen srv of
      Some t \<Rightarrow> if now - t > 60 * 1000000000 then srv\<lparr>sv_Status := ''Unhealthy''\<rparr> else srv\<lparr>sv_LastSeen := Some now\<rparr>
    | None \<Rightarrow> srv\<lparr>sv_LastSeen := Some now\<rparr>)"

definition reconcileUnhealthy :: "Server \<Rightarrow> Server" where
  "reconcileUnhealthy srv =
     (if serverHasCapability srv ''kvm'' \<and> serverHasCapability srv ''firecracker''
      then srv\<lparr>sv_Status := ''Register''\<rparr> else srv)"

definition require_capability :: "string \<Rightarrow> string \<Rightarrow> Server \<Rightarrow> Server" where
  "require_capability c status srv =
     (if \<not> serverHasCapability srv c then srv\<lparr>sv_Status := ''Unhealthy''\<rparr> else srv\<lparr>sv_Status := status\<rparr>)"

definition node_advance :: "time \<Rightarrow> Server \<Rightarrow> Server" where
  "node_advance now srv =
     (let st = sv_Status srv
      in if st \<in> {[], ''Register''} then srv\<lparr>sv_Status := ''AgentConnected''\<rparr>
         else if st = ''AgentConnected'' then srv\<lparr>sv_Status := ''HardwareDiscovered'', sv_LastSeen := Some now\<rparr>
         else if st = ''HardwareDiscovered'' then require_capability ''kvm'' ''KVMVerified'' srv
         else if st = ''KVMVerified'' then require_capability ''firecracker'' ''FirecrackerReady'' srv
         else if st = ''FirecrackerReady'' then require_capability ''buildkit'' ''BuildKitReady'' srv
         else if st = ''BuildKitReady'' then require_capability ''tap'' ''NetworkReady'' srv
         else if st = ''NetworkReady'' then require_capability ''storage'' ''StorageReady'' srv
         else if st = ''StorageReady'' then srv\<lparr>sv_Status := ''CapabilitiesRegistered''\<rparr>
         else if st = ''CapabilitiesRegistered'' then srv\<lparr>sv_Status := StatusReady\<rparr>
         else if st \<in> {''Cordoned'', ''Draining'', ''Maintenance''} then srv
         else if st = StatusReady then reconcileReady now srv
         else if st = ''Unhealthy'' then reconcileUnhealthy srv
         else srv\<lparr>sv_Status := ''AgentConnected''\<rparr>)"

definition node_updateStatus :: "ctl_env \<Rightarrow> Server \<Rightarrow> ctl_world \<Rightarrow> bool \<times> ctl_world" where
  "node_updateStatus e srv w =
     (True, stmt 1 (w\<lparr>cw_servers := PutServer (ce_db e (cw_stmt w)) srv (cw_servers w)\<rparr>))"

definition node_Reconcile :: "ctl_env \<Rightarrow> Server \<Rightarrow> ctl_world \<Rightarrow> bool \<times> ctl_world" where
  "node_Reconcile e srv w = node_updateStatus e (node_advance (ce_clock e (cw_stmt w)) srv) w"

text \<open>\<open>ListServers\<close> is called twice; the first result only sizes the slice.\<close>

definition node_List :: "ctl_env \<Rightarrow> ctl_world \<Rightarrow> Server list option \<times> ctl_world" where
  "node_List e w = (Some (ListServers (ce_db e (cw_stmt w + 1)) (cw_servers w)), stmt 2 w)"

definition node_pass :: "ctl_env \<Rightarrow> ctl_world \<Rightarrow> ctl_world" where
  "node_pass e = reconcileAll (node_List e) (node_Reconcile e)"

subsection \<open>The deployment controller\<close>

definition dep_updateStatus :: "ctl_env \<Rightarrow> Deployment \<Rightarrow> ctl_world \<Rightarrow> bool \<times> ctl_world" where
  "dep_updateStatus e d w =
     (case CreateDeployment (ce_clock e (cw_stmt w)) (ce_db e (cw_stmt w)) d (cw_deployments w) of
        (ok, t) \<Rightarrow> (ok, stmt 1 (w\<lparr>cw_deployments := t\<rparr>)))"

definition phase :: "Deployment \<Rightarrow> string" where
  "phase d =
     (if dep_BuildStatus d \<in> {[], ''pending'', ''building''} then ''building''
      else if dep_BuildStatus d = ''failed'' then ''failed''
      else if dep_BuildStatus d \<in> {''completed'', ''success''} then
        (if dep_RouteWeight d > 0 \<and> dep_RouteWeight d < 100 then ''rolling''
         else if dep_IsProduction d \<and> dep_RouteWeight d = 100 then ''promoting''
         else ''ready'')
      else ''building'')"

definition reconcileBuilding :: "ctl_env \<Rightarrow> Deployment \<Rightarrow> ctl_world \<Rightarrow> bool \<times> ctl_world" where
  "reconcileBuilding e d w =
     (case GetBuild (ce_db e (cw_stmt w)) (dep_ID d) (cw_builds w) of
        None \<Rightarrow> (True, stmt 1 w)
      | Some build \<Rightarrow>
          if bd_BuildStatus build \<in> {''completed'', ''success''} then
            (let d = d\<lparr>dep_BuildStatus := ''completed''\<rparr>;
                 d = (if bd_Image build \<noteq> [] then d\<lparr>dep_ImageDigest := bd_Image build\<rparr> else d)
             in dep_updateStatus e d (stmt 1 w))
          else if bd_BuildStatus build = ''failed'' then
            dep_updateStatus e (d\<lparr>dep_BuildStatus := ''failed''\<rparr>) (stmt 1 w)
          else (True, stmt 1 w))"

definition copyCount :: "Deployment \<Rightarrow> int" where
  "copyCount d = (if length (dep_VMIDs d) = 0 then 1 else int (length (dep_VMIDs d)))"

definition vmIDsByDeployment :: "VM list \<Rightarrow> string \<Rightarrow> string list" where
  "vmIDsByDeployment vms deploymentID = map vm_ID (filter (\<lambda>vm. vm_DeploymentID vm = deploymentID) vms)"

definition promoted :: "Deployment \<Rightarrow> Deployment" where
  "promoted d = d\<lparr>dep_RouteWeight := 100, dep_RolloutPercent := 100\<rparr>"

definition reconcilePromoting :: "ctl_env \<Rightarrow> Deployment \<Rightarrow> ctl_world \<Rightarrow> bool \<times> ctl_world" where
  "reconcilePromoting e d w = dep_updateStatus e (promoted d) w"

definition running_count :: "VM list \<Rightarrow> Deployment \<Rightarrow> int" where
  "running_count vms d = int (length (filter (\<lambda>vm. vm_DeploymentID vm = dep_ID d \<and> vm_State vm = StateRunning) vms))"

text \<open>
  The deployment \<open>reconcileRolling\<close> hands to the store, from the replicas it lists first (\<open>vms\<close>) and
  second (\<open>vms'\<close>) and the project it finds. Go's quotient truncates, which is \<open>div\<close> on these values.
\<close>

definition desired_replicas :: "Project option \<Rightarrow> Deployment \<Rightarrow> int" where
  "desired_replicas proj d = (case proj of
      Some p \<Rightarrow> if pr_ReplicasDesired p > 0 then pr_ReplicasDesired p else copyCount d
    | None \<Rightarrow> copyCount d)"

definition rolled :: "VM list \<Rightarrow> VM list \<Rightarrow> Project option \<Rightarrow> Deployment \<Rightarrow> Deployment" where
  "rolled vms vms' proj d =
     (let running = running_count vms d;
          desired = desired_replicas proj d;
          d = d\<lparr>dep_VMIDs := vmIDsByDeployment vms' (dep_ID d)\<rparr>
      in if running \<ge> desired then promoted d
         else
           let weight = (if desired > 0 then wrap64 (running * 100) div desired else 0)
           in if weight \<noteq> dep_RouteWeight d then d\<lparr>dep_RouteWeight := weight, dep_RolloutPercent := weight\<rparr> else d)"

definition reconcileRolling :: "ctl_env \<Rightarrow> Deployment \<Rightarrow> ctl_world \<Rightarrow> bool \<times> ctl_world" where
  "reconcileRolling e d w =
     (let k = cw_stmt w;
          vms = ListReplicas (ce_db e k) (dep_ProjectID d) (cw_replicas w);
          (proj, ps) = GetProject (ce_hit e (k + 1)) (ce_cok e (k + 1)) (ce_db e (k + 1)) (dep_ProjectID d) (cw_projects w);
          vms' = ListReplicas (ce_db e (k + 2)) (dep_ProjectID d) (cw_replicas w)
      in dep_updateStatus e (rolled vms vms' proj d) (stmt 3 (w\<lparr>cw_projects := ps\<rparr>)))"

definition dep_reconcileFailed :: "ctl_env \<Rightarrow> Deployment \<Rightarrow> ctl_world \<Rightarrow> bool \<times> ctl_world" where
  "dep_reconcileFailed e d w = dep_updateStatus e (d\<lparr>dep_BuildStatus := ''failed''\<rparr>) w"

definition reconcileRollback :: "ctl_env \<Rightarrow> Deployment \<Rightarrow> ctl_world \<Rightarrow> bool \<times> ctl_world" where
  "reconcileRollback e d w =
     (case GetDeployment (ce_db e (cw_stmt w)) (dep_ProjectID d) (dep_RollbackTo d) (cw_deployments w) of
        None \<Rightarrow> dep_updateStatus e (d\<lparr>dep_RollbackTo := []\<rparr>) (stmt 1 w)
      | Some target \<Rightarrow>
          dep_updateStatus e
            (d\<lparr>dep_ImageDigest := dep_ImageDigest target, dep_GuestBase := dep_GuestBase target,
               dep_Environment := dep_Environment target, dep_RouteWeight := dep_RouteWeight target,
               dep_BuildStatus := ''completed'', dep_RollbackTo := [], dep_Revision := wrap64 (dep_Revision d + 1)\<rparr>)
            (stmt 1 w))"

definition dep_Reconcile :: "ctl_env \<Rightarrow> Deployment \<Rightarrow> ctl_world \<Rightarrow> bool \<times> ctl_world" where
  "dep_Reconcile e d w =
     (if dep_RollbackTo d \<noteq> [] then reconcileRollback e d w
      else if phase d = ''building'' then reconcileBuilding e d w
      else if phase d = ''rolling'' then reconcileRolling e d w
      else if phase d = ''promoting'' then reconcilePromoting e d w
      else if phase d = ''failed'' then dep_reconcileFailed e d w
      else (True, w))"

fun list_project_deployments :: "ctl_env \<Rightarrow> Project list \<Rightarrow> ctl_world \<Rightarrow> Deployment list \<times> ctl_world" where
  "list_project_deployments e [] w = ([], w)"
| "list_project_deployments e (p # ps) w =
     (let ds = ListDeployments (ce_db e (cw_stmt w)) (pr_ID p) (cw_deployments w);
          (rest, w') = list_project_deployments e ps (stmt 1 w)
      in (ds @ rest, w'))"

definition dep_List :: "ctl_env \<Rightarrow> ctl_world \<Rightarrow> Deployment list option \<times> ctl_world" where
  "dep_List e w =
     (case list_project_deployments e (ListProjects (ce_db e (cw_stmt w)) (cw_projects w)) (stmt 1 w) of
        (ds, w') \<Rightarrow> (Some ds, w'))"

definition dep_pass :: "ctl_env \<Rightarrow> ctl_world \<Rightarrow> ctl_world" where
  "dep_pass e = reconcileAll (dep_List e) (dep_Reconcile e)"

subsection \<open>Lemmas: nodes\<close>

lemma node_advance_ident [simp]: "sv_ID (node_advance now srv) = sv_ID srv" "sv_Name (node_advance now srv) = sv_Name srv"
  by (simp_all add: node_advance_def Let_def require_capability_def reconcileReady_def reconcileUnhealthy_def split: option.splits)

lemma cw_stmt_simps [simp]:
  "cw_servers (stmt n w) = cw_servers w" "cw_projects (stmt n w) = cw_projects w" "cw_deployments (stmt n w) = cw_deployments w"
  "cw_builds (stmt n w) = cw_builds w" "cw_replicas (stmt n w) = cw_replicas w"
  by (simp_all add: stmt_def)

text \<open>The registry as the schema keeps it: unique ids and unique host names.\<close>

definition registry :: "Server list \<Rightarrow> bool" where
  "registry t \<longleftrightarrow> distinct (map sv_ID t) \<and> distinct (map sv_Name t)"

lemma PutServer_known:
  assumes t: "registry t" and old: "select_row sv_ID (sv_ID srv) t = Some old" and name: "sv_Name srv = sv_Name old"
  shows "PutServer True srv t = map (\<lambda>r. if sv_ID r = sv_ID srv then server_upd r (server_row srv) else r) t"
proof -
  have old': "old \<in> set t" "sv_ID old = sv_ID srv" using select_row_SomeD [OF old] by simp_all
  have "\<not> list_ex (\<lambda>r. sv_ID r \<noteq> sv_ID srv \<and> server_clash (server_upd old (server_row srv)) r) t"
  proof
    assume "list_ex (\<lambda>r. sv_ID r \<noteq> sv_ID srv \<and> server_clash (server_upd old (server_row srv)) r) t"
    then obtain r where r: "r \<in> set t" "sv_ID r \<noteq> sv_ID srv" "sv_Name old = sv_Name r"
      using name by (auto simp: list_ex_iff server_clash_def server_upd_def server_row_def)
    then have "r = old" using t old'(1) by (auto simp: registry_def distinct_map dest: inj_onD)
    with r(2) old'(2) show False by simp
  qed
  then show ?thesis
    using old by (simp add: PutServer_def exec_upsert_def upsert_def server_row_def)
qed

text \<open>The row a reconcile leaves: only the status is stored.\<close>

definition node_row :: "time \<Rightarrow> Server \<Rightarrow> Server" where
  "node_row now srv = srv\<lparr>sv_Status := sv_Status (node_advance now srv)\<rparr>"

lemma node_advance_address [simp]: "sv_Address (node_advance now srv) = sv_Address srv"
  by (simp add: node_advance_def Let_def require_capability_def reconcileReady_def reconcileUnhealthy_def split: option.splits)

lemma server_upd_advance: "server_upd srv (server_row (node_advance now srv)) = node_row now srv"
  by (simp add: server_upd_def server_row_def node_row_def)

lemma node_Reconcile_known:
  assumes "registry (cw_servers w)" "select_row sv_ID (sv_ID srv) (cw_servers w) = Some srv" "ce_db e (cw_stmt w)"
  shows "cw_servers (snd (node_Reconcile e srv w)) =
    map (\<lambda>r. if sv_ID r = sv_ID srv then node_row (ce_clock e (cw_stmt w)) r else r) (cw_servers w)"
proof -
  have only: "r = srv" if "r \<in> set (cw_servers w)" "sv_ID r = sv_ID srv" for r
    using assms(1,2) that select_row_SomeD [OF assms(2)] by (auto simp: registry_def distinct_map dest: inj_onD)
  have "cw_servers (snd (node_Reconcile e srv w)) =
      map (\<lambda>r. if sv_ID r = sv_ID srv then server_upd r (server_row (node_advance (ce_clock e (cw_stmt w)) srv)) else r) (cw_servers w)"
    using PutServer_known [of "cw_servers w" "node_advance (ce_clock e (cw_stmt w)) srv" srv] assms
    by (simp add: node_Reconcile_def node_updateStatus_def)
  also have "\<dots> = map (\<lambda>r. if sv_ID r = sv_ID srv then node_row (ce_clock e (cw_stmt w)) r else r) (cw_servers w)"
  proof (rule map_cong [OF refl])
    fix r assume "r \<in> set (cw_servers w)"
    then show "(if sv_ID r = sv_ID srv then server_upd r (server_row (node_advance (ce_clock e (cw_stmt w)) srv)) else r) =
        (if sv_ID r = sv_ID srv then node_row (ce_clock e (cw_stmt w)) r else r)"
      using only [of r] server_upd_advance by auto
  qed
  finally show ?thesis .
qed

lemma node_row_ident [simp]: "sv_ID (node_row now r) = sv_ID r" "sv_Name (node_row now r) = sv_Name r" "sv_LastSeen (node_row now r) = sv_LastSeen r"
  by (simp_all add: node_row_def)

lemma registry_map_node_row:
  "registry t \<Longrightarrow> registry (map (\<lambda>r. if sv_ID r = i then node_row now r else r) t)"
proof -
  have "map sv_ID (map (\<lambda>r. if sv_ID r = i then node_row now r else r) t) = map sv_ID t"
       "map sv_Name (map (\<lambda>r. if sv_ID r = i then node_row now r else r) t) = map sv_Name t"
    by (induction t) auto
  then show "registry t \<Longrightarrow> registry (map (\<lambda>r. if sv_ID r = i then node_row now r else r) t)"
    unfolding registry_def by metis
qed

lemma node_fold:
  assumes "\<forall>k. ce_db e k" "registry (cw_servers w)" "distinct (map sv_ID objs)"
    "\<forall>srv \<in> set objs. select_row sv_ID (sv_ID srv) (cw_servers w) = Some srv"
  shows "registry (cw_servers (fold (\<lambda>srv w. snd (node_Reconcile e srv w)) objs w)) \<and>
    (\<forall>i. \<exists>k. select_row sv_ID i (cw_servers (fold (\<lambda>srv w. snd (node_Reconcile e srv w)) objs w)) =
       (if i \<in> sv_ID ` set objs then map_option (node_row (ce_clock e k)) (select_row sv_ID i (cw_servers w))
        else select_row sv_ID i (cw_servers w)))"
  using assms(2-)
proof (induction objs arbitrary: w)
  case Nil
  then show ?case by simp
next
  case (Cons srv objs)
  let ?w = "snd (node_Reconcile e srv w)" and ?now = "ce_clock e (cw_stmt w)"
  have tab: "cw_servers ?w = map (\<lambda>r. if sv_ID r = sv_ID srv then node_row ?now r else r) (cw_servers w)"
    using node_Reconcile_known [of w srv e] Cons.prems assms(1) by simp
  have keep: "sv_ID (if sv_ID r = sv_ID srv then node_row ?now r else r) = sv_ID r" for r by simp
  have sel: "select_row sv_ID i (cw_servers ?w) =
      (if i = sv_ID srv then map_option (node_row ?now) (select_row sv_ID i (cw_servers w)) else select_row sv_ID i (cw_servers w))" for i
    unfolding tab select_row_map [of sv_ID, OF keep]
    using select_row_SomeD [of sv_ID i "cw_servers w"] by (cases "select_row sv_ID i (cw_servers w)") auto
  have reg: "registry (cw_servers ?w)"
    unfolding tab using Cons.prems(1) by (rule registry_map_node_row)
  have rest: "distinct (map sv_ID objs)" "sv_ID srv \<notin> sv_ID ` set objs" using Cons.prems(2) by auto
  have same: "\<forall>s \<in> set objs. select_row sv_ID (sv_ID s) (cw_servers ?w) = Some s"
  proof
    fix s assume s: "s \<in> set objs"
    then have "sv_ID s \<noteq> sv_ID srv" using rest(2) by (metis imageI)
    then show "select_row sv_ID (sv_ID s) (cw_servers ?w) = Some s"
      unfolding sel using Cons.prems(3) s by simp
  qed
  have IH: "registry (cw_servers (fold (\<lambda>srv w. snd (node_Reconcile e srv w)) objs ?w))"
      "\<And>i. \<exists>k. select_row sv_ID i (cw_servers (fold (\<lambda>srv w. snd (node_Reconcile e srv w)) objs ?w)) =
       (if i \<in> sv_ID ` set objs then map_option (node_row (ce_clock e k)) (select_row sv_ID i (cw_servers ?w))
        else select_row sv_ID i (cw_servers ?w))"
    using Cons.IH [OF reg rest(1) same] by blast+
  show ?case
  proof (intro conjI allI)
    show "registry (cw_servers (fold (\<lambda>srv w. snd (node_Reconcile e srv w)) (srv # objs) w))" using IH(1) by simp
    fix i
    show "\<exists>k. select_row sv_ID i (cw_servers (fold (\<lambda>srv w. snd (node_Reconcile e srv w)) (srv # objs) w)) =
       (if i \<in> sv_ID ` set (srv # objs) then map_option (node_row (ce_clock e k)) (select_row sv_ID i (cw_servers w))
        else select_row sv_ID i (cw_servers w))"
    proof (cases "i = sv_ID srv")
      case True
      then show ?thesis using IH(2) [of i] rest(2) by (intro exI [of _ "cw_stmt w"]) (simp add: sel)
    next
      case False
      then have eq: "select_row sv_ID i (cw_servers ?w) = select_row sv_ID i (cw_servers w)" using sel by simp
      obtain k where "select_row sv_ID i (cw_servers (fold (\<lambda>srv w. snd (node_Reconcile e srv w)) objs ?w)) =
         (if i \<in> sv_ID ` set objs then map_option (node_row (ce_clock e k)) (select_row sv_ID i (cw_servers w))
          else select_row sv_ID i (cw_servers w))"
        using IH(2) [of i] unfolding eq by blast
      then show ?thesis using False by (intro exI [of _ k]) simp
    qed
  qed
qed

lemma registry_select: "registry t \<Longrightarrow> srv \<in> set t \<Longrightarrow> select_row sv_ID (sv_ID srv) t = Some srv"
  by (simp add: registry_def select_row_unique)

lemma node_pass_rows:
  assumes "\<forall>k. ce_db e k" "registry (cw_servers w)"
  shows "registry (cw_servers (node_pass e w))"
    and "\<exists>k. select_row sv_ID i (cw_servers (node_pass e w)) =
      map_option (node_row (ce_clock e k)) (select_row sv_ID i (cw_servers w))"
proof -
  have objs: "node_List e w = (Some (cw_servers w), stmt 2 w)"
    using assms(1) by (simp add: node_List_def ListServers_def query_def)
  have run: "node_pass e w = fold (\<lambda>srv w. snd (node_Reconcile e srv w)) (cw_servers w) (stmt 2 w)"
    by (simp add: node_pass_def reconcileAll_def objs)
  have d: "distinct (map sv_ID (cw_servers w))" using assms(2) by (simp add: registry_def)
  have sel: "\<forall>srv \<in> set (cw_servers w). select_row sv_ID (sv_ID srv) (cw_servers (stmt 2 w)) = Some srv"
    using registry_select assms(2) by simp
  have reg: "registry (cw_servers (stmt 2 w))" using assms(2) by simp
  note fold = node_fold [OF assms(1) reg d sel]
  show "registry (cw_servers (node_pass e w))" unfolding run using fold by blast
  obtain k where k: "select_row sv_ID i (cw_servers (node_pass e w)) =
      (if i \<in> sv_ID ` set (cw_servers w) then map_option (node_row (ce_clock e k)) (select_row sv_ID i (cw_servers w))
       else select_row sv_ID i (cw_servers w))"
    unfolding run using fold by (metis cw_stmt_simps(1))
  show "\<exists>k. select_row sv_ID i (cw_servers (node_pass e w)) =
      map_option (node_row (ce_clock e k)) (select_row sv_ID i (cw_servers w))"
  proof (cases "i \<in> sv_ID ` set (cw_servers w)")
    case True
    then show ?thesis using k by auto
  next
    case False
    then have "select_row sv_ID i (cw_servers w) = None" by (simp add: select_row_None_iff)
    then show ?thesis using k by simp
  qed
qed

text \<open>How many passes a node is away from ready while it is heard of.\<close>

definition node_distance :: "string \<Rightarrow> nat" where
  "node_distance st =
     (if st \<in> {[], ''Register''} then 9 else if st = ''AgentConnected'' then 8 else if st = ''HardwareDiscovered'' then 7
      else if st = ''KVMVerified'' then 6 else if st = ''FirecrackerReady'' then 5 else if st = ''BuildKitReady'' then 4
      else if st = ''NetworkReady'' then 3 else if st = ''StorageReady'' then 2 else if st = ''CapabilitiesRegistered'' then 1
      else if st = StatusReady then 0 else if st = ''Unhealthy'' then 10 else 9)"

definition held :: "string \<Rightarrow> bool" where
  "held st \<longleftrightarrow> st \<in> {''Cordoned'', ''Draining'', ''Maintenance''}"

definition silent :: "time \<Rightarrow> Server \<Rightarrow> bool" where
  "silent now srv \<longleftrightarrow> (\<exists>t. sv_LastSeen srv = Some t \<and> now - t > 60 * 1000000000)"

lemma node_row_status:
  assumes "sv_Status srv = StatusReady \<longrightarrow> \<not> silent now srv" "\<not> held (sv_Status srv)"
  shows "sv_Status (node_row now srv) =
    (let st = sv_Status srv
     in if st \<in> {[], ''Register''} then ''AgentConnected'' else if st = ''AgentConnected'' then ''HardwareDiscovered''
      else if st = ''HardwareDiscovered'' then ''KVMVerified'' else if st = ''KVMVerified'' then ''FirecrackerReady''
      else if st = ''FirecrackerReady'' then ''BuildKitReady'' else if st = ''BuildKitReady'' then ''NetworkReady''
      else if st = ''NetworkReady'' then ''StorageReady'' else if st = ''StorageReady'' then ''CapabilitiesRegistered''
      else if st = ''CapabilitiesRegistered'' then StatusReady else if st = StatusReady then StatusReady
      else if st = ''Unhealthy'' then ''Register'' else ''AgentConnected'')"
proof -
  have "sv_Status srv = StatusReady \<Longrightarrow> sv_Status (reconcileReady now srv) = StatusReady"
    using assms(1) by (auto simp: reconcileReady_def silent_def split: option.splits)
  moreover have "sv_Status srv \<notin> {''Cordoned'', ''Draining'', ''Maintenance''}"
    using assms(2) by (simp add: held_def)
  ultimately show ?thesis
    by (simp add: node_row_def node_advance_def require_capability_def serverHasCapability_def reconcileUnhealthy_def Let_def
        cong: if_cong)
qed

lemma node_row_nearer:
  assumes "sv_Status srv = StatusReady \<longrightarrow> \<not> silent now srv" "\<not> held (sv_Status srv)"
  shows "node_distance (sv_Status (node_row now srv)) = node_distance (sv_Status srv) - 1"
    and "\<not> held (sv_Status (node_row now srv))"
  unfolding node_row_status [OF assms] Let_def
  by (simp_all add: node_distance_def held_def)

lemma node_distance_ready: "node_distance st = 0 \<longleftrightarrow> st = StatusReady"
  by (simp add: node_distance_def)

lemma node_passes_nearer:
  assumes "\<forall>k. ce_db e k" "registry (cw_servers w)" "select_row sv_ID i (cw_servers w) = Some srv" "\<not> held (sv_Status srv)"
    "(\<forall>k. \<not> silent (ce_clock e k) srv) \<or> n \<le> node_distance (sv_Status srv)"
  shows "registry (cw_servers ((node_pass e ^^ n) w)) \<and> (\<exists>srv'. select_row sv_ID i (cw_servers ((node_pass e ^^ n) w)) = Some srv' \<and>
    node_distance (sv_Status srv') = node_distance (sv_Status srv) - n \<and> \<not> held (sv_Status srv') \<and>
    sv_LastSeen srv' = sv_LastSeen srv)"
  using assms(5)
proof (induction n)
  case 0
  then show ?case using assms by simp
next
  case (Suc n)
  let ?w = "(node_pass e ^^ n) w"
  have "(\<forall>k. \<not> silent (ce_clock e k) srv) \<or> n \<le> node_distance (sv_Status srv)" using Suc.prems by auto
  then obtain s where s: "select_row sv_ID i (cw_servers ?w) = Some s" "node_distance (sv_Status s) = node_distance (sv_Status srv) - n"
      "\<not> held (sv_Status s)" "sv_LastSeen s = sv_LastSeen srv" and reg: "registry (cw_servers ?w)"
    using Suc.IH by blast
  obtain k where k: "select_row sv_ID i (cw_servers (node_pass e ?w)) = Some (node_row (ce_clock e k) s)"
    using node_pass_rows(2) [OF assms(1) reg, of i] s(1) by auto
  have "sv_Status s = StatusReady \<longrightarrow> \<not> silent (ce_clock e k) s"
  proof
    assume "sv_Status s = StatusReady"
    then have "node_distance (sv_Status s) = 0" by (simp only: node_distance_ready)
    then have "\<not> Suc n \<le> node_distance (sv_Status srv)" using s(2) by simp
    then show "\<not> silent (ce_clock e k) s" using Suc.prems s(4) by (simp add: silent_def)
  qed
  note node_row_nearer [OF this s(3)]
  then show ?case
    using node_pass_rows(1) [OF assms(1) reg] k s by simp
qed

subsection \<open>Lemmas: deployments\<close>

definition storable :: "Deployment \<Rightarrow> bool" where
  "storable d \<longleftrightarrow> dep_BuildStatus d \<in> set build_statuses"

lemma storable_phase: "storable d \<Longrightarrow> phase d \<in> {''building'', ''failed''}"
  by (auto simp: storable_def build_statuses_def phase_def)

lemma CreateDeployment_storable:
  assumes "\<forall>r \<in> set t. storable r"
  shows "\<forall>r \<in> set (snd (CreateDeployment now ok d t)). storable r"
proof -
  let ?new = "(weight_defaults d)\<lparr>dep_Revision := 0, dep_CreatedAt := now\<rparr>"
  have new: "storable ?new" if "deployment_valid ?new"
    using that by (simp add: deployment_valid_def storable_def)
  have upd: "storable (deployment_upd old ?new)" if "deployment_valid ?new" for old
    using new [OF that] by (simp add: deployment_upd_def storable_def)
  show ?thesis
    using assms new upd by (auto simp: CreateDeployment_def exec_upsert_def upsert_def split: option.splits)
qed

lemma CreateDeployment_rejected:
  assumes "dep_BuildStatus d \<notin> set build_statuses"
  shows "CreateDeployment now ok d t = (False, t)"
  using assms by (simp add: CreateDeployment_def exec_upsert_def deployment_valid_def weight_defaults_def Let_def)

definition all_storable :: "ctl_world \<Rightarrow> bool" where
  "all_storable w \<longleftrightarrow> (\<forall>r \<in> set (cw_deployments w). storable r)"

lemma all_storable_stmt [simp]: "all_storable (stmt n w) \<longleftrightarrow> all_storable w"
  by (simp add: all_storable_def)

lemma all_storable_projects [simp]: "all_storable (w\<lparr>cw_projects := ps\<rparr>) \<longleftrightarrow> all_storable w"
  by (simp add: all_storable_def)

lemma dep_updateStatus_storable [simp]: "all_storable w \<Longrightarrow> all_storable (snd (dep_updateStatus e d w))"
  using CreateDeployment_storable [of "cw_deployments w" "ce_clock e (cw_stmt w)" "ce_db e (cw_stmt w)" d]
  by (cases "CreateDeployment (ce_clock e (cw_stmt w)) (ce_db e (cw_stmt w)) d (cw_deployments w)")
     (simp add: dep_updateStatus_def all_storable_def)

lemma handlers_storable [simp]:
  assumes "all_storable w"
  shows "all_storable (snd (reconcileBuilding e d w))" "all_storable (snd (reconcileRolling e d w))"
    "all_storable (snd (reconcilePromoting e d w))" "all_storable (snd (dep_reconcileFailed e d w))"
    "all_storable (snd (reconcileRollback e d w))"
  using assms
  by (simp_all add: reconcileBuilding_def reconcileRolling_def reconcilePromoting_def dep_reconcileFailed_def
      reconcileRollback_def Let_def split: option.split prod.split)

lemma dep_Reconcile_storable: "all_storable w \<Longrightarrow> all_storable (snd (dep_Reconcile e d w))"
  by (simp add: dep_Reconcile_def)

lemma list_project_deployments_keep: "all_storable w \<Longrightarrow> all_storable (snd (list_project_deployments e ps w))"
  by (induction ps arbitrary: w) (simp_all add: Let_def case_prod_beta)

lemma fold_storable: "all_storable w \<Longrightarrow> all_storable (fold (\<lambda>d w. snd (dep_Reconcile e d w)) ds w)"
  by (induction ds arbitrary: w) (simp_all add: dep_Reconcile_storable)

lemma dep_pass_run:
  "dep_pass e w =
     (let l = list_project_deployments e (ListProjects (ce_db e (cw_stmt w)) (cw_projects w)) (stmt 1 w)
      in fold (\<lambda>d w. snd (dep_Reconcile e d w)) (fst l) (snd l))"
  by (simp only: dep_pass_def reconcileAll_def dep_List_def case_prod_beta Let_def fst_conv snd_conv option.case)

lemma dep_pass_storable: "all_storable w \<Longrightarrow> all_storable (dep_pass e w)"
  unfolding dep_pass_run Let_def
  by (rule fold_storable, rule list_project_deployments_keep) simp

lemma stmt_stmt [simp]: "stmt m (stmt n w) = stmt (n + m) w"
  by (simp add: stmt_def)

lemma dep_updateStatus_rejected:
  assumes "dep_BuildStatus d \<notin> set build_statuses"
  shows "dep_updateStatus e d w = (False, stmt 1 w)"
  using CreateDeployment_rejected [OF assms] by (simp add: dep_updateStatus_def stmt_def)

lemma rollback_rejected:
  assumes "dep_RollbackTo d \<noteq> []"
    "GetDeployment (ce_db e (cw_stmt w)) (dep_ProjectID d) (dep_RollbackTo d) (cw_deployments w) = Some target"
  shows "dep_Reconcile e d w = (False, stmt 2 w)"
  using assms by (simp add: dep_Reconcile_def reconcileRollback_def dep_updateStatus_rejected build_statuses_def eval_nat_numeral)

lemma build_done_rejected:
  assumes "dep_RollbackTo d = []" "phase d = ''building''"
    "GetBuild (ce_db e (cw_stmt w)) (dep_ID d) (cw_builds w) = Some b" "bd_BuildStatus b \<in> {''completed'', ''success''}"
  shows "dep_Reconcile e d w = (False, stmt 2 w)"
  using assms by (simp add: dep_Reconcile_def reconcileBuilding_def dep_updateStatus_rejected build_statuses_def eval_nat_numeral Let_def)

lemma desired_replicas_pos: "desired_replicas proj d > 0"
  by (auto simp: desired_replicas_def copyCount_def split: option.splits)

lemma running_count_le: "0 \<le> running_count vms d" "running_count vms d \<le> int (length vms)"
  by (simp_all add: running_count_def)

subsection \<open>Properties\<close>


definition demo_env :: ctl_env where
  "demo_env = \<lparr>ce_db = (\<lambda>_. True), ce_clock = (\<lambda>k. 100 * 1000000000), ce_hit = (\<lambda>_. False), ce_cok = (\<lambda>_. True)\<rparr>"

definition demo_world :: ctl_world where
  "demo_world = \<lparr>cw_servers = [\<lparr>sv_ID = ''a'', sv_Name = ''n1'', sv_Address = [], sv_Status = ''Unhealthy'', sv_VCPUs = 4, sv_MemMiB = 0,
       sv_OS = [], sv_Arch = [], sv_Version = [], sv_Projects = 0, sv_VMs = 0, sv_LastSeen = Some 0\<rparr>],
     cw_projects = \<lparr>ps_rows = [], ps_cache = Map.empty\<rparr>, cw_deployments = [], cw_builds = [], cw_replicas = [], cw_stmt = 0\<rparr>"



definition demo_deployment :: Deployment where
  "demo_deployment = \<lparr>dep_ID = ''d2'', dep_ProjectID = ''p'', dep_Revision = 0, dep_VersionLabel = ''v2'', dep_GuestBase = ''alpine'',
     dep_Environment = ''production'', dep_IsProduction = True, dep_RouteWeight = 100, dep_VMIDs = [], dep_GitURL = [], dep_GitCommit = [],
     dep_BuildStatus = ''live'', dep_ImageDigest = ''sha'', dep_RollbackTo = ''d1'', dep_Checks = [], dep_RolloutPercent = 100, dep_CreatedAt = 0\<rparr>"


text \<open>
  The route weight a rolling deployment is given is a percentage: it lies between 0 and 100, it is 100
  exactly when as many replicas run as are desired, and below that it never exceeds the running share.
\<close>

theorem rolled_weight_bounds:
  assumes "int (length vms) * 100 < 2 ^ 63"
  shows "0 \<le> dep_RouteWeight (rolled vms vms' proj d) \<and> dep_RouteWeight (rolled vms vms' proj d) \<le> 100 \<and>
    (dep_RouteWeight (rolled vms vms' proj d) = 100 \<longleftrightarrow> running_count vms d \<ge> desired_replicas proj d) \<and>
    (running_count vms d < desired_replicas proj d \<longrightarrow>
       dep_RouteWeight (rolled vms vms' proj d) * desired_replicas proj d \<le> running_count vms d * 100)"
proof (cases "running_count vms d \<ge> desired_replicas proj d")
  case True
  then show ?thesis by (simp add: rolled_def promoted_def Let_def)
next
  case False
  let ?r = "running_count vms d" and ?n = "desired_replicas proj d"
  have r: "0 \<le> ?r" "?r * 100 < 2 ^ 63" using running_count_le [of vms d] assms by auto
  then have "wrap64 (?r * 100) = ?r * 100" by (simp add: wrap64_def)
  then have w: "dep_RouteWeight (rolled vms vms' proj d) = ?r * 100 div ?n"
    using False desired_replicas_pos [of proj d] by (simp add: rolled_def Let_def)
  let ?q = "?r * 100 div ?n"
  have pos: "0 < ?n" by (rule desired_replicas_pos)
  have q: "?q * ?n \<le> ?r * 100"
    using pos_mod_sign [OF pos, of "?r * 100"] by (simp add: minus_mod_eq_div_mult [symmetric])
  have lt: "?q < 100"
  proof (rule ccontr)
    assume "\<not> ?q < 100"
    then have "100 * ?n \<le> ?q * ?n" using pos by (intro mult_right_mono) auto
    with q False show False by linarith
  qed
  have "0 \<le> ?q" using r(1) pos by (simp add: pos_imp_zdiv_nonneg_iff)
  then show ?thesis using False lt q unfolding w by simp
qed

theorem rolled_weight_bounds_witness:
  "dep_RouteWeight (rolled [zero_VM\<lparr>vm_ID := ''r1'', vm_State := StateRunning, vm_DeploymentID := ''d2''\<rparr>,
       zero_VM\<lparr>vm_ID := ''r2'', vm_State := StateBooting, vm_DeploymentID := ''d2''\<rparr>] []
       (Some (zero_Project\<lparr>pr_ReplicasDesired := 3\<rparr>)) demo_deployment) \<le> 34"
  using rolled_weight_bounds [of "[zero_VM\<lparr>vm_ID := ''r1'', vm_State := StateRunning, vm_DeploymentID := ''d2''\<rparr>,
       zero_VM\<lparr>vm_ID := ''r2'', vm_State := StateBooting, vm_DeploymentID := ''d2''\<rparr>]" "[]"
       "Some (zero_Project\<lparr>pr_ReplicasDesired := 3\<rparr>)" demo_deployment]
  by (simp add: running_count_def desired_replicas_def demo_deployment_def zero_VM_def)

end
