(* ===== verification/Firecracker.thy ===== *)
theory Firecracker
  imports Network Judge Store_Tables "HOL-Library.AList"
begin

text \<open>
  The Firecracker runtime: the API client of \<open>internal/runtime/fc_client.go\<close>, its configuration types
  (\<open>manager.go\<close>), the VM manager the controllers drive (\<open>vm_manager.go\<close>), the socket helpers and the
  payload of \<open>internal/secretbox\<close>. The host is an argument: which directories can be made, which
  processes start and exit, when the socket file appears and how the Firecracker process answers a
  request. Every request is recorded in the order it is sent, and every process in the order it starts.
\<close>

subsection \<open>Paths\<close>

text \<open>\<open>filepath.Join\<close> of two elements and the \<open>filepath.Clean\<close> it ends with.\<close>

fun clean_parts :: "bool \<Rightarrow> string list \<Rightarrow> string list \<Rightarrow> string list" where
  "clean_parts rooted acc [] = rev acc"
| "clean_parts rooted acc (p # ps) =
     (if p = [] \<or> p = ''.'' then clean_parts rooted acc ps
      else if p = ''..'' then
        (if acc \<noteq> [] \<and> hd acc \<noteq> ''..'' then clean_parts rooted (tl acc) ps
         else if rooted then clean_parts rooted acc ps
         else clean_parts rooted (p # acc) ps)
      else clean_parts rooted (p # acc) ps)"

definition path_Clean :: "string \<Rightarrow> string" where
  "path_Clean p =
     (let rooted = (p \<noteq> [] \<and> hd p = CHR ''/'');
          body = Join ''/'' (clean_parts rooted [] (Split (CHR ''/'') p))
      in if rooted then CHR ''/'' # body else if body = [] then ''.'' else body)"

definition path_Join :: "string \<Rightarrow> string \<Rightarrow> string" where
  "path_Join a b =
     (if a = [] \<and> b = [] then []
      else if a = [] then path_Clean b
      else if b = [] then path_Clean a
      else path_Clean (a @ ''/'' @ b))"

definition safeVMID :: "string \<Rightarrow> string" where
  "safeVMID vmID =
     map (\<lambda>c. if c = CHR ''/'' \<or> c = CHR 0x5C \<or> c = CHR '' '' then CHR ''-'' else c) vmID"

definition socketPath :: "string \<Rightarrow> string \<Rightarrow> string" where
  "socketPath socketDir vmID = path_Join socketDir (''porter-'' @ safeVMID vmID @ ''.sock'')"

subsection \<open>Configuration\<close>

record FCConfig =
  fcc_Mode :: string
  fcc_FirecrackerBin :: string
  fcc_KernelImage :: string
  fcc_RootfsPath :: string
  fcc_SocketDir :: string
  fcc_SnapshotDir :: string
  fcc_LogsDir :: string
  fcc_SecretKey :: string
  fcc_JailerBin :: string
  fcc_EnableJailer :: bool
  fcc_CgroupVersion :: string
  fcc_SeccompFilter :: string
  fcc_VsockUDSPath :: string
  fcc_BalloonMiB :: int
  fcc_UseNetwork30 :: bool

record FCDataDrive =
  dd_ID :: string
  dd_Path :: string

record FCVMConfig =
  fv_VMID :: string
  fv_KernelPath :: string
  fv_RootfsPath :: string
  fv_VCPUs :: int
  fv_MemMiB :: int
  fv_NetworkSpec :: "ReplicaNetworkSpec option"
  fv_DataDrives :: "FCDataDrive list"
  fv_SnapshotDir :: string
  fv_LogsDir :: string
  fv_MMDSData :: "(string \<times> json) list"
  fv_Jailer :: "string list"
  fv_BalloonMiB :: int
  fv_VsockUDSPath :: string
  fv_VsockGuestCID :: int
  fv_RxBandwidthKbps :: int
  fv_TxBandwidthKbps :: int
  fv_RxOpsPerSec :: int
  fv_TxOpsPerSec :: int

definition jailArgs :: "string \<Rightarrow> string \<Rightarrow> string \<Rightarrow> string \<Rightarrow> string \<Rightarrow> string list" where
  "jailArgs jailerBin vmID fcBin socketDir cgroupVer =
     (if jailerBin = [] then []
      else
        let cgroupVer = (if cgroupVer = [] then ''v2'' else cgroupVer);
            sock = socketDir @ ''/'' @ vmID @ ''.sock''
        in [''--id'', vmID, ''--exec-file'', fcBin, ''--api-sock'', sock, ''--cgroup-version'', cgroupVer,
            ''--'', ''--api-sock'', sock, ''--config-file'', ''/dev/null''])"

subsection \<open>The host and the client\<close>

record fc_request =
  rq_socket :: string
  rq_method :: string
  rq_path :: string
  rq_body :: json

text \<open>
  The answers of the host, each indexed by the number of the interaction: \<open>h_start\<close> the process id of
  a started command, \<open>h_stat\<close> whether the socket file exists at a poll, \<open>h_delay\<close> by how much a pause
  exceeds the time it was asked for, \<open>h_cancel\<close> whether the context ends during a pause, \<open>h_api\<close> whether
  a request is answered with a status below 400.
\<close>

record fc_host =
  h_GOOS :: string
  h_mkdir :: "nat \<Rightarrow> bool"
  h_start :: "nat \<Rightarrow> string list \<Rightarrow> int option"
  h_now :: "nat \<Rightarrow> time"
  h_delay :: "nat \<Rightarrow> nat \<Rightarrow> nat"
  h_stat :: "nat \<Rightarrow> nat \<Rightarrow> bool"
  h_cancel :: "nat \<Rightarrow> nat \<Rightarrow> bool"
  h_api :: "nat \<Rightarrow> fc_request \<Rightarrow> bool"

record VMHandle =
  vh_VMID :: string
  vh_SocketPath :: string
  vh_PID :: int
  vh_CreatedAt :: time

record FCClient =
  fc_binPath :: string
  fc_socketDir :: string
  fc_vms :: "(string \<times> VMHandle) list"
  fc_procs :: "int list"
  fc_log :: "fc_request list"
  fc_step :: nat

datatype fc_error =
    RequiresLinux string
  | CreateSocketDir
  | StartFirecracker
  | SocketTimeout string
  | ContextDone
  | ApiError fc_request
  | VMNotFound string

definition NewFCClient :: "string \<Rightarrow> string \<Rightarrow> FCClient" where
  "NewFCClient binPath socketDir =
     \<lparr>fc_binPath = binPath, fc_socketDir = socketDir, fc_vms = [], fc_procs = [], fc_log = [], fc_step = 0\<rparr>"

definition MicroVMHost :: "fc_host \<Rightarrow> bool" where
  "MicroVMHost h = (h_GOOS h = ''linux'')"

definition RequireMicroVMHost :: "fc_host \<Rightarrow> string \<Rightarrow> fc_error option" where
  "RequireMicroVMHost h op = (if MicroVMHost h then None else Some (RequiresLinux op))"

text \<open>An action returns the error of the source's \<open>error\<close> result, \<open>None\<close> for nil, and the new client.\<close>

type_synonym fc_action = "FCClient \<Rightarrow> fc_error option \<times> FCClient"

definition fc_return :: "fc_error option \<Rightarrow> fc_action" where
  "fc_return e c = (e, c)"

text \<open>\<open>if err := f(); err != nil { return err }; g\<close> and \<open>if b { f }\<close>.\<close>

definition fc_seq :: "fc_action \<Rightarrow> fc_action \<Rightarrow> fc_action" where
  "fc_seq f g c = (case f c of (Some e, c') \<Rightarrow> (Some e, c') | (None, c') \<Rightarrow> g c')"

definition fc_when :: "bool \<Rightarrow> fc_action \<Rightarrow> fc_action" where
  "fc_when b f = (if b then f else fc_return None)"

definition fc_send :: "fc_host \<Rightarrow> fc_request \<Rightarrow> fc_action" where
  "fc_send h r c =
     (if h_api h (fc_step c) r then None else Some (ApiError r),
      c\<lparr>fc_log := fc_log c @ [r], fc_step := Suc (fc_step c)\<rparr>)"

definition fc_put :: "fc_host \<Rightarrow> string \<Rightarrow> string \<Rightarrow> json \<Rightarrow> fc_action" where
  "fc_put h sock path body = fc_send h \<lparr>rq_socket = sock, rq_method = ''PUT'', rq_path = path, rq_body = body\<rparr>"

definition fc_patch :: "fc_host \<Rightarrow> string \<Rightarrow> string \<Rightarrow> json \<Rightarrow> fc_action" where
  "fc_patch h sock path body = fc_send h \<lparr>rq_socket = sock, rq_method = ''PATCH'', rq_path = path, rq_body = body\<rparr>"

subsection \<open>Booting\<close>

text \<open>
  The polling loop, in nanoseconds since it began; a pause lasts at least the 100 ms it asks for. A ready
  context and an elapsed timer are both possible in the \<open>select\<close>; \<open>h_cancel\<close> is the choice it makes.
\<close>

function wait_loop :: "(nat \<Rightarrow> nat) \<Rightarrow> (nat \<Rightarrow> bool) \<Rightarrow> (nat \<Rightarrow> bool) \<Rightarrow> string \<Rightarrow> int \<Rightarrow> nat \<Rightarrow> fc_error option" where
  "wait_loop delay stat cancel sock now i =
     (if now < 10 * 1000000000 then
        (if stat i then None
         else if cancel i then Some ContextDone
         else wait_loop delay stat cancel sock (now + 100 * 1000000 + int (delay i)) (Suc i))
      else Some (SocketTimeout sock))"
  by pat_completeness auto
termination
  by (relation "measure (\<lambda>(delay, stat, cancel, sock, now, i). nat (10 * 1000000000 - now))") auto

declare wait_loop.simps [simp del]

definition waitForSocket :: "fc_host \<Rightarrow> nat \<Rightarrow> string \<Rightarrow> fc_error option" where
  "waitForSocket h k sock = wait_loop (h_delay h k) (h_stat h k) (h_cancel h k) sock 0 0"

definition buildBootArgs :: "FCVMConfig \<Rightarrow> string" where
  "buildBootArgs cfg = (case fv_NetworkSpec cfg of
      None \<Rightarrow> []
    | Some n \<Rightarrow> '' ip='' @ rn_IPAddress n @ ''::'' @ rn_Gateway n @ '':255.255.255.0::eth0:off'')"

definition putMMDSConfig :: "fc_host \<Rightarrow> string \<Rightarrow> (string \<times> json) list \<Rightarrow> fc_action" where
  "putMMDSConfig h sock data = fc_put h sock ''/mmds/config''
     (JObj [(''version'', JStr ''V2''), (''network_interfaces'', JArr [JStr ''eth0'']), (''mmds_data'', JObj data)])"

definition putBalloon :: "fc_host \<Rightarrow> string \<Rightarrow> int \<Rightarrow> fc_action" where
  "putBalloon h sock amountMiB = fc_put h sock ''/balloon''
     (JObj [(''amount_mib'', JNum (of_int amountMiB)), (''deflate_on_oom'', JBool True),
            (''stats_polling_interval_s'', JNum 10)])"

definition putVsock :: "fc_host \<Rightarrow> string \<Rightarrow> string \<Rightarrow> int \<Rightarrow> fc_action" where
  "putVsock h sock udsPath guestCID =
     (let guestCID = (if guestCID < 3 then 3 else guestCID)
      in fc_put h sock ''/vsock'' (JObj [(''guest_cid'', JNum (of_int guestCID)), (''uds_path'', JStr udsPath)]))"

definition limit_bucket :: "int \<Rightarrow> int \<Rightarrow> (string \<times> json) list" where
  "limit_bucket bw ops =
     (if bw > 0 then
        [(''bandwidth'', JObj [(''size'', JNum (of_int (wrap64 (bw * 1024)))),
           (''one_time_burst'', JNum (of_int (wrap64 (bw * 1024)))), (''refill_time'', JNum 1000)])]
      else []) @
     (if ops > 0 then
        [(''ops'', JObj [(''size'', JNum (of_int ops)), (''one_time_burst'', JNum (of_int ops)),
           (''refill_time'', JNum 1000)])]
      else [])"

definition limiter_body :: "int \<Rightarrow> int \<Rightarrow> int \<Rightarrow> int \<Rightarrow> (string \<times> json) list" where
  "limiter_body rxBW txBW rxOps txOps =
     [(''iface_id'', JStr ''eth0'')] @
     (let rx = limit_bucket rxBW rxOps in if length rx > 0 then [(''rx_rate_limiter'', JObj rx)] else []) @
     (let tx = limit_bucket txBW txOps in if length tx > 0 then [(''tx_rate_limiter'', JObj tx)] else [])"

definition putRateLimiter :: "fc_host \<Rightarrow> string \<Rightarrow> int \<Rightarrow> int \<Rightarrow> int \<Rightarrow> int \<Rightarrow> fc_action" where
  "putRateLimiter h sock rxBW txBW rxOps txOps =
     (let body = limiter_body rxBW txBW rxOps txOps
      in if length body = 1 then fc_return None
         else fc_patch h sock ''/network-interfaces/eth0'' (JObj body))"

fun put_drives :: "fc_host \<Rightarrow> string \<Rightarrow> FCDataDrive list \<Rightarrow> fc_action" where
  "put_drives h sock [] = fc_return None"
| "put_drives h sock (d # ds) =
     fc_seq (fc_put h sock (''/drives/'' @ dd_ID d)
               (JObj [(''drive_id'', JStr (dd_ID d)), (''path_on_host'', JStr (dd_Path d)),
                      (''is_root_device'', JBool False), (''is_read_only'', JBool False)]))
            (put_drives h sock ds)"

definition has_limits :: "FCVMConfig \<Rightarrow> bool" where
  "has_limits cfg = (wrap64 (fv_RxBandwidthKbps cfg + fv_TxBandwidthKbps cfg + fv_RxOpsPerSec cfg + fv_TxOpsPerSec cfg) > 0)"

definition configureVM :: "fc_host \<Rightarrow> string \<Rightarrow> FCVMConfig \<Rightarrow> fc_action" where
  "configureVM h sock cfg =
     fc_seq (fc_put h sock ''/boot-source''
       (JObj [(''kernel_image_path'', JStr (fv_KernelPath cfg)),
              (''boot_args'', JStr (''console=ttyS0 reboot=k panic=1 pci=off nomodules ro root=/dev/vda '' @ buildBootArgs cfg))]))
    (fc_seq (fc_put h sock ''/drives/rootfs''
       (JObj [(''drive_id'', JStr ''rootfs''), (''path_on_host'', JStr (fv_RootfsPath cfg)),
              (''is_root_device'', JBool True), (''is_read_only'', JBool False)]))
    (fc_seq (case fv_NetworkSpec cfg of
               None \<Rightarrow> fc_return None
             | Some n \<Rightarrow> fc_put h sock ''/network-interfaces/eth0''
                 (JObj [(''iface_id'', JStr ''eth0''), (''guest_mac'', JStr (rn_MAC n)), (''host_dev_name'', JStr (rn_TapName n))]))
    (fc_seq (put_drives h sock (fv_DataDrives cfg))
    (fc_seq (fc_when (length (fv_MMDSData cfg) > 0) (putMMDSConfig h sock (fv_MMDSData cfg)))
    (fc_seq (fc_when (fv_VsockUDSPath cfg \<noteq> []) (putVsock h sock (fv_VsockUDSPath cfg) (fv_VsockGuestCID cfg)))
    (fc_seq (fc_when (fv_BalloonMiB cfg > 0) (putBalloon h sock (fv_BalloonMiB cfg)))
    (fc_seq (fc_when (has_limits cfg)
               (putRateLimiter h sock (fv_RxBandwidthKbps cfg) (fv_TxBandwidthKbps cfg) (fv_RxOpsPerSec cfg) (fv_TxOpsPerSec cfg)))
            (fc_put h sock ''/machine-config''
               (JObj [(''vcpu_count'', JNum (of_int (fv_VCPUs cfg))), (''mem_size_mib'', JNum (of_int (fv_MemMiB cfg)))])))))))))"

definition startVM :: "fc_host \<Rightarrow> string \<Rightarrow> fc_action" where
  "startVM h sock = fc_put h sock ''/actions'' (JObj [(''action_type'', JStr ''InstanceStart'')])"

text \<open>
  What \<open>CreateAndStartVM\<close> and \<open>LoadSnapshot\<close> begin with: the socket directory, the process, its handle, and
  the wait for the socket. The handle is registered before the wait and stays when a later step fails.
\<close>

definition fc_launch :: "fc_host \<Rightarrow> string list \<Rightarrow> string \<Rightarrow> string \<Rightarrow> fc_action" where
  "fc_launch h argv sock vmID c =
     (let k = fc_step c; c = c\<lparr>fc_step := Suc k\<rparr>
      in if \<not> h_mkdir h k then (Some CreateSocketDir, c)
         else case h_start h k argv of
           None \<Rightarrow> (Some StartFirecracker, c)
         | Some pid \<Rightarrow>
             (waitForSocket h k sock,
              c\<lparr>fc_procs := fc_procs c @ [pid],
                fc_vms := AList.update vmID \<lparr>vh_VMID = vmID, vh_SocketPath = sock, vh_PID = pid, vh_CreatedAt = h_now h k\<rparr> (fc_vms c)\<rparr>))"

definition direct_argv :: "FCClient \<Rightarrow> string \<Rightarrow> string list" where
  "direct_argv c sock = [fc_binPath c, ''--api-sock'', sock, ''--config-file'', ''/dev/null'']"

definition CreateAndStartVM :: "fc_host \<Rightarrow> FCVMConfig \<Rightarrow> fc_action" where
  "CreateAndStartVM h cfg c =
     fc_seq (fc_return (RequireMicroVMHost h ''Firecracker boot''))
       (let sock = path_Join (fc_socketDir c) (fv_VMID cfg @ ''.sock'');
            argv = (if length (fv_Jailer cfg) > 0 then fv_Jailer cfg else direct_argv c sock)
        in fc_seq (fc_launch h argv sock (fv_VMID cfg))
          (fc_seq (configureVM h sock cfg) (startVM h sock))) c"

subsection \<open>Stopping, snapshots and restore\<close>

text \<open>
  The process of the handle is gone when \<open>StopVM\<close> returns: it has exited, or it was killed because the
  request failed or the grace period ran out, and the exit is awaited in each case.
\<close>

definition StopVM :: "fc_host \<Rightarrow> string \<Rightarrow> fc_action" where
  "StopVM h vmID c = (case map_of (fc_vms c) vmID of
      None \<Rightarrow> (None, c)
    | Some handle \<Rightarrow>
        let c1 = snd (fc_put h (vh_SocketPath handle) ''/actions'' (JObj [(''action_type'', JStr ''SendCtrlAltDel'')]) c)
        in (None, c1\<lparr>fc_procs := removeAll (vh_PID handle) (fc_procs c1), fc_vms := AList.delete vmID (fc_vms c1)\<rparr>))"

record SnapshotResult =
  sn_SnapshotPath :: string
  sn_MemoryPath :: string
  sn_CreatedAt :: time

definition CreateSnapshot :: "fc_host \<Rightarrow> string \<Rightarrow> string \<Rightarrow> FCClient \<Rightarrow> (fc_error, SnapshotResult) result \<times> FCClient" where
  "CreateSnapshot h vmID snapshotDir c = (case map_of (fc_vms c) vmID of
      None \<Rightarrow> (Inl (VMNotFound vmID), c)
    | Some handle \<Rightarrow>
        let snapPath = path_Join snapshotDir (vmID @ ''.snap'');
            memPath = path_Join snapshotDir (vmID @ ''.mem'')
        in case fc_put h (vh_SocketPath handle) ''/snapshot/create''
               (JObj [(''snapshot_type'', JStr ''Full''), (''snapshot_path'', JStr snapPath), (''mem_file_path'', JStr memPath)]) c of
             (Some e, c') \<Rightarrow> (Inl e, c')
           | (None, c') \<Rightarrow>
               (Inr \<lparr>sn_SnapshotPath = snapPath, sn_MemoryPath = memPath, sn_CreatedAt = h_now h (fc_step c')\<rparr>, c'))"

definition LoadSnapshot :: "fc_host \<Rightarrow> string \<Rightarrow> string \<Rightarrow> string \<Rightarrow> fc_action" where
  "LoadSnapshot h vmID snapPath memPath c =
     fc_seq (fc_return (RequireMicroVMHost h ''Firecracker snapshot restore''))
       (let sock = path_Join (fc_socketDir c) (vmID @ ''.sock'')
        in fc_seq (fc_launch h (direct_argv c sock) sock vmID)
             (fc_put h sock ''/snapshot/load''
               (JObj [(''snapshot_path'', JStr snapPath),
                      (''mem_backend'', JObj [(''backend_path'', JStr memPath), (''backend_type'', JStr ''File'')]),
                      (''resume_vm'', JBool True)]))) c"

definition fc_Close :: "FCClient \<Rightarrow> FCClient" where
  "fc_Close c = c\<lparr>fc_procs := filter (\<lambda>pid. pid \<notin> set (map (vh_PID \<circ> snd) (fc_vms c))) (fc_procs c),
                   fc_vms := []\<rparr>"

subsection \<open>Secrets\<close>

text \<open>
  \<open>Seal\<close> and \<open>Open\<close> of \<open>internal/secretbox\<close> over the AES-GCM of the Go library, whose sealing and opening
  functions are the argument \<open>gcm\<close>; \<open>nonce\<close> is what the random source gives, \<open>None\<close> when it fails.
\<close>

record gcm =
  g_seal :: "string \<Rightarrow> string \<Rightarrow> string \<Rightarrow> string"
  g_open :: "string \<Rightarrow> string \<Rightarrow> string \<Rightarrow> string option"

datatype box_error = BadKeySize nat | NoNonce | BoxTooShort | OpenFailed

definition gcm_nonce_size :: nat where
  "gcm_nonce_size = 12"

definition aes_key_ok :: "string \<Rightarrow> bool" where
  "aes_key_ok key = (length key \<in> {16, 24, 32})"

definition Seal :: "gcm \<Rightarrow> string option \<Rightarrow> string \<Rightarrow> string \<Rightarrow> (box_error, string) result" where
  "Seal g nonce key plaintext =
     (if \<not> aes_key_ok key then Inl (BadKeySize (length key))
      else case nonce of None \<Rightarrow> Inl NoNonce | Some n \<Rightarrow> Inr (n @ g_seal g key n plaintext))"

definition Open :: "gcm \<Rightarrow> string \<Rightarrow> string \<Rightarrow> (box_error, string) result" where
  "Open g key box =
     (if \<not> aes_key_ok key then Inl (BadKeySize (length key))
      else if length box < gcm_nonce_size then Inl BoxTooShort
      else case g_open g key (take gcm_nonce_size box) (drop gcm_nonce_size box) of
             None \<Rightarrow> Inl OpenFailed
           | Some raw \<Rightarrow> Inr raw)"

definition MMDSPayload :: "string \<Rightarrow> (string \<times> string) list \<Rightarrow> (string \<times> json) list" where
  "MMDSPayload projectID secrets =
     [(''porter'', JObj [(''project_id'', JStr projectID), (''secrets'', JObj (map (\<lambda>(k, v). (k, JStr v)) secrets))])]"

subsection \<open>The VM manager\<close>

record VMManager =
  vmm_config :: FCConfig
  vmm_fc :: FCClient
  vmm_net :: NetManager
  vmm_subs :: "string \<rightharpoonup> string"
  vmm_secretKey :: string

definition NewVMManager :: "FCConfig \<Rightarrow> VMManager" where
  "NewVMManager cfg = \<lparr>vmm_config = cfg, vmm_fc = NewFCClient (fcc_FirecrackerBin cfg) (fcc_SocketDir cfg),
     vmm_net = NewNetManager, vmm_subs = Map.empty, vmm_secretKey = []\<rparr>"

text \<open>\<open>fmt.Sscanf(subnet, "10.42.%d.", &third)\<close>\<close>

definition scan_third :: "string \<Rightarrow> int option" where
  "scan_third subnet =
     (if \<not> HasPrefix subnet ''10.42.'' then None
      else case scan_int (drop 6 subnet) of
        None \<Rightarrow> None
      | Some (v, rest) \<Rightarrow> (case scan_dot rest of None \<Rightarrow> None | Some _ \<Rightarrow> Some v))"

definition NetSpec :: "bool \<Rightarrow> (string list \<Rightarrow> bool) \<Rightarrow> VM \<Rightarrow> VMManager \<Rightarrow> (net_error, BootSpec) result \<times> VMManager" where
  "NetSpec linux run vm m =
     (let m = (case vmm_subs m (vm_ProjectID vm) of
                 Some _ \<Rightarrow> m
               | None \<Rightarrow> (case AllocateProjectSubnet (vmm_net m) of (sub, n) \<Rightarrow>
                   m\<lparr>vmm_subs := (vmm_subs m)(vm_ProjectID vm \<mapsto> sub), vmm_net := n\<rparr>));
          subnet = (case vmm_subs m (vm_ProjectID vm) of Some s \<Rightarrow> s | None \<Rightarrow> []);
          fallback = (fst (AllocateVMNetwork linux run subnet (vm_ReplicaIndex vm) (vm_ID vm)), m)
      in if fcc_UseNetwork30 (vmm_config m) \<and> vm_ReplicaIndex vm \<ge> 0 \<and> vm_ReplicaIndex vm \<le> 63 then
           (case scan_third subnet of
              Some third \<Rightarrow> (netmgr_AllocateVMNetwork30 third (vm_ReplicaIndex vm) (vm_ID vm), m)
            | None \<Rightarrow> fallback)
         else fallback)"

definition ipFromCIDR :: "string \<Rightarrow> string" where
  "ipFromCIDR cidr = (case Cut (CHR ''/'') cidr of Some (ip, _) \<Rightarrow> ip | None \<Rightarrow> cidr)"

definition fcConfigFor :: "FCConfig \<Rightarrow> VM \<Rightarrow> ReplicaNetworkSpec \<Rightarrow> FCVMConfig" where
  "fcConfigFor cfg vm spec =
     \<lparr>fv_VMID = vm_ID vm,
      fv_KernelPath = (if vm_Kernel vm = [] then fcc_KernelImage cfg else vm_Kernel vm),
      fv_RootfsPath = (if vm_RootfsPath vm = [] then fcc_RootfsPath cfg else vm_RootfsPath vm),
      fv_VCPUs = vm_VCPUs vm, fv_MemMiB = vm_MemMiB vm, fv_NetworkSpec = Some spec, fv_DataDrives = [],
      fv_SnapshotDir = fcc_SnapshotDir cfg, fv_LogsDir = fcc_LogsDir cfg, fv_MMDSData = [],
      fv_Jailer = (if fcc_EnableJailer cfg
        then jailArgs (fcc_JailerBin cfg) (vm_ID vm) (fcc_FirecrackerBin cfg) (fcc_SocketDir cfg) (fcc_CgroupVersion cfg)
        else []),
      fv_BalloonMiB = fcc_BalloonMiB cfg, fv_VsockUDSPath = fcc_VsockUDSPath cfg, fv_VsockGuestCID = 3,
      fv_RxBandwidthKbps = 0, fv_TxBandwidthKbps = 0, fv_RxOpsPerSec = 0, fv_TxOpsPerSec = 0\<rparr>"

text \<open>
  The tables a boot reads: \<open>vok\<close> and \<open>sok\<close> are the outcomes of the two queries, \<open>collate\<close> the order of
  \<open>ListSecrets\<close>.
\<close>

record boot_store =
  b_volumes :: "volume_row list"
  b_vok :: bool
  b_secrets :: "Secret list"
  b_sok :: bool
  b_collate :: "string \<Rightarrow> string \<Rightarrow> bool"

fun plain_secrets :: "gcm \<Rightarrow> string \<Rightarrow> (string \<times> string) list \<Rightarrow> Secret list \<Rightarrow> (string \<times> string) list" where
  "plain_secrets g key plain [] = plain"
| "plain_secrets g key plain (sec # secs) =
     (if se_Name sec = [] \<or> length (se_ValueEncrypted sec) = 0 then plain_secrets g key plain secs
      else case Open g key (se_ValueEncrypted sec) of
             Inl _ \<Rightarrow> plain_secrets g key plain secs
           | Inr raw \<Rightarrow> plain_secrets g key (AList.update (se_Name sec) raw plain) secs)"

definition boot_config :: "gcm \<Rightarrow> boot_store \<Rightarrow> VM \<Rightarrow> BootSpec \<Rightarrow> VMManager \<Rightarrow> FCVMConfig" where
  "boot_config g st vm spec m =
     (let netSpec = \<lparr>rn_Subnet = bs_CIDR spec, rn_IPAddress = ipFromCIDR (bs_CIDR spec), rn_Gateway = bs_GatewayAddr spec,
                     rn_MAC = bs_MacAddress spec, rn_Bridge = [], rn_TapName = bs_HostDevName spec\<rparr>;
          cfg = fcConfigFor (vmm_config m) vm netSpec;
          cfg = (if vm_VolumeID vm \<noteq> [] then
                   (case GetVolume (b_vok st) (vm_VolumeID vm) (b_volumes st) of
                      Some vol \<Rightarrow> if vo_Path vol \<noteq> []
                        then cfg\<lparr>fv_DataDrives := [\<lparr>dd_ID = ''vdb'', dd_Path = vo_Path vol\<rparr>]\<rparr> else cfg
                    | None \<Rightarrow> cfg)
                 else cfg)
      in if length (vmm_secretKey m) > 0 \<and> vm_ProjectID vm \<noteq> [] then
           (let plain = plain_secrets g (vmm_secretKey m) []
                          (ListSecrets (b_collate st) (b_sok st) (vm_ProjectID vm) (b_secrets st))
            in if length plain > 0 then cfg\<lparr>fv_MMDSData := MMDSPayload (vm_ProjectID vm) plain\<rparr> else cfg)
         else cfg)"

definition Boot :: "fc_host \<Rightarrow> gcm \<Rightarrow> boot_store \<Rightarrow> VM \<Rightarrow> BootSpec \<Rightarrow> VMManager \<Rightarrow> fc_error option \<times> VMManager" where
  "Boot h g st vm spec m =
     (case RequireMicroVMHost h ''VM boot'' of
        Some e \<Rightarrow> (Some e, m)
      | None \<Rightarrow> (case CreateAndStartVM h (boot_config g st vm spec m) (vmm_fc m) of (e, c) \<Rightarrow> (e, m\<lparr>vmm_fc := c\<rparr>)))"

definition vmm_Stop :: "fc_host \<Rightarrow> VM \<Rightarrow> VMManager \<Rightarrow> fc_error option \<times> VMManager" where
  "vmm_Stop h vm m = (case StopVM h (vm_ID vm) (vmm_fc m) of (e, c) \<Rightarrow> (e, m\<lparr>vmm_fc := c\<rparr>))"

definition vmm_Snapshot :: "fc_host \<Rightarrow> VM \<Rightarrow> VMManager \<Rightarrow> (fc_error, SnapshotResult) result \<times> VMManager" where
  "vmm_Snapshot h vm m =
     (case CreateSnapshot h (vm_ID vm) (fcc_SnapshotDir (vmm_config m)) (vmm_fc m) of (r, c) \<Rightarrow> (r, m\<lparr>vmm_fc := c\<rparr>))"

definition vmm_Restore :: "fc_host \<Rightarrow> VM \<Rightarrow> string \<Rightarrow> string \<Rightarrow> VMManager \<Rightarrow> fc_error option \<times> VMManager" where
  "vmm_Restore h vm snapPath memPath m =
     (case LoadSnapshot h (vm_ID vm) snapPath memPath (vmm_fc m) of (e, c) \<Rightarrow> (e, m\<lparr>vmm_fc := c\<rparr>))"

subsection \<open>Lemmas: the wait for the socket\<close>

text \<open>The earliest time of a poll.\<close>

fun poll_time :: "(nat \<Rightarrow> nat) \<Rightarrow> nat \<Rightarrow> int" where
  "poll_time delay 0 = 0"
| "poll_time delay (Suc i) = poll_time delay i + 100 * 1000000 + int (delay i)"

lemma poll_time_ge: "int i * (100 * 1000000) \<le> poll_time delay i"
  by (induction i) (auto simp: algebra_simps)

lemma wait_loop_result:
  "\<exists>n \<ge> i. (\<forall>j. i \<le> j \<and> j < n \<longrightarrow> \<not> stat j \<and> \<not> cancel j \<and> poll_time delay j < 10 * 1000000000) \<and>
     wait_loop delay stat cancel sock (poll_time delay i) i =
       (if poll_time delay n \<ge> 10 * 1000000000 then Some (SocketTimeout sock)
        else if stat n then None else Some ContextDone) \<and>
     (poll_time delay n \<ge> 10 * 1000000000 \<or> stat n \<or> cancel n)"
proof (induction "nat (10 * 1000000000 - poll_time delay i)" arbitrary: i rule: less_induct)
  case less
  show ?case
  proof (cases "poll_time delay i < 10 * 1000000000 \<and> \<not> stat i \<and> \<not> cancel i")
    case False
    then show ?thesis
      by (intro exI [of _ i]) (auto simp: wait_loop.simps [of delay stat cancel sock _ i])
  next
    case True
    then have "nat (10 * 1000000000 - poll_time delay (Suc i)) < nat (10 * 1000000000 - poll_time delay i)"
      by simp
    from less [OF this] obtain n where n: "n \<ge> Suc i"
        "\<forall>j. Suc i \<le> j \<and> j < n \<longrightarrow> \<not> stat j \<and> \<not> cancel j \<and> poll_time delay j < 10 * 1000000000"
        "wait_loop delay stat cancel sock (poll_time delay (Suc i)) (Suc i) =
           (if poll_time delay n \<ge> 10 * 1000000000 then Some (SocketTimeout sock)
            else if stat n then None else Some ContextDone)"
        "poll_time delay n \<ge> 10 * 1000000000 \<or> stat n \<or> cancel n"
      by blast
    have "wait_loop delay stat cancel sock (poll_time delay i) i =
        wait_loop delay stat cancel sock (poll_time delay (Suc i)) (Suc i)"
      using True by (subst wait_loop.simps) simp
    moreover have "\<forall>j. i \<le> j \<and> j < n \<longrightarrow> \<not> stat j \<and> \<not> cancel j \<and> poll_time delay j < 10 * 1000000000"
      using n(2) True by (metis Suc_leI le_neq_implies_less)
    ultimately show ?thesis
      using n by (intro exI [of _ n]) auto
  qed
qed

subsection \<open>Lemmas: sequences of requests\<close>

text \<open>The reference for a run of requests: send them in order, stop at the first that is refused.\<close>

fun send_all :: "fc_host \<Rightarrow> fc_request list \<Rightarrow> fc_action" where
  "send_all h [] = fc_return None"
| "send_all h (r # rs) = fc_seq (fc_send h r) (send_all h rs)"

lemma fc_seq_assoc: "fc_seq (fc_seq f g) k = fc_seq f (fc_seq g k)"
  by (rule ext) (simp add: fc_seq_def split: option.splits prod.splits)

lemma fc_seq_return [simp]: "fc_seq (fc_return None) f = f" "fc_seq f (fc_return None) = f"
  by (rule ext, simp add: fc_seq_def fc_return_def split: option.splits prod.splits)+

lemma send_all_append: "fc_seq (send_all h rs) (send_all h rs') = send_all h (rs @ rs')"
  by (induction rs) (simp_all add: fc_seq_assoc)

lemma send_all_one: "fc_send h r = send_all h [r]"
  by simp

definition put_rq :: "string \<Rightarrow> string \<Rightarrow> json \<Rightarrow> fc_request" where
  "put_rq sock path body = \<lparr>rq_socket = sock, rq_method = ''PUT'', rq_path = path, rq_body = body\<rparr>"

text \<open>The requests that configure and start a machine, in the order of the Firecracker API.\<close>

definition config_requests :: "string \<Rightarrow> FCVMConfig \<Rightarrow> fc_request list" where
  "config_requests sock cfg =
     [put_rq sock ''/boot-source''
        (JObj [(''kernel_image_path'', JStr (fv_KernelPath cfg)),
               (''boot_args'', JStr (''console=ttyS0 reboot=k panic=1 pci=off nomodules ro root=/dev/vda '' @ buildBootArgs cfg))]),
      put_rq sock ''/drives/rootfs''
        (JObj [(''drive_id'', JStr ''rootfs''), (''path_on_host'', JStr (fv_RootfsPath cfg)),
               (''is_root_device'', JBool True), (''is_read_only'', JBool False)])] @
     (case fv_NetworkSpec cfg of None \<Rightarrow> []
      | Some n \<Rightarrow> [put_rq sock ''/network-interfaces/eth0''
          (JObj [(''iface_id'', JStr ''eth0''), (''guest_mac'', JStr (rn_MAC n)), (''host_dev_name'', JStr (rn_TapName n))])]) @
     map (\<lambda>d. put_rq sock (''/drives/'' @ dd_ID d)
            (JObj [(''drive_id'', JStr (dd_ID d)), (''path_on_host'', JStr (dd_Path d)),
                   (''is_root_device'', JBool False), (''is_read_only'', JBool False)])) (fv_DataDrives cfg) @
     (if fv_MMDSData cfg = [] then []
      else [put_rq sock ''/mmds/config'' (JObj [(''version'', JStr ''V2''),
              (''network_interfaces'', JArr [JStr ''eth0'']), (''mmds_data'', JObj (fv_MMDSData cfg))])]) @
     (if fv_VsockUDSPath cfg = [] then []
      else [put_rq sock ''/vsock'' (JObj [(''guest_cid'', JNum (of_int (max 3 (fv_VsockGuestCID cfg)))),
              (''uds_path'', JStr (fv_VsockUDSPath cfg))])]) @
     (if fv_BalloonMiB cfg \<le> 0 then []
      else [put_rq sock ''/balloon'' (JObj [(''amount_mib'', JNum (of_int (fv_BalloonMiB cfg))),
              (''deflate_on_oom'', JBool True), (''stats_polling_interval_s'', JNum 10)])]) @
     (let body = limiter_body (fv_RxBandwidthKbps cfg) (fv_TxBandwidthKbps cfg) (fv_RxOpsPerSec cfg) (fv_TxOpsPerSec cfg)
      in if has_limits cfg \<and> length body \<noteq> 1
         then [\<lparr>rq_socket = sock, rq_method = ''PATCH'', rq_path = ''/network-interfaces/eth0'', rq_body = JObj body\<rparr>] else []) @
     [put_rq sock ''/machine-config''
        (JObj [(''vcpu_count'', JNum (of_int (fv_VCPUs cfg))), (''mem_size_mib'', JNum (of_int (fv_MemMiB cfg)))])]"

definition boot_requests :: "string \<Rightarrow> FCVMConfig \<Rightarrow> fc_request list" where
  "boot_requests sock cfg =
     config_requests sock cfg @ [put_rq sock ''/actions'' (JObj [(''action_type'', JStr ''InstanceStart'')])]"

lemma put_drives_send:
  "put_drives h sock ds = send_all h (map (\<lambda>d. put_rq sock (''/drives/'' @ dd_ID d)
     (JObj [(''drive_id'', JStr (dd_ID d)), (''path_on_host'', JStr (dd_Path d)),
            (''is_root_device'', JBool False), (''is_read_only'', JBool False)])) ds)"
  by (induction ds) (simp_all add: fc_put_def put_rq_def)

lemma fc_put_send: "fc_put h sock path body = send_all h [put_rq sock path body]"
  by (simp add: fc_put_def put_rq_def)

lemma fc_when_send: "fc_when b (send_all h rs) = send_all h (if b then rs else [])"
  by (simp add: fc_when_def)

lemma putRateLimiter_send:
  "putRateLimiter h sock rb tb ro to =
     send_all h (let body = limiter_body rb tb ro to
       in if length body = 1 then []
          else [\<lparr>rq_socket = sock, rq_method = ''PATCH'', rq_path = ''/network-interfaces/eth0'', rq_body = JObj body\<rparr>])"
  by (simp add: putRateLimiter_def fc_patch_def Let_def)

lemma network_send:
  "(case x of None \<Rightarrow> fc_return None | Some n \<Rightarrow> send_all h (f n)) = send_all h (case x of None \<Rightarrow> [] | Some n \<Rightarrow> f n)"
  by (simp split: option.splits)

lemma configureVM_send: "configureVM h sock cfg = send_all h (config_requests sock cfg)"
  unfolding configureVM_def put_drives_send fc_put_send putMMDSConfig_def putBalloon_def putVsock_def Let_def
    putRateLimiter_send network_send fc_when_send send_all_append config_requests_def
  by (rule arg_cong [where f = "send_all h"]) (auto simp: max_def Let_def)

lemma boot_send: "fc_seq (configureVM h sock cfg) (startVM h sock) = send_all h (boot_requests sock cfg)"
  by (simp add: configureVM_send startVM_def fc_put_send send_all_append boot_requests_def del: send_all.simps)

lemma send_all_result:
  "\<exists>n \<le> length rs. fc_log (snd (send_all h rs c)) = fc_log c @ take n rs \<and>
     fc_procs (snd (send_all h rs c)) = fc_procs c \<and> fc_vms (snd (send_all h rs c)) = fc_vms c \<and>
     (\<forall>i. Suc i < n \<longrightarrow> h_api h (fc_step c + i) (rs ! i)) \<and>
     (if fst (send_all h rs c) = None then n = length rs \<and> (\<forall>i < n. h_api h (fc_step c + i) (rs ! i))
      else 0 < n \<and> \<not> h_api h (fc_step c + (n - 1)) (rs ! (n - 1)))"
proof (induction rs arbitrary: c)
  case Nil
  then show ?case by (simp add: fc_return_def)
next
  case (Cons r rs)
  show ?case
  proof (cases "h_api h (fc_step c) r")
    case False
    then show ?thesis
      by (intro exI [of _ 1]) (simp add: fc_seq_def fc_send_def)
  next
    case True
    define c1 where "c1 = c\<lparr>fc_log := fc_log c @ [r], fc_step := Suc (fc_step c)\<rparr>"
    then have c1: "fc_step c1 = Suc (fc_step c)" "fc_log c1 = fc_log c @ [r]" "fc_procs c1 = fc_procs c" "fc_vms c1 = fc_vms c"
      by simp_all
    have run: "send_all h (r # rs) c = send_all h rs c1"
      using True by (simp add: fc_seq_def fc_send_def c1_def)
    obtain n where n: "n \<le> length rs" "fc_log (snd (send_all h rs c1)) = fc_log c1 @ take n rs"
        "fc_procs (snd (send_all h rs c1)) = fc_procs c1" "fc_vms (snd (send_all h rs c1)) = fc_vms c1"
        "\<forall>i. Suc i < n \<longrightarrow> h_api h (fc_step c1 + i) (rs ! i)"
        "if fst (send_all h rs c1) = None then n = length rs \<and> (\<forall>i < n. h_api h (fc_step c1 + i) (rs ! i))
         else 0 < n \<and> \<not> h_api h (fc_step c1 + (n - 1)) (rs ! (n - 1))"
      using Cons.IH [of c1] by blast
    have shift: "\<forall>i. Suc i < Suc n \<longrightarrow> h_api h (fc_step c + i) ((r # rs) ! i)" if "\<forall>i. Suc i < n \<longrightarrow> h_api h (Suc (fc_step c) + i) (rs ! i)"
      using that True by (auto simp: nth_Cons split: nat.splits)
    have full: "\<forall>i < Suc n. h_api h (fc_step c + i) ((r # rs) ! i)" if "\<forall>i < n. h_api h (Suc (fc_step c) + i) (rs ! i)"
      using that True by (auto simp: nth_Cons less_Suc_eq_0_disj split: nat.splits)
    have last: "\<not> h_api h (fc_step c + n) ((r # rs) ! n)" if "0 < n" "\<not> h_api h (Suc (fc_step c) + (n - 1)) (rs ! (n - 1))"
      using that by (cases n) auto
    show ?thesis
      unfolding run using n [unfolded c1] shift full last
      by (intro exI [of _ "Suc n"]) (auto split: if_splits)
  qed
qed

lemma fc_launch_run:
  assumes "h_mkdir h (fc_step c)" "h_start h (fc_step c) argv = Some pid"
  shows "fst (fc_launch h argv sock vmID c) = waitForSocket h (fc_step c) sock"
    and "fc_step (snd (fc_launch h argv sock vmID c)) = Suc (fc_step c)"
    and "fc_log (snd (fc_launch h argv sock vmID c)) = fc_log c"
    and "fc_procs (snd (fc_launch h argv sock vmID c)) = fc_procs c @ [pid]"
    and "fc_vms (snd (fc_launch h argv sock vmID c)) =
      AList.update vmID \<lparr>vh_VMID = vmID, vh_SocketPath = sock, vh_PID = pid, vh_CreatedAt = h_now h (fc_step c)\<rparr> (fc_vms c)"
  using assms by (simp_all add: fc_launch_def Let_def)

lemma CreateAndStartVM_linux:
  assumes "h_GOOS h = ''linux''"
  shows "CreateAndStartVM h cfg c =
    (let sock = path_Join (fc_socketDir c) (fv_VMID cfg @ ''.sock'')
     in fc_seq (fc_launch h (if fv_Jailer cfg \<noteq> [] then fv_Jailer cfg else direct_argv c sock) sock (fv_VMID cfg))
          (send_all h (boot_requests sock cfg)) c)"
  using assms by (simp add: CreateAndStartVM_def RequireMicroVMHost_def MicroVMHost_def boot_send Let_def)

subsection \<open>Properties\<close>

text \<open>
  C36: Booting a machine sends the configuration requests of its plan in order over its own socket, stops
  at the first one Firecracker refuses, and asks for the instance to start only after every earlier
  request was accepted. It reports success exactly when the socket appeared and every request was
  accepted. The started process is registered under the machine's id in every case.
\<close>

theorem CreateAndStartVM_correct:
  assumes linux: "h_GOOS h = ''linux''" and dir: "h_mkdir h (fc_step c)"
    and sock: "sock = path_Join (fc_socketDir c) (fv_VMID cfg @ ''.sock'')"
    and proc: "h_start h (fc_step c) (if fv_Jailer cfg \<noteq> [] then fv_Jailer cfg else direct_argv c sock) = Some pid"
    and run: "CreateAndStartVM h cfg c = (e, c')"
  shows "\<exists>n \<le> length (boot_requests sock cfg).
      fc_log c' = fc_log c @ take n (boot_requests sock cfg) \<and>
      (\<forall>i. Suc i < n \<longrightarrow> h_api h (Suc (fc_step c) + i) (boot_requests sock cfg ! i)) \<and>
      (e = None \<longleftrightarrow> waitForSocket h (fc_step c) sock = None \<and> n = length (boot_requests sock cfg) \<and>
         h_api h (fc_step c + n) (boot_requests sock cfg ! (n - 1))) \<and>
      (waitForSocket h (fc_step c) sock \<noteq> None \<longrightarrow> n = 0) \<and>
      fc_procs c' = fc_procs c @ [pid] \<and> map_option vh_PID (map_of (fc_vms c') (fv_VMID cfg)) = Some pid"
proof -
  let ?argv = "if fv_Jailer cfg \<noteq> [] then fv_Jailer cfg else direct_argv c sock"
  let ?rs = "boot_requests sock cfg"
  obtain c1 where l: "fc_launch h ?argv sock (fv_VMID cfg) c = (waitForSocket h (fc_step c) sock, c1)"
    using fc_launch_run(1) [OF dir proc, of sock "fv_VMID cfg"] by (metis prod.collapse)
  note c1 = fc_launch_run(2-5) [OF dir proc, of sock "fv_VMID cfg", unfolded l, simplified]
  have all: "(e, c') = fc_seq (fc_launch h ?argv sock (fv_VMID cfg)) (send_all h ?rs) c"
    unfolding run [symmetric] by (simp only: CreateAndStartVM_linux [OF linux] Let_def sock)
  show ?thesis
  proof (cases "waitForSocket h (fc_step c) sock")
    case (Some w)
    then have "e = Some w" "c' = c1"
      using all l by (simp_all add: fc_seq_def)
    then show ?thesis
      using Some c1 by (intro exI [of _ 0]) (simp add: update_conv)
  next
    case None
    then have s: "send_all h ?rs c1 = (e, c')"
      using all l by (simp add: fc_seq_def)
    have pos: "0 < length ?rs" by (simp add: boot_requests_def)
    obtain n where n: "n \<le> length ?rs" "fc_log c' = fc_log c1 @ take n ?rs" "fc_procs c' = fc_procs c1"
        "fc_vms c' = fc_vms c1" "\<forall>i. Suc i < n \<longrightarrow> h_api h (fc_step c1 + i) (?rs ! i)"
        "if e = None then n = length ?rs \<and> (\<forall>i < n. h_api h (fc_step c1 + i) (?rs ! i))
         else 0 < n \<and> \<not> h_api h (fc_step c1 + (n - 1)) (?rs ! (n - 1))"
      using send_all_result [of ?rs h c1] s by auto
    have n0: "0 < n" using n(6) pos by (auto split: if_splits)
    then obtain m where m: "n = Suc m" by (cases n) auto
    then have k: "fc_step c1 + m = fc_step c + n" using c1 by simp
    have ok: "h_api h (fc_step c1 + m) (?rs ! m)" if "e = None"
      using n(6) that m by simp
    have refused: "\<not> h_api h (fc_step c1 + m) (?rs ! m)" if "e \<noteq> None"
      using n(6) that m by simp
    have "e = None \<longrightarrow> n = length ?rs"
      using n(6) by simp
    with ok refused have res: "e = None \<longleftrightarrow> n = length ?rs \<and> h_api h (fc_step c1 + m) (?rs ! m)"
      by blast
    have idx: "n - 1 = m" using m by simp
    show ?thesis
    proof (intro exI [of _ n] conjI)
      show "fc_log c' = fc_log c @ take n ?rs" using n(2) c1(2) by simp
      show "\<forall>i. Suc i < n \<longrightarrow> h_api h (Suc (fc_step c) + i) (?rs ! i)" using n(5) c1(1) by simp
      show "e = None \<longleftrightarrow> waitForSocket h (fc_step c) sock = None \<and> n = length ?rs \<and> h_api h (fc_step c + n) (?rs ! (n - 1))"
        unfolding idx k [symmetric] using res None by blast
      show "map_option vh_PID (map_of (fc_vms c') (fv_VMID cfg)) = Some pid"
        using n(4) c1(4) by (simp add: update_conv)
    qed (use None n(1,3) c1(3) in simp_all)
  qed
qed

text \<open>A host on which everything succeeds except the requests of the given paths.\<close>

definition demo_host :: "string list \<Rightarrow> fc_host" where
  "demo_host refused = \<lparr>h_GOOS = ''linux'', h_mkdir = (\<lambda>_. True), h_start = (\<lambda>_ _. Some 41), h_now = (\<lambda>_. 0),
     h_delay = (\<lambda>_ _. 0), h_stat = (\<lambda>_ i. i = 2), h_cancel = (\<lambda>_ _. False),
     h_api = (\<lambda>_ r. rq_path r \<notin> set refused)\<rparr>"

definition demo_config :: FCVMConfig where
  "demo_config = \<lparr>fv_VMID = ''vm1'', fv_KernelPath = ''k'', fv_RootfsPath = ''r'', fv_VCPUs = 1, fv_MemMiB = 128,
     fv_NetworkSpec = None, fv_DataDrives = [], fv_SnapshotDir = [], fv_LogsDir = [], fv_MMDSData = [], fv_Jailer = [],
     fv_BalloonMiB = 0, fv_VsockUDSPath = [], fv_VsockGuestCID = 3, fv_RxBandwidthKbps = 0, fv_TxBandwidthKbps = 0,
     fv_RxOpsPerSec = 0, fv_TxOpsPerSec = 0\<rparr>"

lemma demo_wait: "waitForSocket (demo_host rs) k sock = None"
  by (simp add: waitForSocket_def demo_host_def wait_loop.simps)

lemma demo_requests:
  "map rq_path (boot_requests sock demo_config) = [''/boot-source'', ''/drives/rootfs'', ''/machine-config'', ''/actions'']"
  by (simp add: demo_config_def boot_requests_def config_requests_def has_limits_def limiter_body_def limit_bucket_def
      put_rq_def wrap64_def)

theorem CreateAndStartVM_correct_witness:
  "\<exists>e c'. CreateAndStartVM (demo_host [''/machine-config'']) demo_config (NewFCClient ''fc'' ''/run'') = (e, c') \<and>
     e \<noteq> None \<and> ''/actions'' \<notin> rq_path ` set (fc_log c') \<and> fc_procs c' = [41]"
proof -
  let ?h = "demo_host [''/machine-config'']" and ?c = "NewFCClient ''fc'' ''/run''"
  let ?sock = "path_Join (fc_socketDir ?c) (fv_VMID demo_config @ ''.sock'')"
  let ?rs = "boot_requests ?sock demo_config"
  obtain e c' where run: "CreateAndStartVM ?h demo_config ?c = (e, c')" by (cases "CreateAndStartVM ?h demo_config ?c")
  have len: "length ?rs = 4" using arg_cong [OF demo_requests, of length] by simp
  have "map rq_path ?rs ! 2 = ''/machine-config''" by (simp add: demo_requests)
  then have bad: "rq_path (?rs ! 2) = ''/machine-config''" using len by simp
  obtain n where n: "fc_log c' = take n ?rs" "\<forall>i. Suc i < n \<longrightarrow> h_api ?h (Suc (fc_step ?c) + i) (?rs ! i)"
      "e = None \<longrightarrow> n = length ?rs" "fc_procs c' = [41]"
    using CreateAndStartVM_correct [OF _ _ refl _ run, of 41] by (auto simp: demo_host_def NewFCClient_def)
  have n3: "n \<le> 3"
  proof (rule ccontr)
    assume "\<not> n \<le> 3"
    then have "Suc 2 < n" by simp
    then have "h_api ?h (Suc (fc_step ?c) + 2) (?rs ! 2)" using n(2) by blast
    with bad show False by (simp add: demo_host_def)
  qed
  have "set (take n (map rq_path ?rs)) \<subseteq> set (take 3 (map rq_path ?rs))"
    using n3 by (rule set_take_subset_set_take)
  then have "rq_path ` set (take n ?rs) \<subseteq> set (take 3 (map rq_path ?rs))"
    by (simp add: take_map)
  then have "''/actions'' \<notin> rq_path ` set (fc_log c')"
    unfolding n(1) demo_requests by auto
  moreover have "e \<noteq> None" using n(3) n3 len by auto
  ultimately show ?thesis using run n(4) by blast
qed

text \<open>
  C37: Waiting for the API socket always ends, after at most 100 polls: with success at the first poll that
  sees the socket, with the context's error when it ends first, and otherwise with a timeout, which is
  reported only once ten seconds have passed.
\<close>

theorem waitForSocket_ends:
  "\<exists>n \<le> 100. (\<forall>i < n. \<not> h_stat h k i \<and> \<not> h_cancel h k i \<and> poll_time (h_delay h k) i < 10 * 1000000000) \<and>
     waitForSocket h k sock =
       (if poll_time (h_delay h k) n \<ge> 10 * 1000000000 then Some (SocketTimeout sock)
        else if h_stat h k n then None else Some ContextDone) \<and>
     (poll_time (h_delay h k) n \<ge> 10 * 1000000000 \<or> h_stat h k n \<or> h_cancel h k n)"
proof -
  obtain n where n: "\<forall>j. 0 \<le> j \<and> j < n \<longrightarrow> \<not> h_stat h k j \<and> \<not> h_cancel h k j \<and> poll_time (h_delay h k) j < 10 * 1000000000"
      "wait_loop (h_delay h k) (h_stat h k) (h_cancel h k) sock (poll_time (h_delay h k) 0) 0 =
         (if poll_time (h_delay h k) n \<ge> 10 * 1000000000 then Some (SocketTimeout sock)
          else if h_stat h k n then None else Some ContextDone)"
      "poll_time (h_delay h k) n \<ge> 10 * 1000000000 \<or> h_stat h k n \<or> h_cancel h k n"
    using wait_loop_result [of 0 "h_stat h k" "h_cancel h k" "h_delay h k" sock] by blast
  have "n \<le> 100"
  proof (rule ccontr)
    assume "\<not> n \<le> 100"
    then have "poll_time (h_delay h k) 100 < 10 * 1000000000" using n(1) by simp
    with poll_time_ge [of 100 "h_delay h k"] show False by simp
  qed
  with n show ?thesis by (intro exI [of _ n]) (simp add: waitForSocket_def)
qed

theorem waitForSocket_ends_witness:
  "waitForSocket ((demo_host [])\<lparr>h_stat := (\<lambda>_ _. False)\<rparr>) 0 ''s'' = Some (SocketTimeout ''s'') \<and>
   waitForSocket (demo_host []) 0 ''s'' = None"
proof -
  let ?h = "(demo_host [])\<lparr>h_stat := (\<lambda>_ _. False)\<rparr>"
  have "waitForSocket ?h 0 ''s'' = Some (SocketTimeout ''s'')"
    using waitForSocket_ends [of ?h 0 "''s''"] by (auto simp: demo_host_def)
  with demo_wait show ?thesis by blast
qed

subsection \<open>Secrets of a booted machine\<close>

lemma Seal_Open:
  assumes "\<And>k n p. g_open g k n (g_seal g k n p) = Some p" "length n = gcm_nonce_size" "Seal g (Some n) key p = Inr box"
  shows "Open g key box = Inr p"
  using assms by (auto simp: Seal_def Open_def split: if_splits)

text \<open>The stored secret \<open>s\<close> opens to the value \<open>v\<close> under the name \<open>n\<close>.\<close>

definition delivers :: "gcm \<Rightarrow> string \<Rightarrow> Secret \<Rightarrow> string \<Rightarrow> string \<Rightarrow> bool" where
  "delivers g key s n v \<longleftrightarrow>
     se_Name s = n \<and> n \<noteq> [] \<and> se_ValueEncrypted s \<noteq> [] \<and> Open g key (se_ValueEncrypted s) = Inr v"

lemma plain_secrets_Some:
  assumes "distinct (map se_Name secs)"
  shows "map_of (plain_secrets g key plain secs) n = Some v \<longleftrightarrow>
    (\<exists>s \<in> set secs. delivers g key s n v) \<or> (\<forall>s \<in> set secs. \<forall>w. \<not> delivers g key s n w) \<and> map_of plain n = Some v"
  using assms
proof (induction secs arbitrary: plain)
  case Nil
  then show ?case by simp
next
  case (Cons s secs)
  have IH: "map_of (plain_secrets g key plain' secs) n = Some v \<longleftrightarrow>
      (\<exists>s \<in> set secs. delivers g key s n v) \<or> (\<forall>s \<in> set secs. \<forall>w. \<not> delivers g key s n w) \<and> map_of plain' n = Some v"
    for plain'
    using Cons by simp
  have later: "\<not> delivers g key t n w" if "se_Name s = n" "t \<in> set secs" for t w
    using Cons.prems that by (auto simp: delivers_def image_iff)
  show ?case
  proof (cases "\<exists>raw. se_Name s \<noteq> [] \<and> se_ValueEncrypted s \<noteq> [] \<and> Open g key (se_ValueEncrypted s) = Inr raw")
    case False
    then have "\<not> delivers g key s n w" for w by (auto simp: delivers_def)
    moreover have "plain_secrets g key plain (s # secs) = plain_secrets g key plain secs"
      using False by (auto split: sum.splits)
    ultimately show ?thesis using IH by simp
  next
    case True
    then obtain raw where raw: "se_Name s \<noteq> []" "se_ValueEncrypted s \<noteq> []" "Open g key (se_ValueEncrypted s) = Inr raw" by blast
    then have run: "plain_secrets g key plain (s # secs) = plain_secrets g key (AList.update (se_Name s) raw plain) secs"
      by simp
    have del: "delivers g key s n w \<longleftrightarrow> se_Name s = n \<and> w = raw" for w
      using raw by (auto simp: delivers_def)
    show ?thesis
      unfolding run IH using del later by (cases "se_Name s = n") (auto simp: update_conv)
  qed
qed

lemma ListSecrets_set: "set (ListSecrets collate True p t) = {s \<in> set t. se_ProjectID s = p}"
  by (auto simp: ListSecrets_def query_def)

lemma ListSecrets_names:
  assumes "keyed secret_key t"
  shows "distinct (map se_Name (ListSecrets collate ok p t))"
proof -
  have "distinct (map se_Name (filter (\<lambda>s. se_ProjectID s = p) t))"
    using assms unfolding keyed_def by (induction t) (auto simp: secret_key_def image_iff)
  then have "distinct (map se_Name (query ok (\<lambda>s. se_ProjectID s = p) t))"
    by (simp add: query_def)
  moreover have "mset (map se_Name (ListSecrets collate ok p t)) = mset (map se_Name (query ok (\<lambda>s. se_ProjectID s = p) t))"
    by (simp add: ListSecrets_def)
  ultimately show ?thesis
    using mset_eq_imp_distinct_iff by blast
qed

lemma MMDSPayload_inject: "MMDSPayload p a = MMDSPayload p b \<longleftrightarrow> a = b"
proof -
  have "inj (\<lambda>(k :: string, v :: string). (k, JStr v))" by (auto simp: inj_def)
  then show ?thesis by (simp add: MMDSPayload_def inj_map_eq_map)
qed

lemma boot_config_MMDS:
  "fv_MMDSData (boot_config g st vm spec m) =
     (let plain = plain_secrets g (vmm_secretKey m) [] (ListSecrets (b_collate st) (b_sok st) (vm_ProjectID vm) (b_secrets st))
      in if vmm_secretKey m \<noteq> [] \<and> vm_ProjectID vm \<noteq> [] \<and> plain \<noteq> [] then MMDSPayload (vm_ProjectID vm) plain else [])"
  by (simp add: boot_config_def fcConfigFor_def Let_def split: option.splits)

text \<open>
  C38: The metadata handed to a booted machine contains a secret exactly when it is a stored secret of the
  machine's own project with a name and a value, and then the value is what opening the stored box with the
  server key gives. No secret of another project and no unopened box is delivered.
\<close>

theorem boot_secrets_exact:
  assumes "keyed secret_key (b_secrets st)" "b_sok st" "vmm_secretKey m \<noteq> []" "vm_ProjectID vm \<noteq> []"
  shows "(\<exists>plain. fv_MMDSData (boot_config g st vm spec m) = MMDSPayload (vm_ProjectID vm) plain \<and> map_of plain n = Some v) \<longleftrightarrow>
    (\<exists>s \<in> set (b_secrets st). se_ProjectID s = vm_ProjectID vm \<and> se_Name s = n \<and> n \<noteq> [] \<and>
       se_ValueEncrypted s \<noteq> [] \<and> Open g (vmm_secretKey m) (se_ValueEncrypted s) = Inr v)"
proof -
  let ?secs = "ListSecrets (b_collate st) (b_sok st) (vm_ProjectID vm) (b_secrets st)"
  let ?plain = "plain_secrets g (vmm_secretKey m) [] ?secs"
  have "(\<exists>plain. fv_MMDSData (boot_config g st vm spec m) = MMDSPayload (vm_ProjectID vm) plain \<and> map_of plain n = Some v) \<longleftrightarrow>
      map_of ?plain n = Some v"
    unfolding boot_config_MMDS Let_def using assms(3,4) by (auto simp: MMDSPayload_inject) (auto simp: MMDSPayload_def)
  also have "\<dots> \<longleftrightarrow> (\<exists>s \<in> set ?secs. delivers g (vmm_secretKey m) s n v)"
    using plain_secrets_Some [OF ListSecrets_names [OF assms(1)]] by simp
  also have "set ?secs = {s \<in> set (b_secrets st). se_ProjectID s = vm_ProjectID vm}"
    using assms(2) by (simp add: ListSecrets_set)
  finally show ?thesis by (auto simp: delivers_def)
qed

text \<open>A toy cipher that prepends the key, which opens only under the key it was sealed with.\<close>

definition demo_gcm :: gcm where
  "demo_gcm = \<lparr>g_seal = (\<lambda>k n p. k @ p), g_open = (\<lambda>k n c. if take (length k) c = k then Some (drop (length k) c) else None)\<rparr>"

definition demo_key :: string where
  "demo_key = ''0123456789abcdef''"

definition demo_boot_store :: boot_store where
  "demo_boot_store = \<lparr>b_volumes = [], b_vok = True,
     b_secrets = [\<lparr>se_ID = ''1'', se_ProjectID = ''p'', se_Name = ''TOKEN'', se_ValueEncrypted = ''nonce-nonce-'' @ demo_key @ ''hush''\<rparr>,
                  \<lparr>se_ID = ''2'', se_ProjectID = ''q'', se_Name = ''TOKEN'', se_ValueEncrypted = ''nonce-nonce-'' @ demo_key @ ''other''\<rparr>],
     b_sok = True, b_collate = (\<lambda>_ _. False)\<rparr>"

definition demo_manager :: VMManager where
  "demo_manager = (NewVMManager \<lparr>fcc_Mode = [], fcc_FirecrackerBin = ''fc'', fcc_KernelImage = ''k'', fcc_RootfsPath = ''r'',
     fcc_SocketDir = ''/run'', fcc_SnapshotDir = ''/snap'', fcc_LogsDir = [], fcc_SecretKey = [], fcc_JailerBin = [],
     fcc_EnableJailer = False, fcc_CgroupVersion = [], fcc_SeccompFilter = [], fcc_VsockUDSPath = [], fcc_BalloonMiB = 0,
     fcc_UseNetwork30 = False\<rparr>)\<lparr>vmm_secretKey := demo_key\<rparr>"

theorem boot_secrets_exact_witness:
  "\<exists>plain. fv_MMDSData (boot_config demo_gcm demo_boot_store (zero_VM\<lparr>vm_ID := ''vm1'', vm_ProjectID := ''p''\<rparr>)
        \<lparr>bs_MacAddress = [], bs_HostDevName = [], bs_CIDR = ''10.42.0.10/24'', bs_GatewayAddr = ''10.42.0.1''\<rparr> demo_manager)
      = MMDSPayload ''p'' plain \<and> map_of plain ''TOKEN'' = Some ''hush''"
proof -
  let ?vm = "zero_VM\<lparr>vm_ID := ''vm1'', vm_ProjectID := ''p''\<rparr>"
  have h: "keyed secret_key (b_secrets demo_boot_store)" "b_sok demo_boot_store" "vmm_secretKey demo_manager \<noteq> []" "vm_ProjectID ?vm \<noteq> []"
    by (simp_all add: keyed_def secret_key_def demo_boot_store_def demo_manager_def demo_key_def)
  have "\<exists>s \<in> set (b_secrets demo_boot_store). se_ProjectID s = vm_ProjectID ?vm \<and> se_Name s = ''TOKEN'' \<and> ''TOKEN'' \<noteq> [] \<and>
      se_ValueEncrypted s \<noteq> [] \<and> Open demo_gcm (vmm_secretKey demo_manager) (se_ValueEncrypted s) = Inr ''hush''"
    by (simp add: demo_boot_store_def demo_manager_def demo_key_def Open_def aes_key_ok_def gcm_nonce_size_def demo_gcm_def)
  then show ?thesis
    using boot_secrets_exact [OF h, of demo_gcm _ "''TOKEN''" "''hush''"] by simp
qed

end
