(* ===== verification/Replica_Control.thy ===== *)
theory Replica_Control
  imports Controllers Firecracker
begin

text \<open>
  The replica controller (\<open>internal/controller/replica_controller.go\<close>) with the health checker it probes
  with (\<open>internal/health\<close>), over the replica table and the Firecracker runtime. As in the other
  controllers every statement is numbered; the environment says which of them the database executes, how
  the host and the guest answer, and how an error reads as text.
\<close>

subsection \<open>Environment and state\<close>

record replica_env =
  re_db :: "nat \<Rightarrow> bool"
  re_host :: fc_host
  re_run :: "nat \<Rightarrow> string list \<Rightarrow> bool"
  re_gcm :: gcm
  re_tables :: boot_store
  re_http :: "nat \<Rightarrow> string \<Rightarrow> int option"
  re_dial :: "nat \<Rightarrow> string \<Rightarrow> bool"
  re_hub :: bool
  re_net_text :: "net_error \<Rightarrow> string"
  re_fc_text :: "fc_error \<Rightarrow> string"

record replica_world =
  rw_vms :: "VM list"
  rw_rings :: store_rings
  rw_micro :: "micro_vm list"
  rw_usage :: "usage_event list"
  rw_events :: "Event list"
  rw_hub :: "(string \<times> (string \<times> json) list) list"
  rw_runtime :: VMManager
  rw_stmt :: nat

definition rtick :: "replica_world \<Rightarrow> replica_world" where
  "rtick w = w\<lparr>rw_stmt := Suc (rw_stmt w)\<rparr>"

definition broadcast :: "replica_env \<Rightarrow> string \<Rightarrow> (string \<times> json) list \<Rightarrow> replica_world \<Rightarrow> replica_world" where
  "broadcast e name data w = (if re_hub e then w\<lparr>rw_hub := rw_hub w @ [(name, data)]\<rparr> else w)"

definition rep_updateStatus :: "replica_env \<Rightarrow> VM \<Rightarrow> replica_world \<Rightarrow> replica_world" where
  "rep_updateStatus e vm w = rtick (w\<lparr>rw_vms := PutVM (re_db e (rw_stmt w)) vm (rw_vms w)\<rparr>)"

definition emit :: "replica_env \<Rightarrow> VM \<Rightarrow> string \<Rightarrow> string \<Rightarrow> replica_world \<Rightarrow> replica_world" where
  "emit e vm name desc w =
     (let ids = [(''vm_id'', JStr (vm_ID vm)), (''project_id'', JStr (vm_ProjectID vm)), (''state'', JStr (vm_State vm))];
          ev = \<lparr>ev_Name = name, ev_Version = 1, ev_Payload = ids @ [(''detail'', JStr desc)], ev_ScopeType = ''project'',
                ev_ScopeID = vm_ProjectID vm, ev_ActorType = [], ev_ActorID = [], ev_CorrelationID = [],
                ev_IdempotencyKey = [], ev_ResourceRef = ''vm/'' @ vm_ID vm\<rparr>
      in broadcast e name ids
           (rtick (w\<lparr>rw_events := snd (AppendEvent (re_db e (rw_stmt w)) ev (rw_events w))\<rparr>)))"

subsection \<open>Health\<close>

definition Probe :: "replica_env \<Rightarrow> nat \<Rightarrow> VM \<Rightarrow> Healthcheck \<Rightarrow> bool" where
  "Probe e k vm spec =
     (if vm_IPAddress vm = [] then False
      else
        let port = hc_Port spec;
            port = (if port = 0 \<and> length (vm_Ports vm) > 0 then p_ContainerPort (vm_Ports vm ! 0) else port);
            port = (if port = 0 then 80 else port);
            addr = vm_IPAddress vm @ '':'' @ Itoa port
        in if hc_Type spec = ''http'' \<or> hc_Path spec \<noteq> [] then
             (case re_http e k (''http://'' @ addr @ (if hc_Path spec = [] then ''/'' else hc_Path spec)) of
                None \<Rightarrow> False
              | Some code \<Rightarrow> code \<ge> 200 \<and> code < 400)
           else re_dial e k addr)"

definition setHealth :: "replica_env \<Rightarrow> VM \<Rightarrow> string \<Rightarrow> replica_world \<Rightarrow> replica_world" where
  "setHealth e vm status w =
     (if vm_HealthStatus vm = status then w
      else broadcast e ''replica.health''
             [(''vm_id'', JStr (vm_ID vm)), (''service'', JStr (vm_ServiceName vm)), (''health_status'', JStr status)]
             (rep_updateStatus e (vm\<lparr>vm_HealthStatus := status\<rparr>) w))"

text \<open>The replacement hook of the controller: it reads the row again and marks it failed.\<close>

definition onReplace :: "replica_env \<Rightarrow> string \<Rightarrow> replica_world \<Rightarrow> replica_world" where
  "onReplace e vmID w =
     (case GetVM (re_db e (rw_stmt w)) vmID (rw_vms w) of
        None \<Rightarrow> rtick w
      | Some vm \<Rightarrow> rep_updateStatus e (vm\<lparr>vm_State := StateFailed, vm_Error := ''healthcheck failed''\<rparr>) (rtick w))"

definition probeOnce :: "replica_env \<Rightarrow> string \<Rightarrow> Healthcheck \<Rightarrow> replica_world \<Rightarrow> replica_world" where
  "probeOnce e vmID spec w =
     (case GetVM (re_db e (rw_stmt w)) vmID (rw_vms w) of
        None \<Rightarrow> rtick w
      | Some vm \<Rightarrow>
          if vm_State vm \<noteq> StateRunning then rtick w
          else if Probe e (rw_stmt w) vm spec then setHealth e vm HealthHealthy (rtick w)
          else onReplace e vmID (setHealth e vm HealthUnhealthy (rtick w)))"

subsection \<open>The handlers\<close>

definition rep_fail :: "replica_env \<Rightarrow> VM \<Rightarrow> string \<Rightarrow> replica_world \<Rightarrow> replica_world" where
  "rep_fail e vm msg w =
     (let vm = vm\<lparr>vm_State := StateFailed, vm_Error := msg\<rparr>
      in emit e vm ''vm.failed'' msg (rep_updateStatus e vm w))"

definition reconcilePending :: "replica_env \<Rightarrow> VM \<Rightarrow> replica_world \<Rightarrow> replica_world" where
  "reconcilePending e vm w =
     (let w = emit e vm ''vm.create.started'' ''replica reconcile: boot requested'' w;
          (r, m) = NetSpec (MicroVMHost (re_host e)) (re_run e (rw_stmt w)) vm (rw_runtime w);
          w = w\<lparr>rw_runtime := m\<rparr>
      in case r of
           Inl err \<Rightarrow> rep_fail e vm (''network allocation failed: '' @ re_net_text e err) w
         | Inr spec \<Rightarrow>
             let vm = vm\<lparr>vm_State := StateBooting, vm_HealthStatus := HealthChecking\<rparr>;
                 w = rep_updateStatus e vm w;
                 (err, m) = Boot (re_host e) (re_gcm e) (re_tables e) vm spec (rw_runtime w);
                 w = w\<lparr>rw_runtime := m\<rparr>
             in case err of
                  Some er \<Rightarrow> rep_fail e vm (''boot failed: '' @ re_fc_text e er) w
                | None \<Rightarrow>
                    let vm = vm\<lparr>vm_State := StateRunning, vm_IPAddress := bs_CIDR spec\<rparr>;
                        w = rep_updateStatus e vm w;
                        w = rtick (w\<lparr>rw_micro := snd (UpsertMicroVM (re_db e (rw_stmt w)) (vm_ID vm) (vm_ID vm) []
                              StateRunning (wrap64 (vm_VCPUs vm * 1000)) (vm_MemMiB vm) (rw_micro w))\<rparr>);
                        w = emit e vm ''vm.created'' ''replica running'' w;
                        w = rtick (w\<lparr>rw_usage := RecordUsage (re_db e (rw_stmt w)) (vm_ProjectID vm) (''vm/'' @ vm_ID vm)
                              ''vcpu.count'' (of_int (vm_VCPUs vm)) ''count'' (''boot:'' @ vm_ID vm) (rw_usage w)\<rparr>)
                    in rtick (w\<lparr>rw_usage := RecordUsage (re_db e (rw_stmt w)) (vm_ProjectID vm) (''vm/'' @ vm_ID vm)
                              ''mem.mib'' (of_int (vm_MemMiB vm)) ''mib'' (''boot-mem:'' @ vm_ID vm) (rw_usage w)\<rparr>))"

definition reconcileBooting :: "replica_env \<Rightarrow> VM \<Rightarrow> replica_world \<Rightarrow> replica_world" where
  "reconcileBooting e vm w =
     (if vm_IPAddress vm \<noteq> [] then rep_updateStatus e (vm\<lparr>vm_State := StateRunning\<rparr>) w else w)"

definition reconcileRunning :: "replica_env \<Rightarrow> VM \<Rightarrow> replica_world \<Rightarrow> replica_world" where
  "reconcileRunning e vm w =
     (case vm_Healthcheck vm of
        None \<Rightarrow> w
      | Some spec \<Rightarrow>
          if \<not> Probe e (rw_stmt w) vm spec then
            (let vm = vm\<lparr>vm_State := StateFailed, vm_HealthStatus := HealthUnhealthy, vm_Error := ''healthcheck failed''\<rparr>;
                 w = rep_updateStatus e vm w;
                 w = rtick (w\<lparr>rw_micro := snd (SetMicroVMState (re_db e (rw_stmt w)) (vm_ID vm) StateFailed (rw_micro w))\<rparr>)
             in emit e vm ''vm.failed'' ''healthcheck failed'' w)
          else if vm_HealthStatus vm \<noteq> HealthHealthy then rep_updateStatus e (vm\<lparr>vm_HealthStatus := HealthHealthy\<rparr>) w
          else w)"

definition reconcileStopping :: "replica_env \<Rightarrow> VM \<Rightarrow> replica_world \<Rightarrow> replica_world" where
  "reconcileStopping e vm w =
     (let (err, m) = vmm_Stop (re_host e) vm (rw_runtime w); w = w\<lparr>rw_runtime := m\<rparr>
      in case err of
           Some er \<Rightarrow> rep_updateStatus e (vm\<lparr>vm_Error := ''stop failed: '' @ re_fc_text e er\<rparr>) w
         | None \<Rightarrow>
             rep_updateStatus e (vm\<lparr>vm_State := StateStopped\<rparr>)
               (rtick (w\<lparr>rw_micro := snd (SetMicroVMState (re_db e (rw_stmt w)) (vm_ID vm) StateStopped (rw_micro w))\<rparr>)))"

definition reconcileStopped :: "replica_env \<Rightarrow> VM \<Rightarrow> replica_world \<Rightarrow> replica_world" where
  "reconcileStopped e vm w = w"

definition reconcileFailed :: "replica_env \<Rightarrow> VM \<Rightarrow> replica_world \<Rightarrow> replica_world" where
  "reconcileFailed e vm w =
     (if vm_SnapshotStatus vm = ''ready'' \<and> vm_SnapshotPath vm \<noteq> [] then
        (let vm = vm\<lparr>vm_State := StateBooting, vm_HealthStatus := HealthChecking\<rparr>;
             w = rep_updateStatus e vm w;
             (err, m) = vmm_Restore (re_host e) vm (vm_SnapshotPath vm) (vm_SnapshotMemPath vm) (rw_runtime w);
             w = w\<lparr>rw_runtime := m\<rparr>
         in case err of
              Some er \<Rightarrow> rep_updateStatus e (vm\<lparr>vm_Error := ''restore failed: '' @ re_fc_text e er\<rparr>) w
            | None \<Rightarrow> rep_updateStatus e (vm\<lparr>vm_State := StateRunning\<rparr>) w)
      else if vm_Restart vm = ''always'' \<or> vm_Restart vm = ''on-failure'' then
        rep_updateStatus e (vm\<lparr>vm_State := StatePending\<rparr>) w
      else w)"

definition reconcileDelete :: "replica_env \<Rightarrow> VM \<Rightarrow> replica_world \<Rightarrow> replica_world" where
  "reconcileDelete e vm w =
     (let w = w\<lparr>rw_runtime := snd (vmm_Stop (re_host e) vm (rw_runtime w))\<rparr>;
          w = rtick (w\<lparr>rw_micro := snd (DeleteMicroVM (re_db e (rw_stmt w)) (vm_ID vm) (rw_micro w))\<rparr>);
          (t, rings) = DeleteVM (re_db e (rw_stmt w)) (vm_ID vm) (rw_vms w, rw_rings w)
      in emit e vm ''vm.deleted'' ''replica torn down'' (rtick (w\<lparr>rw_vms := t, rw_rings := rings\<rparr>)))"

definition rep_Reconcile :: "replica_env \<Rightarrow> VM \<Rightarrow> replica_world \<Rightarrow> bool \<times> replica_world" where
  "rep_Reconcile e vm w =
     (True,
      if vm_State vm \<in> {StatePending, []} then reconcilePending e vm w
      else if vm_State vm = StateBooting then reconcileBooting e vm w
      else if vm_State vm = StateRunning then reconcileRunning e vm w
      else if vm_State vm = StateStopping then reconcileStopping e vm w
      else if vm_State vm = StateStopped then reconcileStopped e vm w
      else if vm_State vm = StateFailed then reconcileFailed e vm w
      else if vm_State vm \<in> {StateDeleting, StateDeleted} then reconcileDelete e vm w
      else reconcilePending e vm w)"

definition rep_List :: "replica_env \<Rightarrow> replica_world \<Rightarrow> VM list option \<times> replica_world" where
  "rep_List e w = (Some (ListVMs (re_db e (rw_stmt w + 1)) (rw_vms w)), w\<lparr>rw_stmt := rw_stmt w + 2\<rparr>)"

definition rep_pass :: "replica_env \<Rightarrow> replica_world \<Rightarrow> replica_world" where
  "rep_pass e = reconcileAll (rep_List e) (rep_Reconcile e)"

subsection \<open>Lemmas: what a handler writes\<close>

text \<open>
  \<open>wrote i S w w'\<close>: going from \<open>w\<close> to \<open>w'\<close> changed no row but that of \<open>i\<close>, which is the old one or one of \<open>S\<close>.
\<close>

definition wrote :: "string \<Rightarrow> VM set \<Rightarrow> replica_world \<Rightarrow> replica_world \<Rightarrow> bool" where
  "wrote i S w w' \<longleftrightarrow> (\<forall>j. j \<noteq> i \<longrightarrow> rows vm_ID (rw_vms w') j = rows vm_ID (rw_vms w) j) \<and>
     (rows vm_ID (rw_vms w') i = rows vm_ID (rw_vms w) i \<or> (\<exists>x \<in> S. rows vm_ID (rw_vms w') i = Some x))"

lemma wrote_same: "rw_vms w' = rw_vms w \<Longrightarrow> wrote i S w w'"
  by (simp add: wrote_def)

lemma wrote_trans:
  assumes "wrote i S w w1" "wrote i T w1 w2" "S \<subseteq> U" "T \<subseteq> U"
  shows "wrote i U w w2"
proof -
  have others: "rows vm_ID (rw_vms w2) j = rows vm_ID (rw_vms w) j" if "j \<noteq> i" for j
    using assms(1,2) that by (simp add: wrote_def)
  have first: "rows vm_ID (rw_vms w1) i = rows vm_ID (rw_vms w) i \<or> (\<exists>x \<in> U. rows vm_ID (rw_vms w1) i = Some x)"
    using assms(1,3) unfolding wrote_def by blast
  have "rows vm_ID (rw_vms w2) i = rows vm_ID (rw_vms w1) i \<or> (\<exists>x \<in> U. rows vm_ID (rw_vms w2) i = Some x)"
    using assms(2,4) unfolding wrote_def by blast
  then have "rows vm_ID (rw_vms w2) i = rows vm_ID (rw_vms w) i \<or> (\<exists>x \<in> U. rows vm_ID (rw_vms w2) i = Some x)"
  proof
    assume "rows vm_ID (rw_vms w2) i = rows vm_ID (rw_vms w1) i"
    then show ?thesis using first by simp
  qed simp
  then show ?thesis using others by (simp add: wrote_def)
qed

lemma rw_frames [simp]:
  "rw_vms (rtick w) = rw_vms w" "rw_vms (broadcast e n d w) = rw_vms w" "rw_vms (emit e vm n t w) = rw_vms w"
  "rw_runtime (rtick w) = rw_runtime w" "rw_runtime (broadcast e n d w) = rw_runtime w" "rw_runtime (emit e vm n t w) = rw_runtime w"
  "rw_runtime (rep_updateStatus e vm w) = rw_runtime w"
  by (simp_all add: rtick_def broadcast_def emit_def rep_updateStatus_def Let_def)

lemma PutVM_rows:
  "rows vm_ID (PutVM ok vm t) = rows vm_ID t \<or> rows vm_ID (PutVM ok vm t) = (rows vm_ID t)(vm_ID vm \<mapsto> vm)"
proof (cases "exec_upsert vm_ID replica_upd replica_clash replica_valid ok vm t")
  case (Pair b t')
  show ?thesis
  proof (cases b)
    case True
    then have "exec_upsert vm_ID replica_upd replica_clash replica_valid ok vm t = (True, t')" using Pair by simp
    then have "rows vm_ID t' = (rows vm_ID t)(vm_ID vm \<mapsto> (case rows vm_ID t (vm_ID vm) of None \<Rightarrow> vm | Some old \<Rightarrow> replica_upd old vm))"
      by (rule replicas.exec_upsert_rows)
    then show ?thesis by (auto simp: PutVM_def Pair replica_upd_def split: option.splits)
  next
    case False
    then have "exec_upsert vm_ID replica_upd replica_clash replica_valid ok vm t = (False, t')" using Pair by simp
    then have "t' = t" by (rule replicas.exec_upsert_fail)
    then show ?thesis by (simp add: PutVM_def Pair)
  qed
qed

lemma wrote_put: "vm_ID vm = i \<Longrightarrow> vm \<in> S \<Longrightarrow> wrote i S w (rep_updateStatus e vm w)"
  using PutVM_rows [of "re_db e (rw_stmt w)" vm "rw_vms w"] by (auto simp: wrote_def rep_updateStatus_def)

lemma wrote_runtime [simp]: "wrote i S (w\<lparr>rw_runtime := m\<rparr>) w' \<longleftrightarrow> wrote i S w w'" "wrote i S w (w'\<lparr>rw_runtime := m\<rparr>) \<longleftrightarrow> wrote i S w w'"
  by (simp_all add: wrote_def)

lemma wrote_frames [simp]:
  "wrote i S w (rtick w') \<longleftrightarrow> wrote i S w w'" "wrote i S w (emit e vm n t w') \<longleftrightarrow> wrote i S w w'"
  "wrote i S (rtick w) w' \<longleftrightarrow> wrote i S w w'" "wrote i S (emit e vm n t w) w' \<longleftrightarrow> wrote i S w w'"
  "wrote i S w (w'\<lparr>rw_micro := mv\<rparr>) \<longleftrightarrow> wrote i S w w'" "wrote i S w (w'\<lparr>rw_usage := us\<rparr>) \<longleftrightarrow> wrote i S w w'"
  "wrote i S (w\<lparr>rw_micro := mv\<rparr>) w' \<longleftrightarrow> wrote i S w w'"
  by (simp_all add: wrote_def)

lemma wrote_refl [simp]: "wrote i S w w"
  by (simp add: wrote_def)

text \<open>The versions of a replica in the given states.\<close>

definition versions :: "VM \<Rightarrow> string set \<Rightarrow> VM set" where
  "versions vm A = {x. vm_ID x = vm_ID vm \<and> vm_State x \<in> A}"

lemma wrote_version:
  "vm_ID x = vm_ID vm \<Longrightarrow> vm_State x \<in> A \<Longrightarrow> wrote (vm_ID vm) (versions vm A) w (rep_updateStatus e x w)"
  by (rule wrote_put) (simp_all add: versions_def)

lemma wrote_then:
  assumes "vm_ID x = vm_ID vm" "vm_State x \<in> A" "wrote (vm_ID vm) (versions vm A) w w1"
  shows "wrote (vm_ID vm) (versions vm A) w (rep_updateStatus e x w1)"
  using wrote_trans [OF assms(3) wrote_version [OF assms(1,2)]] by simp

lemma rep_fail_wrote:
  assumes "vm_ID x = vm_ID vm" "StateFailed \<in> A" "wrote (vm_ID vm) (versions vm A) w w1"
  shows "wrote (vm_ID vm) (versions vm A) w (rep_fail e x msg w1)"
  using assms by (simp add: rep_fail_def Let_def wrote_then)

lemma reconcilePending_wrote:
  "wrote (vm_ID vm) (versions vm {StateBooting, StateRunning, StateFailed}) w (reconcilePending e vm w)"
  unfolding reconcilePending_def Let_def
  by (simp add: rep_fail_wrote wrote_then wrote_version split: prod.split sum.split option.split)

lemma reconcileBooting_wrote: "wrote (vm_ID vm) (versions vm {StateRunning}) w (reconcileBooting e vm w)"
  by (simp add: reconcileBooting_def wrote_version)

lemma reconcileRunning_wrote:
  "wrote (vm_ID vm) (versions vm {vm_State vm, StateFailed}) w (reconcileRunning e vm w)"
  by (simp add: reconcileRunning_def Let_def wrote_version split: option.split)

lemma reconcileStopping_wrote:
  "wrote (vm_ID vm) (versions vm {vm_State vm, StateStopped}) w (reconcileStopping e vm w)"
  by (simp add: reconcileStopping_def Let_def wrote_then split: prod.split option.split)

lemma reconcileFailed_wrote:
  "wrote (vm_ID vm) (versions vm {StateBooting, StateRunning, StatePending}) w (reconcileFailed e vm w)"
  by (simp add: reconcileFailed_def Let_def wrote_then wrote_version split: prod.split option.split)

subsection \<open>The lifecycle of a replica\<close>

text \<open>The transitions one reconcile may make in the stored state of a replica.\<close>

inductive lifecycle :: "string \<Rightarrow> string \<Rightarrow> bool" where
  stay: "lifecycle s s"
| booting: "lifecycle StatePending StateBooting"
| booted: "lifecycle StatePending StateRunning"
| unbootable: "lifecycle StatePending StateFailed"
| promoted: "lifecycle StateBooting StateRunning"
| unhealthy: "lifecycle StateRunning StateFailed"
| stopped: "lifecycle StateStopping StateStopped"
| restoring: "lifecycle StateFailed StateBooting"
| restored: "lifecycle StateFailed StateRunning"
| restarted: "lifecycle StateFailed StatePending"

inductive_simps lifecycle_from: "lifecycle s s'"

lemma wrote_mono: "wrote i S w w' \<Longrightarrow> S \<subseteq> T \<Longrightarrow> wrote i T w w'"
  unfolding wrote_def by blast

lemma versions_mono: "A \<subseteq> B \<Longrightarrow> versions vm A \<subseteq> versions vm B"
  by (auto simp: versions_def)

lemma rep_Reconcile_wrote:
  assumes "replica_valid vm"
  shows "wrote (vm_ID vm) (versions vm {s. lifecycle (vm_State vm) s}) w (snd (rep_Reconcile e vm w))"
proof -
  have by_set: "wrote (vm_ID vm) (versions vm {s. lifecycle (vm_State vm) s}) w w'"
    if "wrote (vm_ID vm) (versions vm A) w w'" "\<forall>s \<in> A. lifecycle (vm_State vm) s" for A w'
    using that by (intro wrote_mono [OF that(1)] versions_mono) blast
  consider "vm_State vm = StatePending" | "vm_State vm = StateBooting" | "vm_State vm = StateRunning"
    | "vm_State vm = StateStopping" | "vm_State vm = StateStopped" | "vm_State vm = StateFailed"
    using assms by (auto simp: replica_valid_def)
  then show ?thesis
  proof cases
    case 1
    then show ?thesis using by_set [OF reconcilePending_wrote] by (simp add: rep_Reconcile_def lifecycle.intros)
  next
    case 2
    then show ?thesis using by_set [OF reconcileBooting_wrote] by (simp add: rep_Reconcile_def lifecycle.intros)
  next
    case 3
    then show ?thesis using by_set [OF reconcileRunning_wrote] by (simp add: rep_Reconcile_def lifecycle.intros)
  next
    case 4
    then show ?thesis using by_set [OF reconcileStopping_wrote] by (simp add: rep_Reconcile_def lifecycle.intros)
  next
    case 5
    then show ?thesis by (simp add: rep_Reconcile_def reconcileStopped_def)
  next
    case 6
    then show ?thesis using by_set [OF reconcileFailed_wrote] by (simp add: rep_Reconcile_def lifecycle.intros)
  qed
qed

text \<open>The table as the schema keeps it.\<close>

definition sound :: "replica_world \<Rightarrow> bool" where
  "sound w \<longleftrightarrow> keyed vm_ID (rw_vms w) \<and> (\<forall>vm \<in> set (rw_vms w). replica_valid vm)"

lemma sound_frames [simp]:
  "sound (rtick w) \<longleftrightarrow> sound w" "sound (emit e vm n t w) \<longleftrightarrow> sound w" "sound (w\<lparr>rw_runtime := m\<rparr>) \<longleftrightarrow> sound w"
  "sound (w\<lparr>rw_micro := mv\<rparr>) \<longleftrightarrow> sound w" "sound (w\<lparr>rw_usage := us\<rparr>) \<longleftrightarrow> sound w" "sound (w\<lparr>rw_stmt := k\<rparr>) \<longleftrightarrow> sound w"
  by (simp_all add: sound_def)

lemma PutVM_valid:
  assumes "\<forall>x \<in> set t. replica_valid x"
  shows "\<forall>x \<in> set (PutVM ok vm t). replica_valid x"
  using assms by (auto simp: PutVM_def exec_upsert_def upsert_def replica_upd_def split: option.splits)

lemma sound_put [simp]: "sound w \<Longrightarrow> sound (rep_updateStatus e vm w)"
  using replicas.exec_upsert_keyed [of "rw_vms w" "re_db e (rw_stmt w)" vm] PutVM_valid [of "rw_vms w" "re_db e (rw_stmt w)" vm]
  by (simp add: sound_def rep_updateStatus_def PutVM_def)

lemma sound_delete: "sound w \<Longrightarrow> sound (reconcileDelete e vm w)"
  by (auto simp: reconcileDelete_def Let_def DeleteVM_def sound_def keyed_def exec_delete_def rtick_def emit_def broadcast_def
      distinct_map_filter_key)

lemma sound_handlers [simp]:
  assumes "sound w"
  shows "sound (reconcilePending e vm w)" "sound (reconcileBooting e vm w)" "sound (reconcileRunning e vm w)"
    "sound (reconcileStopping e vm w)" "sound (reconcileStopped e vm w)" "sound (reconcileFailed e vm w)"
  using assms
  by (simp_all add: reconcilePending_def rep_fail_def reconcileBooting_def reconcileRunning_def reconcileStopping_def
      reconcileStopped_def reconcileFailed_def Let_def split: prod.split sum.split option.split)

lemma sound_Reconcile: "sound w \<Longrightarrow> sound (snd (rep_Reconcile e vm w))"
  by (simp add: rep_Reconcile_def sound_delete)

text \<open>One lifecycle transition in each of the given rows, and no change in the others.\<close>

definition stepped :: "string set \<Rightarrow> replica_world \<Rightarrow> replica_world \<Rightarrow> bool" where
  "stepped I w w' \<longleftrightarrow> (\<forall>i. if i \<in> I
     then \<exists>vm vm'. rows vm_ID (rw_vms w) i = Some vm \<and> rows vm_ID (rw_vms w') i = Some vm' \<and> lifecycle (vm_State vm) (vm_State vm')
     else rows vm_ID (rw_vms w') i = rows vm_ID (rw_vms w) i)"

lemma Reconcile_stepped:
  assumes "replica_valid vm" "rows vm_ID (rw_vms w) (vm_ID vm) = Some vm"
  shows "stepped {vm_ID vm} w (snd (rep_Reconcile e vm w))"
proof -
  let ?w = "snd (rep_Reconcile e vm w)"
  note wr = rep_Reconcile_wrote [OF assms(1), of w e]
  have "rows vm_ID (rw_vms ?w) (vm_ID vm) = Some vm \<or> (\<exists>x \<in> versions vm {s. lifecycle (vm_State vm) s}. rows vm_ID (rw_vms ?w) (vm_ID vm) = Some x)"
    using wr assms(2) by (simp add: wrote_def)
  then obtain vm' where "rows vm_ID (rw_vms ?w) (vm_ID vm) = Some vm'" "lifecycle (vm_State vm) (vm_State vm')"
    by (auto simp: versions_def intro: lifecycle.stay)
  then show ?thesis
    using wr assms(2) by (auto simp: stepped_def wrote_def)
qed

lemma rows_unique: "keyed vm_ID t \<Longrightarrow> vm \<in> set t \<Longrightarrow> rows vm_ID t (vm_ID vm) = Some vm"
  by (simp add: keyed_def rows_def select_row_unique)

lemma rep_fold_stepped:
  assumes "sound w" "distinct (map vm_ID objs)" "\<forall>vm \<in> set objs. replica_valid vm \<and> rows vm_ID (rw_vms w) (vm_ID vm) = Some vm"
  shows "sound (fold (\<lambda>vm w. snd (rep_Reconcile e vm w)) objs w) \<and>
    stepped (vm_ID ` set objs) w (fold (\<lambda>vm w. snd (rep_Reconcile e vm w)) objs w)"
  using assms
proof (induction objs arbitrary: w)
  case Nil
  then show ?case by (simp add: stepped_def)
next
  case (Cons vm objs)
  let ?w = "snd (rep_Reconcile e vm w)"
  have one: "stepped {vm_ID vm} w ?w" using Cons.prems by (intro Reconcile_stepped) auto
  have new: "vm_ID vm \<notin> vm_ID ` set objs" "distinct (map vm_ID objs)" using Cons.prems(2) by auto
  have keep: "rows vm_ID (rw_vms ?w) i = rows vm_ID (rw_vms w) i" if "i \<noteq> vm_ID vm" for i
    using one that by (simp add: stepped_def)
  have fresh: "\<forall>x \<in> set objs. replica_valid x \<and> rows vm_ID (rw_vms ?w) (vm_ID x) = Some x"
  proof
    fix x assume x: "x \<in> set objs"
    then have "vm_ID x \<noteq> vm_ID vm" using new(1) by (metis imageI)
    then show "replica_valid x \<and> rows vm_ID (rw_vms ?w) (vm_ID x) = Some x" using Cons.prems(3) x keep by simp
  qed
  note IH = Cons.IH [OF sound_Reconcile [OF Cons.prems(1)] new(2) fresh]
  have "stepped (vm_ID ` set (vm # objs)) w (fold (\<lambda>vm w. snd (rep_Reconcile e vm w)) objs ?w)"
    unfolding stepped_def
  proof
    fix i
    let ?f = "fold (\<lambda>vm w. snd (rep_Reconcile e vm w)) objs ?w"
    have s: "if i \<in> vm_ID ` set objs
       then \<exists>a b. rows vm_ID (rw_vms ?w) i = Some a \<and> rows vm_ID (rw_vms ?f) i = Some b \<and> lifecycle (vm_State a) (vm_State b)
       else rows vm_ID (rw_vms ?f) i = rows vm_ID (rw_vms ?w) i"
      using IH unfolding stepped_def by blast
    show "if i \<in> vm_ID ` set (vm # objs)
       then \<exists>a b. rows vm_ID (rw_vms w) i = Some a \<and> rows vm_ID (rw_vms ?f) i = Some b \<and> lifecycle (vm_State a) (vm_State b)
       else rows vm_ID (rw_vms ?f) i = rows vm_ID (rw_vms w) i"
    proof (cases "i = vm_ID vm")
      case True
      then have "\<exists>a b. rows vm_ID (rw_vms w) i = Some a \<and> rows vm_ID (rw_vms ?w) i = Some b \<and> lifecycle (vm_State a) (vm_State b)"
        using spec [OF one [unfolded stepped_def], of i] by simp
      moreover have "rows vm_ID (rw_vms ?f) i = rows vm_ID (rw_vms ?w) i" using s new(1) True by simp
      ultimately show ?thesis using True by simp
    next
      case False
      then show ?thesis using s unfolding keep [OF False] by (cases "i \<in> vm_ID ` set objs") simp_all
    qed
  qed
  with IH show ?case by simp
qed

lemma rep_pass_stepped:
  assumes "sound w"
  shows "sound (rep_pass e w)" and "rows vm_ID (rw_vms w) i = Some vm \<Longrightarrow>
    \<exists>vm'. rows vm_ID (rw_vms (rep_pass e w)) i = Some vm' \<and> lifecycle (vm_State vm) (vm_State vm')"
    and "rows vm_ID (rw_vms w) i = None \<Longrightarrow> rows vm_ID (rw_vms (rep_pass e w)) i = None"
proof -
  let ?k = "rw_stmt w + 1" and ?w = "w\<lparr>rw_stmt := rw_stmt w + 2\<rparr>"
  let ?objs = "ListVMs (re_db e ?k) (rw_vms w)"
  have run: "rep_pass e w = fold (\<lambda>vm w. snd (rep_Reconcile e vm w)) ?objs ?w"
    by (simp add: rep_pass_def reconcileAll_def rep_List_def)
  have objs: "?objs = [] \<or> ?objs = rw_vms w" by (simp add: ListVMs_def query_def)
  have d: "distinct (map vm_ID ?objs)" using objs assms by (auto simp: sound_def keyed_def)
  have fresh: "\<forall>vm \<in> set ?objs. replica_valid vm \<and> rows vm_ID (rw_vms ?w) (vm_ID vm) = Some vm"
    using objs assms rows_unique by (auto simp: sound_def)
  have sw: "sound ?w" using assms by simp
  note st = rep_fold_stepped [OF sw d fresh, of e, folded run]
  show "sound (rep_pass e w)" using st by blast
  note step = spec [OF st [THEN conjunct2, unfolded stepped_def], of i]
  show "\<exists>vm'. rows vm_ID (rw_vms (rep_pass e w)) i = Some vm' \<and> lifecycle (vm_State vm) (vm_State vm')"
    if "rows vm_ID (rw_vms w) i = Some vm"
    using step that by (auto split: if_splits intro: lifecycle.stay)
  show "rows vm_ID (rw_vms (rep_pass e w)) i = None" if "rows vm_ID (rw_vms w) i = None"
    using step that by (auto split: if_splits)
qed

lemma rep_passes_sound: "sound w \<Longrightarrow> sound ((rep_pass e ^^ n) w)"
  by (induction n) (simp_all add: rep_pass_stepped(1))

subsection \<open>Lemmas: a replica becomes running\<close>

lemma send_all_accepted:
  assumes "send_all h rs c = (None, c')"
  shows "fc_log c' = fc_log c @ rs \<and> (\<forall>i < length rs. h_api h (fc_step c + i) (rs ! i))"
  using send_all_result [of rs h c] assms by auto

lemma fc_launch_None:
  assumes "fc_launch h argv sock vmID c = (None, c')"
  shows "fc_log c' = fc_log c" "fc_step c' = Suc (fc_step c)"
  using assms by (auto simp: fc_launch_def Let_def split: if_splits option.splits)

text \<open>
  The requests \<open>rs\<close> were sent over the socket of the machine after those of \<open>c\<close>, and all were accepted.
\<close>

definition accepted_run :: "fc_host \<Rightarrow> fc_request list \<Rightarrow> FCClient \<Rightarrow> FCClient \<Rightarrow> bool" where
  "accepted_run h rs c c' \<longleftrightarrow> fc_log c' = fc_log c @ rs \<and> (\<forall>i < length rs. h_api h (Suc (fc_step c) + i) (rs ! i))"

lemma launch_send_accepted:
  assumes "fc_seq (fc_launch h argv sock vmID) (send_all h rs) c = (None, c')"
  shows "accepted_run h rs c c'"
proof -
  obtain r c1 where l: "fc_launch h argv sock vmID c = (r, c1)" by (cases "fc_launch h argv sock vmID c")
  with assms have "r = None" "send_all h rs c1 = (None, c')"
    by (auto simp: fc_seq_def split: option.splits)
  then show ?thesis
    using send_all_accepted [of h rs c1 c'] fc_launch_None [of h argv sock vmID c c1] l by (simp add: accepted_run_def)
qed

lemma CreateAndStartVM_accepted:
  assumes "CreateAndStartVM h cfg c = (None, c')"
  shows "accepted_run h (boot_requests (path_Join (fc_socketDir c) (fv_VMID cfg @ ''.sock'')) cfg) c c'"
proof -
  have linux: "h_GOOS h = ''linux''"
    using assms by (auto simp: CreateAndStartVM_def RequireMicroVMHost_def MicroVMHost_def fc_seq_def fc_return_def split: if_splits)
  show ?thesis
    using assms [unfolded CreateAndStartVM_linux [OF linux] Let_def] by (rule launch_send_accepted)
qed

definition load_request :: "string \<Rightarrow> string \<Rightarrow> string \<Rightarrow> fc_request" where
  "load_request sock snapPath memPath = put_rq sock ''/snapshot/load''
     (JObj [(''snapshot_path'', JStr snapPath),
            (''mem_backend'', JObj [(''backend_path'', JStr memPath), (''backend_type'', JStr ''File'')]), (''resume_vm'', JBool True)])"

lemma LoadSnapshot_accepted:
  assumes "LoadSnapshot h vmID snapPath memPath c = (None, c')"
  shows "accepted_run h [load_request (path_Join (fc_socketDir c) (vmID @ ''.sock'')) snapPath memPath] c c'"
proof -
  have "RequireMicroVMHost h ''Firecracker snapshot restore'' = None"
    using assms by (cases "RequireMicroVMHost h ''Firecracker snapshot restore''") (simp_all add: LoadSnapshot_def fc_seq_def fc_return_def)
  then show ?thesis
    using assms unfolding LoadSnapshot_def Let_def fc_put_send load_request_def
    by (auto intro: launch_send_accepted simp del: send_all.simps)
qed

lemma boot_config_VMID [simp]: "fv_VMID (boot_config g st vm spec m) = vm_ID vm"
  by (simp add: boot_config_def fcConfigFor_def Let_def split: option.split)

lemma NetSpec_fc [simp]: "vmm_fc (snd (NetSpec linux run vm m)) = vmm_fc m"
  by (simp add: NetSpec_def Let_def case_prod_beta split: option.split)

lemma Boot_accepted:
  assumes "Boot h g st vm spec m = (None, m')"
  shows "\<exists>cfg. fv_VMID cfg = vm_ID vm \<and>
    accepted_run h (boot_requests (path_Join (fc_socketDir (vmm_fc m)) (vm_ID vm @ ''.sock'')) cfg) (vmm_fc m) (vmm_fc m')"
proof -
  obtain c where c: "CreateAndStartVM h (boot_config g st vm spec m) (vmm_fc m) = (None, c)" "vmm_fc m' = c"
    using assms by (auto simp: Boot_def split: option.splits prod.splits)
  show ?thesis
    using CreateAndStartVM_accepted [OF c(1)] c(2) by (intro exI [of _ "boot_config g st vm spec m"]) simp
qed

lemma Restore_accepted:
  assumes "vmm_Restore h vm snapPath memPath m = (None, m')"
  shows "accepted_run h [load_request (path_Join (fc_socketDir (vmm_fc m)) (vm_ID vm @ ''.sock'')) snapPath memPath] (vmm_fc m) (vmm_fc m')"
  using assms LoadSnapshot_accepted [of h "vm_ID vm" snapPath memPath "vmm_fc m"]
  by (auto simp: vmm_Restore_def split: prod.splits)

lemma reconcilePending_cases:
  "wrote (vm_ID vm) (versions vm {StateBooting, StateFailed}) w (reconcilePending e vm w) \<or>
   (\<exists>cfg. fv_VMID cfg = vm_ID vm \<and>
      accepted_run (re_host e) (boot_requests (path_Join (fc_socketDir (vmm_fc (rw_runtime w))) (vm_ID vm @ ''.sock'')) cfg)
        (vmm_fc (rw_runtime w)) (vmm_fc (rw_runtime (reconcilePending e vm w))))"
proof -
  let ?w0 = "emit e vm ''vm.create.started'' ''replica reconcile: boot requested'' w"
  obtain r m where n: "NetSpec (MicroVMHost (re_host e)) (re_run e (rw_stmt ?w0)) vm (rw_runtime w) = (r, m)"
    by (cases "NetSpec (MicroVMHost (re_host e)) (re_run e (rw_stmt ?w0)) vm (rw_runtime w)")
  have fc: "vmm_fc m = vmm_fc (rw_runtime w)"
    using NetSpec_fc [of "MicroVMHost (re_host e)" "re_run e (rw_stmt ?w0)" vm "rw_runtime w", unfolded n] by simp
  show ?thesis
  proof (cases r)
    case (Inl err)
    then have "reconcilePending e vm w = rep_fail e vm (''network allocation failed: '' @ re_net_text e err) (?w0\<lparr>rw_runtime := m\<rparr>)"
      by (simp add: reconcilePending_def Let_def n)
    then show ?thesis by (simp add: rep_fail_wrote)
  next
    case (Inr spec)
    let ?vm = "vm\<lparr>vm_State := StateBooting, vm_HealthStatus := HealthChecking\<rparr>"
    obtain err m' where b: "Boot (re_host e) (re_gcm e) (re_tables e) ?vm spec m = (err, m')"
      by (cases "Boot (re_host e) (re_gcm e) (re_tables e) ?vm spec m")
    show ?thesis
    proof (cases err)
      case (Some er)
      then have "reconcilePending e vm w = rep_fail e ?vm (''boot failed: '' @ re_fc_text e er)
          ((rep_updateStatus e ?vm (?w0\<lparr>rw_runtime := m\<rparr>))\<lparr>rw_runtime := m'\<rparr>)"
        by (simp add: reconcilePending_def Let_def n Inr b)
      then show ?thesis by (simp add: rep_fail_wrote wrote_then)
    next
      case None
      then have "vmm_fc (rw_runtime (reconcilePending e vm w)) = vmm_fc m'"
        by (simp add: reconcilePending_def Let_def n Inr b)
      then show ?thesis using Boot_accepted [OF b [unfolded None]] fc by simp
    qed
  qed
qed

lemma reconcileFailed_cases:
  "wrote (vm_ID vm) (versions vm {StateBooting, StatePending}) w (reconcileFailed e vm w) \<or>
   accepted_run (re_host e)
     [load_request (path_Join (fc_socketDir (vmm_fc (rw_runtime w))) (vm_ID vm @ ''.sock'')) (vm_SnapshotPath vm) (vm_SnapshotMemPath vm)]
     (vmm_fc (rw_runtime w)) (vmm_fc (rw_runtime (reconcileFailed e vm w)))"
proof (cases "vm_SnapshotStatus vm = ''ready'' \<and> vm_SnapshotPath vm \<noteq> []")
  case True
  let ?vm = "vm\<lparr>vm_State := StateBooting, vm_HealthStatus := HealthChecking\<rparr>"
  obtain err m' where b: "vmm_Restore (re_host e) ?vm (vm_SnapshotPath vm) (vm_SnapshotMemPath vm) (rw_runtime w) = (err, m')"
    by (cases "vmm_Restore (re_host e) ?vm (vm_SnapshotPath vm) (vm_SnapshotMemPath vm) (rw_runtime w)")
  show ?thesis
  proof (cases err)
    case (Some er)
    then have "reconcileFailed e vm w = rep_updateStatus e (?vm\<lparr>vm_Error := ''restore failed: '' @ re_fc_text e er\<rparr>)
        ((rep_updateStatus e ?vm w)\<lparr>rw_runtime := m'\<rparr>)"
      using True by (simp add: reconcileFailed_def Let_def b)
    then show ?thesis by (simp add: wrote_then)
  next
    case None
    then have "vmm_fc (rw_runtime (reconcileFailed e vm w)) = vmm_fc m'"
      using True by (simp add: reconcileFailed_def Let_def b)
    then show ?thesis using Restore_accepted [OF b [unfolded None]] by simp
  qed
next
  case False
  have "reconcileFailed e vm w =
      (if vm_Restart vm = ''always'' \<or> vm_Restart vm = ''on-failure'' then rep_updateStatus e (vm\<lparr>vm_State := StatePending\<rparr>) w else w)"
    unfolding reconcileFailed_def if_not_P [OF False] ..
  then show ?thesis by (simp add: wrote_version)
qed

subsection \<open>Properties\<close>

text \<open>
  C34: Whatever the database, the host and the guests do, any number of controller passes takes the stored
  state of a replica along the lifecycle only, one transition a pass; no pass adds or drops a row, and
  every row keeps satisfying the constraints of the table.
\<close>

theorem replica_pass_lifecycle:
  assumes "keyed vm_ID (rw_vms w)" "\<forall>vm \<in> set (rw_vms w). replica_valid vm"
  shows "(\<forall>vm \<in> set (rw_vms ((rep_pass e ^^ n) w)). replica_valid vm) \<and>
    (case rows vm_ID (rw_vms ((rep_pass e ^^ n) w)) i of
       None \<Rightarrow> rows vm_ID (rw_vms ((rep_pass e ^^ Suc n) w)) i = None
     | Some vm \<Rightarrow> \<exists>vm'. rows vm_ID (rw_vms ((rep_pass e ^^ Suc n) w)) i = Some vm' \<and> lifecycle (vm_State vm) (vm_State vm'))"
proof -
  have s: "sound ((rep_pass e ^^ n) w)" using assms by (intro rep_passes_sound) (simp add: sound_def)
  then have "\<forall>vm \<in> set (rw_vms ((rep_pass e ^^ n) w)). replica_valid vm" by (simp add: sound_def)
  then show ?thesis
    using rep_pass_stepped(2) [OF s, of i _ e] rep_pass_stepped(3) [OF s, of i e] by (simp split: option.split)
qed


subsection \<open>Examples\<close>

definition demo_renv :: "string list \<Rightarrow> replica_env" where
  "demo_renv refused = \<lparr>re_db = (\<lambda>_. True), re_host = demo_host refused, re_run = (\<lambda>_ _. True), re_gcm = demo_gcm,
     re_tables = demo_boot_store, re_http = (\<lambda>_ _. None), re_dial = (\<lambda>_ _. False), re_hub = True,
     re_net_text = (\<lambda>_. ''net''), re_fc_text = (\<lambda>_. ''fc'')\<rparr>"

definition demo_replica :: VM where
  "demo_replica = zero_VM\<lparr>vm_ID := ''vm1'', vm_ProjectID := ''p'', vm_State := StateFailed, vm_HealthStatus := HealthChecking,
     vm_IPAddress := ''10.42.0.10/24'', vm_SnapshotStatus := ''ready'', vm_SnapshotPath := ''/snap/vm1.snap''\<rparr>"

definition demo_rworld :: "VM \<Rightarrow> replica_world" where
  "demo_rworld vm = \<lparr>rw_vms = [vm], rw_rings = \<lparr>st_traffic = (\<lambda>_. []), st_vitals = (\<lambda>_. []), st_logs = (\<lambda>_. []), st_daemonLogs = []\<rparr>,
     rw_micro = [], rw_usage = [], rw_events = [], rw_hub = [], rw_runtime = demo_manager, rw_stmt = 0\<rparr>"

text \<open>
  When Firecracker refuses the snapshot of a failed replica, the pass leaves the row booting; the next one
  marks it running because it still has its old address.
\<close>

lemma PutVM_single:
  "vm_ID x = vm_ID vm \<Longrightarrow> replica_valid x \<Longrightarrow> PutVM True x [vm] = [x]"
  by (simp add: PutVM_def exec_upsert_def upsert_def replica_upd_def)

lemma restore_refused_promoted:
  assumes "\<forall>k. re_db e k" "rw_vms w = [vm]" "vm_State vm = StateFailed" "vm_SnapshotStatus vm = ''ready''" "vm_SnapshotPath vm \<noteq> []"
    "vm_IPAddress vm \<noteq> []"
    "vmm_Restore (re_host e) (vm\<lparr>vm_State := StateBooting, vm_HealthStatus := HealthChecking\<rparr>) (vm_SnapshotPath vm)
       (vm_SnapshotMemPath vm) (rw_runtime w) = (Some er, m)"
    "w1 = snd (rep_Reconcile e vm w)"
  shows "map vm_State (rw_vms w1) = [StateBooting] \<and>
    map vm_State (rw_vms (snd (rep_Reconcile e (hd (rw_vms w1)) w1))) = [StateRunning]"
proof -
  let ?vm = "vm\<lparr>vm_State := StateBooting, vm_HealthStatus := HealthChecking, vm_Error := ''restore failed: '' @ re_fc_text e er\<rparr>"
  have "rw_vms w1 = [?vm]"
    using assms by (simp add: rep_Reconcile_def reconcileFailed_def Let_def rep_updateStatus_def PutVM_single replica_valid_def)
  then show ?thesis
    using assms(1,6) by (simp add: rep_Reconcile_def reconcileBooting_def rep_updateStatus_def PutVM_single replica_valid_def)
qed

theorem replica_pass_lifecycle_witness:
  "\<exists>vm'. rows vm_ID (rw_vms (rep_pass (demo_renv []) (demo_rworld demo_replica))) ''vm1'' = Some vm' \<and>
     lifecycle StateFailed (vm_State vm')"
proof -
  have "keyed vm_ID (rw_vms (demo_rworld demo_replica))" "\<forall>vm \<in> set (rw_vms (demo_rworld demo_replica)). replica_valid vm"
    by (simp_all add: demo_rworld_def demo_replica_def keyed_def replica_valid_def)
  from replica_pass_lifecycle [OF this, of 0 "demo_renv []" "''vm1''"] show ?thesis
    by (simp add: demo_rworld_def demo_replica_def rows_def)
qed


end
