(* ===== verification/Images.thy ===== *)
theory Images
  imports Firecracker
begin

text \<open>
  Bootable images: the manifests and guest bases of \<open>internal/imagecatalog\<close> and the validation of an
  image's artifacts on the host. The file system is an argument: what \<open>Lstat\<close> says of a
  path, whether the file opens, and the digest of its content.
\<close>

record ImageManifest =
  im_ID :: string
  im_Name :: string
  im_Type :: string
  im_Description :: string
  im_Image :: string
  im_Rootfs :: string
  im_Kernel :: string
  im_Architecture :: string
  im_RootfsSHA256 :: string
  im_KernelSHA256 :: string
  im_Status :: string
  im_VCPUs :: int
  im_MemMiB :: int
  im_Ports :: "Port list"
  im_Env :: smap
  im_Tags :: "string list"
  im_Logo :: string

subsection \<open>The catalog\<close>

text \<open>
  A directory entry: its name, whether it is a directory, the manifest its content decodes to (\<open>None\<close> when
  it cannot be read or is not such a JSON text). Sorting is not stable in Go; manifests of one name may
  come in any order, here in that of the directory.
\<close>

record dir_entry =
  de_Name :: string
  de_IsDir :: bool
  de_Manifest :: "ImageManifest option"

definition path_Ext :: "string \<Rightarrow> string" where
  "path_Ext p = (let tail = rev (takeWhile (\<lambda>c. c \<noteq> CHR ''/'') (rev p))
     in if CHR ''.'' \<in> set tail then CHR ''.'' # rev (takeWhile (\<lambda>c. c \<noteq> CHR ''.'') (rev tail)) else [])"

fun load_entries :: "dir_entry list \<Rightarrow> ImageManifest list" where
  "load_entries [] = []"
| "load_entries (e # es) =
     (if de_IsDir e \<or> path_Ext (de_Name e) \<noteq> ''.json'' then load_entries es
      else case de_Manifest e of
        None \<Rightarrow> load_entries es
      | Some m \<Rightarrow> (if im_ID m = [] then m\<lparr>im_ID := TrimSuffix (de_Name e) ''.json''\<rparr> else m) # load_entries es)"

text \<open>Go's order of strings: by bytes.\<close>

fun str_less :: "string \<Rightarrow> string \<Rightarrow> bool" where
  "str_less _ [] = False"
| "str_less [] (_ # _) = True"
| "str_less (a # as) (b # bs) = (byte a < byte b \<or> a = b \<and> str_less as bs)"

definition catalog_New :: "string \<Rightarrow> dir_entry list option \<Rightarrow> ImageManifest list" where
  "catalog_New dir entries =
     (if dir = [] then []
      else case entries of
        None \<Rightarrow> []
      | Some es \<Rightarrow> sort_slice (\<lambda>a b. str_less (im_Name a) (im_Name b)) (load_entries es))"

subsection \<open>Guest bases\<close>

record GuestBase =
  gb_Name :: string
  gb_Reference :: string
  gb_Family :: string
  gb_Description :: string
  gb_KernelPath :: string
  gb_RootfsPath :: string
  gb_AgentPath :: string
  gb_Managed :: bool

definition managed_base :: "string \<Rightarrow> string \<Rightarrow> string \<Rightarrow> string \<Rightarrow> GuestBase" where
  "managed_base name ref family desc =
     \<lparr>gb_Name = name, gb_Reference = ref, gb_Family = family, gb_Description = desc,
      gb_KernelPath = [], gb_RootfsPath = [], gb_AgentPath = [], gb_Managed = True\<rparr>"

definition ManagedGuestBases :: "GuestBase list" where
  "ManagedGuestBases =
     [managed_base ''Alpine'' ''porter://alpine/latest'' ''alpine''
        ''Small musl-based guest optimized for fast startup and low storage use'',
      managed_base ''Debian'' ''porter://debian/latest'' ''debian''
        ''General-purpose glibc guest with broad package compatibility'',
      managed_base ''Ubuntu'' ''porter://ubuntu/latest'' ''ubuntu''
        ''glibc guest for Ubuntu packages, Python, ML, and enterprise workloads'']"

datatype base_error = UnregisteredBase string | UnsupportedBase string

definition ResolveGuestBase :: "string \<Rightarrow> string \<Rightarrow> (string \<times> GuestBase) list \<Rightarrow> (base_error, GuestBase) result" where
  "ResolveGuestBase ref defaultRef custom =
     (let ref = (if ref = [] then defaultRef else ref);
          ref = TrimSpace (ToLower ref);
          ref = (if ref = [] then ''alpine'' else ref)
      in if ref \<in> {''alpine'', ''porter://alpine'', ''porter://alpine/latest''} then Inr (ManagedGuestBases ! 0)
         else if ref \<in> {''debian'', ''porter://debian'', ''porter://debian/latest''} then Inr (ManagedGuestBases ! 1)
         else if ref \<in> {''ubuntu'', ''porter://ubuntu'', ''porter://ubuntu/latest''} then Inr (ManagedGuestBases ! 2)
         else if HasPrefix ref ''custom://'' then
           (case map_of custom ref of
              Some base \<Rightarrow>
                if gb_KernelPath base \<noteq> [] \<and> gb_RootfsPath base \<noteq> [] then Inr (base\<lparr>gb_Managed := False\<rparr>)
                else Inl (UnregisteredBase ref)
            | None \<Rightarrow> Inl (UnregisteredBase ref))
         else Inl (UnsupportedBase ref))"

subsection \<open>Artifacts\<close>

record file_info =
  fi_symlink :: bool
  fi_regular :: bool
  fi_size :: int

text \<open>An error of the operating system is the text it reads as.\<close>

record host_files =
  hf_lstat :: "string \<Rightarrow> (string, file_info) result"
  hf_open :: "string \<Rightarrow> string option"
  hf_sha256 :: "string \<Rightarrow> (string, string) result"

definition inspectFile :: "host_files \<Rightarrow> string \<Rightarrow> string \<Rightarrow> (string, int \<times> string) result" where
  "inspectFile fs path label =
     (if path = [] then Inl (label @ '' path is empty'')
      else let clean = path_Clean path
      in case hf_lstat fs clean of
           Inl err \<Rightarrow> Inl (label @ '' is unavailable: '' @ err)
         | Inr info \<Rightarrow>
             if fi_symlink info \<or> \<not> fi_regular info then Inl (label @ '' must be a regular non-symlink file'')
             else if fi_size info \<le> 0 then Inl (label @ '' is empty'')
             else case hf_open fs clean of
                    Some err \<Rightarrow> Inl (''open '' @ label @ '': '' @ err)
                  | None \<Rightarrow> (case hf_sha256 fs clean of
                      Inl err \<Rightarrow> Inl (''hash '' @ label @ '': '' @ err)
                    | Inr digest \<Rightarrow> Inr (fi_size info, digest)))"

record ArtifactReport =
  art_Status :: string
  art_Architecture :: string
  art_RootfsSHA256 :: string
  art_KernelSHA256 :: string
  art_RootfsBytes :: int
  art_KernelBytes :: int
  art_Error :: string

text \<open>The report and whether the call returns an error.\<close>

definition ValidateArtifacts :: "host_files \<Rightarrow> string \<Rightarrow> string \<Rightarrow> ArtifactReport \<times> bool" where
  "ValidateArtifacts fs rootfs kern =
     (let report = \<lparr>art_Status = ''invalid'', art_Architecture = ''x86_64'', art_RootfsSHA256 = [], art_KernelSHA256 = [],
                    art_RootfsBytes = 0, art_KernelBytes = 0, art_Error = []\<rparr>
      in case inspectFile fs rootfs ''rootfs.ext4'' of
           Inl err \<Rightarrow> (report\<lparr>art_Error := err\<rparr>, True)
         | Inr (rootfsBytes, rootfsSHA) \<Rightarrow>
             (case inspectFile fs kern ''vmlinux'' of
                Inl err \<Rightarrow> (report\<lparr>art_Error := err\<rparr>, True)
              | Inr (kernelBytes, kernelSHA) \<Rightarrow>
                  (report\<lparr>art_Status := ''ready'', art_RootfsSHA256 := rootfsSHA, art_KernelSHA256 := kernelSHA,
                          art_RootfsBytes := rootfsBytes, art_KernelBytes := kernelBytes\<rparr>, False)))"

definition ManifestFromArtifacts ::
    "host_files \<Rightarrow> string \<Rightarrow> time \<Rightarrow> string \<Rightarrow> string \<Rightarrow> string \<Rightarrow> string \<Rightarrow> string \<Rightarrow> string \<Rightarrow> int \<Rightarrow> int \<Rightarrow> GoldenImage" where
  "ManifestFromArtifacts fs newid now name reference description kind rootfs kern vcpus memMiB =
     (let (report, failed) = ValidateArtifacts fs rootfs kern
      in \<lparr>gi_ID = newid, gi_Name = name, gi_Image = default_to (''base://'' @ name) reference, gi_Description = description,
          gi_VCPUs = (if vcpus \<le> 0 then 1 else vcpus), gi_MemMiB = (if memMiB \<le> 0 then 256 else memMiB), gi_Ports = [],
          gi_Env = [], gi_Tags = [], gi_Logo = [], gi_Version = ''v1'', gi_Kind = default_to ''base'' kind,
          gi_Rootfs = path_Clean rootfs, gi_Kernel = path_Clean kern, gi_Architecture = art_Architecture report,
          gi_RootfsSHA256 = art_RootfsSHA256 report, gi_KernelSHA256 = art_KernelSHA256 report,
          gi_Status = (if failed then ''invalid'' else art_Status report), gi_ValidatedAt = Some now\<rparr>)"

subsection \<open>Lemmas\<close>

lemma ValidateArtifacts_ok:
  "snd (ValidateArtifacts fs rootfs kern) = False \<longleftrightarrow>
     (\<exists>a. inspectFile fs rootfs ''rootfs.ext4'' = Inr a) \<and> (\<exists>b. inspectFile fs kern ''vmlinux'' = Inr b)"
  by (auto simp: ValidateArtifacts_def Let_def split: sum.splits)

text \<open>
  Storing an image under a name that is in use keeps the id of the old row, but what is listed afterwards
  carries the new id: no row is found under the id that clients see.
\<close>

lemma PutGoldenImage_stale_id:
  assumes "keyed golden_key t" "select_row golden_key (gi_Name gi) t = Some old"
    "\<forall>r \<in> set t. gr_id r \<noteq> gi_ID gi" "distinct (map gr_id t)"
  obtains t' where "PutGoldenImage True gi t = (True, t')"
    "gi_ID gi \<in> gi_ID ` gr_image ` set t'" "DeleteGoldenImage True (gi_ID gi) t' = (True, t')"
proof -
  let ?new = "\<lparr>gr_id = gi_ID gi, gr_image = golden_defaults gi\<rparr>"
  let ?t = "map (\<lambda>r. if golden_key r = golden_key ?new then golden_upd r ?new else r) t"
  have key: "golden_key ?new = gi_Name gi"
    by (simp add: golden_key_def golden_defaults_def)
  have old: "old \<in> set t" "golden_key old = gi_Name gi"
    using select_row_SomeD [OF assms(2)] by simp_all
  have "\<not> list_ex (\<lambda>r. golden_key r \<noteq> golden_key ?new \<and> golden_clash (golden_upd old ?new) r) t"
  proof
    assume "list_ex (\<lambda>r. golden_key r \<noteq> golden_key ?new \<and> golden_clash (golden_upd old ?new) r) t"
    then obtain r where "r \<in> set t" "golden_key r \<noteq> gi_Name gi" "gr_id r = gr_id old"
      by (auto simp: list_ex_iff key golden_clash_def golden_upd_def)
    then show False
      using assms(4) old by (auto simp: distinct_map dest: inj_onD)
  qed
  then have put: "PutGoldenImage True gi t = (True, ?t)"
    using assms(2) by (simp add: PutGoldenImage_def exec_upsert_def upsert_def key)
  have listed: "gi_ID gi \<in> gi_ID ` gr_image ` set ?t"
  proof -
    have "(\<lambda>r. if golden_key r = golden_key ?new then golden_upd r ?new else r) old = golden_upd old ?new"
      using old(2) key by simp
    then have mem: "golden_upd old ?new \<in> set ?t"
      using imageI [OF old(1), of "\<lambda>r. if golden_key r = golden_key ?new then golden_upd r ?new else r"]
      unfolding set_map by (simp only:)
    have "gi_ID gi = gi_ID (gr_image (golden_upd old ?new))"
      by (simp add: golden_upd_def golden_defaults_def)
    then show ?thesis using imageI [OF imageI [OF mem, of gr_image], of gi_ID] by (simp only:)
  qed
  have "filter (\<lambda>r. gr_id r \<noteq> gi_ID gi) ?t = ?t"
    using assms(3) by (auto simp: filter_id_conv golden_upd_def)
  then have "DeleteGoldenImage True (gi_ID gi) ?t = (True, ?t)"
    by (simp add: DeleteGoldenImage_def exec_delete_def)
  with put listed show thesis by (rule that)
qed

end
