(* ===== verification/Replica_Pool.thy ===== *)
theory Replica_Pool
  imports Images Store_Core "HOL-Library.State_Monad"
begin

text \<open>
  The replica pool of a project as the HTTP handlers of \<open>internal/api\<close> manage it: booting replicas, scaling,
  redeploying, deploying, promoting and rolling back, and the autoscaler that calls the same code. A
  handler is a computation in the state monad over \<open>api_world\<close>. Every call to the store, the clock, the
  random source or the machine runner takes the next number of a counter, and the environment says how the
  call with that number turns out. The machine runner (\<open>VMRunner\<close>, implemented outside these sources) is
  a part of the environment: it may fail, and it may change the replica table.
\<close>

subsection \<open>Environment and state\<close>

datatype vmm_call = Call_Boot VM | Call_Stop VM | Call_Restart VM | Call_Delete VM

record host_config =
  ho_BaseImageRef :: string
  ho_KernelImage :: string
  ho_GuestBaseDefault :: string

record api_env =
  ae_db :: "nat \<Rightarrow> bool"
  ae_hit :: "nat \<Rightarrow> bool"
  ae_cok :: "nat \<Rightarrow> bool"
  ae_clock :: "nat \<Rightarrow> time"
  ae_newid :: "nat \<Rightarrow> string"
  ae_hex :: "nat \<Rightarrow> string"
  ae_collate :: "string \<Rightarrow> string \<Rightarrow> bool"
  ae_files :: host_files
  ae_gcm :: gcm
  ae_secretKey :: string
  ae_quote :: "string \<Rightarrow> string"
  ae_box_text :: "box_error \<Rightarrow> string"
  ae_base_text :: "base_error \<Rightarrow> string"
  ae_db_text :: string
  ae_catalog :: "ImageManifest list option"
  ae_hostConfig :: "host_config option"
  ae_baseDomain :: string
  ae_requestID :: string
  ae_etag :: "Project \<Rightarrow> string"
  ae_hasRunner :: bool
  ae_runner :: "nat \<Rightarrow> vmm_call \<Rightarrow> VM list \<Rightarrow> string option \<times> VM list"

text \<open>
  Go maps are references: the environment variables of a project, of a request and of a replica can be
  the same map. \<open>aw_maps\<close> is the heap of these maps, \<open>aw_next\<close> its first free address; \<open>None\<close> is the nil map.
\<close>

type_synonym map_ref = "nat option"

record api_world =
  aw_vms :: "VM list"
  aw_projects :: project_store
  aw_deployments :: "Deployment list"
  aw_golden :: "golden_row list"
  aw_secrets :: "Secret list"
  aw_metrics :: "MetricSample list"
  aw_buildlog :: "build_log_row list"
  aw_rings :: store_rings
  aw_hub :: "(string \<times> (string \<times> json) list) list"
  aw_calls :: "vmm_call list"
  aw_spawned :: "vmm_call list"
  aw_maps :: "nat \<Rightarrow> smap"
  aw_next :: nat
  aw_last :: "string \<rightharpoonup> time"
  aw_step :: nat

type_synonym 'a api = "(api_world, 'a) state"

definition update :: "(api_world \<Rightarrow> api_world) \<Rightarrow> unit api" where
  "update f = State (\<lambda>w. ((), f w))"

definition tick :: "nat api" where
  "tick = State (\<lambda>w. (aw_step w, w\<lparr>aw_step := Suc (aw_step w)\<rparr>))"

fun foldS :: "('a \<Rightarrow> 's \<Rightarrow> 's api) \<Rightarrow> 'a list \<Rightarrow> 's \<Rightarrow> 's api" where
  "foldS f [] s = State_Monad.return s"
| "foldS f (x # xs) s = do { s' \<leftarrow> f x s; foldS f xs s' }"

subsection \<open>Maps\<close>

definition new_map :: "smap \<Rightarrow> nat api" where
  "new_map m = State (\<lambda>w. (aw_next w, w\<lparr>aw_maps := (aw_maps w)(aw_next w := m), aw_next := Suc (aw_next w)\<rparr>))"

definition read_map :: "map_ref \<Rightarrow> smap api" where
  "read_map r = State (\<lambda>w. (case r of None \<Rightarrow> [] | Some a \<Rightarrow> aw_maps w a, w))"

definition write_map :: "nat \<Rightarrow> smap \<Rightarrow> unit api" where
  "write_map a m = update (\<lambda>w. w\<lparr>aw_maps := (aw_maps w)(a := m)\<rparr>)"

text \<open>\<open>for k, v := range src { if _, exists := dst[k]; !exists { dst[k] = v } }\<close>\<close>

fun fill_missing :: "smap \<Rightarrow> smap \<Rightarrow> smap" where
  "fill_missing dst [] = dst"
| "fill_missing dst ((k, v) # src) =
     fill_missing (if map_of dst k = None then dst @ [(k, v)] else dst) src"

subsection \<open>Calls to the store and the runner\<close>

text \<open>
  A project as a handler holds it: the struct with its environment map by reference. A project read from
  the database or the cache has the map of its JSON text, which leaves an empty map out, so that it is nil.
\<close>

record live_project =
  lp_data :: Project
  lp_Env :: map_ref

definition load_project :: "Project \<Rightarrow> live_project api" where
  "load_project p =
     (if pr_Env p = [] then State_Monad.return \<lparr>lp_data = p, lp_Env = None\<rparr>
      else do { a \<leftarrow> new_map (pr_Env p); State_Monad.return \<lparr>lp_data = p, lp_Env = Some a\<rparr> })"

definition api_NewID :: "api_env \<Rightarrow> string api" where
  "api_NewID e = do { n \<leftarrow> tick; State_Monad.return (ae_newid e n) }"

definition api_Now :: "api_env \<Rightarrow> time api" where
  "api_Now e = do { n \<leftarrow> tick; State_Monad.return (ae_clock e n) }"

definition api_PutVM :: "api_env \<Rightarrow> VM \<Rightarrow> unit api" where
  "api_PutVM e vm = do { n \<leftarrow> tick; update (\<lambda>w. w\<lparr>aw_vms := PutVM (ae_db e n) vm (aw_vms w)\<rparr>) }"

definition api_GetVM :: "api_env \<Rightarrow> string \<Rightarrow> VM option api" where
  "api_GetVM e i = do { n \<leftarrow> tick; w \<leftarrow> State_Monad.get; State_Monad.return (GetVM (ae_db e n) i (aw_vms w)) }"

definition api_DeleteVM :: "api_env \<Rightarrow> string \<Rightarrow> unit api" where
  "api_DeleteVM e i = do { n \<leftarrow> tick; update (\<lambda>w. case DeleteVM (ae_db e n) i (aw_vms w, aw_rings w) of
     (t, rings) \<Rightarrow> w\<lparr>aw_vms := t, aw_rings := rings\<rparr>) }"

definition api_DeleteReplicasByProject :: "api_env \<Rightarrow> string \<Rightarrow> unit api" where
  "api_DeleteReplicasByProject e i =
     do { n \<leftarrow> tick; update (\<lambda>w. w\<lparr>aw_vms := DeleteReplicasByProject (ae_db e n) i (aw_vms w)\<rparr>) }"

definition api_GetProject :: "api_env \<Rightarrow> string \<Rightarrow> live_project option api" where
  "api_GetProject e i = do {
     n \<leftarrow> tick; w \<leftarrow> State_Monad.get;
     (case GetProject (ae_hit e n) (ae_cok e n) (ae_db e n) i (aw_projects w) of (r, ps) \<Rightarrow> do {
        update (\<lambda>w. w\<lparr>aw_projects := ps\<rparr>);
        (case r of None \<Rightarrow> State_Monad.return None
         | Some p \<Rightarrow> do { lp \<leftarrow> load_project p; State_Monad.return (Some lp) }) }) }"

definition api_PutProject :: "api_env \<Rightarrow> live_project \<Rightarrow> unit api" where
  "api_PutProject e lp = do {
     n \<leftarrow> tick; env \<leftarrow> read_map (lp_Env lp);
     update (\<lambda>w. w\<lparr>aw_projects := PutProject (ae_cok e n) (ae_db e n) ((lp_data lp)\<lparr>pr_Env := env\<rparr>) (aw_projects w)\<rparr>) }"

definition api_DeleteProject :: "api_env \<Rightarrow> string \<Rightarrow> unit api" where
  "api_DeleteProject e i =
     do { n \<leftarrow> tick; update (\<lambda>w. w\<lparr>aw_projects := DeleteProject (ae_db e n) i (aw_projects w)\<rparr>) }"

text \<open>\<open>CreateDeployment\<close> fills the two weights of the caller's struct before it writes the row.\<close>

definition api_CreateDeployment :: "api_env \<Rightarrow> Deployment \<Rightarrow> (bool \<times> Deployment) api" where
  "api_CreateDeployment e d = do {
     n \<leftarrow> tick; w \<leftarrow> State_Monad.get;
     (case CreateDeployment (ae_clock e n) (ae_db e n) d (aw_deployments w) of (ok, t) \<Rightarrow> do {
        update (\<lambda>w. w\<lparr>aw_deployments := t\<rparr>);
        State_Monad.return (ok, weight_defaults d) }) }"

definition api_ListDeployments :: "api_env \<Rightarrow> string \<Rightarrow> Deployment list api" where
  "api_ListDeployments e i =
     do { n \<leftarrow> tick; w \<leftarrow> State_Monad.get; State_Monad.return (ListDeployments (ae_db e n) i (aw_deployments w)) }"

definition api_GetDeployment :: "api_env \<Rightarrow> string \<Rightarrow> string \<Rightarrow> Deployment option api" where
  "api_GetDeployment e p i =
     do { n \<leftarrow> tick; w \<leftarrow> State_Monad.get; State_Monad.return (GetDeployment (ae_db e n) p i (aw_deployments w)) }"

definition api_DeleteDeployment :: "api_env \<Rightarrow> string \<Rightarrow> string \<Rightarrow> bool api" where
  "api_DeleteDeployment e p i = do {
     n \<leftarrow> tick; w \<leftarrow> State_Monad.get;
     (case DeleteDeployment (ae_db e n) p i (aw_deployments w) of (ok, t) \<Rightarrow> do {
        update (\<lambda>w. w\<lparr>aw_deployments := t\<rparr>); State_Monad.return ok }) }"

definition api_ListSecrets :: "api_env \<Rightarrow> string \<Rightarrow> Secret list api" where
  "api_ListSecrets e i = do { n \<leftarrow> tick; w \<leftarrow> State_Monad.get;
     State_Monad.return (ListSecrets (ae_collate e) (ae_db e n) i (aw_secrets w)) }"

definition api_ListGoldenImages :: "api_env \<Rightarrow> GoldenImage list api" where
  "api_ListGoldenImages e = do { n \<leftarrow> tick; w \<leftarrow> State_Monad.get;
     State_Monad.return (ListGoldenImages (ae_collate e) (ae_db e n) (aw_golden w)) }"

definition api_AppendDaemonLog :: "string \<Rightarrow> unit api" where
  "api_AppendDaemonLog line = update (\<lambda>w. w\<lparr>aw_rings := AppendDaemonLog line (aw_rings w)\<rparr>)"

definition api_AppendBuildLog :: "api_env \<Rightarrow> string \<Rightarrow> string \<Rightarrow> unit api" where
  "api_AppendBuildLog e i line =
     do { n \<leftarrow> tick; update (\<lambda>w. w\<lparr>aw_buildlog := AppendBuildLog (ae_db e n) i line (aw_buildlog w)\<rparr>) }"

definition api_Broadcast :: "string \<Rightarrow> (string \<times> json) list \<Rightarrow> unit api" where
  "api_Broadcast name data = update (\<lambda>w. w\<lparr>aw_hub := aw_hub w @ [(name, data)]\<rparr>)"

text \<open>
  A call of the runner, its error as text. \<open>ae_hasRunner\<close> is false for a nil runner, which some callers test
  for; the others presuppose one.
\<close>

definition run_vmm :: "api_env \<Rightarrow> vmm_call \<Rightarrow> string option api" where
  "run_vmm e c = do {
     n \<leftarrow> tick; w \<leftarrow> State_Monad.get;
     (case ae_runner e n c (aw_vms w) of (err, t) \<Rightarrow> do {
        update (\<lambda>w. w\<lparr>aw_vms := t, aw_calls := aw_calls w @ [c]\<rparr>); State_Monad.return err }) }"

text \<open>A call started on a goroutine of its own.\<close>

definition spawn_vmm :: "vmm_call \<Rightarrow> unit api" where
  "spawn_vmm c = update (\<lambda>w. w\<lparr>aw_spawned := aw_spawned w @ [c]\<rparr>)"

subsection \<open>Responses\<close>

datatype reply =
    RJson json
  | RProject Project
  | RDeployment Deployment
  | RVMRow VM
  | RObj "(string \<times> reply) list"

record response =
  rs_status :: int
  rs_body :: reply

definition writeJSON :: "int \<Rightarrow> reply \<Rightarrow> response" where
  "writeJSON status v = \<lparr>rs_status = status, rs_body = v\<rparr>"

definition writeError :: "api_env \<Rightarrow> int \<Rightarrow> string \<Rightarrow> response" where
  "writeError e status msg = writeJSON status (RJson (JObj
     [(''code'', JNum (of_int status)), (''message'', JStr msg), (''error'', JStr msg), (''request_id'', JStr (ae_requestID e))]))"

definition live_reply :: "live_project \<Rightarrow> reply api" where
  "live_reply lp = do { env \<leftarrow> read_map (lp_Env lp); State_Monad.return (RProject ((lp_data lp)\<lparr>pr_Env := env\<rparr>)) }"

subsection \<open>Booting a replica\<close>

record createProjectReq =
  cr_Name :: string
  cr_Image :: string
  cr_GitURL :: string
  cr_Branch :: string
  cr_ComposeYAML :: string
  cr_OrgID :: string
  cr_GroupID :: string
  cr_VCPUs :: int
  cr_MemMiB :: int
  cr_Env :: map_ref
  cr_Ports :: "Port list"
  cr_Replicas :: int
  cr_HostMountPath :: string
  cr_VolumeID :: string
  cr_Healthcheck :: "Healthcheck option"
  cr_RestartPolicy :: string
  cr_SSHEnabled :: bool

text \<open>\<open>createProjectReq{Name: ..., Image: ..., Replicas: ..., Env: ..., Ports: ...}\<close>\<close>

definition pool_req :: "string \<Rightarrow> string \<Rightarrow> int \<Rightarrow> map_ref \<Rightarrow> Port list \<Rightarrow> createProjectReq" where
  "pool_req name img replicas env ports =
     \<lparr>cr_Name = name, cr_Image = img, cr_GitURL = [], cr_Branch = [], cr_ComposeYAML = [], cr_OrgID = [], cr_GroupID = [],
      cr_VCPUs = 0, cr_MemMiB = 0, cr_Env = env, cr_Ports = ports, cr_Replicas = replicas, cr_HostMountPath = [],
      cr_VolumeID = [], cr_Healthcheck = None, cr_RestartPolicy = [], cr_SSHEnabled = False\<rparr>"

fun merge_secrets :: "api_env \<Rightarrow> string \<Rightarrow> Secret list \<Rightarrow> smap \<Rightarrow> smap api" where
  "merge_secrets e projID [] merged = State_Monad.return merged"
| "merge_secrets e projID (sec # secs) merged =
     (case Open (ae_gcm e) (ae_secretKey e) (se_ValueEncrypted sec) of
        Inl err \<Rightarrow> do {
          api_AppendDaemonLog (''secret '' @ ae_quote e (se_Name sec) @ '' for project '' @ projID @ '' could not be decrypted ('' @
            ae_box_text e err @ '')'');
          merge_secrets e projID secs merged }
      | Inr val \<Rightarrow> merge_secrets e projID secs (AList.update (se_Name sec) val merged))"

definition secretsEnv :: "api_env \<Rightarrow> live_project \<Rightarrow> smap api" where
  "secretsEnv e proj = do {
     env \<leftarrow> read_map (lp_Env proj);
     secs \<leftarrow> api_ListSecrets e (pr_ID (lp_data proj));
     merge_secrets e (pr_ID (lp_data proj)) secs env }"

definition apply_spec :: "string \<Rightarrow> string \<Rightarrow> int \<Rightarrow> int \<Rightarrow> VM \<Rightarrow> VM" where
  "apply_spec rootfs kern vcpus mem vm =
     vm\<lparr>vm_RootfsPath := rootfs, vm_Kernel := kern,
        vm_VCPUs := (if vm_VCPUs vm = 0 then vcpus else vm_VCPUs vm), vm_MemMiB := (if vm_MemMiB vm = 0 then mem else vm_MemMiB vm)\<rparr>"

definition golden_match :: "VM \<Rightarrow> GoldenImage \<Rightarrow> bool" where
  "golden_match vm gi =
     (gi_Image gi = vm_Image vm \<or> gi_Name gi = vm_Image vm \<or>
      gi_Image gi = ''custom://'' @ TrimPrefix (vm_Image vm) ''custom://'')"

definition manifest_match :: "string \<Rightarrow> ImageManifest \<Rightarrow> bool" where
  "manifest_match ref m = (im_Image m = ref \<or> im_ID m = ref \<or> im_Name m = ref)"

definition applyImageManifest :: "api_env \<Rightarrow> VM \<Rightarrow> VM api" where
  "applyImageManifest e vm = do {
     images \<leftarrow> api_ListGoldenImages e;
     State_Monad.return (case find (golden_match vm) images of
        Some gi \<Rightarrow> apply_spec (gi_Rootfs gi) (gi_Kernel gi) (gi_VCPUs gi) (gi_MemMiB gi) vm
      | None \<Rightarrow> (case ae_catalog e of
          None \<Rightarrow> vm
        | Some all \<Rightarrow> (case find (manifest_match (vm_Image vm)) all of
            Some m \<Rightarrow> apply_spec (im_Rootfs m) (im_Kernel m) (im_VCPUs m) (im_MemMiB m) vm
          | None \<Rightarrow> vm))) }"

definition knownDirectImage :: "api_env \<Rightarrow> string \<Rightarrow> bool api" where
  "knownDirectImage e ref =
     (if HasPrefix ref ''docker://'' \<or> HasPrefix ref ''oci://'' \<or> Contains ref ''@sha256:'' then State_Monad.return False
      else do {
        images \<leftarrow> api_ListGoldenImages e;
        State_Monad.return
          (if list_ex (\<lambda>gi. gi_Image gi = ref \<or> gi_Name gi = ref) images then True
           else case ae_catalog e of None \<Rightarrow> False | Some all \<Rightarrow> list_ex (manifest_match ref) all) })"

definition new_replica :: "string \<Rightarrow> time \<Rightarrow> Project \<Rightarrow> createProjectReq \<Rightarrow> smap \<Rightarrow> int \<Rightarrow> VM" where
  "new_replica vmID now proj req env idx =
     zero_VM\<lparr>vm_ID := vmID, vm_Name := pr_Name proj @ ''-'' @ Itoa idx, vm_ProjectID := pr_ID proj, vm_ServiceName := ''web'',
       vm_State := StatePending, vm_HealthStatus := HealthChecking, vm_Image := cr_Image req, vm_ReplicaIndex := idx,
       vm_VCPUs := cr_VCPUs req, vm_MemMiB := cr_MemMiB req, vm_Ports := cr_Ports req, vm_Env := env,
       vm_VolumeID := cr_VolumeID req, vm_CreatedAt := now\<rparr>"

definition tag_deployment :: "Deployment option \<Rightarrow> VM \<Rightarrow> VM" where
  "tag_deployment dep vm = (case dep of None \<Rightarrow> vm
    | Some d \<Rightarrow> vm\<lparr>vm_DeploymentID := dep_ID d, vm_DeploymentVersion := dep_VersionLabel d,
        vm_DeploymentEnv := dep_Environment d, vm_GuestBase := dep_GuestBase d\<rparr>)"

definition host_kernel :: "api_env \<Rightarrow> VM \<Rightarrow> VM" where
  "host_kernel e vm = (case ae_hostConfig e of
      Some cfg \<Rightarrow> if vm_Kernel vm = [] then vm\<lparr>vm_Kernel := ho_KernelImage cfg\<rparr> else vm
    | None \<Rightarrow> vm)"

text \<open>
  The project and the deployment of the request are pointers the call writes through; it returns them. The
  boot runs on a goroutine of its own, on a copy of the replica. \<open>launch_replica\<close> is the second half, from the
  test for the image's paths on.
\<close>

definition launch_replica ::
    "api_env \<Rightarrow> VM \<Rightarrow> live_project \<times> Deployment option \<Rightarrow> (live_project \<times> Deployment option) api" where
  "launch_replica e vm = (\<lambda>(proj, dep).
     if vm_RootfsPath vm = [] \<or> vm_Kernel vm = [] then do {
       api_PutVM e (vm\<lparr>vm_State := StateFailed, vm_Error :=
         ''direct Firecracker deploy requires a registered image with readable rootfs.ext4 and vmlinux artifacts''\<rparr>);
       State_Monad.return (proj, dep) }
     else case ValidateArtifacts (ae_files e) (vm_RootfsPath vm) (vm_Kernel vm) of (report, failed) \<Rightarrow>
       if failed then do {
         api_PutVM e (vm\<lparr>vm_State := StateFailed, vm_Error := ''image artifact validation failed: '' @ art_Error report\<rparr>);
         State_Monad.return (proj, dep) }
       else do {
         api_PutVM e vm;
         pd \<leftarrow> (case dep of
            Some d \<Rightarrow> do {
              r \<leftarrow> api_CreateDeployment e (d\<lparr>dep_VMIDs := dep_VMIDs d @ [vm_ID vm]\<rparr>);
              State_Monad.return (proj, Some (snd r)) }
          | None \<Rightarrow> State_Monad.return
              (proj\<lparr>lp_data := (lp_data proj)\<lparr>pr_VMIDs := pr_VMIDs (lp_data proj) @ [vm_ID vm]\<rparr>\<rparr>, None));
         (if ae_hasRunner e then spawn_vmm (Call_Boot vm) else State_Monad.return ());
         api_PutProject e (fst pd);
         State_Monad.return pd })"

definition bootReplica ::
    "api_env \<Rightarrow> createProjectReq \<Rightarrow> int \<Rightarrow> live_project \<times> Deployment option \<Rightarrow> (live_project \<times> Deployment option) api" where
  "bootReplica e req idx = (\<lambda>(proj, dep). do {
     vmID \<leftarrow> api_NewID e;
     env \<leftarrow> (case cr_Env req of Some a \<Rightarrow> State_Monad.return a | None \<Rightarrow> new_map []);
     secs \<leftarrow> secretsEnv e proj;
     old \<leftarrow> read_map (Some env);
     write_map env (fill_missing old secs);
     now \<leftarrow> api_Now e;
     vars \<leftarrow> read_map (Some env);
     vm \<leftarrow> applyImageManifest e (tag_deployment dep (new_replica vmID now (lp_data proj) req vars idx));
     launch_replica e (host_kernel e vm) (proj, dep) })"

text \<open>\<open>for i := lo; i < hi; i++ { a.bootReplica(proj, req, i) }\<close>\<close>

definition boot_range ::
    "api_env \<Rightarrow> createProjectReq \<Rightarrow> int \<Rightarrow> int \<Rightarrow> live_project \<times> Deployment option \<Rightarrow> (live_project \<times> Deployment option) api" where
  "boot_range e req lo hi = foldS (bootReplica e req) [lo..hi - 1]"

fun first_ports :: "api_env \<Rightarrow> string list \<Rightarrow> Port list api" where
  "first_ports e [] = State_Monad.return []"
| "first_ports e (vid # vids) = do {
     r \<leftarrow> api_GetVM e vid;
     (case r of Some vm \<Rightarrow> State_Monad.return (vm_Ports vm) | None \<Rightarrow> first_ports e vids) }"

definition projPorts :: "api_env \<Rightarrow> live_project \<Rightarrow> Port list api" where
  "projPorts e proj = first_ports e (pr_VMIDs (lp_data proj))"

subsection \<open>Scaling and redeploying\<close>

text \<open>The loop that boots replicas \<open>lo\<close> to \<open>hi - 1\<close> of a project with its own image, variables and ports.\<close>

definition grow :: "api_env \<Rightarrow> int \<Rightarrow> int \<Rightarrow> int \<Rightarrow> live_project \<times> Deployment option \<Rightarrow> (live_project \<times> Deployment option) api" where
  "grow e replicas lo hi = foldS (\<lambda>i pd. do {
     ports \<leftarrow> projPorts e (fst pd);
     bootReplica e (pool_req (pr_Name (lp_data (fst pd))) (pr_Image (lp_data (fst pd))) replicas (lp_Env (fst pd)) ports) i pd })
     [lo..hi - 1]"

fun stop_each :: "api_env \<Rightarrow> string list \<Rightarrow> unit api" where
  "stop_each e [] = State_Monad.return ()"
| "stop_each e (vid # vids) = do {
     r \<leftarrow> api_GetVM e vid;
     (case r of Some vm \<Rightarrow> do { run_vmm e (Call_Stop vm); stop_each e vids } | None \<Rightarrow> stop_each e vids) }"

fun delete_each :: "api_env \<Rightarrow> string list \<Rightarrow> unit api" where
  "delete_each e [] = State_Monad.return ()"
| "delete_each e (vid # vids) = do {
     r \<leftarrow> api_GetVM e vid;
     (case r of Some vm \<Rightarrow> do { run_vmm e (Call_Delete vm); delete_each e vids } | None \<Rightarrow> delete_each e vids) }"

text \<open>Growing or shrinking the pool of \<open>proj\<close> to \<open>n\<close> replicas, as two handlers do it.\<close>

definition resize_pool :: "api_env \<Rightarrow> int \<Rightarrow> live_project \<Rightarrow> live_project api" where
  "resize_pool e n proj =
     (let cur = int (length (pr_VMIDs (lp_data proj)))
      in if n > cur then do { pd \<leftarrow> grow e 1 cur n (proj, None); State_Monad.return (fst pd) }
         else if n < cur then do {
           stop_each e (rev (drop (nat n) (pr_VMIDs (lp_data proj))));
           State_Monad.return (proj\<lparr>lp_data := (lp_data proj)\<lparr>pr_VMIDs := take (nat n) (pr_VMIDs (lp_data proj))\<rparr>\<rparr>) }
         else State_Monad.return proj)"

definition handleScale :: "api_env \<Rightarrow> string \<Rightarrow> (string, int) result \<Rightarrow> response api" where
  "handleScale e projID body = (case body of
      Inl err \<Rightarrow> State_Monad.return (writeError e 400 (''bad request: '' @ err))
    | Inr replicas \<Rightarrow> do {
        r \<leftarrow> api_GetProject e projID;
        (case r of
           None \<Rightarrow> State_Monad.return (writeError e 404 ''project not found'')
         | Some proj \<Rightarrow> (let n = max 0 replicas in do {
             proj \<leftarrow> resize_pool e n proj;
             (let proj = proj\<lparr>lp_data := (lp_data proj)\<lparr>pr_ReplicasDesired := n\<rparr>\<rparr>;
                  cur = JNum (of_nat (length (pr_VMIDs (lp_data proj))))
              in do {
                api_PutProject e proj;
                api_Broadcast ''pool.updated''
                  [(''project_id'', JStr (pr_ID (lp_data proj))), (''desired'', JNum (of_int n)), (''current'', cur)];
                State_Monad.return (writeJSON 200 (RJson (JObj [(''desired'', JNum (of_int n)), (''current'', cur)]))) }) })) })"

text \<open>The per-service route takes the ports before it starts to boot; no port is read in between.\<close>

definition handleScaleService :: "api_env \<Rightarrow> string \<Rightarrow> string \<Rightarrow> (string, int) result \<Rightarrow> response api" where
  "handleScaleService e projID service body = (case body of
      Inl err \<Rightarrow> State_Monad.return (writeError e 400 (''bad request: '' @ err))
    | Inr n \<Rightarrow> do {
        r \<leftarrow> api_GetProject e projID;
        (case r of
           None \<Rightarrow> State_Monad.return (writeError e 404 ''project not found'')
         | Some proj \<Rightarrow>
             if n < 0 then State_Monad.return (writeError e 400 ''replicas must be >= 0'')
             else do {
               ports \<leftarrow> projPorts e proj;
               proj \<leftarrow> (let cur = int (length (pr_VMIDs (lp_data proj)));
                          spec = pool_req (pr_Name (lp_data proj)) (pr_Image (lp_data proj)) 1 (lp_Env proj) ports
                      in if n > cur then do { pd \<leftarrow> boot_range e spec cur n (proj, None); State_Monad.return (fst pd) }
                         else resize_pool e n proj);
               (let proj = proj\<lparr>lp_data := (lp_data proj)\<lparr>pr_ReplicasDesired := n, pr_Replicas := n\<rparr>\<rparr> in do {
                  api_PutProject e proj;
                  api_AppendDaemonLog (''service '' @ pr_Name (lp_data proj) @ '' scaled to '' @ Itoa n @ '' replica(s)'');
                  State_Monad.return (writeJSON 200 (RJson (JObj [(''service'', JStr service), (''desired'', JNum (of_int n)),
                    (''current'', JNum (of_nat (length (pr_VMIDs (lp_data proj))))), (''status'', JStr ''applied'')]))) }) }) })"

definition handleRedeployProject :: "api_env \<Rightarrow> string \<Rightarrow> response api" where
  "handleRedeployProject e projID = do {
     r \<leftarrow> api_GetProject e projID;
     (case r of
        None \<Rightarrow> State_Monad.return (writeError e 404 ''project not found'')
      | Some proj \<Rightarrow> do {
          delete_each e (pr_VMIDs (lp_data proj));
          api_DeleteReplicasByProject e (pr_ID (lp_data proj));
          (let proj = proj\<lparr>lp_data := (lp_data proj)\<lparr>pr_VMIDs := []\<rparr>\<rparr>;
               n = pr_ReplicasDesired (lp_data proj)
           in do {
             pd \<leftarrow> grow e n 0 n (proj, None);
             api_PutProject e (fst pd);
             p \<leftarrow> live_reply (fst pd);
             State_Monad.return (writeJSON 202 (RObj [(''status'', RJson (JStr ''redeploying'')), (''project'', p)])) }) }) }"

definition handleDeleteProject :: "api_env \<Rightarrow> string \<Rightarrow> response api" where
  "handleDeleteProject e projID = do {
     r \<leftarrow> api_GetProject e projID;
     (case r of Some proj \<Rightarrow> delete_each e (pr_VMIDs (lp_data proj)) | None \<Rightarrow> State_Monad.return ());
     api_DeleteProject e projID;
     api_AppendDaemonLog (''project '' @ projID @ '' deleted'');
     State_Monad.return (writeJSON 200 (RJson (JObj [(''status'', JStr ''deleted'')]))) }"

subsection \<open>Replica actions\<close>

definition idxFilterAt :: "int \<Rightarrow> (int \<Rightarrow> bool) option" where
  "idxFilterAt idx = (if idx < 0 then None else Some (\<lambda>i. i = idx))"

definition vmm_action :: "api_env \<Rightarrow> string \<Rightarrow> VM \<Rightarrow> string option api" where
  "vmm_action e state vm =
     (if state = ''stop'' then run_vmm e (Call_Stop vm)
      else if state = ''start'' then run_vmm e (Call_Boot vm)
      else if state = ''restart'' then run_vmm e (Call_Restart vm)
      else State_Monad.return (Some (''unsupported replica action '' @ ae_quote e state)))"

fun mutate_each :: "api_env \<Rightarrow> (int \<Rightarrow> bool) option \<Rightarrow> string \<Rightarrow> int \<Rightarrow> string list \<Rightarrow> int \<times> string list \<Rightarrow> (int \<times> string list) api" where
  "mutate_each e filt state i [] acc = State_Monad.return acc"
| "mutate_each e filt state i (vmID # ids) (n, failures) =
     (if (case filt of Some f \<Rightarrow> \<not> f i | None \<Rightarrow> False) then mutate_each e filt state (i + 1) ids (n, failures)
      else do {
        r \<leftarrow> api_GetVM e vmID;
        (case r of
           None \<Rightarrow> mutate_each e filt state (i + 1) ids (n, failures @ [vmID @ '': replica not found''])
         | Some vm \<Rightarrow> do {
             err \<leftarrow> vmm_action e state vm;
             (case err of
                Some er \<Rightarrow> mutate_each e filt state (i + 1) ids (n, failures @ [vmID @ '': '' @ er])
              | None \<Rightarrow> mutate_each e filt state (i + 1) ids (n + 1, failures)) }) })"

definition mutateReplicas :: "api_env \<Rightarrow> string \<Rightarrow> (int \<Rightarrow> bool) option \<Rightarrow> string \<Rightarrow> (int \<times> string list) api" where
  "mutateReplicas e projID idxFilter state = do {
     r \<leftarrow> api_GetProject e projID;
     (case r of
        None \<Rightarrow> State_Monad.return (0, [''project not found''])
      | Some proj \<Rightarrow> mutate_each e idxFilter state 0 (pr_VMIDs (lp_data proj)) (0, [])) }"

text \<open>The answer of the batch routes (a count) and of the single routes (whether exactly one was changed).\<close>

definition batch_reply :: "int \<Rightarrow> string \<Rightarrow> int \<times> string list \<Rightarrow> response" where
  "batch_reply okStatus field r = (case r of (n, failures) \<Rightarrow>
     writeJSON (if length failures > 0 \<and> n = 0 then 409 else okStatus)
       (RJson (JObj [(field, JNum (of_int n)), (''failed'', JArr (map JStr failures))])))"

definition single_reply :: "int \<Rightarrow> string \<Rightarrow> int \<times> string list \<Rightarrow> response" where
  "single_reply okStatus field r = (case r of (n, failures) \<Rightarrow>
     writeJSON (if length failures > 0 \<and> n = 0 then 409 else okStatus)
       (RJson (JObj [(field, JBool (n = 1)), (''failed'', JArr (map JStr failures))])))"

definition handleRestartProject :: "api_env \<Rightarrow> string \<Rightarrow> response api" where
  "handleRestartProject e projID = do {
     r \<leftarrow> mutateReplicas e projID None ''restart'';
     api_AppendDaemonLog (''project '' @ projID @ '' restarted'');
     State_Monad.return (batch_reply 200 ''restarted'' r) }"

definition handleReplicaBatchStart :: "api_env \<Rightarrow> string \<Rightarrow> response api" where
  "handleReplicaBatchStart e projID =
     do { r \<leftarrow> mutateReplicas e projID None ''start''; State_Monad.return (batch_reply 202 ''started'' r) }"

definition handleReplicaBatchStop :: "api_env \<Rightarrow> string \<Rightarrow> response api" where
  "handleReplicaBatchStop e projID =
     do { r \<leftarrow> mutateReplicas e projID None ''stop''; State_Monad.return (batch_reply 200 ''stopped'' r) }"

definition handleReplicaStart :: "api_env \<Rightarrow> string \<Rightarrow> int \<Rightarrow> response api" where
  "handleReplicaStart e projID idx =
     do { r \<leftarrow> mutateReplicas e projID (idxFilterAt idx) ''start''; State_Monad.return (single_reply 202 ''started'' r) }"

definition handleReplicaStop :: "api_env \<Rightarrow> string \<Rightarrow> int \<Rightarrow> response api" where
  "handleReplicaStop e projID idx =
     do { r \<leftarrow> mutateReplicas e projID (idxFilterAt idx) ''stop''; State_Monad.return (single_reply 200 ''stopped'' r) }"

definition handleReplicaRestart :: "api_env \<Rightarrow> string \<Rightarrow> int \<Rightarrow> response api" where
  "handleReplicaRestart e projID idx =
     do { r \<leftarrow> mutateReplicas e projID (idxFilterAt idx) ''restart''; State_Monad.return (single_reply 200 ''restarted'' r) }"

definition replicaActionByID :: "api_env \<Rightarrow> string \<Rightarrow> string \<Rightarrow> response api" where
  "replicaActionByID e vmID state = do {
     r \<leftarrow> api_GetVM e vmID;
     (case r of
        None \<Rightarrow> State_Monad.return (writeError e 404 ''replica not found'')
      | Some vm \<Rightarrow> do {
          m \<leftarrow> mutateReplicas e (vm_ProjectID vm) (idxFilterAt (vm_ReplicaIndex vm)) state;
          State_Monad.return (single_reply 202 (state @ ''ed'') m) }) }"

definition handleReplicaDelete :: "api_env \<Rightarrow> string \<Rightarrow> int \<Rightarrow> response api" where
  "handleReplicaDelete e projID idx = do {
     r \<leftarrow> api_GetProject e projID;
     (case r of
        None \<Rightarrow> State_Monad.return (writeError e 404 ''project not found'')
      | Some proj \<Rightarrow> (let ids = pr_VMIDs (lp_data proj) in
          if idx < 0 \<or> idx \<ge> int (length ids) then State_Monad.return (writeError e 404 ''replica not found'')
          else do {
            delete_each e [ids ! nat idx];
            api_PutProject e (proj\<lparr>lp_data := (lp_data proj)\<lparr>pr_VMIDs := take (nat idx) ids @ drop (nat idx + 1) ids\<rparr>\<rparr>);
            State_Monad.return (writeJSON 200 (RJson (JObj [(''status'', JStr ''deleted'')]))) })) }"

definition handleVMCompatDelete :: "api_env \<Rightarrow> string \<Rightarrow> response api" where
  "handleVMCompatDelete e vmID = do {
     r \<leftarrow> api_GetVM e vmID;
     (case r of
        None \<Rightarrow> State_Monad.return (writeError e 404 ''replica not found'')
      | Some vm \<Rightarrow> do {
          (if ae_hasRunner e then do { run_vmm e (Call_Delete vm); State_Monad.return () } else State_Monad.return ());
          api_DeleteVM e (vm_ID vm);
          p \<leftarrow> api_GetProject e (vm_ProjectID vm);
          (case p of
             Some proj \<Rightarrow> api_PutProject e (proj\<lparr>lp_data := (lp_data proj)\<lparr>pr_VMIDs :=
                 filter (\<lambda>i. i \<noteq> vm_ID vm) (pr_VMIDs (lp_data proj))\<rparr>\<rparr>)
           | None \<Rightarrow> State_Monad.return ());
          State_Monad.return (writeJSON 200 (RJson (JObj [(''status'', JStr ''deleted'')]))) }) }"

subsection \<open>Deployments\<close>

record deployment_body =
  db_Image :: string
  db_Env :: "smap option"
  db_Tag :: string
  db_Commit :: string
  db_GitURL :: string
  db_Rollout :: string
  db_TrafficP :: int
  db_Replicas :: int
  db_GuestBase :: string

definition currentRollout :: "Deployment list \<Rightarrow> string" where
  "currentRollout ds = (if length ds = 0 then [] else dep_ID (ds ! (length ds - 1)))"

definition deployment_preview :: "api_env \<Rightarrow> string \<Rightarrow> string \<Rightarrow> string" where
  "deployment_preview e tag name =
     (if ae_baseDomain e \<noteq> [] then tag @ ''.'' @ name @ ''.preview.'' @ ae_baseDomain e
      else ''http://'' @ tag @ ''-'' @ name @ ''.preview.local'')"

definition previewURL :: "string \<Rightarrow> string \<Rightarrow> string \<Rightarrow> string" where
  "previewURL i project baseDomain =
     (let short = (if length i > 8 then take 8 i else i)
      in if baseDomain \<noteq> [] then short @ ''.'' @ project @ ''.preview.'' @ baseDomain
         else ''http://'' @ short @ ''.'' @ project @ ''.preview.local'')"

definition default_base :: "api_env \<Rightarrow> string" where
  "default_base e = (case ae_hostConfig e of
      Some cfg \<Rightarrow> if ho_GuestBaseDefault cfg \<noteq> [] then ho_GuestBaseDefault cfg else ''alpine''
    | None \<Rightarrow> ''alpine'')"

text \<open>The number of replicas a request asks for: its own, else the project's, at least one.\<close>

definition wanted_replicas :: "deployment_body \<Rightarrow> Project \<Rightarrow> int" where
  "wanted_replicas req proj =
     (if db_Replicas req < 1 then (if pr_ReplicasDesired proj < 1 then 1 else pr_ReplicasDesired proj) else db_Replicas req)"

definition new_deployment :: "api_env \<Rightarrow> deployment_body \<Rightarrow> string \<Rightarrow> string \<Rightarrow> string \<Rightarrow> Deployment api" where
  "new_deployment e req tag base projID = do {
     i \<leftarrow> api_NewID e;
     ds \<leftarrow> api_ListDeployments e projID;
     ds' \<leftarrow> api_ListDeployments e projID;
     now \<leftarrow> api_Now e;
     State_Monad.return \<lparr>dep_ID = i, dep_ProjectID = projID, dep_Revision = int (length ds) + 1, dep_VersionLabel = tag,
       dep_GuestBase = base, dep_Environment = ''preview'', dep_IsProduction = False, dep_RouteWeight = db_TrafficP req,
       dep_VMIDs = [], dep_GitURL = db_GitURL req, dep_GitCommit = db_Commit req, dep_BuildStatus = ''preview'',
       dep_ImageDigest = db_Image req, dep_RollbackTo = currentRollout ds', dep_Checks = [],
       dep_RolloutPercent = db_TrafficP req, dep_CreatedAt = now\<rparr> }"

text \<open>From the created row on: the image check, the pool of the deployment, the final status.\<close>

definition fill_deployment :: "api_env \<Rightarrow> deployment_body \<Rightarrow> string \<Rightarrow> live_project \<Rightarrow> Deployment \<Rightarrow> response api" where
  "fill_deployment e req tag proj d = do {
     env \<leftarrow> (case db_Env req of None \<Rightarrow> State_Monad.return None | Some m \<Rightarrow> do { a \<leftarrow> new_map m; State_Monad.return (Some a) });
     ports \<leftarrow> projPorts e proj;
     (let name = pr_Name (lp_data proj);
          img = (if db_Image req = [] then pr_Image (lp_data proj) else db_Image req);
          n = wanted_replicas req (lp_data proj);
          preview = deployment_preview e tag name
      in do {
        known \<leftarrow> knownDirectImage e img;
        (if \<not> known then do {
           api_CreateDeployment e (d\<lparr>dep_BuildStatus := ''failed''\<rparr>);
           State_Monad.return (writeError e 422 ''deployment image is not a registered direct Firecracker image'') }
         else do {
           pd \<leftarrow> boot_range e (pool_req (name @ ''-'' @ tag) img n env ports) 0 n (proj, Some d);
           (let d = (case snd pd of Some d \<Rightarrow> d | None \<Rightarrow> d)\<lparr>dep_BuildStatus := ''ready''\<rparr> in do {
              r \<leftarrow> api_CreateDeployment e d;
              (let d = snd r in do {
                 api_AppendBuildLog e (pr_ID (lp_data (fst pd))) (''deployment '' @ tag @ '' (rev '' @ Itoa (dep_Revision d) @ '', '' @ img @
                   '') '' @ [CHR 0xE2, CHR 0x86, CHR 0x92] @ '' preview at '' @ preview);
                 api_AppendDaemonLog (''project '' @ name @ '' deployment rev '' @ Itoa (dep_Revision d) @ '' ready; preview '' @ preview);
                 api_Broadcast ''deployment.created''
                   [(''id'', JStr (dep_ID d)), (''preview'', JStr preview), (''image'', JStr (db_Image req))];
                 State_Monad.return (writeJSON 202 (RObj [(''deployment'', RDeployment d),
                   (''preview_url'', RJson (JStr preview)), (''status'', RJson (JStr ''preview''))])) }) }) }) }) }"

definition handleCreateDeployment :: "api_env \<Rightarrow> string \<Rightarrow> (string, deployment_body) result \<Rightarrow> response api" where
  "handleCreateDeployment e projID body = (case body of
      Inl err \<Rightarrow> State_Monad.return (writeError e 400 (''bad request: '' @ err))
    | Inr req \<Rightarrow> do {
        r \<leftarrow> api_GetProject e projID;
        (case r of
           None \<Rightarrow> State_Monad.return (writeError e 404 ''project not found'')
         | Some proj \<Rightarrow>
             if db_TrafficP req < 0 \<or> db_TrafficP req > 100
             then State_Monad.return (writeError e 400 ''traffic_pct must be between 0 and 100'')
             else do {
               tag \<leftarrow> (if db_Tag req = [] then do { n \<leftarrow> tick; State_Monad.return (''rev-'' @ ToLower (ae_hex e n)) }
                      else State_Monad.return (db_Tag req));
               (case ResolveGuestBase (db_GuestBase req) (default_base e) [] of
                  Inl err \<Rightarrow> State_Monad.return (writeError e 400 (ae_base_text e err))
                | Inr base \<Rightarrow> do {
                    d \<leftarrow> new_deployment e req tag (gb_Reference base) (pr_ID (lp_data proj));
                    r \<leftarrow> api_CreateDeployment e d;
                    (if \<not> fst r then State_Monad.return (writeError e 500 (ae_db_text e))
                     else fill_deployment e req tag proj (snd r)) }) }) })"

definition check_json :: "DeploymentCheck \<Rightarrow> json" where
  "check_json c = JObj [(''name'', JStr (dc_Name c)), (''status'', JStr (dc_Status c)), (''detail'', JStr (dc_Detail c))]"

definition checks_reply :: "Deployment \<Rightarrow> response" where
  "checks_reply d = writeJSON 200 (RJson (JObj [(''deployment'', JStr (dep_ID d)), (''checks'', JArr (map check_json (dep_Checks d))),
     (''all_passed'', JBool (AllChecksPassed d)), (''rollout_pct'', JNum (of_int (dep_RolloutPercent d)))]))"

text \<open>
  The routes below share their beginning: the project and the deployment must exist. The body is decoded
  after that.
\<close>

definition with_deployment :: "api_env \<Rightarrow> string \<Rightarrow> string \<Rightarrow> (Deployment \<Rightarrow> response api) \<Rightarrow> response api" where
  "with_deployment e projID deployID f = do {
     r \<leftarrow> api_GetProject e projID;
     (case r of
        None \<Rightarrow> State_Monad.return (writeError e 404 ''project not found'')
      | Some proj \<Rightarrow> do {
          x \<leftarrow> api_GetDeployment e (pr_ID (lp_data proj)) deployID;
          (case x of
             None \<Rightarrow> State_Monad.return (writeError e 404 ''deployment not found'')
           | Some d \<Rightarrow> f d) }) }"

definition handleGetDeploymentChecks :: "api_env \<Rightarrow> string \<Rightarrow> string \<Rightarrow> response api" where
  "handleGetDeploymentChecks e projID deployID =
     with_deployment e projID deployID (\<lambda>d. State_Monad.return (checks_reply d))"

definition handleUpsertDeploymentChecks ::
    "api_env \<Rightarrow> string \<Rightarrow> string \<Rightarrow> (string, DeploymentCheck list) result \<Rightarrow> response api" where
  "handleUpsertDeploymentChecks e projID deployID body = with_deployment e projID deployID (\<lambda>d. (case body of
      Inl err \<Rightarrow> State_Monad.return (writeError e 400 (''bad request: '' @ err))
    | Inr checks \<Rightarrow> do {
        r \<leftarrow> api_CreateDeployment e (d\<lparr>dep_Checks := checks\<rparr>);
        State_Monad.return (if \<not> fst r then writeError e 500 (ae_db_text e) else checks_reply (snd r)) }))"

text \<open>The first check of that name; \<open>None\<close> when there is none.\<close>

fun set_check :: "string \<Rightarrow> string \<Rightarrow> string \<Rightarrow> DeploymentCheck list \<Rightarrow> DeploymentCheck list option" where
  "set_check name status detail [] = None"
| "set_check name status detail (c # cs) =
     (if dc_Name c = name then Some (c\<lparr>dc_Status := status, dc_Detail := detail\<rparr> # cs)
      else map_option (Cons c) (set_check name status detail cs))"

definition handleSetDeploymentCheck ::
    "api_env \<Rightarrow> string \<Rightarrow> string \<Rightarrow> string \<Rightarrow> (string, string \<times> string) result \<Rightarrow> response api" where
  "handleSetDeploymentCheck e projID deployID name body = with_deployment e projID deployID (\<lambda>d. (case body of
      Inl err \<Rightarrow> State_Monad.return (writeError e 400 (''bad request: '' @ err))
    | Inr (status, detail) \<Rightarrow> (case set_check name status detail (dep_Checks d) of
        None \<Rightarrow> State_Monad.return (writeError e 404 (''check not found: '' @ name))
      | Some checks \<Rightarrow> do {
          r \<leftarrow> api_CreateDeployment e (d\<lparr>dep_Checks := checks\<rparr>);
          State_Monad.return (if \<not> fst r then writeError e 500 (ae_db_text e)
            else writeJSON 200 (RJson (JObj [(''deployment'', JStr (dep_ID d)), (''check'', JStr name), (''status'', JStr status),
                   (''all_passed'', JBool (AllChecksPassed (snd r)))]))) })))"

definition handleSetDeploymentRollout :: "api_env \<Rightarrow> string \<Rightarrow> string \<Rightarrow> (string, int) result \<Rightarrow> response api" where
  "handleSetDeploymentRollout e projID deployID body = with_deployment e projID deployID (\<lambda>d. (case body of
      Inl err \<Rightarrow> State_Monad.return (writeError e 400 (''bad request: '' @ err))
    | Inr percent \<Rightarrow>
        if percent < 0 \<or> percent > 100 then State_Monad.return (writeError e 400 ''percent must be 0-100'')
        else do {
          r \<leftarrow> api_CreateDeployment e (d\<lparr>dep_RolloutPercent := percent\<rparr>);
          State_Monad.return (if \<not> fst r then writeError e 500 (ae_db_text e)
            else writeJSON 200 (RJson (JObj [(''deployment'', JStr (dep_ID d)),
                   (''rollout_pct'', JNum (of_int (dep_RolloutPercent (snd r))))]))) }))"

definition promoted_row :: "string \<Rightarrow> Deployment \<Rightarrow> Deployment" where
  "promoted_row target d0 =
     (let d = d0\<lparr>dep_IsProduction := (dep_ID d0 = target)\<rparr>
      in if dep_ID d = target then
           d\<lparr>dep_Environment := ''production'', dep_RouteWeight := 100, dep_RolloutPercent := 100, dep_BuildStatus := ''live''\<rparr>
         else if dep_IsProduction d then d\<lparr>dep_RouteWeight := 0, dep_IsProduction := False\<rparr>
         else d)"

fun write_rows :: "api_env \<Rightarrow> string \<Rightarrow> Deployment list \<Rightarrow> unit api" where
  "write_rows e target [] = State_Monad.return ()"
| "write_rows e target (d # ds) = do { api_CreateDeployment e (promoted_row target d); write_rows e target ds }"

fun drop_each :: "api_env \<Rightarrow> string list \<Rightarrow> unit api" where
  "drop_each e [] = State_Monad.return ()"
| "drop_each e (vid # vids) = do { api_DeleteVM e vid; drop_each e vids }"

text \<open>The body of the promotion once the target is found and its checks have passed.\<close>

definition promote :: "api_env \<Rightarrow> bool \<Rightarrow> live_project \<Rightarrow> Deployment \<Rightarrow> response api" where
  "promote e keepOld proj target =
     (let old = pr_VMIDs (lp_data proj);
          img = (if dep_GitURL target \<noteq> [] \<and> dep_ImageDigest target = [] then dep_GitURL target else dep_ImageDigest target);
          proj = proj\<lparr>lp_data := (lp_data proj)\<lparr>pr_Image := img\<rparr>\<rparr>;
          n = pr_ReplicasDesired (lp_data proj)
      in do {
        pd \<leftarrow> (if length (dep_VMIDs target) = 0 then do {
                 ports \<leftarrow> projPorts e proj;
                 boot_range e (pool_req (pr_Name (lp_data proj) @ ''-'' @ dep_VersionLabel target) img n (lp_Env proj) ports)
                   0 n (proj, Some target) }
               else State_Monad.return (proj, Some target));
        (let target = (case snd pd of Some d \<Rightarrow> d | None \<Rightarrow> target);
             proj = (fst pd)\<lparr>lp_data := (lp_data (fst pd))\<lparr>pr_VMIDs := dep_VMIDs target\<rparr>\<rparr>
         in do {
           ds \<leftarrow> api_ListDeployments e (pr_ID (lp_data proj));
           write_rows e (dep_ID target) ds;
           (if keepOld then State_Monad.return () else do { stop_each e old; drop_each e old });
           api_PutProject e proj;
           api_CreateDeployment e (target\<lparr>dep_BuildStatus := ''live'', dep_IsProduction := True,
             dep_Environment := ''production'', dep_RouteWeight := 100, dep_RolloutPercent := 100\<rparr>);
           api_AppendDaemonLog (''project '' @ pr_Name (lp_data proj) @ '' promoted deployment '' @ dep_ID target @ '' (image '' @
             pr_Image (lp_data proj) @ ''); '' @ Itoa (int (length (pr_VMIDs (lp_data proj)))) @ '' replica(s) live'');
           api_Broadcast ''deployment.promoted'' [(''id'', JStr (dep_ID target)), (''image'', JStr (pr_Image (lp_data proj)))];
           State_Monad.return (writeJSON 200 (RJson (JObj [(''status'', JStr ''promoted''), (''deployment'', JStr (dep_ID target)),
             (''preview'', JStr (previewURL (dep_ID target) (pr_Name (lp_data proj)) (ae_baseDomain e)))]))) }) })"

definition handlePromoteDeployment :: "api_env \<Rightarrow> string \<Rightarrow> string \<Rightarrow> bool \<Rightarrow> response api" where
  "handlePromoteDeployment e projID target keepOld = do {
     r \<leftarrow> api_GetProject e projID;
     (case r of
        None \<Rightarrow> State_Monad.return (writeError e 404 ''project not found'')
      | Some proj \<Rightarrow> do {
          ds \<leftarrow> api_ListDeployments e (pr_ID (lp_data proj));
          (case find (\<lambda>d. dep_ID d = target) ds of
             None \<Rightarrow> State_Monad.return (writeError e 404 ''deployment not found or has no image'')
           | Some d \<Rightarrow>
               if dep_ImageDigest d = [] then State_Monad.return (writeError e 404 ''deployment not found or has no image'')
               else if \<not> AllChecksPassed d then State_Monad.return (writeError e 409
                 ''deployment has pending/failed checks; complete checks before promoting'')
               else promote e keepOld proj d) }) }"

fun rollback_from :: "Deployment list \<Rightarrow> Deployment list \<Rightarrow> string \<Rightarrow> Deployment option" where
  "rollback_from deps [] i = None"
| "rollback_from deps (d # rest) i =
     (if dep_ID d \<noteq> i then rollback_from deps rest i
      else case (if dep_RollbackTo d \<noteq> [] then find (\<lambda>p. dep_ID p = dep_RollbackTo d) deps else None) of
             Some p \<Rightarrow> Some p
           | None \<Rightarrow> (case rest of [] \<Rightarrow> None | p # _ \<Rightarrow> Some p))"

definition rollbackOf :: "Deployment list \<Rightarrow> string \<Rightarrow> Deployment option" where
  "rollbackOf deps i = rollback_from deps deps i"

definition handleRollbackDeployment :: "api_env \<Rightarrow> string \<Rightarrow> string \<Rightarrow> response api" where
  "handleRollbackDeployment e projID deployID = do {
     r \<leftarrow> api_GetProject e projID;
     (case r of
        None \<Rightarrow> State_Monad.return (writeError e 404 ''project not found'')
      | Some proj \<Rightarrow> do {
          ds \<leftarrow> api_ListDeployments e (pr_ID (lp_data proj));
          (case rollbackOf ds deployID of
             None \<Rightarrow> State_Monad.return (writeError e 404 ''no rollback target for this deployment'')
           | Some target \<Rightarrow>
               (let proj = proj\<lparr>lp_data := (lp_data proj)\<lparr>pr_Image := dep_ImageDigest target, pr_VMIDs := []\<rparr>\<rparr>;
                    n = pr_ReplicasDesired (lp_data proj)
                in do {
                  api_DeleteReplicasByProject e (pr_ID (lp_data proj));
                  ports \<leftarrow> projPorts e proj;
                  pd \<leftarrow> boot_range e (pool_req (pr_Name (lp_data proj)) (pr_Image (lp_data proj)) n (lp_Env proj) ports) 0 n (proj, None);
                  api_PutProject e (fst pd);
                  api_AppendDaemonLog (''project '' @ pr_Name (lp_data proj) @ '' rolled back to deployment '' @ dep_ID target);
                  State_Monad.return (writeJSON 200 (RJson (JObj [(''status'', JStr ''rolled back''), (''deployment'', JStr (dep_ID target))]))) })) }) }"

fun release_each :: "api_env \<Rightarrow> string list \<Rightarrow> (string \<times> string) option api" where
  "release_each e [] = State_Monad.return None"
| "release_each e (vmID # ids) = do {
     r \<leftarrow> api_GetVM e vmID;
     (case r of
        None \<Rightarrow> release_each e ids
      | Some vm \<Rightarrow> do {
          err \<leftarrow> (if ae_hasRunner e then run_vmm e (Call_Stop vm) else State_Monad.return None);
          (case err of
             Some er \<Rightarrow> State_Monad.return (Some (vmID, er))
           | None \<Rightarrow> do { api_DeleteVM e vmID; release_each e ids }) }) }"

definition handleDeleteDeployment :: "api_env \<Rightarrow> string \<Rightarrow> string \<Rightarrow> response api" where
  "handleDeleteDeployment e projID deployID = do {
     x \<leftarrow> api_GetDeployment e projID deployID;
     (case x of
        None \<Rightarrow> State_Monad.return (writeError e 404 ''deployment not found'')
      | Some d \<Rightarrow>
          if dep_IsProduction d \<or> dep_Environment d = ''production'' then
            State_Monad.return (writeError e 409 ''cannot delete the production deployment; promote another version first'')
          else do {
            err \<leftarrow> release_each e (dep_VMIDs d);
            (case err of
               Some (vmID, er) \<Rightarrow> State_Monad.return (writeError e 409 (''stop deployment VM '' @ vmID @ '': '' @ er))
             | None \<Rightarrow> do {
                 ok \<leftarrow> api_DeleteDeployment e projID (dep_ID d);
                 (if \<not> ok then State_Monad.return (writeError e 500 (ae_db_text e))
                  else do {
                    api_AppendDaemonLog (''deployment '' @ dep_VersionLabel d @ '' removed from project '' @ projID);
                    State_Monad.return (writeJSON 200 (RJson (JObj [(''status'', JStr ''deleted''), (''deployment'', JStr (dep_ID d)),
                      (''tag'', JStr (dep_VersionLabel d))]))) }) }) }) }"

subsection \<open>Project settings\<close>

record project_patch =
  pp_Tags :: "string list option"
  pp_HostMountPath :: string
  pp_ReplicasDesired :: int
  pp_RestartPolicy :: string
  pp_Healthcheck :: "Healthcheck option"
  pp_Env :: "smap option"
  pp_SSHEnabled :: "bool option"

definition put_all_vars :: "smap \<Rightarrow> smap \<Rightarrow> smap" where
  "put_all_vars m new = fold (\<lambda>(k, v) m. AList.update k v m) new m"

text \<open>\<open>if proj.Env == nil { proj.Env = map[string]string{} }; for k, v := range new { proj.Env[k] = v }\<close>\<close>

definition merge_env :: "smap \<Rightarrow> live_project \<Rightarrow> live_project api" where
  "merge_env new proj = (case lp_Env proj of
      Some a \<Rightarrow> do { m \<leftarrow> read_map (Some a); write_map a (put_all_vars m new); State_Monad.return proj }
    | None \<Rightarrow> do { a \<leftarrow> new_map (put_all_vars [] new); State_Monad.return (proj\<lparr>lp_Env := Some a\<rparr>) })"

definition patch_fields :: "project_patch \<Rightarrow> Project \<Rightarrow> Project" where
  "patch_fields req p =
     p\<lparr>pr_Tags := (case pp_Tags req of Some t \<Rightarrow> t | None \<Rightarrow> pr_Tags p),
       pr_HostMountPath := default_to (pr_HostMountPath p) (pp_HostMountPath req),
       pr_ReplicasDesired := (if pp_ReplicasDesired req \<ge> 1 then pp_ReplicasDesired req else pr_ReplicasDesired p),
       pr_RestartPolicy := default_to (pr_RestartPolicy p) (pp_RestartPolicy req),
       pr_Healthcheck := (case pp_Healthcheck req of Some h \<Rightarrow> Some h | None \<Rightarrow> pr_Healthcheck p),
       pr_SSHEnabled := (case pp_SSHEnabled req of Some b \<Rightarrow> b | None \<Rightarrow> pr_SSHEnabled p)\<rparr>"

text \<open>\<open>checkIfMatch\<close>: \<open>ifMatch\<close> is the header, \<open>ae_etag\<close> the strong ETag of a project's JSON text.\<close>

definition checkIfMatch :: "api_env \<Rightarrow> string \<Rightarrow> Project \<Rightarrow> bool" where
  "checkIfMatch e ifMatch current =
     (let want = TrimSpace ifMatch
      in if want = [] \<or> want = ''*'' then True else ae_etag e current = want)"

definition handlePatchProject :: "api_env \<Rightarrow> string \<Rightarrow> string \<Rightarrow> (string, project_patch) result \<Rightarrow> response api" where
  "handlePatchProject e projID ifMatch body = do {
     r \<leftarrow> api_GetProject e projID;
     (case r of
        None \<Rightarrow> State_Monad.return (writeError e 404 ''project not found'')
      | Some proj \<Rightarrow>
          if \<not> checkIfMatch e ifMatch (lp_data proj) then
            State_Monad.return (writeError e 412 ''resource changed (ETag mismatch; refetch and retry)'')
          else case body of
            Inl err \<Rightarrow> State_Monad.return (writeError e 400 (''bad request: '' @ err))
          | Inr req \<Rightarrow> do {
              proj \<leftarrow> (case pp_Env req of None \<Rightarrow> State_Monad.return proj | Some new \<Rightarrow> merge_env new proj);
              (let proj = proj\<lparr>lp_data := patch_fields req (lp_data proj)\<rparr> in do {
                 api_PutProject e proj;
                 api_Broadcast ''project.updated'' [(''project_id'', JStr (pr_ID (lp_data proj)))];
                 p \<leftarrow> live_reply proj;
                 State_Monad.return (writeJSON 200 p) }) }) }"

definition handleSetEnv :: "api_env \<Rightarrow> string \<Rightarrow> (string, string \<times> string) result \<Rightarrow> response api" where
  "handleSetEnv e projID body = (case body of
      Inl err \<Rightarrow> State_Monad.return (writeError e 400 (''bad request: '' @ err))
    | Inr (key, val) \<Rightarrow>
        if key = [] then State_Monad.return (writeError e 400 ''key is required'')
        else do {
          r \<leftarrow> api_GetProject e projID;
          (case r of
             None \<Rightarrow> State_Monad.return (writeError e 404 ''project not found'')
           | Some proj \<Rightarrow> do {
               proj \<leftarrow> merge_env [(key, val)] proj;
               api_PutProject e proj;
               State_Monad.return (writeJSON 200 (RJson (JObj [(''key'', JStr key), (''value'', JStr val)]))) }) })"

definition handleSetEnvBulk :: "api_env \<Rightarrow> string \<Rightarrow> (string, smap) result \<Rightarrow> response api" where
  "handleSetEnvBulk e projID body = (case body of
      Inl err \<Rightarrow> State_Monad.return (writeError e 400 (''bad request: '' @ err))
    | Inr new \<Rightarrow> do {
        r \<leftarrow> api_GetProject e projID;
        (case r of
           None \<Rightarrow> State_Monad.return (writeError e 404 ''project not found'')
         | Some proj \<Rightarrow> do {
             proj \<leftarrow> merge_env new proj;
             api_PutProject e proj;
             State_Monad.return (writeJSON 200 (RJson (JObj [(''set'', JNum (of_nat (length new)))]))) }) })"

definition handlePatchEnv :: "api_env \<Rightarrow> string \<Rightarrow> string \<Rightarrow> (string, string) result \<Rightarrow> response api" where
  "handlePatchEnv e projID key body = (case body of
      Inl err \<Rightarrow> State_Monad.return (writeError e 400 (''bad request: '' @ err))
    | Inr val \<Rightarrow> do {
        r \<leftarrow> api_GetProject e projID;
        (case r of
           None \<Rightarrow> State_Monad.return (writeError e 404 ''project not found'')
         | Some proj \<Rightarrow> do {
             (if lp_Env proj = None then State_Monad.return ()
              else do { proj \<leftarrow> merge_env [(key, val)] proj; api_PutProject e proj });
             State_Monad.return (writeJSON 200 (RJson (JObj [(''key'', JStr key), (''value'', JStr val)]))) }) })"

definition handleDeleteEnv :: "api_env \<Rightarrow> string \<Rightarrow> string \<Rightarrow> response api" where
  "handleDeleteEnv e projID key = do {
     r \<leftarrow> api_GetProject e projID;
     (case r of
        None \<Rightarrow> State_Monad.return (writeError e 404 ''project not found'')
      | Some proj \<Rightarrow> do {
          (case lp_Env proj of None \<Rightarrow> State_Monad.return ()
           | Some a \<Rightarrow> do { m \<leftarrow> read_map (Some a); write_map a (AList.delete key m) });
          api_PutProject e proj;
          State_Monad.return (writeJSON 200 (RJson (JObj [(''status'', JStr ''deleted'')]))) }) }"

definition handlePutHealthcheck :: "api_env \<Rightarrow> string \<Rightarrow> (string, Healthcheck) result \<Rightarrow> response api" where
  "handlePutHealthcheck e projID body = (case body of
      Inl err \<Rightarrow> State_Monad.return (writeError e 400 (''bad request: '' @ err))
    | Inr hc \<Rightarrow> do {
        r \<leftarrow> api_GetProject e projID;
        (case r of
           None \<Rightarrow> State_Monad.return (writeError e 404 ''project not found'')
         | Some proj \<Rightarrow>
             (let hc = hc\<lparr>hc_Port := (if hc_Port hc \<le> 0 then 80 else hc_Port hc),
                          hc_IntervalSec := (if hc_IntervalSec hc \<le> 0 then 30 else hc_IntervalSec hc)\<rparr> in do {
                api_PutProject e (proj\<lparr>lp_data := (lp_data proj)\<lparr>pr_Healthcheck := Some hc\<rparr>\<rparr>);
                State_Monad.return (writeJSON 200 (RJson (JObj [(''type'', JStr (hc_Type hc)), (''path'', JStr (hc_Path hc)),
                  (''port'', JNum (of_int (hc_Port hc))), (''interval_sec'', JNum (of_int (hc_IntervalSec hc)))]))) })) })"

definition clamp_policy :: "AutoscalePolicy \<Rightarrow> AutoscalePolicy" where
  "clamp_policy p =
     (let p = (if as_MaxReplicas p \<le> 0 then p\<lparr>as_MaxReplicas := 3\<rparr> else p);
          p = (if as_MinReplicas p < 0 then p\<lparr>as_MinReplicas := 0\<rparr> else p);
          p = (if as_MinReplicas p \<ge> as_MaxReplicas p then p\<lparr>as_MinReplicas := as_MaxReplicas p - 1\<rparr> else p)
      in if as_TargetCPU p \<le> 0 then p\<lparr>as_TargetCPU := 80\<rparr> else p)"

definition policy_json :: "AutoscalePolicy \<Rightarrow> json" where
  "policy_json p = JObj [(''min_replicas'', JNum (of_int (as_MinReplicas p))), (''max_replicas'', JNum (of_int (as_MaxReplicas p))),
     (''target_cpu'', JNum (as_TargetCPU p)), (''scale_down_cpu'', JNum (as_ScaleDownCPU p)),
     (''cooldown_sec'', JNum (of_int (as_CooldownSec p))), (''enabled'', JBool (as_Enabled p))]"

definition handlePutAutoscale :: "api_env \<Rightarrow> string \<Rightarrow> (string, AutoscalePolicy) result \<Rightarrow> response api" where
  "handlePutAutoscale e projID body = (case body of
      Inl err \<Rightarrow> State_Monad.return (writeError e 400 (''bad request: '' @ err))
    | Inr p \<Rightarrow> do {
        r \<leftarrow> api_GetProject e projID;
        (case r of
           None \<Rightarrow> State_Monad.return (writeError e 404 ''project not found'')
         | Some proj \<Rightarrow> do {
             api_PutProject e (proj\<lparr>lp_data := (lp_data proj)\<lparr>pr_Autoscale := Some (clamp_policy p)\<rparr>\<rparr>);
             State_Monad.return (writeJSON 200 (RJson (policy_json (clamp_policy p)))) }) })"

subsection \<open>The autoscaler\<close>

text \<open>
  \<open>internal/autoscale\<close> with the two hooks \<open>StartAutoscaler\<close> gives it. \<open>aw_last\<close> is the scaler's map of the last
  scale event per project. 
\<close>

fun cpu_samples :: "api_env \<Rightarrow> string list \<Rightarrow> rat list \<Rightarrow> rat list api" where
  "cpu_samples e [] acc = State_Monad.return acc"
| "cpu_samples e (vid # vids) acc = do {
     n \<leftarrow> tick; w \<leftarrow> State_Monad.get;
     cpu_samples e vids (acc @ map ms_Value (filter (\<lambda>m. ms_Metric m = ''cpu_percent'')
       (ListMetrics (ae_db e n) vid 3 (aw_metrics w)))) }"

definition avgCPU :: "api_env \<Rightarrow> Project \<Rightarrow> rat api" where
  "avgCPU e proj = do {
     xs \<leftarrow> cpu_samples e (pr_VMIDs proj) [];
     State_Monad.return (if length xs = 0 then 0 else sum_list xs / of_nat (length xs)) }"

definition cooldown :: "int \<Rightarrow> int" where
  "cooldown sec = (if sec \<le> 0 then 60 * 1000000000 else wrap64 (sec * 1000000000))"

definition scaler_scale :: "api_env \<Rightarrow> live_project \<Rightarrow> int \<Rightarrow> unit api" where
  "scaler_scale e proj target = do {
     proj \<leftarrow> resize_pool e target proj;
     (let proj = proj\<lparr>lp_data := (lp_data proj)\<lparr>pr_ReplicasDesired := target\<rparr>\<rparr> in do {
        api_PutProject e proj;
        now \<leftarrow> api_Now e;
        update (\<lambda>w. w\<lparr>aw_last := (aw_last w)(pr_ID (lp_data proj) \<mapsto> now)\<rparr>);
        avgCPU e (lp_data proj);
        State_Monad.return () }) }"

definition scale_target :: "AutoscalePolicy \<Rightarrow> rat \<Rightarrow> int \<Rightarrow> int option" where
  "scale_target p cpu cur =
     (if cur < as_MinReplicas p then Some (as_MinReplicas p)
      else if cpu > as_TargetCPU p \<and> cur < as_MaxReplicas p then Some (cur + 1)
      else if as_ScaleDownCPU p > 0 \<and> cpu < as_ScaleDownCPU p \<and> cur > as_MinReplicas p then Some (cur - 1)
      else None)"

text \<open>\<open>time.Since(t) < cooldown(...)\<close>; the clock is read only when there was a scale event.\<close>

definition cooling :: "api_env \<Rightarrow> string \<Rightarrow> AutoscalePolicy \<Rightarrow> bool api" where
  "cooling e i p = do {
     w \<leftarrow> State_Monad.get;
     (case aw_last w i of
        None \<Rightarrow> State_Monad.return False
      | Some t \<Rightarrow> do { now \<leftarrow> api_Now e; State_Monad.return (now - t < cooldown (as_CooldownSec p)) }) }"

definition scaler_project :: "api_env \<Rightarrow> Project \<Rightarrow> unit api" where
  "scaler_project e proj = (case pr_Autoscale proj of
      None \<Rightarrow> State_Monad.return ()
    | Some p \<Rightarrow>
        if \<not> as_Enabled p \<or> as_MaxReplicas p \<le> 0 \<or> as_MaxReplicas p \<le> as_MinReplicas p then State_Monad.return ()
        else do {
          hot \<leftarrow> cooling e (pr_ID proj) p;
          (if hot then State_Monad.return ()
           else do {
             cpu \<leftarrow> avgCPU e proj;
             (case scale_target p cpu (int (length (pr_VMIDs proj))) of
                None \<Rightarrow> State_Monad.return ()
              | Some target \<Rightarrow> do { lp \<leftarrow> load_project proj; scaler_scale e lp target }) }) })"

definition scaler_reconcile :: "api_env \<Rightarrow> unit api" where
  "scaler_reconcile e = do {
     n \<leftarrow> tick; w \<leftarrow> State_Monad.get;
     foldS (\<lambda>p _. scaler_project e p) (ListProjects (ae_db e n) (aw_projects w)) () }"

end
