(* ===== verification/Pool_Laws.thy ===== *)
theory Pool_Laws
  imports Replica_Pool
begin

text \<open>
  The laws of the replica pool. The handlers of \<open>Replica_Pool\<close> thread a world of tables, a heap of environment
  maps and a runner through many calls; the lemmas here say what each of them leaves of that world, as equations
  of \<open>run_state\<close>: booting one replica (\<open>bootReplica_run\<close>), growing a pool (\<open>grow_run\<close>, \<open>scale_up_run\<close>),
  filling a deployment (\<open>fill_deployment_taken\<close>) and promoting one (\<open>promote_run\<close>).
\<close>

subsection \<open>Lemmas: what one boot does\<close>

text \<open>Reading a map reference in a heap.\<close>

definition vars_of :: "(nat \<Rightarrow> smap) \<Rightarrow> map_ref \<Rightarrow> smap" where
  "vars_of m r = (case r of None \<Rightarrow> [] | Some a \<Rightarrow> m a)"

lemma vars_of_simps [simp]: "vars_of m None = []" "vars_of m (Some a) = m a"
  by (simp_all add: vars_of_def)

lemma run_steps [simp]:
  "run_state (update f) w = ((), f w)"
  "run_state tick w = (aw_step w, w\<lparr>aw_step := Suc (aw_step w)\<rparr>)"
  "run_state (new_map m) w = (aw_next w, w\<lparr>aw_maps := (aw_maps w)(aw_next w := m), aw_next := Suc (aw_next w)\<rparr>)"
  "run_state (read_map r) w = (vars_of (aw_maps w) r, w)"
  "run_state (write_map a m) w = ((), w\<lparr>aw_maps := (aw_maps w)(a := m)\<rparr>)"
  by (simp_all add: update_def tick_def new_map_def read_map_def write_map_def vars_of_def)

text \<open>The variables a replica boots with and the replica with the paths of its image, as pure functions.\<close>

fun secret_vars :: "api_env \<Rightarrow> Secret list \<Rightarrow> smap \<Rightarrow> smap" where
  "secret_vars e [] m = m"
| "secret_vars e (sec # secs) m = secret_vars e secs
     (case Open (ae_gcm e) (ae_secretKey e) (se_ValueEncrypted sec) of Inl _ \<Rightarrow> m | Inr val \<Rightarrow> AList.update (se_Name sec) val m)"

fun secret_rings :: "api_env \<Rightarrow> string \<Rightarrow> Secret list \<Rightarrow> store_rings \<Rightarrow> store_rings" where
  "secret_rings e i [] rings = rings"
| "secret_rings e i (sec # secs) rings = secret_rings e i secs
     (case Open (ae_gcm e) (ae_secretKey e) (se_ValueEncrypted sec) of
        Inl err \<Rightarrow> AppendDaemonLog (''secret '' @ ae_quote e (se_Name sec) @ '' for project '' @ i @ '' could not be decrypted ('' @
          ae_box_text e err @ '')'') rings
      | Inr _ \<Rightarrow> rings)"

definition image_spec :: "api_env \<Rightarrow> GoldenImage list \<Rightarrow> VM \<Rightarrow> VM" where
  "image_spec e images vm = (case find (golden_match vm) images of
      Some gi \<Rightarrow> apply_spec (gi_Rootfs gi) (gi_Kernel gi) (gi_VCPUs gi) (gi_MemMiB gi) vm
    | None \<Rightarrow> (case ae_catalog e of
        None \<Rightarrow> vm
      | Some all \<Rightarrow> (case find (manifest_match (vm_Image vm)) all of
          Some m \<Rightarrow> apply_spec (im_Rootfs m) (im_Kernel m) (im_VCPUs m) (im_MemMiB m) vm
        | None \<Rightarrow> vm)))"

definition boot_vars :: "api_env \<Rightarrow> api_world \<Rightarrow> live_project \<Rightarrow> createProjectReq \<Rightarrow> smap" where
  "boot_vars e w proj req = fill_missing (vars_of (aw_maps w) (cr_Env req))
     (secret_vars e (ListSecrets (ae_collate e) (ae_db e (aw_step w + 1)) (pr_ID (lp_data proj)) (aw_secrets w)) (vars_of (aw_maps w) (lp_Env proj)))"

definition boot_images :: "api_env \<Rightarrow> api_world \<Rightarrow> GoldenImage list" where
  "boot_images e w = ListGoldenImages (ae_collate e) (ae_db e (aw_step w + 3)) (aw_golden w)"

definition boot_vm :: "api_env \<Rightarrow> api_world \<Rightarrow> live_project \<Rightarrow> Deployment option \<Rightarrow> createProjectReq \<Rightarrow> int \<Rightarrow> VM" where
  "boot_vm e w proj dep req idx = host_kernel e (image_spec e (boot_images e w)
     (tag_deployment dep (new_replica (ae_newid e (aw_step w)) (ae_clock e (aw_step w + 2)) (lp_data proj) req (boot_vars e w proj req) idx)))"

definition vm_ready :: "api_env \<Rightarrow> VM \<Rightarrow> bool" where
  "vm_ready e vm \<longleftrightarrow> vm_RootfsPath vm \<noteq> [] \<and> vm_Kernel vm \<noteq> [] \<and>
     \<not> snd (ValidateArtifacts (ae_files e) (vm_RootfsPath vm) (vm_Kernel vm))"

definition failed_vm :: "api_env \<Rightarrow> VM \<Rightarrow> VM" where
  "failed_vm e vm = vm\<lparr>vm_State := StateFailed, vm_Error :=
     (if vm_RootfsPath vm = [] \<or> vm_Kernel vm = []
      then ''direct Firecracker deploy requires a registered image with readable rootfs.ext4 and vmlinux artifacts''
      else ''image artifact validation failed: '' @ art_Error (fst (ValidateArtifacts (ae_files e) (vm_RootfsPath vm) (vm_Kernel vm))))\<rparr>"

definition map_addr :: "api_world \<Rightarrow> createProjectReq \<Rightarrow> nat" where
  "map_addr w req = (case cr_Env req of Some a \<Rightarrow> a | None \<Rightarrow> aw_next w)"

text \<open>The world once the replica is known: only maps, log rings and the counter have changed.\<close>

definition prepared :: "api_env \<Rightarrow> api_world \<Rightarrow> live_project \<Rightarrow> createProjectReq \<Rightarrow> api_world" where
  "prepared e w proj req = w\<lparr>aw_step := aw_step w + 4,
     aw_rings := secret_rings e (pr_ID (lp_data proj))
       (ListSecrets (ae_collate e) (ae_db e (aw_step w + 1)) (pr_ID (lp_data proj)) (aw_secrets w)) (aw_rings w),
     aw_maps := (aw_maps w)(map_addr w req := boot_vars e w proj req),
     aw_next := (if cr_Env req = None then Suc (aw_next w) else aw_next w)\<rparr>"

lemma merge_secrets_run:
  "run_state (merge_secrets e i secs m) w = (secret_vars e secs m, w\<lparr>aw_rings := secret_rings e i secs (aw_rings w)\<rparr>)"
  by (induction secs arbitrary: m w) (simp_all add: api_AppendDaemonLog_def split: sum.splits)

lemma applyImageManifest_run:
  "run_state (applyImageManifest e vm) w =
     (image_spec e (ListGoldenImages (ae_collate e) (ae_db e (aw_step w)) (aw_golden w)) vm, w\<lparr>aw_step := Suc (aw_step w)\<rparr>)"
  by (simp add: applyImageManifest_def api_ListGoldenImages_def image_spec_def)

text \<open>What the image and the host kernel leave of a replica.\<close>

lemma resolved_fields [simp]:
  "vm_ID (host_kernel e (image_spec e images vm)) = vm_ID vm"
  "vm_ProjectID (host_kernel e (image_spec e images vm)) = vm_ProjectID vm"
  "vm_ReplicaIndex (host_kernel e (image_spec e images vm)) = vm_ReplicaIndex vm"
  "vm_State (host_kernel e (image_spec e images vm)) = vm_State vm"
  "vm_HealthStatus (host_kernel e (image_spec e images vm)) = vm_HealthStatus vm"
  "vm_Ports (host_kernel e (image_spec e images vm)) = vm_Ports vm"
  "vm_Env (host_kernel e (image_spec e images vm)) = vm_Env vm"
  "vm_Image (host_kernel e (image_spec e images vm)) = vm_Image vm"
  "vm_DeploymentID (host_kernel e (image_spec e images vm)) = vm_DeploymentID vm"
  by (simp_all add: image_spec_def host_kernel_def apply_spec_def split: option.splits)

lemma boot_vm_fields [simp]:
  "vm_ID (boot_vm e w proj dep req idx) = ae_newid e (aw_step w)"
  "vm_ProjectID (boot_vm e w proj dep req idx) = pr_ID (lp_data proj)"
  "vm_ReplicaIndex (boot_vm e w proj dep req idx) = idx"
  "vm_State (boot_vm e w proj dep req idx) = StatePending"
  "vm_HealthStatus (boot_vm e w proj dep req idx) = HealthChecking"
  "vm_Ports (boot_vm e w proj dep req idx) = cr_Ports req"
  "vm_Env (boot_vm e w proj dep req idx) = boot_vars e w proj req"
  "vm_Image (boot_vm e w proj dep req idx) = cr_Image req"
  "vm_DeploymentID (boot_vm e w proj dep req idx) = (case dep of None \<Rightarrow> [] | Some d \<Rightarrow> dep_ID d)"
  by (simp_all add: boot_vm_def tag_deployment_def new_replica_def zero_VM_def split: option.splits)

definition ref_ok :: "api_world \<Rightarrow> map_ref \<Rightarrow> bool" where
  "ref_ok w r \<longleftrightarrow> (\<forall>a. r = Some a \<longrightarrow> a < aw_next w)"

lemma bootReplica_run:
  assumes "ref_ok w (lp_Env proj)"
  shows "run_state (bootReplica e req idx (proj, dep)) w =
     run_state (launch_replica e (boot_vm e w proj dep req idx) (proj, dep)) (prepared e w proj req)"
proof -
  note defs = bootReplica_def api_NewID_def secretsEnv_def api_ListSecrets_def api_Now_def merge_secrets_run applyImageManifest_run
    boot_vm_def boot_images_def boot_vars_def map_addr_def prepared_def eval_nat_numeral
  show ?thesis
  proof (cases "lp_Env proj")
    case None
    then show ?thesis
      by (cases "cr_Env req") (simp add: defs, rule arg_cong2 [where f = run_state, OF refl], simp)+
  next
    case (Some a)
    then have "a \<noteq> aw_next w"
      using assms by (simp add: ref_ok_def)
    then show ?thesis
      using Some by (cases "cr_Env req") (simp add: defs, rule arg_cong2 [where f = run_state, OF refl], simp)+
  qed
qed

lemma pool_req_simps [simp]:
  "cr_Image (pool_req name img n env ports) = img" "cr_Env (pool_req name img n env ports) = env"
  "cr_Ports (pool_req name img n env ports) = ports"
  by (simp_all add: pool_req_def)

lemma prepared_simps [simp]:
  "aw_vms (prepared e w proj req) = aw_vms w" "aw_projects (prepared e w proj req) = aw_projects w"
  "aw_deployments (prepared e w proj req) = aw_deployments w" "aw_golden (prepared e w proj req) = aw_golden w"
  "aw_secrets (prepared e w proj req) = aw_secrets w" "aw_spawned (prepared e w proj req) = aw_spawned w"
  "aw_calls (prepared e w proj req) = aw_calls w" "aw_step (prepared e w proj req) = aw_step w + 4"
  "aw_maps (prepared e w proj req) = (aw_maps w)(map_addr w req := boot_vars e w proj req)"
  "aw_next w \<le> aw_next (prepared e w proj req)"
  by (simp_all add: prepared_def)

text \<open>The project and the deployment after a boot, and what is written of them.\<close>

definition pool_add :: "string \<Rightarrow> live_project \<Rightarrow> live_project" where
  "pool_add i proj = proj\<lparr>lp_data := (lp_data proj)\<lparr>pr_VMIDs := pr_VMIDs (lp_data proj) @ [i]\<rparr>\<rparr>"

lemma pool_add_simps [simp]:
  "lp_Env (pool_add i proj) = lp_Env proj" "pr_ID (lp_data (pool_add i proj)) = pr_ID (lp_data proj)"
  "pr_VMIDs (lp_data (pool_add i proj)) = pr_VMIDs (lp_data proj) @ [i]"
  "pr_ReplicasDesired (lp_data (pool_add i proj)) = pr_ReplicasDesired (lp_data proj)"
  "pr_Name (lp_data (pool_add i proj)) = pr_Name (lp_data proj)" "pr_Image (lp_data (pool_add i proj)) = pr_Image (lp_data proj)"
  by (simp_all add: pool_add_def)

definition stored :: "api_world \<Rightarrow> live_project \<Rightarrow> Project" where
  "stored w proj = (lp_data proj)\<lparr>pr_Env := vars_of (aw_maps w) (lp_Env proj)\<rparr>"

definition spawn :: "api_env \<Rightarrow> VM \<Rightarrow> vmm_call list" where
  "spawn e vm = (if ae_hasRunner e then [Call_Boot vm] else [])"

lemma api_PutProject_run:
  "run_state (api_PutProject e proj) w = ((), w\<lparr>aw_step := Suc (aw_step w),
     aw_projects := PutProject (ae_cok e (aw_step w)) (ae_db e (aw_step w)) (stored w proj) (aw_projects w)\<rparr>)"
  by (simp add: api_PutProject_def stored_def)

lemma launch_refused:
  "\<not> vm_ready e vm \<Longrightarrow> run_state (launch_replica e vm pd) w =
     (pd, w\<lparr>aw_step := Suc (aw_step w), aw_vms := PutVM (ae_db e (aw_step w)) (failed_vm e vm) (aw_vms w)\<rparr>)"
  by (auto simp: launch_replica_def vm_ready_def failed_vm_def api_PutVM_def split: prod.splits)

lemma launch_pool:
  "vm_ready e vm \<Longrightarrow> run_state (launch_replica e vm (proj, None)) w =
     ((pool_add (vm_ID vm) proj, None), w\<lparr>aw_step := aw_step w + 2, aw_vms := PutVM (ae_db e (aw_step w)) vm (aw_vms w),
        aw_spawned := aw_spawned w @ spawn e vm,
        aw_projects := PutProject (ae_cok e (aw_step w + 1)) (ae_db e (aw_step w + 1)) (stored w (pool_add (vm_ID vm) proj)) (aw_projects w)\<rparr>)"
  by (auto simp: launch_replica_def vm_ready_def api_PutVM_def spawn_def spawn_vmm_def api_PutProject_run pool_add_def stored_def
      split: prod.splits)

lemma launch_deployment:
  "vm_ready e vm \<Longrightarrow> run_state (launch_replica e vm (proj, Some d)) w =
     ((proj, Some (weight_defaults (d\<lparr>dep_VMIDs := dep_VMIDs d @ [vm_ID vm]\<rparr>))),
      w\<lparr>aw_step := aw_step w + 3, aw_vms := PutVM (ae_db e (aw_step w)) vm (aw_vms w),
        aw_deployments := snd (CreateDeployment (ae_clock e (aw_step w + 1)) (ae_db e (aw_step w + 1))
          (d\<lparr>dep_VMIDs := dep_VMIDs d @ [vm_ID vm]\<rparr>) (aw_deployments w)),
        aw_spawned := aw_spawned w @ spawn e vm,
        aw_projects := PutProject (ae_cok e (aw_step w + 2)) (ae_db e (aw_step w + 2)) (stored w proj) (aw_projects w)\<rparr>)"
  by (auto simp: launch_replica_def vm_ready_def api_PutVM_def spawn_def spawn_vmm_def api_PutProject_run stored_def
      api_CreateDeployment_def eval_nat_numeral split: prod.splits)

subsection \<open>Lemmas: images and rows\<close>

text \<open>An image reference that resolves to artifacts the host accepts.\<close>

definition bootable :: "api_env \<Rightarrow> golden_row list \<Rightarrow> string \<Rightarrow> bool" where
  "bootable e golden img \<longleftrightarrow>
     vm_ready e (host_kernel e (image_spec e (ListGoldenImages (ae_collate e) True golden) (zero_VM\<lparr>vm_Image := img\<rparr>)))"

lemma image_paths:
  assumes "vm_Image vm = vm_Image vm'" "vm_RootfsPath vm = vm_RootfsPath vm'" "vm_Kernel vm = vm_Kernel vm'"
  shows "vm_RootfsPath (host_kernel e (image_spec e images vm)) = vm_RootfsPath (host_kernel e (image_spec e images vm'))"
    and "vm_Kernel (host_kernel e (image_spec e images vm)) = vm_Kernel (host_kernel e (image_spec e images vm'))"
proof -
  have "golden_match vm = golden_match vm'"
    using assms(1) by (simp add: golden_match_def fun_eq_iff)
  then show "vm_RootfsPath (host_kernel e (image_spec e images vm)) = vm_RootfsPath (host_kernel e (image_spec e images vm'))"
    "vm_Kernel (host_kernel e (image_spec e images vm)) = vm_Kernel (host_kernel e (image_spec e images vm'))"
    using assms by (simp_all add: image_spec_def host_kernel_def apply_spec_def split: option.splits)
qed

lemma boot_vm_ready:
  assumes "ae_db e (aw_step w + 3)"
  shows "vm_ready e (boot_vm e w proj dep req idx) \<longleftrightarrow> bootable e (aw_golden w) (cr_Image req)"
proof -
  let ?vm = "tag_deployment dep (new_replica (ae_newid e (aw_step w)) (ae_clock e (aw_step w + 2)) (lp_data proj) req (boot_vars e w proj req) idx)"
  have fields: "vm_Image ?vm = vm_Image (zero_VM\<lparr>vm_Image := cr_Image req\<rparr>)"
      "vm_RootfsPath ?vm = vm_RootfsPath (zero_VM\<lparr>vm_Image := cr_Image req\<rparr>)"
      "vm_Kernel ?vm = vm_Kernel (zero_VM\<lparr>vm_Image := cr_Image req\<rparr>)"
    by (simp_all add: tag_deployment_def new_replica_def zero_VM_def split: option.splits)
  show ?thesis
    using assms image_paths [OF fields] by (simp add: boot_vm_def bootable_def vm_ready_def boot_images_def)
qed

text \<open>The unique index on project and replica number refuses a new row for a number that is taken.\<close>

definition occupied :: "string \<Rightarrow> VM list \<Rightarrow> int \<Rightarrow> bool" where
  "occupied p t i \<longleftrightarrow> (\<exists>r \<in> set t. vm_ProjectID r = p \<and> vm_ReplicaIndex r = i)"

lemma PutVM_taken:
  assumes "vm_ProjectID vm \<noteq> []" "occupied (vm_ProjectID vm) t (vm_ReplicaIndex vm)" "vm_ID vm \<notin> vm_ID ` set t"
  shows "PutVM ok vm t = t"
proof -
  have "list_ex (replica_clash vm) t"
    using assms(1,2) unfolding occupied_def list_ex_iff replica_clash_def by metis
  then have "upsert vm_ID replica_upd replica_clash vm t = None"
    using assms(3) by (simp add: upsert_def select_row_None_iff [THEN iffD2])
  then show ?thesis by (simp add: PutVM_def exec_upsert_def)
qed

lemma PutVM_new:
  assumes "ok" "replica_valid vm" "\<not> occupied (vm_ProjectID vm) t (vm_ReplicaIndex vm)" "vm_ID vm \<notin> vm_ID ` set t"
  shows "PutVM ok vm t = t @ [vm]"
proof -
  have "\<not> list_ex (replica_clash vm) t"
    using assms(3) by (auto simp: list_ex_iff occupied_def replica_clash_def)
  then have "upsert vm_ID replica_upd replica_clash vm t = Some (t @ [vm])"
    using assms(4) by (simp add: upsert_def select_row_None_iff [THEN iffD2])
  then show ?thesis using assms(1,2) by (simp add: PutVM_def exec_upsert_def)
qed

lemma failed_vm_simps [simp]:
  "vm_ID (failed_vm e vm) = vm_ID vm" "vm_ProjectID (failed_vm e vm) = vm_ProjectID vm"
  "vm_ReplicaIndex (failed_vm e vm) = vm_ReplicaIndex vm" "vm_Ports (failed_vm e vm) = vm_Ports vm"
  by (simp_all add: failed_vm_def)

lemma ref_ok_mono: "ref_ok w r \<Longrightarrow> aw_next w \<le> aw_next w' \<Longrightarrow> ref_ok w' r"
  by (auto simp: ref_ok_def)

lemma ref_ok_prepared [simp]: "ref_ok w r \<Longrightarrow> ref_ok (prepared e w proj req) r"
  by (erule ref_ok_mono) simp

lemma ref_ok_updates [simp]:
  "ref_ok (w\<lparr>aw_step := a, aw_vms := b\<rparr>) r = ref_ok w r"
  "ref_ok (w\<lparr>aw_step := a, aw_vms := b, aw_spawned := c, aw_projects := d\<rparr>) r = ref_ok w r"
  "ref_ok (w\<lparr>aw_step := a, aw_vms := b, aw_deployments := f, aw_spawned := c, aw_projects := d\<rparr>) r = ref_ok w r"
  by (simp_all add: ref_ok_def)

subsection \<open>Lemmas: the pool of a deployment\<close>

lemma deployment_pool_taken:
  assumes "ref_ok w (lp_Env proj)" "pr_ID (lp_data proj) \<noteq> []" "\<forall>n. ae_newid e n \<notin> vm_ID ` set (aw_vms w)"
    "\<forall>i \<in> set is. occupied (pr_ID (lp_data proj)) (aw_vms w) i" "\<forall>n. ae_db e n"
    "bootable e (aw_golden w) (cr_Image req)" "ae_hasRunner e"
  shows "\<exists>vms d' w'. run_state (foldS (bootReplica e req) is (proj, Some d)) w = ((proj, Some d'), w') \<and>
    aw_vms w' = aw_vms w \<and> aw_spawned w' = aw_spawned w @ map Call_Boot vms \<and> map vm_ReplicaIndex vms = is \<and>
    dep_VMIDs d' = dep_VMIDs d @ map vm_ID vms \<and> dep_ProjectID d' = dep_ProjectID d \<and> dep_VersionLabel d' = dep_VersionLabel d \<and> dep_GuestBase d' = dep_GuestBase d \<and>
    dep_Environment d' = dep_Environment d \<and> (\<forall>vm \<in> set vms. vm_ID vm \<in> range (ae_newid e))"
  using assms
proof (induction "is" arbitrary: d w)
  case Nil
  then show ?case by (intro exI [of _ "[]"]) simp
next
  case (Cons i "is")
  let ?vm = "boot_vm e w proj (Some d) req i"
  let ?d = "weight_defaults (d\<lparr>dep_VMIDs := dep_VMIDs d @ [vm_ID ?vm]\<rparr>)"
  have same: "PutVM ok ?vm (aw_vms w) = aw_vms w" for ok
    using Cons.prems by (intro PutVM_taken) auto
  have "vm_ready e ?vm"
    using Cons.prems by (simp add: boot_vm_ready)
  then obtain w1 where step: "run_state (bootReplica e req i (proj, Some d)) w = ((proj, Some ?d), w1)"
      and w1: "aw_vms w1 = aw_vms w" "aw_golden w1 = aw_golden w" "aw_spawned w1 = aw_spawned w @ [Call_Boot ?vm]" "ref_ok w1 (lp_Env proj)"
    using Cons.prems(1,7) same by (simp add: bootReplica_run launch_deployment spawn_def)
  have d: "dep_VMIDs ?d = dep_VMIDs d @ [vm_ID ?vm]" "dep_ProjectID ?d = dep_ProjectID d" "dep_VersionLabel ?d = dep_VersionLabel d"
      "dep_GuestBase ?d = dep_GuestBase d" "dep_Environment ?d = dep_Environment d"
    by (simp_all add: weight_defaults_def Let_def)
  obtain vms d' w' where rest: "run_state (foldS (bootReplica e req) is (proj, Some ?d)) w1 = ((proj, Some d'), w')"
      "aw_vms w' = aw_vms w1" "aw_spawned w' = aw_spawned w1 @ map Call_Boot vms" "map vm_ReplicaIndex vms = is"
      "dep_VMIDs d' = dep_VMIDs ?d @ map vm_ID vms" "dep_ProjectID d' = dep_ProjectID ?d" "dep_VersionLabel d' = dep_VersionLabel ?d"
      "dep_GuestBase d' = dep_GuestBase ?d" "dep_Environment d' = dep_Environment ?d" "\<forall>vm \<in> set vms. vm_ID vm \<in> range (ae_newid e)"
    using Cons.IH [of w1 ?d] Cons.prems w1 by auto
  show ?case
    using step rest d w1 by (intro exI [of _ "?vm # vms"] exI [of _ d'] exI [of _ w']) simp
qed

subsection \<open>Lemmas: reading calls\<close>

text \<open>Everything a reading call leaves alone.\<close>

definition untouched :: "api_world \<Rightarrow> api_world \<Rightarrow> bool" where
  "untouched w w' \<longleftrightarrow> aw_vms w' = aw_vms w \<and> aw_deployments w' = aw_deployments w \<and> aw_golden w' = aw_golden w \<and>
     aw_secrets w' = aw_secrets w \<and> aw_spawned w' = aw_spawned w \<and> aw_calls w' = aw_calls w \<and> aw_metrics w' = aw_metrics w"

lemma api_GetProject_Some:
  assumes "fst (GetProject (ae_hit e (aw_step w)) (ae_cok e (aw_step w)) (ae_db e (aw_step w)) i (aw_projects w)) = Some p"
  obtains lp w' where "run_state (api_GetProject e i) w = (Some lp, w')" "lp_data lp = p" "ref_ok w' (lp_Env lp)"
    "lp_Env lp = None \<longleftrightarrow> pr_Env p = []" "vars_of (aw_maps w') (lp_Env lp) = pr_Env p" "untouched w w'" "aw_step w' = Suc (aw_step w)"
    "aw_projects w' = snd (GetProject (ae_hit e (aw_step w)) (ae_cok e (aw_step w)) (ae_db e (aw_step w)) i (aw_projects w))"
proof -
  obtain ps where ps: "GetProject (ae_hit e (aw_step w)) (ae_cok e (aw_step w)) (ae_db e (aw_step w)) i (aw_projects w) = (Some p, ps)"
    using assms by (metis prod.collapse)
  show thesis
  proof (cases "pr_Env p = []")
    case True
    then show thesis
      by (intro that [of "\<lparr>lp_data = p, lp_Env = None\<rparr>" "w\<lparr>aw_step := Suc (aw_step w), aw_projects := ps\<rparr>"])
        (simp_all add: api_GetProject_def load_project_def ps ref_ok_def untouched_def)
  next
    case False
    then show thesis
      by (intro that [of "\<lparr>lp_data = p, lp_Env = Some (aw_next w)\<rparr>"
          "w\<lparr>aw_step := Suc (aw_step w), aw_projects := ps, aw_maps := (aw_maps w)(aw_next w := pr_Env p), aw_next := Suc (aw_next w)\<rparr>"])
        (simp_all add: api_GetProject_def load_project_def ps ref_ok_def untouched_def)
  qed
qed

lemma first_ports_run: "\<exists>ports k. run_state (first_ports e ids) w = (ports, w\<lparr>aw_step := aw_step w + k\<rparr>)"
proof (induction ids arbitrary: w)
  case Nil
  then show ?case by (intro exI [of _ "[]"] exI [of _ 0]) simp
next
  case (Cons i ids)
  show ?case
  proof (cases "GetVM (ae_db e (aw_step w)) i (aw_vms w)")
    case None
    obtain ports k where "run_state (first_ports e ids) (w\<lparr>aw_step := Suc (aw_step w)\<rparr>) =
        (ports, (w\<lparr>aw_step := Suc (aw_step w)\<rparr>)\<lparr>aw_step := Suc (aw_step w) + k\<rparr>)"
      using Cons.IH [of "w\<lparr>aw_step := Suc (aw_step w)\<rparr>"] by auto
    then show ?thesis
      using None by (intro exI [of _ ports] exI [of _ "Suc k"]) (simp add: api_GetVM_def)
  next
    case (Some vm)
    then show ?thesis
      by (intro exI [of _ "vm_Ports vm"] exI [of _ 1]) (simp add: api_GetVM_def)
  qed
qed

lemma projPorts_run: obtains ports k where "run_state (projPorts e proj) w = (ports, w\<lparr>aw_step := aw_step w + k\<rparr>)"
  using first_ports_run unfolding projPorts_def by blast

text \<open>The answer of \<open>knownDirectImage\<close> when the golden images can be listed.\<close>

definition registered :: "api_env \<Rightarrow> golden_row list \<Rightarrow> string \<Rightarrow> bool" where
  "registered e golden ref \<longleftrightarrow>
     \<not> (HasPrefix ref ''docker://'' \<or> HasPrefix ref ''oci://'' \<or> Contains ref ''@sha256:'') \<and>
     (list_ex (\<lambda>gi. gi_Image gi = ref \<or> gi_Name gi = ref) (ListGoldenImages (ae_collate e) True golden) \<or>
      (\<exists>all. ae_catalog e = Some all \<and> list_ex (manifest_match ref) all))"

lemma knownDirectImage_run:
  assumes "ae_db e (aw_step w)" "registered e (aw_golden w) ref"
  shows "run_state (knownDirectImage e ref) w = (True, w\<lparr>aw_step := Suc (aw_step w)\<rparr>)"
  using assms by (auto simp: knownDirectImage_def registered_def api_ListGoldenImages_def)

lemma CreateDeployment_True:
  assumes "deployment_valid (d\<lparr>dep_Revision := 0, dep_CreatedAt := now\<rparr>)"
  shows "\<exists>t'. CreateDeployment now True d t = (True, t') \<and>
    (\<exists>x \<in> set t'. dep_ID x = dep_ID d \<and> dep_BuildStatus x = dep_BuildStatus d \<and> dep_VMIDs x = dep_VMIDs d)"
proof -
  let ?new = "(weight_defaults d)\<lparr>dep_Revision := 0, dep_CreatedAt := now\<rparr>"
  have fields: "dep_ID ?new = dep_ID d" "dep_BuildStatus ?new = dep_BuildStatus d" "dep_VMIDs ?new = dep_VMIDs d"
    by (simp_all add: weight_defaults_def Let_def)
  have valid: "deployment_valid ?new"
    using assms by (simp add: deployment_valid_def weight_defaults_def Let_def)
  show ?thesis
  proof (cases "select_row dep_ID (dep_ID d) t")
    case None
    then show ?thesis
      using valid fields
      by (intro exI [of _ "t @ [?new]"]) (simp_all add: CreateDeployment_def exec_upsert_def upsert_def no_clash_def list_ex_iff)
  next
    case (Some old)
    let ?t = "map (\<lambda>r. if dep_ID r = dep_ID d then deployment_upd r ?new else r) t"
    have "CreateDeployment now True d t = (True, ?t)"
      using valid fields Some by (simp add: CreateDeployment_def exec_upsert_def upsert_def no_clash_def list_ex_iff)
    moreover have "\<exists>x \<in> set ?t. dep_ID x = dep_ID d \<and> dep_BuildStatus x = dep_BuildStatus d \<and> dep_VMIDs x = dep_VMIDs d"
    proof -
      have "old \<in> set t" "dep_ID old = dep_ID d"
        using select_row_SomeD [OF Some] by simp_all
      then have "deployment_upd old ?new \<in> set ?t" by force
      moreover have "dep_ID (deployment_upd old ?new) = dep_ID d" "dep_BuildStatus (deployment_upd old ?new) = dep_BuildStatus d"
          "dep_VMIDs (deployment_upd old ?new) = dep_VMIDs d"
        using \<open>dep_ID old = dep_ID d\<close> fields by (simp_all add: deployment_upd_def)
      ultimately show ?thesis by blast
    qed
    ultimately show ?thesis by blast
  qed
qed

lemma ResolveGuestBase_managed: "ResolveGuestBase ref def [] = Inr base \<Longrightarrow> gb_Reference base \<noteq> []"
  by (auto simp: ResolveGuestBase_def ManagedGuestBases_def managed_base_def Let_def split: if_splits)

lemma fill_deployment_taken:
  assumes env: "\<forall>n. ae_db e n" "ae_hasRunner e" "\<forall>n. ae_newid e n \<notin> vm_ID ` set (aw_vms w)"
    and proj: "ref_ok w (lp_Env proj)" "pr_ID (lp_data proj) \<noteq> []"
    and img: "img = (if db_Image req = [] then pr_Image (lp_data proj) else db_Image req)"
      "registered e (aw_golden w) img" "bootable e (aw_golden w) img"
    and taken: "\<forall>i \<in> set [0..wanted_replicas req (lp_data proj) - 1]. occupied (pr_ID (lp_data proj)) (aw_vms w) i"
    and d: "dep_ProjectID d \<noteq> []" "dep_VersionLabel d \<noteq> []" "dep_GuestBase d \<noteq> []" "dep_Environment d \<noteq> []" "dep_VMIDs d = []"
  shows "\<exists>resp w' vms. run_state (fill_deployment e req tag proj d) w = (resp, w') \<and> rs_status resp = 202 \<and> aw_vms w' = aw_vms w \<and>
    aw_spawned w' = aw_spawned w @ map Call_Boot vms \<and> map vm_ReplicaIndex vms = [0..wanted_replicas req (lp_data proj) - 1] \<and>
    (\<exists>x \<in> set (aw_deployments w'). dep_BuildStatus x = ''ready'' \<and> dep_VMIDs x = map vm_ID vms) \<and>
    (\<forall>vm \<in> set vms. vm_ID vm \<in> range (ae_newid e))"
proof -
  define r4 where "r4 = run_state (case db_Env req of None \<Rightarrow> State_Monad.return None
    | Some m \<Rightarrow> do { a \<leftarrow> new_map m; State_Monad.return (Some a) }) w"
  obtain env w4 where w4: "r4 = (env, w4)" by (cases r4)
  then have f4: "aw_vms w4 = aw_vms w" "aw_golden w4 = aw_golden w" "aw_spawned w4 = aw_spawned w" "aw_next w \<le> aw_next w4"
    by (auto simp: r4_def split: option.splits)
  obtain ports k where ports: "run_state (projPorts e proj) w4 = (ports, w4\<lparr>aw_step := aw_step w4 + k\<rparr>)"
    by (rule projPorts_run)
  define w6 where "w6 = w4\<lparr>aw_step := Suc (aw_step w4 + k)\<rparr>"
  let ?n = "wanted_replicas req (lp_data proj)"
  let ?req = "pool_req (pr_Name (lp_data proj) @ ''-'' @ tag) img ?n env ports"
  have known: "run_state (knownDirectImage e img) (w4\<lparr>aw_step := aw_step w4 + k\<rparr>) = (True, w6)"
    using knownDirectImage_run [of e "w4\<lparr>aw_step := aw_step w4 + k\<rparr>" img] env(1) img(2) f4 by (simp add: w6_def)
  have "ref_ok w6 (lp_Env proj)"
    using proj(1) f4(4) by (auto simp: w6_def ref_ok_def)
  moreover have "cr_Image ?req = img" by (simp add: pool_req_def)
  ultimately obtain vms d' w7 where w7: "run_state (boot_range e ?req 0 ?n (proj, Some d)) w6 = ((proj, Some d'), w7)"
      "aw_vms w7 = aw_vms w" "aw_spawned w7 = aw_spawned w @ map Call_Boot vms" "map vm_ReplicaIndex vms = [0..?n - 1]"
      "dep_VMIDs d' = map vm_ID vms" "\<forall>vm \<in> set vms. vm_ID vm \<in> range (ae_newid e)"
    and fields: "dep_ProjectID d' = dep_ProjectID d" "dep_VersionLabel d' = dep_VersionLabel d" "dep_GuestBase d' = dep_GuestBase d"
      "dep_Environment d' = dep_Environment d"
    using deployment_pool_taken [of w6 proj e "[0..?n - 1]" ?req d] env proj(2) taken img(3) f4 d(5)
    by (auto simp: w6_def boot_range_def)
  obtain t' where t': "CreateDeployment (ae_clock e (aw_step w7)) True (d'\<lparr>dep_BuildStatus := ''ready''\<rparr>) (aw_deployments w7) = (True, t')"
      "\<exists>x \<in> set t'. dep_BuildStatus x = ''ready'' \<and> dep_VMIDs x = map vm_ID vms"
    using CreateDeployment_True [of "ae_clock e (aw_step w7)" "d'\<lparr>dep_BuildStatus := ''ready''\<rparr>" "aw_deployments w7"] d fields w7(5)
    by (fastforce simp: deployment_valid_def build_statuses_def)
  obtain resp w' where run: "run_state (fill_deployment e req tag proj d) w = (resp, w')"
    by (cases "run_state (fill_deployment e req tag proj d) w")
  then have "rs_status resp = 202 \<and> aw_vms w' = aw_vms w7 \<and> aw_spawned w' = aw_spawned w7 \<and> aw_deployments w' = t'"
    using w4 [unfolded r4_def] ports known w7(1) t'(1) env(1) img(1)
    by (auto simp: fill_deployment_def Let_def api_CreateDeployment_def api_AppendBuildLog_def api_AppendDaemonLog_def api_Broadcast_def
        writeJSON_def)
  then show ?thesis
    using run w7(2-6) t'(2) by (intro exI [of _ resp] exI [of _ w'] exI [of _ vms]) simp
qed

subsection \<open>Lemmas: the project row\<close>

definition proj_name :: "project_row \<Rightarrow> string" where
  "proj_name r = pr_Name (pj_data r)"

text \<open>The project table holds a row for \<open>p\<close> under its id and name, and ids and names are unique.\<close>

definition known_project :: "project_store \<Rightarrow> Project \<Rightarrow> bool" where
  "known_project s p \<longleftrightarrow> distinct (map project_key (ps_rows s)) \<and> distinct (map proj_name (ps_rows s)) \<and>
     (\<exists>r. select_row project_key (pr_ID p) (ps_rows s) = Some r \<and> proj_name r = pr_Name p)"

lemma PutProject_known:
  assumes "known_project s p" "pr_ID q = pr_ID p" "pr_Name q = pr_Name p"
  shows "known_project (PutProject cok ok q s) p"
    and "ok \<Longrightarrow> 0 \<le> pr_ReplicasDesired q \<Longrightarrow>
      \<exists>r. select_row project_key (pr_ID p) (ps_rows (PutProject cok ok q s)) = Some r \<and> pj_data r = q\<lparr>pr_ComposeYAML := []\<rparr>"
proof -
  let ?new = "project_row_of q"
  let ?t = "ps_rows s"
  let ?f = "\<lambda>r. if project_key r = project_key ?new then project_upd r ?new else r"
  obtain old where old: "select_row project_key (pr_ID p) ?t = Some old" "proj_name old = pr_Name p"
    using assms(1) by (auto simp: known_project_def)
  have keys: "distinct (map project_key ?t)" and names: "distinct (map proj_name ?t)"
    using assms(1) by (simp_all add: known_project_def)
  have new: "project_key ?new = pr_ID p" "proj_name ?new = pr_Name p"
    using assms(2,3) by (simp_all add: project_key_def proj_name_def project_row_of_def)
  have mem: "old \<in> set ?t" "project_key old = pr_ID p"
    using select_row_SomeD [OF old(1)] by simp_all
  have noclash: "\<not> list_ex (\<lambda>r. project_key r \<noteq> project_key ?new \<and> project_clash (project_upd old ?new) r) ?t"
  proof
    assume "list_ex (\<lambda>r. project_key r \<noteq> project_key ?new \<and> project_clash (project_upd old ?new) r) ?t"
    then obtain r where r: "r \<in> set ?t" "project_key r \<noteq> pr_ID p" "proj_name r = proj_name old"
      using new old(2) by (auto simp: list_ex_iff project_clash_def project_upd_def proj_name_def)
    then have "r = old"
      using names mem(1) by (auto simp: distinct_map dest: inj_onD)
    then show False using r(2) mem(2) by simp
  qed
  have keep: "project_key (?f r) = project_key r" for r
    using new by (simp add: project_key_def project_upd_def)
  have put: "ps_rows (PutProject cok ok q s) = (if ok \<and> project_valid ?new then map ?f ?t else ?t)"
    using old(1) noclash new by (simp add: PutProject_def Let_def cacheDel_def exec_upsert_def upsert_def)
  have row: "select_row project_key (pr_ID p) (map ?f ?t) = Some (project_upd old ?new)"
    using select_row_map [of project_key ?f, OF keep] old(1) mem(2) new by simp
  have mapped: "map project_key (map ?f ?t) = map project_key ?t"
    using keep by simp
  have mapped_names: "map proj_name (map ?f ?t) = map proj_name ?t"
  proof -
    have "proj_name (?f r) = proj_name r" if "r \<in> set ?t" for r
    proof (cases "project_key r = project_key ?new")
      case True
      then have "r = old"
        using that mem new keys unfolding distinct_map by (metis inj_onD)
      then show ?thesis using new(2) old(2) by (simp add: proj_name_def project_upd_def)
    qed simp
    then show ?thesis by simp
  qed
  show "known_project (PutProject cok ok q s) p"
  proof (cases "ok \<and> project_valid ?new")
    case True
    have "proj_name (project_upd old ?new) = pr_Name p"
      using new(2) by (simp add: proj_name_def project_upd_def)
    then show ?thesis
      unfolding known_project_def put if_P [OF True] mapped mapped_names row using keys names by simp
  next
    case False
    then show ?thesis using assms(1) unfolding known_project_def put if_not_P [OF False] by simp
  qed
  assume "ok" "0 \<le> pr_ReplicasDesired q"
  then have "ok \<and> project_valid ?new"
    by (simp add: project_valid_def project_row_of_def)
  then show "\<exists>r. select_row project_key (pr_ID p) (ps_rows (PutProject cok ok q s)) = Some r \<and> pj_data r = q\<lparr>pr_ComposeYAML := []\<rparr>"
    using row put by (simp add: project_upd_def project_row_of_def)
qed

subsection \<open>Lemmas: growing the pool\<close>

lemma map_of_fill_missing:
  "map_of (fill_missing dst src) k = (case map_of dst k of Some v \<Rightarrow> Some v | None \<Rightarrow> map_of src k)"
proof (induction src arbitrary: dst)
  case Nil
  then show ?case by (simp split: option.splits)
next
  case (Cons x src)
  then show ?case by (cases x) (auto simp: map_add_def split: option.splits)
qed

lemma map_of_secret_vars:
  "distinct (map se_Name secs) \<Longrightarrow> sec \<in> set secs \<Longrightarrow> Open (ae_gcm e) (ae_secretKey e) (se_ValueEncrypted sec) = Inr val \<Longrightarrow>
     map_of (secret_vars e secs m) (se_Name sec) = Some val"
proof -
  have other: "k \<notin> se_Name ` set secs \<Longrightarrow> map_of (secret_vars e secs m) k = map_of m k" for k secs m
    by (induction secs arbitrary: m) (auto simp: update_conv' split: sum.splits)
  show "distinct (map se_Name secs) \<Longrightarrow> sec \<in> set secs \<Longrightarrow> Open (ae_gcm e) (ae_secretKey e) (se_ValueEncrypted sec) = Inr val \<Longrightarrow>
     map_of (secret_vars e secs m) (se_Name sec) = Some val"
    by (induction secs arbitrary: m) (auto simp: other update_conv' split: sum.splits)
qed

text \<open>One round of the loop: the ports are looked up, then the replica boots under the next number.\<close>

definition grow_round :: "api_env \<Rightarrow> int \<Rightarrow> int \<Rightarrow> live_project \<times> Deployment option \<Rightarrow> (live_project \<times> Deployment option) api" where
  "grow_round e n i pd = do {
     ports \<leftarrow> projPorts e (fst pd);
     bootReplica e (pool_req (pr_Name (lp_data (fst pd))) (pr_Image (lp_data (fst pd))) n (lp_Env (fst pd)) ports) i pd }"

lemma grow_rounds: "grow e n lo hi = foldS (grow_round e n) [lo..hi - 1]"
  by (simp add: grow_def grow_round_def [abs_def])

text \<open>The pool after some rounds: new rows, new machines, the project still known.\<close>

definition grown :: "live_project \<Rightarrow> api_world \<Rightarrow> VM list \<Rightarrow> api_world \<Rightarrow> bool" where
  "grown proj w vms w' \<longleftrightarrow> aw_vms w' = aw_vms w @ vms \<and> aw_spawned w' = aw_spawned w @ map Call_Boot vms \<and>
     (\<forall>vm \<in> set vms. vm_ProjectID vm = pr_ID (lp_data proj) \<and> vm_State vm = StatePending \<and> vm_Image vm = pr_Image (lp_data proj)) \<and>
     known_project (aw_projects w') (lp_data proj)"

definition extra_vars :: "api_env \<Rightarrow> Secret list \<Rightarrow> string \<Rightarrow> smap \<Rightarrow> smap" where
  "extra_vars e secs p m = fill_missing m (secret_vars e (ListSecrets (ae_collate e) True p secs) m)"

definition pool_extend :: "string list \<Rightarrow> live_project \<Rightarrow> live_project" where
  "pool_extend ids proj = proj\<lparr>lp_data := (lp_data proj)\<lparr>pr_VMIDs := pr_VMIDs (lp_data proj) @ ids\<rparr>\<rparr>"

lemma pool_extend_simps [simp]:
  "pool_extend [] proj = proj" "pool_extend ids (pool_add i proj) = pool_extend (i # ids) proj"
  "pr_VMIDs (lp_data (pool_extend ids proj)) = pr_VMIDs (lp_data proj) @ ids" "lp_Env (pool_extend ids proj) = lp_Env proj"
  "pr_ID (lp_data (pool_extend ids proj)) = pr_ID (lp_data proj)"
  "pr_Name (lp_data (pool_extend ids proj)) = pr_Name (lp_data proj)"
  by (simp_all add: pool_extend_def pool_add_def)

lemma known_project_add [simp]: "known_project s (lp_data (pool_add i proj)) = known_project s (lp_data proj)"
  by (simp add: known_project_def)

lemma grow_step:
  assumes env: "\<forall>n. ae_db e n" "ae_hasRunner e" "inj (ae_newid e)"
    and fresh: "\<forall>n \<ge> aw_step w. ae_newid e n \<notin> vm_ID ` set (aw_vms w)"
    and proj: "ref_ok w (lp_Env proj)" "known_project (aw_projects w) (lp_data proj)"
    and img: "bootable e (aw_golden w) (pr_Image (lp_data proj))"
    and free: "\<not> occupied (pr_ID (lp_data proj)) (aw_vms w) i"
  obtains vm w' where "run_state (grow_round e n i (proj, None)) w = ((pool_add (vm_ID vm) proj, None), w')"
    "vm_ReplicaIndex vm = i" "grown proj w [vm] w'" "aw_golden w' = aw_golden w" "aw_secrets w' = aw_secrets w" "ref_ok w' (lp_Env proj)"
    "\<forall>n \<ge> aw_step w'. ae_newid e n \<notin> vm_ID ` set (aw_vms w')"
    "\<forall>a. lp_Env proj = Some a \<longrightarrow> aw_maps w' a = extra_vars e (aw_secrets w) (pr_ID (lp_data proj)) (aw_maps w a)"
proof -
  obtain ports k where ports: "run_state (projPorts e proj) w = (ports, w\<lparr>aw_step := aw_step w + k\<rparr>)"
    by (rule projPorts_run)
  define v where "v = w\<lparr>aw_step := aw_step w + k\<rparr>"
  let ?req = "pool_req (pr_Name (lp_data proj)) (pr_Image (lp_data proj)) n (lp_Env proj) ports"
  define vm where "vm = boot_vm e v proj None ?req i"
  have req: "cr_Image ?req = pr_Image (lp_data proj)" "cr_Env ?req = lp_Env proj"
    by (simp_all add: pool_req_def)
  have fields: "vm_ID vm = ae_newid e (aw_step v)" "vm_ReplicaIndex vm = i" "vm_ProjectID vm = pr_ID (lp_data proj)"
      "vm_State vm = StatePending" "vm_HealthStatus vm = HealthChecking" "vm_Image vm = pr_Image (lp_data proj)"
    by (simp_all add: vm_def req)
  have refv: "ref_ok v (lp_Env proj)"
    using proj(1) by (simp add: v_def ref_ok_def)
  have ready: "vm_ready e vm"
    using env(1) img by (simp add: vm_def boot_vm_ready req) (simp add: v_def)
  have put: "PutVM True vm (aw_vms w) = aw_vms w @ [vm]"
    using fresh free fields by (intro PutVM_new) (auto simp: replica_valid_def v_def)
  have v: "aw_vms v = aw_vms w" "aw_spawned v = aw_spawned w" "aw_projects v = aw_projects w" "aw_golden v = aw_golden w"
      "aw_secrets v = aw_secrets w" "aw_maps v = aw_maps w" "aw_step v = aw_step w + k"
    by (simp_all add: v_def)
  define w' where w': "w' = (prepared e v proj ?req)\<lparr>aw_step := aw_step v + 6, aw_vms := aw_vms w @ [vm], aw_spawned := aw_spawned w @ [Call_Boot vm],
      aw_projects := PutProject (ae_cok e (aw_step v + 5)) True (stored (prepared e v proj ?req) (pool_add (vm_ID vm) proj)) (aw_projects w)\<rparr>"
  have run: "run_state (bootReplica e ?req i (proj, None)) v = ((pool_add (vm_ID vm) proj, None), w')"
    unfolding bootReplica_run [OF refv] vm_def [symmetric] launch_pool [OF ready]
    using put env(1,2) v by (simp add: w' spawn_def add.commute)
  have known: "known_project (aw_projects w') (lp_data proj)"
    using proj(2) unfolding w' by (simp add: PutProject_known(1) stored_def pool_add_def)
  have fresh': "\<forall>m \<ge> aw_step w'. ae_newid e m \<notin> vm_ID ` set (aw_vms w')"
  proof (intro allI impI)
    fix m assume m: "m \<ge> aw_step w'"
    then have "ae_newid e m \<noteq> vm_ID vm"
      using env(3) fields(1) by (auto simp: w' dest: injD)
    moreover have "m \<ge> aw_step w" using m by (simp add: w' v)
    ultimately show "ae_newid e m \<notin> vm_ID ` set (aw_vms w')"
      using fresh by (simp add: w')
  qed
  show thesis
  proof (rule that [of vm w'])
    show "\<forall>a. lp_Env proj = Some a \<longrightarrow> aw_maps w' a = extra_vars e (aw_secrets w) (pr_ID (lp_data proj)) (aw_maps w a)"
      using env(1) by (auto simp: w' map_addr_def req boot_vars_def extra_vars_def v)
    show "ref_ok w' (lp_Env proj)"
      using ref_ok_prepared [OF refv, of e proj ?req] by (simp add: w' ref_ok_def)
    show "grown proj w [vm] w'"
      using fields known by (simp add: grown_def w')
    show "run_state (grow_round e n i (proj, None)) w = ((pool_add (vm_ID vm) proj, None), w')"
      using ports [folded v_def] run by (simp add: grow_round_def)
  qed (use fields fresh' v in \<open>simp_all add: w'\<close>)
qed

lemma grow_run:
  assumes "\<forall>n. ae_db e n" "ae_hasRunner e" "inj (ae_newid e)"
    "\<forall>n \<ge> aw_step w. ae_newid e n \<notin> vm_ID ` set (aw_vms w)" "ref_ok w (lp_Env proj)" "known_project (aw_projects w) (lp_data proj)"
    "bootable e (aw_golden w) (pr_Image (lp_data proj))" "\<forall>i \<in> set is. \<not> occupied (pr_ID (lp_data proj)) (aw_vms w) i" "distinct is"
  shows "\<exists>vms w'. run_state (foldS (grow_round e n) is (proj, None)) w = ((pool_extend (map vm_ID vms) proj, None), w') \<and>
    map vm_ReplicaIndex vms = is \<and> grown proj w vms w' \<and>
    (\<forall>a. lp_Env proj = Some a \<longrightarrow> map_of (if is = [] then aw_maps w a
         else extra_vars e (aw_secrets w) (pr_ID (lp_data proj)) (aw_maps w a)) \<subseteq>\<^sub>m map_of (aw_maps w' a))"
  using assms
proof (induction "is" arbitrary: proj w)
  case Nil
  then show ?case by (intro exI [of _ "[]"]) (simp add: grown_def)
next
  case (Cons i "is")
  have "\<not> occupied (pr_ID (lp_data proj)) (aw_vms w) i"
    using Cons.prems(8) by simp
  with Cons.prems(1-7) obtain vm w1 where one: "run_state (grow_round e n i (proj, None)) w = ((pool_add (vm_ID vm) proj, None), w1)"
    "vm_ReplicaIndex vm = i" "grown proj w [vm] w1" "aw_golden w1 = aw_golden w" "aw_secrets w1 = aw_secrets w" "ref_ok w1 (lp_Env proj)"
    "\<forall>n \<ge> aw_step w1. ae_newid e n \<notin> vm_ID ` set (aw_vms w1)"
    "\<forall>a. lp_Env proj = Some a \<longrightarrow> aw_maps w1 a = extra_vars e (aw_secrets w) (pr_ID (lp_data proj)) (aw_maps w a)"
    by (rule grow_step [where n = n])
  let ?proj = "pool_add (vm_ID vm) proj"
  have free: "\<forall>j \<in> set is. \<not> occupied (pr_ID (lp_data proj)) (aw_vms w1) j"
    using Cons.prems(8,9) one(2,3) by (auto simp: occupied_def grown_def)
  have "\<exists>vms w'. run_state (foldS (grow_round e n) is (?proj, None)) w1 = ((pool_extend (map vm_ID vms) ?proj, None), w') \<and>
    map vm_ReplicaIndex vms = is \<and> grown ?proj w1 vms w' \<and>
    (\<forall>a. lp_Env ?proj = Some a \<longrightarrow> map_of (if is = [] then aw_maps w1 a
         else extra_vars e (aw_secrets w1) (pr_ID (lp_data ?proj)) (aw_maps w1 a)) \<subseteq>\<^sub>m map_of (aw_maps w' a))"
    using Cons.prems one free by (intro Cons.IH) (simp_all add: grown_def)
  then obtain vms w' where two: "run_state (foldS (grow_round e n) is (?proj, None)) w1 = ((pool_extend (map vm_ID vms) ?proj, None), w')"
      "map vm_ReplicaIndex vms = is" "grown ?proj w1 vms w'"
      "\<forall>a. lp_Env ?proj = Some a \<longrightarrow> map_of (if is = [] then aw_maps w1 a
         else extra_vars e (aw_secrets w1) (pr_ID (lp_data ?proj)) (aw_maps w1 a)) \<subseteq>\<^sub>m map_of (aw_maps w' a)"
    by blast
  have vars: "map_of (extra_vars e (aw_secrets w) (pr_ID (lp_data proj)) (aw_maps w a)) \<subseteq>\<^sub>m map_of (aw_maps w' a)"
    if a: "lp_Env proj = Some a" for a
  proof -
    have "map_of (aw_maps w1 a) \<subseteq>\<^sub>m map_of (extra_vars e s p (aw_maps w1 a))" for s p
      by (auto simp: map_le_def extra_vars_def map_of_fill_missing split: option.splits)
    then have "map_of (aw_maps w1 a) \<subseteq>\<^sub>m map_of (aw_maps w' a)"
      using two(4) a by (auto intro: map_le_trans split: if_splits)
    then show ?thesis using one(8) a by simp
  qed
  have "grown proj w (vm # vms) w'"
    using one(3) two(3) by (simp add: grown_def)
  then show ?case
    using one(1,2) two(1,2) vars by (intro exI [of _ "vm # vms"] exI [of _ w']) simp
qed

subsection \<open>Lemmas: scaling up\<close>

lemma ps_rows_GetProject [simp]: "ps_rows (snd (GetProject hit cok ok i s)) = ps_rows s"
  by (simp add: GetProject_def cachedGet_def split: option.splits)

lemma known_project_GetProject [simp]: "known_project (snd (GetProject hit cok ok i s)) p = known_project s p"
  by (simp add: known_project_def)

lemma scale_up_run:
  assumes "\<forall>n. ae_db e n" "ae_hasRunner e" "inj (ae_newid e)" "\<forall>m \<ge> aw_step w. ae_newid e m \<notin> vm_ID ` set (aw_vms w)"
    and found: "fst (GetProject (ae_hit e (aw_step w)) (ae_cok e (aw_step w)) True projID (aw_projects w)) = Some p"
    and "known_project (aw_projects w) p" "bootable e (aw_golden w) (pr_Image p)" "int (length (pr_VMIDs p)) < n"
      "\<forall>i \<in> set [int (length (pr_VMIDs p))..n - 1]. \<not> occupied (pr_ID p) (aw_vms w) i"
  shows "\<exists>resp w' vms row. run_state (handleScale e projID (Inr n)) w = (resp, w') \<and> rs_status resp = 200 \<and>
    aw_vms w' = aw_vms w @ vms \<and> aw_spawned w' = aw_spawned w @ map Call_Boot vms \<and>
    map vm_ReplicaIndex vms = [int (length (pr_VMIDs p))..n - 1] \<and>
    (\<forall>vm \<in> set vms. vm_ProjectID vm = pr_ID p \<and> vm_State vm = StatePending \<and> vm_Image vm = pr_Image p) \<and>
    select_row project_key (pr_ID p) (ps_rows (aw_projects w')) = Some row \<and>
    pr_VMIDs (pj_data row) = pr_VMIDs p @ map vm_ID vms \<and> pr_ReplicasDesired (pj_data row) = n \<and>
    (pr_Env p \<noteq> [] \<longrightarrow> map_of (extra_vars e (aw_secrets w) (pr_ID p) (pr_Env p)) \<subseteq>\<^sub>m map_of (pr_Env (pj_data row)))"
proof -
  have "fst (GetProject (ae_hit e (aw_step w)) (ae_cok e (aw_step w)) (ae_db e (aw_step w)) projID (aw_projects w)) = Some p"
    using assms(1) found by simp
  then obtain lp w1 where lp: "run_state (api_GetProject e projID) w = (Some lp, w1)" "lp_data lp = p" "ref_ok w1 (lp_Env lp)"
      "lp_Env lp = None \<longleftrightarrow> pr_Env p = []" "vars_of (aw_maps w1) (lp_Env lp) = pr_Env p" "untouched w w1" "aw_step w1 = Suc (aw_step w)"
      "aw_projects w1 = snd (GetProject (ae_hit e (aw_step w)) (ae_cok e (aw_step w)) (ae_db e (aw_step w)) projID (aw_projects w))"
    by (rule api_GetProject_Some)
  let ?is = "[int (length (pr_VMIDs p))..n - 1]"
  have is_ne: "?is \<noteq> []" using assms(8) by simp
  have "\<exists>vms w2. run_state (foldS (grow_round e 1) ?is (lp, None)) w1 = ((pool_extend (map vm_ID vms) lp, None), w2) \<and>
    map vm_ReplicaIndex vms = ?is \<and> grown lp w1 vms w2 \<and>
    (\<forall>a. lp_Env lp = Some a \<longrightarrow> map_of (if ?is = [] then aw_maps w1 a
         else extra_vars e (aw_secrets w1) (pr_ID (lp_data lp)) (aw_maps w1 a)) \<subseteq>\<^sub>m map_of (aw_maps w2 a))"
    using assms lp by (intro grow_run) (simp_all add: untouched_def)
  then obtain vms w2 where g: "run_state (grow e 1 (int (length (pr_VMIDs p))) n (lp, None)) w1 = ((pool_extend (map vm_ID vms) lp, None), w2)"
      "map vm_ReplicaIndex vms = ?is" "grown lp w1 vms w2"
      "\<forall>a. lp_Env lp = Some a \<longrightarrow> map_of (extra_vars e (aw_secrets w1) (pr_ID p) (aw_maps w1 a)) \<subseteq>\<^sub>m map_of (aw_maps w2 a)"
    using is_ne lp(2) by (auto simp: grow_rounds)
  define q where "q = (pool_extend (map vm_ID vms) lp)\<lparr>lp_data := (lp_data (pool_extend (map vm_ID vms) lp))\<lparr>pr_ReplicasDesired := n\<rparr>\<rparr>"
  have q: "pr_ID (stored w2 q) = pr_ID p" "pr_Name (stored w2 q) = pr_Name p" "pr_ReplicasDesired (stored w2 q) = n"
      "pr_VMIDs (stored w2 q) = pr_VMIDs p @ map vm_ID vms" "pr_Env (stored w2 q) = vars_of (aw_maps w2) (lp_Env lp)"
    by (simp_all add: q_def stored_def lp(2))
  have known: "known_project (aw_projects w2) p"
    using g(3) lp(2) by (simp add: grown_def)
  have "\<exists>r. select_row project_key (pr_ID p) (ps_rows (PutProject (ae_cok e (aw_step w2)) True (stored w2 q) (aw_projects w2))) = Some r \<and>
      pj_data r = (stored w2 q)\<lparr>pr_ComposeYAML := []\<rparr>"
    by (rule PutProject_known(2) [OF known q(1,2)]) (use q(3) assms(8) in simp_all)
  then obtain row where row: "select_row project_key (pr_ID p) (ps_rows (PutProject (ae_cok e (aw_step w2)) True (stored w2 q) (aw_projects w2))) = Some row"
      "pj_data row = (stored w2 q)\<lparr>pr_ComposeYAML := []\<rparr>"
    by (elim exE conjE)
  obtain resp w' where run: "run_state (handleScale e projID (Inr n)) w = (resp, w')"
    by (cases "run_state (handleScale e projID (Inr n)) w")
  have "max 0 n = n" using assms(8) by simp
  then have after: "rs_status resp = 200" "aw_vms w' = aw_vms w2" "aw_spawned w' = aw_spawned w2"
      "aw_projects w' = PutProject (ae_cok e (aw_step w2)) True (stored w2 q) (aw_projects w2)"
    using run lp(1,2) g(1) assms(1,8)
    by (auto simp: handleScale_def resize_pool_def api_PutProject_run api_Broadcast_def writeJSON_def q_def Let_def)
  have vars: "map_of (extra_vars e (aw_secrets w) (pr_ID p) (pr_Env p)) \<subseteq>\<^sub>m map_of (pr_Env (pj_data row))" if ne: "pr_Env p \<noteq> []"
  proof -
    obtain a where a: "lp_Env lp = Some a" using ne lp(4) by auto
    then have "aw_maps w1 a = pr_Env p" using lp(5) by simp
    then show ?thesis using g(4) a row(2) q(5) lp(6) by (simp add: untouched_def)
  qed
  show ?thesis
    using run after row q g(2,3) lp(2,6) vars
    by (intro exI [of _ resp] exI [of _ w'] exI [of _ vms] exI [of _ row]) (simp add: grown_def untouched_def)
qed

subsection \<open>Lemmas: promotion\<close>

text \<open>What stopping and dropping machines leaves alone.\<close>

definition same_store :: "api_world \<Rightarrow> api_world \<Rightarrow> bool" where
  "same_store w w' \<longleftrightarrow> aw_deployments w' = aw_deployments w \<and> aw_projects w' = aw_projects w \<and> aw_maps w' = aw_maps w"

lemma stop_each_frame: "same_store w (snd (run_state (stop_each e ids) w))"
proof (induction ids arbitrary: w)
  case (Cons i ids)
  then show ?case
    by (simp add: same_store_def api_GetVM_def run_vmm_def split: option.splits prod.splits)
qed (simp add: same_store_def)

lemma drop_each_run:
  assumes "\<forall>n. ae_db e n"
  shows "aw_vms (snd (run_state (drop_each e ids) w)) = filter (\<lambda>vm. vm_ID vm \<notin> set ids) (aw_vms w)"
    and "same_store w (snd (run_state (drop_each e ids) w))"
  using assms by (induction ids arbitrary: w) (simp_all add: api_DeleteVM_def DeleteVM_def exec_delete_def same_store_def conj_commute)

text \<open>The row that a promotion leaves of a row \<open>r\<close> of the project.\<close>

definition shown :: "Deployment \<Rightarrow> Deployment" where
  "shown d = (if dep_RouteWeight d = 0 then d\<lparr>dep_RouteWeight := dep_RolloutPercent d\<rparr> else d)"

definition promotion :: "string \<Rightarrow> Deployment \<Rightarrow> Deployment" where
  "promotion target r = (weight_defaults (promoted_row target (shown r)))\<lparr>dep_Revision := 0, dep_CreatedAt := dep_CreatedAt r\<rparr>"

lemma promotion_fields:
  "dep_ID (promotion t r) = dep_ID r" "dep_ProjectID (promotion t r) = dep_ProjectID r" "dep_IsProduction (promotion t r) = (dep_ID r = t)"
  "dep_ID r \<noteq> t \<Longrightarrow> dep_RouteWeight r \<noteq> 0 \<Longrightarrow> dep_RouteWeight (promotion t r) = dep_RouteWeight r"
  "dep_ID r = t \<Longrightarrow> dep_RouteWeight (promotion t r) = 100"
  by (auto simp: promotion_def weight_defaults_def promoted_row_def shown_def Let_def)

lemma deployment_valid_promoted: "deployment_valid r \<Longrightarrow> deployment_valid ((weight_defaults (promoted_row t (shown r)))\<lparr>dep_Revision := a, dep_CreatedAt := b\<rparr>)"
  by (auto simp: deployment_valid_def weight_defaults_def promoted_row_def shown_def build_statuses_def Let_def)

lemma rows_CreateDeployment:
  assumes "rows dep_ID t (dep_ID d) = Some old" "deployment_valid ((weight_defaults d)\<lparr>dep_Revision := 0, dep_CreatedAt := now\<rparr>)"
  shows "rows dep_ID (snd (CreateDeployment now True d t)) =
    (rows dep_ID t)(dep_ID d \<mapsto> deployment_upd old ((weight_defaults d)\<lparr>dep_Revision := 0, dep_CreatedAt := now\<rparr>))"
proof -
  let ?new = "(weight_defaults d)\<lparr>dep_Revision := 0, dep_CreatedAt := now\<rparr>"
  have k: "dep_ID ?new = dep_ID d" by (simp add: weight_defaults_def Let_def)
  have "fst (exec_upsert dep_ID deployment_upd no_clash deployment_valid True ?new t) = True"
    using assms k by (simp add: exec_upsert_def upsert_def rows_def no_clash_def list_ex_iff)
  then obtain t' where t': "exec_upsert dep_ID deployment_upd no_clash deployment_valid True ?new t = (True, t')"
    by (metis prod.collapse)
  show ?thesis
    using deployments.exec_upsert_rows [OF t'] t' assms(1) k by (simp add: CreateDeployment_def)
qed

lemma write_rows_run:
  assumes "\<forall>n. ae_db e n" "distinct (map dep_ID ds)"
    "\<forall>r \<in> set ds. rows dep_ID (aw_deployments w) (dep_ID r) = Some r \<and> deployment_valid r"
  shows "\<exists>w'. run_state (write_rows e target (map shown ds)) w = ((), w') \<and> aw_vms w' = aw_vms w \<and> aw_projects w' = aw_projects w \<and>
    aw_maps w' = aw_maps w \<and>
    rows dep_ID (aw_deployments w') = (\<lambda>i. if i \<in> dep_ID ` set ds then map_option (promotion target) (rows dep_ID (aw_deployments w) i)
      else rows dep_ID (aw_deployments w) i)"
  using assms
proof (induction ds arbitrary: w)
  case Nil
  then show ?case by simp
next
  case (Cons r ds)
  let ?now = "ae_clock e (aw_step w)"
  let ?d = "promoted_row target (shown r)"
  define w1 where "w1 = w\<lparr>aw_step := Suc (aw_step w), aw_deployments := snd (CreateDeployment ?now True ?d (aw_deployments w))\<rparr>"
  have id: "dep_ID ?d = dep_ID r" by (simp add: promoted_row_def shown_def Let_def)
  have upd: "deployment_upd r ((weight_defaults ?d)\<lparr>dep_Revision := 0, dep_CreatedAt := ?now\<rparr>) = promotion target r"
    by (auto simp: deployment_upd_def promotion_def weight_defaults_def promoted_row_def shown_def Let_def)
  have rows1: "rows dep_ID (aw_deployments w1) = (rows dep_ID (aw_deployments w))(dep_ID r \<mapsto> promotion target r)"
    using rows_CreateDeployment [of "aw_deployments w" ?d r ?now] Cons.prems(3) id upd deployment_valid_promoted
    by (simp add: w1_def)
  have step: "run_state (api_CreateDeployment e ?d) w = ((fst (CreateDeployment ?now True ?d (aw_deployments w)), weight_defaults ?d), w1)"
    using Cons.prems(1) by (simp add: api_CreateDeployment_def w1_def split: prod.splits)
  have "\<forall>x \<in> set ds. rows dep_ID (aw_deployments w1) (dep_ID x) = Some x \<and> deployment_valid x"
    using Cons.prems(2,3) rows1 by (auto simp: image_iff)
  then have "\<exists>w'. run_state (write_rows e target (map shown ds)) w1 = ((), w') \<and> aw_vms w' = aw_vms w1 \<and> aw_projects w' = aw_projects w1 \<and>
    aw_maps w' = aw_maps w1 \<and>
    rows dep_ID (aw_deployments w') = (\<lambda>i. if i \<in> dep_ID ` set ds then map_option (promotion target) (rows dep_ID (aw_deployments w1) i)
      else rows dep_ID (aw_deployments w1) i)"
    using Cons.prems(1,2) by (intro Cons.IH) simp_all
  then obtain w' where w': "run_state (write_rows e target (map shown ds)) w1 = ((), w')" "aw_vms w' = aw_vms w1" "aw_projects w' = aw_projects w1"
    "aw_maps w' = aw_maps w1"
    "rows dep_ID (aw_deployments w') = (\<lambda>i. if i \<in> dep_ID ` set ds then map_option (promotion target) (rows dep_ID (aw_deployments w1) i)
      else rows dep_ID (aw_deployments w1) i)"
    by (elim exE conjE)
  have "rows dep_ID (aw_deployments w') = (\<lambda>i. if i \<in> dep_ID ` set (r # ds) then map_option (promotion target) (rows dep_ID (aw_deployments w) i)
      else rows dep_ID (aw_deployments w) i)"
  proof
    fix i
    have "dep_ID r \<notin> dep_ID ` set ds" using Cons.prems(2) by simp
    then show "rows dep_ID (aw_deployments w') i = (if i \<in> dep_ID ` set (r # ds) then map_option (promotion target) (rows dep_ID (aw_deployments w) i)
      else rows dep_ID (aw_deployments w) i)"
      unfolding w'(5) rows1 using Cons.prems(3) by auto
  qed
  then show ?case
    using step w'(1-4) by (intro exI [of _ w']) (simp add: w1_def)
qed

lemma find_shown: "find (\<lambda>d. dep_ID d = i) (map shown ds) = map_option shown (find (\<lambda>d. dep_ID d = i) ds)"
  by (induction ds) (auto simp: shown_def)

lemma find_unique_key: "distinct (map k ds) \<Longrightarrow> r \<in> set ds \<Longrightarrow> find (\<lambda>d. k d = k r) ds = Some r"
  by (induction ds) (auto simp: image_iff)

lemma shown_fields:
  "dep_ID (shown d) = dep_ID d" "dep_ImageDigest (shown d) = dep_ImageDigest d" "AllChecksPassed (shown d) = AllChecksPassed d"
  "dep_VMIDs (shown d) = dep_VMIDs d" "dep_GitURL (shown d) = dep_GitURL d"
  by (simp_all add: shown_def AllChecksPassed_def)

lemma rows_distinct: "distinct (map k t) \<Longrightarrow> r \<in> set t \<Longrightarrow> rows k t (k r) = Some r"
  by (induction t) (auto simp: rows_def image_iff)

lemma rows_SomeD: "rows k t i = Some r \<Longrightarrow> r \<in> set t \<and> k r = i"
  by (auto simp: rows_def select_row_def find_Some_iff)

lemma key_of_filter:
  assumes "distinct (map k t)"
  shows "i \<in> k ` set (rev (filter P t)) \<longleftrightarrow> (\<exists>x. rows k t i = Some x \<and> P x)"
proof
  assume "i \<in> k ` set (rev (filter P t))"
  then obtain x where "x \<in> set t" "P x" "i = k x" by auto
  then show "\<exists>x. rows k t i = Some x \<and> P x"
    using rows_distinct [OF assms] by simp
next
  assume "\<exists>x. rows k t i = Some x \<and> P x"
  then obtain x where "rows k t i = Some x" "P x" by (elim exE conjE)
  then show "i \<in> k ` set (rev (filter P t))"
    using rows_SomeD [of k t i x] by (intro image_eqI [of _ _ x]) simp_all
qed

lemma promoted_again:
  "dep_ID r = target \<Longrightarrow> deployment_upd (promotion target r) ((weight_defaults ((shown r)\<lparr>dep_BuildStatus := ''live'', dep_IsProduction := True,
     dep_Environment := ''production'', dep_RouteWeight := 100, dep_RolloutPercent := 100\<rparr>))\<lparr>dep_Revision := 0, dep_CreatedAt := now\<rparr>) =
   promotion target r"
  by (auto simp: deployment_upd_def promotion_def weight_defaults_def promoted_row_def shown_def Let_def)

lemma live_valid: "deployment_valid r \<Longrightarrow> deployment_valid ((weight_defaults ((shown r)\<lparr>dep_BuildStatus := ''live'', dep_IsProduction := True,
     dep_Environment := ''production'', dep_RouteWeight := 100, dep_RolloutPercent := 100\<rparr>))\<lparr>dep_Revision := 0, dep_CreatedAt := now\<rparr>)"
  by (auto simp: deployment_valid_def weight_defaults_def shown_def build_statuses_def Let_def)

text \<open>Promoting a deployment that already has a pool, in one statement: the rows, the replicas and the project.\<close>

lemma run_unit: "run_state m w = ((), snd (run_state m w))"
  by (cases "run_state m w") simp

lemma drop_pool_run:
  assumes "\<forall>n. ae_db e n"
  shows "\<exists>w'. run_state (if keepOld then State_Monad.return () else do { stop_each e old; drop_each e old }) w = ((), w') \<and> same_store w w' \<and>
    (keepOld \<longrightarrow> w' = w) \<and> (\<not> keepOld \<longrightarrow> set old \<inter> vm_ID ` set (aw_vms w') = {})"
proof (cases keepOld)
  case False
  define w1 where "w1 = snd (run_state (stop_each e old) w)"
  define w2 where "w2 = snd (run_state (drop_each e old) w1)"
  have "same_store w w1" "same_store w1 w2" "set old \<inter> vm_ID ` set (aw_vms w2) = {}"
    using stop_each_frame drop_each_run [OF assms, where ids = old and w = w1] by (auto simp: w1_def w2_def)
  moreover have "run_state (stop_each e old) w = ((), w1)" "run_state (drop_each e old) w1 = ((), w2)"
    unfolding w1_def w2_def by (rule run_unit)+
  ultimately show ?thesis
    using False by (intro exI [of _ w2]) (simp add: same_store_def)
qed (simp add: same_store_def)

lemma promote_run:
  assumes "\<forall>n. ae_db e n"
    and found: "fst (GetProject (ae_hit e (aw_step w)) (ae_cok e (aw_step w)) True projID (aw_projects w)) = Some p"
    and p: "pr_ID p \<noteq> []" "known_project (aw_projects w) p" "0 \<le> pr_ReplicasDesired p"
    and t: "distinct (map dep_ID (aw_deployments w))" "\<forall>r \<in> set (aw_deployments w). deployment_valid r"
    and r: "r \<in> set (aw_deployments w)" "dep_ProjectID r = pr_ID p" "dep_ImageDigest r \<noteq> []" "AllChecksPassed r" "dep_VMIDs r \<noteq> []"
  shows "\<exists>resp w' row. run_state (handlePromoteDeployment e projID (dep_ID r) keepOld) w = (resp, w') \<and> rs_status resp = 200 \<and>
    select_row project_key (pr_ID p) (ps_rows (aw_projects w')) = Some row \<and> pr_VMIDs (pj_data row) = dep_VMIDs r \<and>
    pr_Image (pj_data row) = dep_ImageDigest r \<and>
    (keepOld \<longrightarrow> aw_vms w' = aw_vms w) \<and> (\<not> keepOld \<longrightarrow> set (pr_VMIDs p) \<inter> vm_ID ` set (aw_vms w') = {}) \<and>
    rows dep_ID (aw_deployments w') =
      (\<lambda>i. map_option (\<lambda>x. if dep_ProjectID x = pr_ID p then promotion (dep_ID r) x else x) (rows dep_ID (aw_deployments w) i))"
proof -
  have "fst (GetProject (ae_hit e (aw_step w)) (ae_cok e (aw_step w)) (ae_db e (aw_step w)) projID (aw_projects w)) = Some p"
    using assms(1) found by simp
  then obtain lp w1 where lp: "run_state (api_GetProject e projID) w = (Some lp, w1)" "lp_data lp = p" "ref_ok w1 (lp_Env lp)"
      "lp_Env lp = None \<longleftrightarrow> pr_Env p = []" "vars_of (aw_maps w1) (lp_Env lp) = pr_Env p" "untouched w w1" "aw_step w1 = Suc (aw_step w)"
      "aw_projects w1 = snd (GetProject (ae_hit e (aw_step w)) (ae_cok e (aw_step w)) (ae_db e (aw_step w)) projID (aw_projects w))"
    by (rule api_GetProject_Some)
  let ?ds = "rev (filter (\<lambda>d. dep_ProjectID d = pr_ID p) (aw_deployments w))"
  let ?target = "dep_ID r"
  have same: "aw_deployments w1 = aw_deployments w" "aw_vms w1 = aw_vms w" using lp(6) by (simp_all add: untouched_def)
  have list: "ListDeployments True (pr_ID p) (aw_deployments w) = map shown ?ds"
    using p(1) by (simp add: ListDeployments_def query_def shown_def cong: map_cong)
  have dds: "distinct (map dep_ID ?ds)" "r \<in> set ?ds"
    using t(1) r(1,2) by (simp_all add: distinct_map_filter rev_map [symmetric])
  have target: "find (\<lambda>d. dep_ID d = ?target) (map shown ?ds) = Some (shown r)"
    using find_unique_key [OF dds] by (simp add: find_shown)
  define proj where "proj = lp\<lparr>lp_data := p\<lparr>pr_Image := dep_ImageDigest r, pr_VMIDs := dep_VMIDs r\<rparr>\<rparr>"
  define w2 where "w2 = w1\<lparr>aw_step := Suc (Suc (aw_step w1))\<rparr>"
  have w2: "aw_deployments w2 = aw_deployments w" "aw_vms w2 = aw_vms w" "aw_projects w2 = aw_projects w1"
    using same by (simp_all add: w2_def)
  have rows2: "\<forall>x \<in> set ?ds. rows dep_ID (aw_deployments w2) (dep_ID x) = Some x \<and> deployment_valid x"
    using t w2(1) by (simp add: rows_distinct)
  obtain w3 where w3: "run_state (write_rows e ?target (map shown ?ds)) w2 = ((), w3)" "aw_vms w3 = aw_vms w2" "aw_projects w3 = aw_projects w2"
      "aw_maps w3 = aw_maps w2"
      "rows dep_ID (aw_deployments w3) = (\<lambda>i. if i \<in> dep_ID ` set ?ds then map_option (promotion ?target) (rows dep_ID (aw_deployments w2) i)
        else rows dep_ID (aw_deployments w2) i)"
    using write_rows_run [OF assms(1) dds(1) rows2, of ?target] by (elim exE conjE)
  obtain w4 where w4: "run_state (if keepOld then State_Monad.return () else do { stop_each e (pr_VMIDs p); drop_each e (pr_VMIDs p) }) w3 = ((), w4)"
      "same_store w3 w4" "keepOld \<longrightarrow> w4 = w3" "\<not> keepOld \<longrightarrow> set (pr_VMIDs p) \<inter> vm_ID ` set (aw_vms w4) = {}"
    using drop_pool_run [OF assms(1), of keepOld "pr_VMIDs p" w3] by (elim exE conjE)
  define w5 where "w5 = snd (run_state (api_PutProject e proj) w4)"
  have put: "run_state (api_PutProject e proj) w4 = ((), w5)" by (simp add: w5_def api_PutProject_run)
  let ?live = "(shown r)\<lparr>dep_BuildStatus := ''live'', dep_IsProduction := True,
             dep_Environment := ''production'', dep_RouteWeight := 100, dep_RolloutPercent := 100\<rparr>"
  define w6 where "w6 = snd (run_state (api_CreateDeployment e ?live) w5)"
  have rows5: "rows dep_ID (aw_deployments w5) =
      (\<lambda>i. map_option (\<lambda>x. if dep_ProjectID x = pr_ID p then promotion ?target x else x) (rows dep_ID (aw_deployments w) i))"
  proof
    fix i
    have "aw_deployments w5 = aw_deployments w3" using w4(2) by (simp add: w5_def api_PutProject_run same_store_def)
    moreover have "i \<in> dep_ID ` set ?ds \<longleftrightarrow> (\<exists>x. rows dep_ID (aw_deployments w) i = Some x \<and> dep_ProjectID x = pr_ID p)"
      using t(1) by (rule key_of_filter)
    ultimately show "rows dep_ID (aw_deployments w5) i =
        map_option (\<lambda>x. if dep_ProjectID x = pr_ID p then promotion ?target x else x) (rows dep_ID (aw_deployments w) i)"
      using w3(5) w2(1) by (cases "rows dep_ID (aw_deployments w) i") auto
  qed
  have rows6: "rows dep_ID (aw_deployments w6) = rows dep_ID (aw_deployments w5)"
  proof -
    have old: "rows dep_ID (aw_deployments w5) (dep_ID ?live) = Some (promotion ?target r)"
      using rows5 rows_distinct [OF t(1) r(1)] r(2) by (simp add: shown_fields)
    have "aw_deployments w6 = snd (CreateDeployment (ae_clock e (aw_step w5)) True ?live (aw_deployments w5))"
      using assms(1) by (simp add: w6_def api_CreateDeployment_def split: prod.splits)
    then show ?thesis
      using rows_CreateDeployment [OF old live_valid] t(2) r(1) old by (simp add: promoted_again fun_upd_idem)
  qed
  have "select_row project_key (pr_ID p) (ps_rows (aw_projects w5)) = Some row \<Longrightarrow>
      select_row project_key (pr_ID p) (ps_rows (aw_projects w6)) = Some row" for row
    by (simp add: w6_def api_CreateDeployment_def split: prod.splits)
  moreover have "known_project (aw_projects w4) p"
    using w4(2) w3(3) w2(3) lp(8) p(2) by (simp add: same_store_def)
  then obtain row where row: "select_row project_key (pr_ID p) (ps_rows (aw_projects w5)) = Some row"
      "pr_VMIDs (pj_data row) = dep_VMIDs r" "pr_Image (pj_data row) = dep_ImageDigest r"
    using PutProject_known(2) [of "aw_projects w4" p "stored w4 proj" True "ae_cok e (aw_step w4)"] assms(1) p(3)
    by (auto simp: w5_def api_PutProject_run stored_def proj_def)
  ultimately have row6: "select_row project_key (pr_ID p) (ps_rows (aw_projects w6)) = Some row" by simp
  have vms: "aw_vms w6 = aw_vms w4" by (simp add: w6_def w5_def api_CreateDeployment_def api_PutProject_run split: prod.splits)
  obtain res where create: "run_state (api_CreateDeployment e ?live) w5 = (res, w6)"
    unfolding w6_def by (cases "run_state (api_CreateDeployment e ?live) w5") simp
  have w2': "run_state (api_ListDeployments e (pr_ID p)) w1 = (map shown ?ds, w1\<lparr>aw_step := Suc (aw_step w1)\<rparr>)"
    "run_state (api_ListDeployments e (pr_ID p)) (w1\<lparr>aw_step := Suc (aw_step w1)\<rparr>) = (map shown ?ds, w2)"
    using assms(1) same(1) list by (simp_all add: api_ListDeployments_def w2_def)
  obtain resp w' where promote: "run_state (promote e keepOld lp (shown r)) (w1\<lparr>aw_step := Suc (aw_step w1)\<rparr>) = (resp, w')"
    by fastforce
  have final: "rs_status resp = 200" "aw_vms w' = aw_vms w6" "aw_projects w' = aw_projects w6" "aw_deployments w' = aw_deployments w6"
    using promote lp(2) r(3,5) w2'(2) w3(1) w4(1) put create
    by (auto simp add: promote_def shown_fields proj_def api_AppendDaemonLog_def api_Broadcast_def writeJSON_def Let_def)
  have run: "run_state (handlePromoteDeployment e projID ?target keepOld) w = (resp, w')"
    using promote lp(1,2) w2'(1) target r(3,4) by (simp add: handlePromoteDeployment_def shown_fields)
  show ?thesis
    using run row6 row rows6 rows5 vms w4(3,4) w3(2) w2(2) final
    by (intro exI [of _ resp] exI [of _ w'] exI [of _ row]) simp
qed

end
