(* ===== verification/Autoscale_Bounds.thy ===== *)
theory Autoscale_Bounds
  imports Pool_Laws
begin

text \<open>
  An invariant of the project table through every call of the replica pool, whatever the database, the runner and
  the image checks answer, and the bounds of the autoscaler that follow from it. \<open>triple\<close> is a Hoare triple
  over the state monad with the invariant on both sides.
\<close>

subsection \<open>Triples\<close>

definition all_rows :: "(Project \<Rightarrow> bool) \<Rightarrow> api_world \<Rightarrow> bool" where
  "all_rows good w \<longleftrightarrow> (\<forall>row \<in> set (ps_rows (aw_projects w)). good (pj_data row))"

definition triple :: "(Project \<Rightarrow> bool) \<Rightarrow> 'a api \<Rightarrow> ('a \<Rightarrow> bool) \<Rightarrow> bool" where
  "triple good m Q \<longleftrightarrow> (\<forall>w. all_rows good w \<longrightarrow> all_rows good (snd (run_state m w)) \<and> Q (fst (run_state m w)))"

text \<open>A computation that leaves the rows of the project table alone.\<close>

definition reads :: "'a api \<Rightarrow> bool" where
  "reads m \<longleftrightarrow> (\<forall>w. ps_rows (aw_projects (snd (run_state m w))) = ps_rows (aw_projects w))"

lemma triple_return: "Q x \<Longrightarrow> triple good (State_Monad.return x) Q"
  by (simp add: triple_def)

lemma triple_bind: "triple good m Q \<Longrightarrow> (\<And>x. Q x \<Longrightarrow> triple good (f x) R) \<Longrightarrow> triple good (m \<bind> f) R"
  unfolding triple_def by (simp split: prod.splits) (metis fst_conv snd_conv)

lemma triple_reads: "reads m \<Longrightarrow> triple good m (\<lambda>_. True)"
  by (simp add: reads_def triple_def all_rows_def)

lemma triple_seq: "reads m \<Longrightarrow> (\<And>x. triple good (f x) R) \<Longrightarrow> triple good (m \<bind> f) R"
  using triple_bind triple_reads by blast

lemma triple_weaken: "triple good m Q \<Longrightarrow> (\<And>x. Q x \<Longrightarrow> R x) \<Longrightarrow> triple good m R"
  by (simp add: triple_def)

lemma reads_return [intro]: "reads (State_Monad.return x)"
  by (simp add: reads_def)

lemma reads_get [intro]: "reads State_Monad.get"
  by (simp add: reads_def State_Monad.get_def)

lemma reads_bind [intro]: "reads m \<Longrightarrow> (\<And>x. reads (f x)) \<Longrightarrow> reads (m \<bind> f)"
  by (simp add: reads_def split: prod.splits) (metis snd_conv)

lemma reads_cases [intro]:
  "reads a \<Longrightarrow> (\<And>x. reads (f x)) \<Longrightarrow> reads (case_option a f o1)"
  "(\<And>x. reads (g x)) \<Longrightarrow> (\<And>x. reads (f x)) \<Longrightarrow> reads (case_sum g f s1)"
  "reads a \<Longrightarrow> reads b \<Longrightarrow> reads (if c then a else b)"
  by (simp_all split: option.splits sum.splits)

lemma reads_steps [intro]:
  "reads tick" "reads (new_map m)" "reads (read_map r)" "reads (write_map a m)" "reads (spawn_vmm c)"
  "reads (api_NewID e)" "reads (api_Now e)" "reads (api_AppendDaemonLog l)" "reads (api_PutVM e vm)" "reads (api_GetVM e i)"
  "reads (api_ListSecrets e i)" "reads (api_ListGoldenImages e)" "reads (api_CreateDeployment e d)" "reads (run_vmm e c)"
  by (simp_all add: reads_def api_NewID_def api_Now_def api_AppendDaemonLog_def api_PutVM_def api_GetVM_def api_ListSecrets_def
    api_ListGoldenImages_def api_CreateDeployment_def run_vmm_def spawn_vmm_def split: prod.splits)

lemma reads_merge_secrets [intro]: "reads (merge_secrets e i secs m)"
  by (induction secs arbitrary: m) (auto split: sum.splits)

lemma reads_first_ports [intro]: "reads (first_ports e ids)"
  by (induction ids) (auto split: option.splits)

lemma reads_stop_each [intro]: "reads (stop_each e ids)"
  by (induction ids) (auto split: option.splits)

lemma reads_cpu_samples [intro]: "reads (cpu_samples e ids acc)"
  by (induction ids arbitrary: acc) auto

lemma reads_parts [intro]:
  "reads (secretsEnv e proj)" "reads (applyImageManifest e vm)" "reads (projPorts e proj)" "reads (avgCPU e p)"
  "reads (load_project p)" "reads (cooling e i pol)"
  by (auto simp: secretsEnv_def applyImageManifest_def projPorts_def avgCPU_def load_project_def cooling_def split: option.splits)

subsection \<open>An invariant of stored projects\<close>

locale project_invariant =
  fixes good :: "Project \<Rightarrow> bool"
  assumes good_env: "good (p\<lparr>pr_Env := env\<rparr>) = good p"
    and good_yaml: "good (p\<lparr>pr_ComposeYAML := y\<rparr>) = good p"
begin

lemma PutProject_good:
  assumes "good q" "\<forall>row \<in> set (ps_rows s). good (pj_data row)"
  shows "\<forall>row \<in> set (ps_rows (PutProject cok ok q s)). good (pj_data row)"
proof -
  have "ps_rows (cacheDel cok ks s) = ps_rows s" for ks
    by (simp add: cacheDel_def)
  then show ?thesis
    using assms good_yaml
    by (auto simp: PutProject_def Let_def exec_upsert_def upsert_def project_row_of_def project_upd_def split: option.splits if_splits)
qed

lemma stored_good:
  assumes "good (lp_data proj)" "\<forall>row \<in> set (ps_rows s). good (pj_data row)"
  shows "\<forall>row \<in> set (ps_rows (PutProject cok ok (stored w proj) s)). good (pj_data row)"
  using assms by (intro PutProject_good) (simp_all add: stored_def good_env)

lemma put_triple: "good (lp_data proj) \<Longrightarrow> triple good (api_PutProject e proj) (\<lambda>_. True)"
  using stored_good by (simp add: triple_def all_rows_def api_PutProject_run)

lemma launch_triple:
  assumes "good (lp_data proj)" "\<And>i. good (lp_data (pool_add i proj))"
  shows "triple good (launch_replica e vm (proj, None)) (\<lambda>pd. snd pd = None \<and> (fst pd = proj \<or> (\<exists>i. fst pd = pool_add i proj)))"
proof (cases "vm_ready e vm")
  case True
  then have "\<forall>w. run_state (launch_replica e vm (proj, None)) w = ((pool_add (vm_ID vm) proj, None), snd (run_state (launch_replica e vm (proj, None)) w))"
    by (simp add: launch_pool)
  moreover have "all_rows good (snd (run_state (launch_replica e vm (proj, None)) w))" if "all_rows good w" for w
  proof -
    let ?n = "Suc (aw_step w)"
    have "\<forall>row \<in> set (ps_rows (PutProject (ae_cok e ?n) (ae_db e ?n) (stored w (pool_add (vm_ID vm) proj)) (aw_projects w))). good (pj_data row)"
      using that by (intro stored_good assms(2)) (simp add: all_rows_def)
    then show ?thesis by (simp add: launch_pool [OF True] all_rows_def)
  qed
  ultimately show ?thesis
    unfolding triple_def by (metis fst_conv snd_conv)
next
  case False
  then show ?thesis by (auto simp: triple_def launch_refused all_rows_def)
qed

lemma boot_triple:
  assumes "good (lp_data proj)" "\<And>i. good (lp_data (pool_add i proj))"
  shows "triple good (bootReplica e req idx (proj, None)) (\<lambda>pd. snd pd = None \<and> (fst pd = proj \<or> (\<exists>i. fst pd = pool_add i proj)))"
proof -
  have "reads (case cr_Env req of None \<Rightarrow> new_map [] | Some a \<Rightarrow> State_Monad.return a)"
    by (cases "cr_Env req") auto
  then show ?thesis
    unfolding bootReplica_def prod.case using launch_triple [OF assms]
    by (intro triple_seq reads_steps reads_parts) auto
qed

text \<open>A round of growing a pool adds at most one replica per number.\<close>

lemma grow_triple:
  assumes "\<And>ids. length ids \<le> length js \<Longrightarrow> good (lp_data (pool_extend ids proj))"
  shows "triple good (foldS (\<lambda>i pd. do {
     ports \<leftarrow> projPorts e (fst pd);
     bootReplica e (pool_req (pr_Name (lp_data (fst pd))) (pr_Image (lp_data (fst pd))) replicas (lp_Env (fst pd)) ports) i pd }) js (proj, None))
    (\<lambda>pd. snd pd = None \<and> (\<exists>ids. length ids \<le> length js \<and> fst pd = pool_extend ids proj))"
  using assms
proof (induction js arbitrary: proj)
  case Nil
  then show ?case by (auto intro!: triple_return exI [of _ "[]"])
next
  case (Cons j js)
  have now: "good (lp_data proj)" "good (lp_data (pool_add i proj))" for i
    using Cons.prems [of "[]"] Cons.prems [of "[i]"] by (simp_all add: pool_extend_def pool_add_def)
  have one: "triple good (do { ports \<leftarrow> projPorts e proj;
      bootReplica e (pool_req (pr_Name (lp_data proj)) (pr_Image (lp_data proj)) replicas (lp_Env proj) ports) j (proj, None) })
      (\<lambda>pd. snd pd = None \<and> (fst pd = proj \<or> (\<exists>i. fst pd = pool_add i proj)))"
    using boot_triple [OF now] by (intro triple_seq reads_parts)
  show ?case
    unfolding foldS.simps fst_conv
  proof (rule triple_bind [OF one])
    fix pd :: "live_project \<times> Deployment option"
    assume pd: "snd pd = None \<and> (fst pd = proj \<or> (\<exists>i. fst pd = pool_add i proj))"
    then obtain xs where xs: "pd = (pool_extend xs proj, None)" "length xs \<le> 1"
    proof -
      have "pool_add i proj = pool_extend [i] proj" for i by (simp add: pool_extend_def pool_add_def)
      then have "(\<exists>xs. fst pd = pool_extend xs proj \<and> length xs \<le> 1)"
        using pd by (auto intro: exI [of _ "[]"] exI [of _ "[_]"])
      then show thesis using pd that by (cases pd) auto
    qed
    have ext: "pool_extend ids (pool_extend xs proj) = pool_extend (xs @ ids) proj" for ids
      by (simp add: pool_extend_def)
    have "good (lp_data (pool_extend ids (pool_extend xs proj)))" if "length ids \<le> length js" for ids
      unfolding ext using that xs(2) by (intro Cons.prems) simp
    then show "triple good (foldS (\<lambda>i pd. do {
        ports \<leftarrow> projPorts e (fst pd);
        bootReplica e (pool_req (pr_Name (lp_data (fst pd))) (pr_Image (lp_data (fst pd))) replicas (lp_Env (fst pd)) ports) i pd }) js pd)
      (\<lambda>pd. snd pd = None \<and> (\<exists>ids. length ids \<le> length (j # js) \<and> fst pd = pool_extend ids proj))"
      unfolding xs(1)
    proof (rule triple_weaken [OF Cons.IH])
      fix x :: "live_project \<times> Deployment option"
      assume "snd x = None \<and> (\<exists>ids. length ids \<le> length js \<and> fst x = pool_extend ids (pool_extend xs proj))"
      then obtain ids where "snd x = None" "length ids \<le> length js" "fst x = pool_extend (xs @ ids) proj"
        unfolding ext by (elim exE conjE)
      then show "snd x = None \<and> (\<exists>ids. length ids \<le> length (j # js) \<and> fst x = pool_extend ids proj)"
        using xs(2) by (intro conjI exI [of _ "xs @ ids"]) simp_all
    qed
  qed
qed

end

subsection \<open>The bounds of the autoscaler\<close>

text \<open>
  A project within its policy: the policy is one that \<open>handlePutAutoscale\<close> stores, and neither the pool nor the
  desired count is above its maximum.
\<close>

definition policy_ok :: "AutoscalePolicy \<Rightarrow> bool" where
  "policy_ok a \<longleftrightarrow> 0 \<le> as_MinReplicas a \<and> as_MinReplicas a < as_MaxReplicas a"

definition bounded :: "Project \<Rightarrow> bool" where
  "bounded p \<longleftrightarrow> (\<forall>a. pr_Autoscale p = Some a \<longrightarrow>
     policy_ok a \<and> int (length (pr_VMIDs p)) \<le> as_MaxReplicas a \<and> pr_ReplicasDesired p \<le> as_MaxReplicas a)"

lemma clamp_policy_ok: "policy_ok (clamp_policy a)"
  by (simp add: policy_ok_def clamp_policy_def Let_def)

interpretation scaled: project_invariant bounded
  by unfold_locales (simp_all add: bounded_def)

lemma scale_target_bounds:
  "policy_ok a \<Longrightarrow> 0 \<le> cur \<Longrightarrow> cur \<le> as_MaxReplicas a \<Longrightarrow> scale_target a cpu cur = Some n \<Longrightarrow> 0 \<le> n \<and> n \<le> as_MaxReplicas a"
  by (auto simp: policy_ok_def scale_target_def split: if_splits)

lemma resize_triple:
  assumes "bounded (lp_data proj)" "pr_Autoscale (lp_data proj) = Some a" "0 \<le> n" "n \<le> as_MaxReplicas a"
  shows "triple bounded (resize_pool e n proj) (\<lambda>p. bounded (lp_data p) \<and> pr_Autoscale (lp_data p) = Some a)"
proof -
  let ?cur = "int (length (pr_VMIDs (lp_data proj)))"
  have extend: "bounded (lp_data (pool_extend ids proj)) \<and> pr_Autoscale (lp_data (pool_extend ids proj)) = Some a"
    if "length ids \<le> length [?cur..n - 1]" "?cur < n" for ids
    using that assms by (auto simp: bounded_def pool_extend_def)
  have shrink: "bounded ((lp_data proj)\<lparr>pr_VMIDs := take k (pr_VMIDs (lp_data proj))\<rparr>)" for k
    using assms by (auto simp: bounded_def min_def)
  consider "?cur < n" | "n < ?cur" | "n = ?cur" by linarith
  then show ?thesis
  proof cases
    case 1
    have "triple bounded (grow e 1 ?cur n (proj, None))
        (\<lambda>pd. snd pd = None \<and> (\<exists>ids. length ids \<le> length [?cur..n - 1] \<and> fst pd = pool_extend ids proj))"
      unfolding grow_def using extend 1 by (intro scaled.grow_triple) blast
    then have "triple bounded (grow e 1 ?cur n (proj, None)) (\<lambda>pd. bounded (lp_data (fst pd)) \<and> pr_Autoscale (lp_data (fst pd)) = Some a)"
      by (rule triple_weaken) (use extend 1 in auto)
    then show ?thesis
      using 1 by (simp add: resize_pool_def) (erule triple_bind, rule triple_return)
  next
    case 2
    then show ?thesis
      using shrink assms(2) by (simp add: resize_pool_def) (intro triple_seq triple_return reads_stop_each, simp)
  next
    case 3
    then show ?thesis
      using assms by (simp add: resize_pool_def triple_return)
  qed
qed

lemma scaler_scale_triple:
  assumes "bounded (lp_data proj)" "pr_Autoscale (lp_data proj) = Some a" "0 \<le> n" "n \<le> as_MaxReplicas a"
  shows "triple bounded (scaler_scale e proj n) (\<lambda>_. True)"
  unfolding scaler_scale_def
proof (rule triple_bind [OF resize_triple [OF assms]])
  fix p :: live_project
  assume p: "bounded (lp_data p) \<and> pr_Autoscale (lp_data p) = Some a"
  let ?p = "p\<lparr>lp_data := (lp_data p)\<lparr>pr_ReplicasDesired := n\<rparr>\<rparr>"
  have "bounded (lp_data ?p)"
    using p assms(4) by (auto simp: bounded_def)
  then have put: "triple bounded (api_PutProject e ?p) (\<lambda>_. True)" by (rule scaled.put_triple)
  have "reads (update (\<lambda>w. w\<lparr>aw_last := f w\<rparr>))" for f by (simp add: reads_def)
  then have "reads (do { now \<leftarrow> api_Now e; update (\<lambda>w. w\<lparr>aw_last := (aw_last w)(pr_ID (lp_data ?p) \<mapsto> now)\<rparr>);
      avgCPU e (lp_data ?p); State_Monad.return () })"
    by (intro reads_bind reads_steps reads_parts reads_return)
  then show "triple bounded (let proj = ?p in do { api_PutProject e proj; now \<leftarrow> api_Now e;
      update (\<lambda>w. w\<lparr>aw_last := (aw_last w)(pr_ID (lp_data proj) \<mapsto> now)\<rparr>); avgCPU e (lp_data proj); State_Monad.return () }) (\<lambda>_. True)"
    unfolding Let_def by (intro triple_bind [OF put] triple_reads)
qed

lemma scaler_project_triple: "bounded p \<Longrightarrow> triple bounded (scaler_project e p) (\<lambda>_. True)"
proof (cases "pr_Autoscale p")
  case (Some a)
  assume b: "bounded p"
  have cur: "policy_ok a" "int (length (pr_VMIDs p)) \<le> as_MaxReplicas a"
    using b Some by (simp_all add: bounded_def)
  have load: "triple bounded (load_project p) (\<lambda>lp. lp_data lp = p)"
    by (simp add: triple_def load_project_def all_rows_def)
  have go: "triple bounded (do { lp \<leftarrow> load_project p; scaler_scale e lp n }) (\<lambda>_. True)"
    if "scale_target a cpu (int (length (pr_VMIDs p))) = Some n" for cpu n
    using scale_target_bounds [OF cur(1) _ cur(2) that] b Some
    by (intro triple_bind [OF load] scaler_scale_triple [where a = a]) simp_all
  show ?thesis
    using go by (auto simp: scaler_project_def Some intro!: triple_seq triple_return reads_parts split: option.splits)
qed (simp add: scaler_project_def triple_return)

lemma scaler_reconcile_bounded: "all_rows bounded w \<Longrightarrow> all_rows bounded (snd (run_state (scaler_reconcile e) w))"
proof -
  assume w: "all_rows bounded w"
  have "triple bounded (foldS (\<lambda>p _. scaler_project e p) ps ()) (\<lambda>_. True)" if "\<forall>p \<in> set ps. bounded p" for ps
    using that by (induction ps) (auto intro!: triple_return triple_bind [OF scaler_project_triple])
  moreover have "\<forall>p \<in> set (ListProjects (ae_db e (aw_step w)) (aw_projects w)). bounded p"
    using w by (auto simp: ListProjects_def query_def all_rows_def)
  ultimately have t: "triple bounded (foldS (\<lambda>p _. scaler_project e p) (ListProjects (ae_db e (aw_step w)) (aw_projects w)) ()) (\<lambda>_. True)"
    by simp
  have "all_rows bounded (w\<lparr>aw_step := Suc (aw_step w)\<rparr>)"
    using w by (simp add: all_rows_def)
  then show ?thesis
    using t by (simp add: scaler_reconcile_def triple_def)
qed

end
