(* ===== verification/Pool_Properties.thy ===== *)
theory Pool_Properties
  imports Autoscale_Bounds
begin

text \<open>
  What the handlers of the replica pool promise, and where they do not keep it: scaling up, preview deployments,
  promotion, redeployment and the autoscaler, each with a witness on a concrete host.
\<close>

subsection \<open>A concrete host\<close>

definition demo_files :: host_files where
  "demo_files = \<lparr>hf_lstat = (\<lambda>_. Inr \<lparr>fi_symlink = False, fi_regular = True, fi_size = 4096\<rparr>), hf_open = (\<lambda>_. None),
     hf_sha256 = (\<lambda>_. Inr ''00'')\<rparr>"

definition demo_image :: ImageManifest where
  "demo_image = \<lparr>im_ID = ''web'', im_Name = ''web'', im_Type = ''base'', im_Description = [], im_Image = ''base://web'', im_Rootfs = ''/web.ext4'',
     im_Kernel = ''/vmlinux'', im_Architecture = ''x86_64'', im_RootfsSHA256 = [], im_KernelSHA256 = [], im_Status = ''ready'', im_VCPUs = 1,
     im_MemMiB = 256, im_Ports = [], im_Env = [], im_Tags = [], im_Logo = []\<rparr>"

definition demo_api :: api_env where
  "demo_api = \<lparr>ae_db = (\<lambda>_. True), ae_hit = (\<lambda>_. False), ae_cok = (\<lambda>_. True), ae_clock = int, ae_newid = (\<lambda>n. replicate n CHR ''x''),
     ae_hex = (\<lambda>n. replicate n CHR ''f''), ae_collate = (\<lambda>_ _. False), ae_files = demo_files, ae_gcm = demo_gcm, ae_secretKey = demo_key,
     ae_quote = id, ae_box_text = (\<lambda>_. ''box''), ae_base_text = (\<lambda>_. ''base''), ae_db_text = ''db'', ae_catalog = Some [demo_image],
     ae_hostConfig = None, ae_baseDomain = ''example.org'', ae_requestID = ''r1'', ae_etag = (\<lambda>_. ''e''), ae_hasRunner = True,
     ae_runner = (\<lambda>_ _ t. (None, t))\<rparr>"

definition demo_app :: Project where
  "demo_app = zero_Project\<lparr>pr_ID := ''p'', pr_Name := ''app'', pr_Image := ''web'', pr_VMIDs := [''a''], pr_ReplicasDesired := 1,
     pr_Env := [(''PORT'', ''80'')]\<rparr>"

definition demo_pool :: api_world where
  "demo_pool = \<lparr>aw_vms = [zero_VM\<lparr>vm_ID := ''a'', vm_ProjectID := ''p'', vm_State := StateRunning\<rparr>],
     aw_projects = \<lparr>ps_rows = [\<lparr>pj_data = demo_app, pj_kind = ''web'', pj_org = [], pj_tags = [], pj_status = ''running''\<rparr>], ps_cache = (\<lambda>_. None)\<rparr>,
     aw_deployments = [], aw_golden = [], aw_secrets = b_secrets demo_boot_store, aw_metrics = [], aw_buildlog = [],
     aw_rings = \<lparr>st_traffic = (\<lambda>_. []), st_vitals = (\<lambda>_. []), st_logs = (\<lambda>_. []), st_daemonLogs = []\<rparr>, aw_hub = [], aw_calls = [],
     aw_spawned = [], aw_maps = (\<lambda>_. []), aw_next = 0, aw_last = (\<lambda>_. None), aw_step = 0\<rparr>"

lemma demo_simps:
  "ae_db demo_api n" "ae_hasRunner demo_api" "inj (ae_newid demo_api)" "ae_newid demo_api n \<notin> vm_ID ` set (aw_vms demo_pool)"
  "fst (GetProject (ae_hit demo_api m) (ae_cok demo_api m) True ''p'' (aw_projects demo_pool)) = Some demo_app"
  "known_project (aw_projects demo_pool) demo_app"
proof -
  show "inj (ae_newid demo_api)"
    by (rule injI, drule arg_cong [of _ _ length]) (simp add: demo_api_def)
  have "set (ae_newid demo_api n) \<subseteq> {CHR ''x''}" by (auto simp: demo_api_def)
  then show "ae_newid demo_api n \<notin> vm_ID ` set (aw_vms demo_pool)" by (auto simp: demo_pool_def)
qed (simp_all add: demo_api_def demo_pool_def demo_app_def GetProject_def cachedGet_def query_row_def select_row_def project_key_def
  known_project_def proj_name_def)

lemma demo_bootable: "bootable demo_api [] ''web''" "registered demo_api [] ''web''"
  by (simp_all add: bootable_def registered_def image_spec_def ListGoldenImages_def query_def demo_api_def demo_image_def manifest_match_def
    apply_spec_def host_kernel_def vm_ready_def ValidateArtifacts_def inspectFile_def demo_files_def zero_VM_def
    HasPrefix_def)

lemma demo_scale:
  "\<forall>n. ae_db demo_api n" "ae_hasRunner demo_api" "inj (ae_newid demo_api)"
  "\<forall>m \<ge> aw_step demo_pool. ae_newid demo_api m \<notin> vm_ID ` set (aw_vms demo_pool)"
  "fst (GetProject (ae_hit demo_api (aw_step demo_pool)) (ae_cok demo_api (aw_step demo_pool)) True ''p'' (aw_projects demo_pool)) = Some demo_app"
  "known_project (aw_projects demo_pool) demo_app" "bootable demo_api (aw_golden demo_pool) (pr_Image demo_app)"
  "int (length (pr_VMIDs demo_app)) < 3"
  "\<forall>i \<in> set [int (length (pr_VMIDs demo_app))..3 - 1]. \<not> occupied (pr_ID demo_app) (aw_vms demo_pool) i"
proof -
  show "bootable demo_api (aw_golden demo_pool) (pr_Image demo_app)" "int (length (pr_VMIDs demo_app)) < 3"
    using demo_bootable by (simp_all add: demo_pool_def demo_app_def)
  show "\<forall>i \<in> set [int (length (pr_VMIDs demo_app))..3 - 1]. \<not> occupied (pr_ID demo_app) (aw_vms demo_pool) i"
    by (simp add: demo_app_def demo_pool_def occupied_def zero_VM_def)
qed (simp_all add: demo_simps)

subsection \<open>Properties\<close>

text \<open>
  C6: Scaling a project up to \<open>n\<close> replicas, when its image can be booted and the numbers from the size of its pool
  to \<open>n - 1\<close> are free: the handler answers 200, adds exactly one pending replica of the project's image for each of
  these numbers, starts a boot for each, and stores a project whose pool is the old one with the new ids behind
  it and whose desired count is \<open>n\<close>.
\<close>

theorem scale_up_correct:
  assumes "\<forall>n. ae_db e n" "ae_hasRunner e" "inj (ae_newid e)" "\<forall>m \<ge> aw_step w. ae_newid e m \<notin> vm_ID ` set (aw_vms w)"
    and "fst (GetProject (ae_hit e (aw_step w)) (ae_cok e (aw_step w)) True projID (aw_projects w)) = Some p"
    and "known_project (aw_projects w) p" "bootable e (aw_golden w) (pr_Image p)" "int (length (pr_VMIDs p)) < n"
      "\<forall>i \<in> set [int (length (pr_VMIDs p))..n - 1]. \<not> occupied (pr_ID p) (aw_vms w) i"
  shows "\<exists>resp w' vms row. run_state (handleScale e projID (Inr n)) w = (resp, w') \<and> rs_status resp = 200 \<and>
    aw_vms w' = aw_vms w @ vms \<and> aw_spawned w' = aw_spawned w @ map Call_Boot vms \<and>
    map vm_ReplicaIndex vms = [int (length (pr_VMIDs p))..n - 1] \<and>
    (\<forall>vm \<in> set vms. vm_ProjectID vm = pr_ID p \<and> vm_State vm = StatePending \<and> vm_Image vm = pr_Image p) \<and>
    select_row project_key (pr_ID p) (ps_rows (aw_projects w')) = Some row \<and>
    pr_VMIDs (pj_data row) = pr_VMIDs p @ map vm_ID vms \<and> pr_ReplicasDesired (pj_data row) = n"
  using scale_up_run [OF assms] by (elim exE conjE) (intro exI conjI)

theorem scale_up_correct_witness:
  "\<exists>resp w' vms row. run_state (handleScale demo_api ''p'' (Inr 3)) demo_pool = (resp, w') \<and> rs_status resp = 200 \<and>
    map vm_ReplicaIndex vms = [1, 2] \<and> aw_vms w' = aw_vms demo_pool @ vms \<and>
    select_row project_key ''p'' (ps_rows (aw_projects w')) = Some row \<and> pr_VMIDs (pj_data row) = ''a'' # map vm_ID vms"
proof -
  have v: "pr_ID demo_app = ''p''" "pr_VMIDs demo_app = [''a'']" "[1..2] = [1, 2::int]"
    by (simp_all add: demo_app_def upto.simps)
  from scale_up_correct [OF demo_scale] show ?thesis
    unfolding v by (elim exE conjE) (intro exI conjI, assumption+, simp_all add: v)
qed

text \<open>
  C9: Scaling a project up stores its secrets in plain text. When the project has environment variables, every
  secret of the project that opens under the host's key and whose name is not one of these variables is in the
  environment of the project's row afterwards, with its decrypted value: the boot fills the environment map of
  the request, which is the map of the project that is stored next.
\<close>

theorem scale_up_stores_secrets:
  assumes "\<forall>n. ae_db e n" "ae_hasRunner e" "inj (ae_newid e)" "\<forall>m \<ge> aw_step w. ae_newid e m \<notin> vm_ID ` set (aw_vms w)"
    and "fst (GetProject (ae_hit e (aw_step w)) (ae_cok e (aw_step w)) True projID (aw_projects w)) = Some p"
    and "known_project (aw_projects w) p" "bootable e (aw_golden w) (pr_Image p)" "int (length (pr_VMIDs p)) < n"
      "\<forall>i \<in> set [int (length (pr_VMIDs p))..n - 1]. \<not> occupied (pr_ID p) (aw_vms w) i"
    and "keyed secret_key (aw_secrets w)" "sec \<in> set (aw_secrets w)" "se_ProjectID sec = pr_ID p"
      "Open (ae_gcm e) (ae_secretKey e) (se_ValueEncrypted sec) = Inr plain"
      "pr_Env p \<noteq> []" "map_of (pr_Env p) (se_Name sec) = None"
  shows "\<exists>row. select_row project_key (pr_ID p) (ps_rows (aw_projects (snd (run_state (handleScale e projID (Inr n)) w)))) = Some row \<and>
    map_of (pr_Env (pj_data row)) (se_Name sec) = Some plain"
proof -
  let ?secs = "ListSecrets (ae_collate e) True (pr_ID p) (aw_secrets w)"
  have "distinct (map se_Name ?secs)" using assms(10) by (rule ListSecrets_names)
  moreover have "sec \<in> set ?secs" using assms(11,12) by (simp add: ListSecrets_set)
  ultimately have "map_of (secret_vars e ?secs (pr_Env p)) (se_Name sec) = Some plain"
    using assms(13) by (rule map_of_secret_vars)
  then have x: "map_of (extra_vars e (aw_secrets w) (pr_ID p) (pr_Env p)) (se_Name sec) = Some plain"
    using assms(15) by (simp add: extra_vars_def map_of_fill_missing)
  obtain resp w' row where run: "run_state (handleScale e projID (Inr n)) w = (resp, w')"
      "select_row project_key (pr_ID p) (ps_rows (aw_projects w')) = Some row"
      "pr_Env p \<noteq> [] \<longrightarrow> map_of (extra_vars e (aw_secrets w) (pr_ID p) (pr_Env p)) \<subseteq>\<^sub>m map_of (pr_Env (pj_data row))"
    using scale_up_run [OF assms(1-9)] by (elim exE conjE)
  have "map_of (pr_Env (pj_data row)) (se_Name sec) = Some plain"
    using run(3) assms(14) x by (auto simp: map_le_def dom_def dest: bspec)
  then show ?thesis using run(1,2) by (intro exI [of _ row]) simp
qed

theorem scale_up_stores_secrets_witness:
  "\<exists>row. select_row project_key ''p'' (ps_rows (aw_projects (snd (run_state (handleScale demo_api ''p'' (Inr 3)) demo_pool)))) = Some row \<and>
    map_of (pr_Env (pj_data row)) ''TOKEN'' = Some ''hush''"
proof -
  let ?sec = "\<lparr>se_ID = ''1'', se_ProjectID = ''p'', se_Name = ''TOKEN'', se_ValueEncrypted = ''nonce-nonce-'' @ demo_key @ ''hush''\<rparr>"
  have "keyed secret_key (aw_secrets demo_pool)" "?sec \<in> set (aw_secrets demo_pool)"
    by (simp_all add: demo_pool_def demo_boot_store_def keyed_def secret_key_def)
  moreover have "Open (ae_gcm demo_api) (ae_secretKey demo_api) (se_ValueEncrypted ?sec) = Inr ''hush''"
    by (simp add: demo_api_def demo_key_def Open_def aes_key_ok_def gcm_nonce_size_def demo_gcm_def)
  moreover have "pr_Env demo_app \<noteq> []" "map_of (pr_Env demo_app) (se_Name ?sec) = None" "pr_ID demo_app = ''p''"
    by (simp_all add: demo_app_def)
  ultimately show ?thesis
    using scale_up_stores_secrets [OF demo_scale, of ?sec "''hush''"] by simp
qed

text \<open>
  C10: Deploying a preview of a project whose replica numbers are in use boots every replica of the preview
  and records none of them: the replica table refuses each row, because its unique index is on project and
  replica number and the preview counts from zero again. The handler still answers that the deployment is
  accepted, starts the machines, and stores a deployment in status ready that lists ids which no row has.
\<close>

theorem preview_pool_unrecorded:
  assumes "\<forall>n. ae_db e n" "ae_hasRunner e" "\<forall>n. ae_newid e n \<notin> vm_ID ` set (aw_vms w)"
    and "fst (GetProject (ae_hit e (aw_step w)) (ae_cok e (aw_step w)) True projID (aw_projects w)) = Some p" "pr_ID p \<noteq> []"
    and "0 \<le> db_TrafficP req" "db_TrafficP req \<le> 100" "db_Tag req \<noteq> []"
      "ResolveGuestBase (db_GuestBase req) (default_base e) [] = Inr base"
    and "img = (if db_Image req = [] then pr_Image p else db_Image req)" "registered e (aw_golden w) img" "bootable e (aw_golden w) img"
    and "\<forall>i \<in> set [0..wanted_replicas req p - 1]. occupied (pr_ID p) (aw_vms w) i"
  shows "\<exists>resp w' vms. run_state (handleCreateDeployment e projID (Inr req)) w = (resp, w') \<and> rs_status resp = 202 \<and>
    aw_vms w' = aw_vms w \<and> aw_spawned w' = aw_spawned w @ map Call_Boot vms \<and>
    map vm_ReplicaIndex vms = [0..wanted_replicas req p - 1] \<and>
    (\<exists>d \<in> set (aw_deployments w'). dep_BuildStatus d = ''ready'' \<and> dep_VMIDs d = map vm_ID vms) \<and>
    (\<forall>vm \<in> set vms. GetVM True (vm_ID vm) (aw_vms w') = None)"
proof -
  have "fst (GetProject (ae_hit e (aw_step w)) (ae_cok e (aw_step w)) (ae_db e (aw_step w)) projID (aw_projects w)) = Some p"
    using assms(1,4) by simp
  then obtain lp w1 where lp: "run_state (api_GetProject e projID) w = (Some lp, w1)" "lp_data lp = p" "ref_ok w1 (lp_Env lp)" "untouched w w1"
    by (rule api_GetProject_Some)
  let ?now = "ae_clock e (aw_step w1 + 3)"
  define d where "d = fst (run_state (new_deployment e req (db_Tag req) (gb_Reference base) (pr_ID p)) w1)"
  have new: "run_state (new_deployment e req (db_Tag req) (gb_Reference base) (pr_ID p)) w1 = (d, w1\<lparr>aw_step := aw_step w1 + 4\<rparr>)"
    and dv: "dep_ProjectID d = pr_ID p" "dep_VersionLabel d = db_Tag req" "dep_GuestBase d = gb_Reference base"
      "dep_Environment d = ''preview''" "dep_VMIDs d = []" "dep_BuildStatus d = ''preview''"
    by (simp_all add: d_def new_deployment_def api_NewID_def api_ListDeployments_def api_Now_def)
  have base: "gb_Reference base \<noteq> []"
    using ResolveGuestBase_managed assms(9) by blast
  obtain t where t: "CreateDeployment (ae_clock e (aw_step w1 + 4)) True d (aw_deployments w1) = (True, t)"
    using CreateDeployment_True [of "ae_clock e (aw_step w1 + 4)" d "aw_deployments w1"] dv assms(5,8) base
    by (auto simp: deployment_valid_def build_statuses_def)
  define w3 where "w3 = w1\<lparr>aw_step := Suc (aw_step w1 + 4), aw_deployments := t\<rparr>"
  have create: "run_state (api_CreateDeployment e d) (w1\<lparr>aw_step := aw_step w1 + 4\<rparr>) = ((True, weight_defaults d), w3)"
    using t assms(1) by (simp add: api_CreateDeployment_def w3_def)
  have wd: "dep_ProjectID (weight_defaults d) \<noteq> []" "dep_VersionLabel (weight_defaults d) \<noteq> []" "dep_GuestBase (weight_defaults d) \<noteq> []"
      "dep_Environment (weight_defaults d) \<noteq> []" "dep_VMIDs (weight_defaults d) = []"
    using dv assms(5,8) base by (simp_all add: weight_defaults_def Let_def)
  have w3: "aw_vms w3 = aw_vms w" "aw_golden w3 = aw_golden w" "aw_spawned w3 = aw_spawned w" "ref_ok w3 (lp_Env lp)"
    using lp(3,4) by (simp_all add: w3_def untouched_def ref_ok_def)
  have "\<exists>resp w' vms. run_state (fill_deployment e req (db_Tag req) lp (weight_defaults d)) w3 = (resp, w') \<and> rs_status resp = 202 \<and>
      aw_vms w' = aw_vms w3 \<and> aw_spawned w' = aw_spawned w3 @ map Call_Boot vms \<and>
      map vm_ReplicaIndex vms = [0..wanted_replicas req (lp_data lp) - 1] \<and>
      (\<exists>x \<in> set (aw_deployments w'). dep_BuildStatus x = ''ready'' \<and> dep_VMIDs x = map vm_ID vms) \<and>
      (\<forall>vm \<in> set vms. vm_ID vm \<in> range (ae_newid e))"
    using assms(1-3,5,10-13) lp(2) w3 wd by (intro fill_deployment_taken) simp_all
  then obtain resp w' vms where fill: "run_state (fill_deployment e req (db_Tag req) lp (weight_defaults d)) w3 = (resp, w')" "rs_status resp = 202"
      "aw_vms w' = aw_vms w3" "aw_spawned w' = aw_spawned w3 @ map Call_Boot vms" "map vm_ReplicaIndex vms = [0..wanted_replicas req (lp_data lp) - 1]"
      "\<exists>x \<in> set (aw_deployments w'). dep_BuildStatus x = ''ready'' \<and> dep_VMIDs x = map vm_ID vms"
      "\<forall>vm \<in> set vms. vm_ID vm \<in> range (ae_newid e)"
    by blast
  have run: "run_state (handleCreateDeployment e projID (Inr req)) w = (resp, w')"
    using lp(1,2) assms(6-9) new create fill(1) by (simp add: handleCreateDeployment_def)
  have "GetVM True (vm_ID vm) (aw_vms w') = None" if "vm \<in> set vms" for vm
  proof -
    have "vm_ID vm \<in> range (ae_newid e)" using fill(7) that by simp
    then obtain n where "vm_ID vm = ae_newid e n" by (rule rangeE)
    then have "vm_ID vm \<notin> vm_ID ` set (aw_vms w)" using assms(3) by simp
    then show ?thesis using fill(3) w3(1) by (simp add: GetVM_def query_row_def select_row_None_iff)
  qed
  then show ?thesis
    using run fill(2-6) w3 lp(2) by (intro exI [of _ resp] exI [of _ w'] exI [of _ vms]) simp
qed

theorem preview_pool_unrecorded_witness:
  "\<exists>resp w' vms. run_state (handleCreateDeployment demo_api ''p'' (Inr \<lparr>db_Image = [], db_Env = None, db_Tag = ''v2'', db_Commit = [],
      db_GitURL = [], db_Rollout = [], db_TrafficP = 10, db_Replicas = 1, db_GuestBase = []\<rparr>)) demo_pool = (resp, w') \<and>
    rs_status resp = 202 \<and> aw_vms w' = aw_vms demo_pool \<and> map vm_ReplicaIndex (vms :: VM list) = [0] \<and>
    (\<forall>vm \<in> set vms. GetVM True (vm_ID vm) (aw_vms w') = None)"
proof -
  let ?req = "\<lparr>db_Image = [], db_Env = None, db_Tag = ''v2'', db_Commit = [],
      db_GitURL = [], db_Rollout = [], db_TrafficP = 10, db_Replicas = 1, db_GuestBase = []\<rparr>"
  have base: "ResolveGuestBase (db_GuestBase ?req) (default_base demo_api) [] = Inr (ManagedGuestBases ! 0)"
  proof -
    have "TrimSpace (ToLower ''alpine'') = ''alpine''" by code_simp
    then show ?thesis by (simp add: ResolveGuestBase_def default_base_def demo_api_def)
  qed
  have new: "\<forall>n. ae_newid demo_api n \<notin> vm_ID ` set (aw_vms demo_pool)"
    using demo_simps(4) by simp
  have img: "''web'' = (if db_Image ?req = [] then pr_Image demo_app else db_Image ?req)" "pr_ID demo_app \<noteq> []"
      "registered demo_api (aw_golden demo_pool) ''web''" "bootable demo_api (aw_golden demo_pool) ''web''"
    using demo_bootable by (simp_all add: demo_app_def demo_pool_def)
  have n: "[0..wanted_replicas ?req demo_app - 1] = [0]"
    by (simp add: wanted_replicas_def)
  then have taken: "\<forall>i \<in> set [0..wanted_replicas ?req demo_app - 1]. occupied (pr_ID demo_app) (aw_vms demo_pool) i"
    by (simp add: demo_app_def demo_pool_def occupied_def zero_VM_def)
  have "0 \<le> db_TrafficP ?req" "db_TrafficP ?req \<le> 100" "db_Tag ?req \<noteq> []" by simp_all
  from preview_pool_unrecorded [OF demo_scale(1,2) new demo_scale(5) img(2) this base img(1,3,4) taken]
  show ?thesis
    unfolding n by (elim exE conjE) (intro exI conjI, assumption+)
qed

text \<open>
  C7: Promoting a deployment that already has replicas, with or without keeping the old pool: the project serves
  the deployment's image with the deployment's replicas, the deployment is the one row of the project that is
  marked production and has weight 100, and rows of other projects stay as they were. The weight of the
  deployment that was live before is not reset: any other row of the project keeps a weight that was not zero.
\<close>

theorem promote_correct:
  assumes "\<forall>n. ae_db e n"
    and "fst (GetProject (ae_hit e (aw_step w)) (ae_cok e (aw_step w)) True projID (aw_projects w)) = Some p"
    and "pr_ID p \<noteq> []" "known_project (aw_projects w) p" "0 \<le> pr_ReplicasDesired p"
    and "distinct (map dep_ID (aw_deployments w))" "\<forall>r \<in> set (aw_deployments w). deployment_valid r"
    and "r \<in> set (aw_deployments w)" "dep_ProjectID r = pr_ID p" "dep_ImageDigest r \<noteq> []" "AllChecksPassed r" "dep_VMIDs r \<noteq> []"
  shows "\<exists>resp w' row. run_state (handlePromoteDeployment e projID (dep_ID r) keepOld) w = (resp, w') \<and> rs_status resp = 200 \<and>
    select_row project_key (pr_ID p) (ps_rows (aw_projects w')) = Some row \<and> pr_VMIDs (pj_data row) = dep_VMIDs r \<and>
    pr_Image (pj_data row) = dep_ImageDigest r \<and>
    (\<forall>x \<in> set (aw_deployments w). \<exists>y. rows dep_ID (aw_deployments w') (dep_ID x) = Some y \<and>
       (if dep_ProjectID x \<noteq> pr_ID p then y = x
        else (dep_IsProduction y \<longleftrightarrow> dep_ID x = dep_ID r) \<and> (dep_ID x = dep_ID r \<longrightarrow> dep_RouteWeight y = 100) \<and>
          (dep_ID x \<noteq> dep_ID r \<and> dep_RouteWeight x \<noteq> 0 \<longrightarrow> dep_RouteWeight y = dep_RouteWeight x)))"
proof -
  obtain resp w' row where run: "run_state (handlePromoteDeployment e projID (dep_ID r) keepOld) w = (resp, w')" "rs_status resp = 200"
      "select_row project_key (pr_ID p) (ps_rows (aw_projects w')) = Some row" "pr_VMIDs (pj_data row) = dep_VMIDs r"
      "pr_Image (pj_data row) = dep_ImageDigest r"
      and t: "rows dep_ID (aw_deployments w') =
        (\<lambda>i. map_option (\<lambda>x. if dep_ProjectID x = pr_ID p then promotion (dep_ID r) x else x) (rows dep_ID (aw_deployments w) i))"
    using promote_run [OF assms, of keepOld] by (elim exE conjE)
  have "\<exists>y. rows dep_ID (aw_deployments w') (dep_ID x) = Some y \<and>
       (if dep_ProjectID x \<noteq> pr_ID p then y = x
        else (dep_IsProduction y \<longleftrightarrow> dep_ID x = dep_ID r) \<and> (dep_ID x = dep_ID r \<longrightarrow> dep_RouteWeight y = 100) \<and>
          (dep_ID x \<noteq> dep_ID r \<and> dep_RouteWeight x \<noteq> 0 \<longrightarrow> dep_RouteWeight y = dep_RouteWeight x))" if x: "x \<in> set (aw_deployments w)" for x
    using rows_distinct [OF assms(6) x] by (simp add: t promotion_fields)
  then show ?thesis
    using run by (intro exI [of _ resp] exI [of _ w'] exI [of _ row]) simp
qed

text \<open>
  C11: Promoting the deployment that is live already takes its own pool away. When the deployment's replicas are
  the project's pool and the request does not ask to keep the old pool, the handler answers 200, no row is left
  for any replica of the pool, and the stored project still lists all of them.
\<close>

theorem repromote_destroys_pool:
  assumes "\<forall>n. ae_db e n"
    and "fst (GetProject (ae_hit e (aw_step w)) (ae_cok e (aw_step w)) True projID (aw_projects w)) = Some p"
    and "pr_ID p \<noteq> []" "known_project (aw_projects w) p" "0 \<le> pr_ReplicasDesired p"
    and "distinct (map dep_ID (aw_deployments w))" "\<forall>r \<in> set (aw_deployments w). deployment_valid r"
    and "r \<in> set (aw_deployments w)" "dep_ProjectID r = pr_ID p" "dep_ImageDigest r \<noteq> []" "AllChecksPassed r" "dep_VMIDs r \<noteq> []"
    and "dep_VMIDs r = pr_VMIDs p"
  shows "\<exists>resp w' row. run_state (handlePromoteDeployment e projID (dep_ID r) False) w = (resp, w') \<and> rs_status resp = 200 \<and>
    select_row project_key (pr_ID p) (ps_rows (aw_projects w')) = Some row \<and> pr_VMIDs (pj_data row) = pr_VMIDs p \<and>
    (\<forall>i \<in> set (pr_VMIDs p). GetVM True i (aw_vms w') = None)"
proof -
  obtain resp w' row where run: "run_state (handlePromoteDeployment e projID (dep_ID r) False) w = (resp, w')" "rs_status resp = 200"
      "select_row project_key (pr_ID p) (ps_rows (aw_projects w')) = Some row" "pr_VMIDs (pj_data row) = dep_VMIDs r"
      and gone: "\<not> False \<longrightarrow> set (pr_VMIDs p) \<inter> vm_ID ` set (aw_vms w') = {}"
    using promote_run [OF assms(1-12), of False] by (elim exE conjE)
  have "GetVM True i (aw_vms w') = None" if "i \<in> set (pr_VMIDs p)" for i
    using gone that by (auto simp: GetVM_def query_row_def select_row_None_iff)
  then show ?thesis
    using run assms(13) by (intro exI [of _ resp] exI [of _ w'] exI [of _ row]) simp
qed

definition demo_release :: Deployment where
  "demo_release = \<lparr>dep_ID = ''d2'', dep_ProjectID = ''p'', dep_Revision = 0, dep_VersionLabel = ''v2'', dep_GuestBase = ''alpine'',
     dep_Environment = ''production'', dep_IsProduction = True, dep_RouteWeight = 100, dep_VMIDs = [], dep_GitURL = [], dep_GitCommit = [],
     dep_BuildStatus = ''live'', dep_ImageDigest = ''sha'', dep_RollbackTo = ''d1'', dep_Checks = [], dep_RolloutPercent = 100, dep_CreatedAt = 0\<rparr>"

definition demo_rollout :: api_world where
  "demo_rollout = demo_pool\<lparr>aw_deployments := [demo_release\<lparr>dep_ID := ''d1'', dep_VMIDs := [''b''], dep_IsProduction := False, dep_RollbackTo := []\<rparr>,
     demo_release\<lparr>dep_VMIDs := [''a'']\<rparr>]\<rparr>"

lemma demo_promote:
  "fst (GetProject (ae_hit demo_api (aw_step demo_rollout)) (ae_cok demo_api (aw_step demo_rollout)) True ''p'' (aw_projects demo_rollout)) = Some demo_app"
  "pr_ID demo_app \<noteq> []" "known_project (aw_projects demo_rollout) demo_app" "0 \<le> pr_ReplicasDesired demo_app"
  "distinct (map dep_ID (aw_deployments demo_rollout))" "\<forall>r \<in> set (aw_deployments demo_rollout). deployment_valid r"
  by (simp_all add: demo_rollout_def demo_simps demo_release_def deployment_valid_def build_statuses_def)
    (simp_all add: demo_app_def)

theorem promote_correct_witness:
  "\<exists>resp w' y. run_state (handlePromoteDeployment demo_api ''p'' ''d1'' False) demo_rollout = (resp, w') \<and> rs_status resp = 200 \<and>
    rows dep_ID (aw_deployments w') ''d2'' = Some y \<and> \<not> dep_IsProduction y \<and> dep_RouteWeight y = 100"
proof -
  let ?r = "demo_release\<lparr>dep_ID := ''d1'', dep_VMIDs := [''b''], dep_IsProduction := False, dep_RollbackTo := []\<rparr>"
  let ?x = "demo_release\<lparr>dep_VMIDs := [''a'']\<rparr>"
  have r: "?r \<in> set (aw_deployments demo_rollout)" "dep_ProjectID ?r = pr_ID demo_app" "dep_ImageDigest ?r \<noteq> []" "AllChecksPassed ?r"
      "dep_VMIDs ?r \<noteq> []"
    by (simp_all add: demo_rollout_def demo_app_def demo_release_def AllChecksPassed_def)
  have x: "?x \<in> set (aw_deployments demo_rollout)" "dep_ID ?x = ''d2''" "dep_ID ?r = ''d1''" "dep_RouteWeight ?x = 100" "dep_ProjectID ?x = pr_ID demo_app"
    by (simp_all add: demo_rollout_def demo_release_def demo_app_def)
  obtain resp w' where w': "run_state (handlePromoteDeployment demo_api ''p'' (dep_ID ?r) False) demo_rollout = (resp, w')" "rs_status resp = 200"
      "\<forall>x \<in> set (aw_deployments demo_rollout). \<exists>y. rows dep_ID (aw_deployments w') (dep_ID x) = Some y \<and>
       (if dep_ProjectID x \<noteq> pr_ID demo_app then y = x
        else (dep_IsProduction y \<longleftrightarrow> dep_ID x = dep_ID ?r) \<and> (dep_ID x = dep_ID ?r \<longrightarrow> dep_RouteWeight y = 100) \<and>
          (dep_ID x \<noteq> dep_ID ?r \<and> dep_RouteWeight x \<noteq> 0 \<longrightarrow> dep_RouteWeight y = dep_RouteWeight x))"
    using promote_correct [OF demo_scale(1) demo_promote r, of False] by (elim exE conjE)
  obtain y where "rows dep_ID (aw_deployments w') ''d2'' = Some y" "\<not> dep_IsProduction y" "dep_RouteWeight y = 100"
    using bspec [OF w'(3) x(1)] x(2-5) by auto
  then show ?thesis
    using w'(1,2) x(3) by (intro exI [of _ resp] exI [of _ w'] exI [of _ y]) simp
qed

theorem repromote_destroys_pool_witness:
  "\<exists>resp w' row. run_state (handlePromoteDeployment demo_api ''p'' ''d2'' False) demo_rollout = (resp, w') \<and> rs_status resp = 200 \<and>
    select_row project_key ''p'' (ps_rows (aw_projects w')) = Some row \<and> pr_VMIDs (pj_data row) = [''a''] \<and> GetVM True ''a'' (aw_vms w') = None"
proof -
  let ?r = "demo_release\<lparr>dep_VMIDs := [''a'']\<rparr>"
  have r: "?r \<in> set (aw_deployments demo_rollout)" "dep_ProjectID ?r = pr_ID demo_app" "dep_ImageDigest ?r \<noteq> []" "AllChecksPassed ?r"
      "dep_VMIDs ?r \<noteq> []" "dep_VMIDs ?r = pr_VMIDs demo_app"
    by (simp_all add: demo_rollout_def demo_app_def demo_release_def AllChecksPassed_def)
  have v: "dep_ID ?r = ''d2''" "pr_ID demo_app = ''p''" "pr_VMIDs demo_app = [''a'']"
    by (simp_all add: demo_release_def demo_app_def)
  from repromote_destroys_pool [OF demo_scale(1) demo_promote r] show ?thesis
    unfolding v by (elim exE conjE) (intro exI conjI, assumption+, simp)
qed

text \<open>
  C8: The autoscaler stays within its policies. If every stored project with a policy is within it (a policy as the
  handler stores them, a pool and a desired count of at most the maximum), the same holds after any number of
  passes of the scaler, whatever the database, the cache, the clock, the runner and the checks of the images
  answer, so also when boots fail half way.
\<close>

theorem autoscaler_bounds:
  assumes "all_rows bounded w"
  shows "all_rows bounded (((\<lambda>w. snd (run_state (scaler_reconcile e) w)) ^^ n) w)"
  using assms by (induction n) (simp_all add: scaler_reconcile_bounded)

theorem autoscaler_bounds_witness:
  "all_rows bounded (((\<lambda>w. snd (run_state (scaler_reconcile demo_api) w)) ^^ 10)
     (demo_pool\<lparr>aw_projects := \<lparr>ps_rows = [\<lparr>pj_data = demo_app\<lparr>pr_Autoscale := Some \<lparr>as_MinReplicas = 2, as_MaxReplicas = 4, as_TargetCPU = 70,
       as_ScaleDownCPU = 20, as_CooldownSec = 30, as_Enabled = True\<rparr>\<rparr>, pj_kind = ''web'', pj_org = [], pj_tags = [], pj_status = ''running''\<rparr>],
       ps_cache = (\<lambda>_. None)\<rparr>\<rparr>))"
  by (rule autoscaler_bounds) (simp add: all_rows_def bounded_def policy_ok_def demo_app_def)

end
