(* ===== verification/Tokens.thy ===== *)
theory Tokens
  imports Rbac Store_Tables "HOL-Library.Word"
begin

text \<open>
  Credentials: \<open>internal/auth\<close> (tokens, passwords, scopes) and the session rows of \<open>store/sessions.go\<close>. The
  unpadded URL alphabet of \<open>encoding/base64\<close> is modelled in full. SHA-256, Ed25519 and the JSON text of a value are
  the functions of \<open>jwt_host\<close>; what is needed of them is a hypothesis where it is used.
\<close>

unbundle bit_operations_syntax

subsection \<open>Base64\<close>

definition b64_alphabet :: string where
  "b64_alphabet = ''ABCDEFGHIJKLMNOPQRSTUVWXYZabcdefghijklmnopqrstuvwxyz0123456789-_''"

definition b64_char :: "nat \<Rightarrow> char" where
  "b64_char n = b64_alphabet ! n"

fun index_of :: "char \<Rightarrow> string \<Rightarrow> nat option" where
  "index_of c [] = None"
| "index_of c (x # xs) = (if x = c then Some 0 else map_option Suc (index_of c xs))"

definition b64_val :: "char \<Rightarrow> nat option" where
  "b64_val c = index_of c b64_alphabet"

text \<open>\<open>base64.RawURLEncoding.EncodeToString\<close>\<close>

fun b64_sextets :: "nat list \<Rightarrow> nat list" where
  "b64_sextets [] = []"
| "b64_sextets [a] = [a div 4, (a mod 4) * 16]"
| "b64_sextets [a, b] = [a div 4, (a mod 4) * 16 + b div 16, (b mod 16) * 4]"
| "b64_sextets (a # b # c # r) = [a div 4, (a mod 4) * 16 + b div 16, (b mod 16) * 4 + c div 64, c mod 64] @ b64_sextets r"

definition b64_encode :: "string \<Rightarrow> string" where
  "b64_encode s = map b64_char (b64_sextets (map byte s))"

text \<open>
  \<open>DecodeString\<close>: line breaks are skipped, every other character has to be of the alphabet, a last group of one
  character is an error, the spare bits of a last group are ignored.
\<close>

fun b64_octets :: "nat list \<Rightarrow> nat list option" where
  "b64_octets [] = Some []"
| "b64_octets [p] = None"
| "b64_octets [p, q] = Some [p * 4 + q div 16]"
| "b64_octets [p, q, r] = Some [p * 4 + q div 16, (q mod 16) * 16 + r div 4]"
| "b64_octets (p # q # r # t # rest) =
     map_option (\<lambda>bs. [p * 4 + q div 16, (q mod 16) * 16 + r div 4, (r mod 4) * 64 + t] @ bs) (b64_octets rest)"

fun all_vals :: "char list \<Rightarrow> nat list option" where
  "all_vals [] = Some []"
| "all_vals (c # cs) = (case b64_val c of None \<Rightarrow> None | Some v \<Rightarrow> map_option (Cons v) (all_vals cs))"

definition b64_decode :: "string \<Rightarrow> string option" where
  "b64_decode s = (case all_vals (filter (\<lambda>c. c \<noteq> CHR 0x0A \<and> c \<noteq> CHR 0x0D) s) of
      None \<Rightarrow> None
    | Some vs \<Rightarrow> map_option (map char_of) (b64_octets vs))"

subsection \<open>JSON Web Tokens\<close>

record jwt_host =
  jh_sha256 :: "string \<Rightarrow> string"
  jh_public :: "string \<Rightarrow> string"
  jh_sign :: "string \<Rightarrow> string \<Rightarrow> string"
  jh_verify :: "string \<Rightarrow> string \<Rightarrow> string \<Rightarrow> bool"
  jh_text :: "json \<Rightarrow> string"
  jh_read :: "string \<Rightarrow> json option"

text \<open>The private key of a pair is made from its seed, and so is its public half.\<close>

record KeyPair =
  kp_Seed :: string
  kp_KID :: string

record Claims =
  cl_Issuer :: string
  cl_Subject :: string
  cl_Audience :: string
  cl_Scope :: string
  cl_Tenant :: string
  cl_IssuedAt :: int
  cl_Expiry :: int

datatype token_error =
    Malformed | BadHeader | UnexpectedAlg string | UnknownKid | BadPayload | BadSignature | InvalidSignature
  | MissingClaim string | AudienceMismatch | TokenExpired

definition KeyPairFromSecret :: "jwt_host \<Rightarrow> string \<Rightarrow> string \<Rightarrow> KeyPair" where
  "KeyPairFromSecret h secret issuer =
     (let seed = jh_sha256 h (''porter-jwt-v1:'' @ secret);
          kid = b64_encode (take 8 (jh_public h seed))
      in \<lparr>kp_Seed = seed, kp_KID = issuer @ '':'' @ kid\<rparr>)"

definition issuerOf :: "string \<Rightarrow> string" where
  "issuerOf kid =
     (let i = length (takeWhile (\<lambda>c. c \<noteq> CHR '':'') kid)
      in if 0 < i \<and> i < length kid then take i kid else kid)"

text \<open>The claims of a token issued at \<open>now\<close>, nanoseconds since the epoch, with the keys in the order they are marshalled.\<close>

definition mint_claims :: "KeyPair \<Rightarrow> time \<Rightarrow> string \<Rightarrow> string \<Rightarrow> string \<Rightarrow> string \<Rightarrow> time \<Rightarrow> Claims" where
  "mint_claims k now subject audience scope tenant ttl =
     (let now = now - now mod 1000000000
      in \<lparr>cl_Issuer = issuerOf (kp_KID k), cl_Subject = subject, cl_Audience = audience, cl_Scope = scope, cl_Tenant = tenant,
          cl_IssuedAt = now div 1000000000, cl_Expiry = (now + ttl) div 1000000000\<rparr>)"

definition claims_json :: "Claims \<Rightarrow> json" where
  "claims_json c = JObj
     [(''aud'', JStr (cl_Audience c)), (''exp'', JNum (of_int (cl_Expiry c))), (''iat'', JNum (of_int (cl_IssuedAt c))),
      (''iss'', JStr (cl_Issuer c)), (''scope'', JStr (cl_Scope c)), (''sub'', JStr (cl_Subject c)), (''tenant'', JStr (cl_Tenant c))]"

definition header_json :: "KeyPair \<Rightarrow> json" where
  "header_json k = JObj [(''alg'', JStr ''EdDSA''), (''kid'', JStr (kp_KID k)), (''typ'', JStr ''JWT'')]"

definition signing_input :: "jwt_host \<Rightarrow> KeyPair \<Rightarrow> Claims \<Rightarrow> string" where
  "signing_input h k c = b64_encode (jh_text h (header_json k)) @ ''.'' @ b64_encode (jh_text h (claims_json c))"

definition Mint :: "jwt_host \<Rightarrow> KeyPair \<Rightarrow> time \<Rightarrow> string \<Rightarrow> string \<Rightarrow> string \<Rightarrow> string \<Rightarrow> time \<Rightarrow> string" where
  "Mint h k now subject audience scope tenant ttl =
     (let m = signing_input h k (mint_claims k now subject audience scope tenant ttl)
      in m @ ''.'' @ b64_encode (jh_sign h (kp_Seed k) m))"

definition decodeSegment :: "jwt_host \<Rightarrow> string \<Rightarrow> json option" where
  "decodeSegment h seg = (case b64_decode seg of None \<Rightarrow> None | Some b \<Rightarrow> jh_read h b)"

text \<open>
  Unmarshalling into \<open>map[string]string\<close> and \<open>map[string]interface{}\<close>: a later key overwrites an earlier one, a null
  text is the empty text, a null document the nil map.
\<close>

fun text_entries :: "(string \<times> json) list \<Rightarrow> (string \<rightharpoonup> string) \<Rightarrow> (string \<rightharpoonup> string) option" where
  "text_entries [] m = Some m"
| "text_entries ((k, JStr s) # es) m = text_entries es (m(k \<mapsto> s))"
| "text_entries ((k, JNull) # es) m = text_entries es (m(k \<mapsto> []))"
| "text_entries ((k, v) # es) m = None"

fun text_map :: "json \<Rightarrow> (string \<rightharpoonup> string) option" where
  "text_map JNull = Some (\<lambda>_. None)"
| "text_map (JObj es) = text_entries es (\<lambda>_. None)"
| "text_map _ = None"

fun any_map :: "json \<Rightarrow> (string \<rightharpoonup> json) option" where
  "any_map JNull = Some (\<lambda>_. None)"
| "any_map (JObj es) = Some (foldl (\<lambda>m (k, v). m(k \<mapsto> v)) (\<lambda>_. None) es)"
| "any_map _ = None"

definition text_of :: "string option \<Rightarrow> string" where
  "text_of o1 = (case o1 of Some s \<Rightarrow> s | None \<Rightarrow> [])"

definition claim_str :: "(string \<rightharpoonup> json) \<Rightarrow> string \<Rightarrow> string" where
  "claim_str payload key = (case payload key of Some (JStr s) \<Rightarrow> s | _ \<Rightarrow> [])"

text \<open>\<open>int64(v)\<close> of a float: towards zero, the least integer outside the range (as on amd64).\<close>

definition int64_of :: "rat \<Rightarrow> int" where
  "int64_of v =
     (let n = (if v < 0 then - \<lfloor>- v\<rfloor> else \<lfloor>v\<rfloor>)
      in if - (2 ^ 63) \<le> n \<and> n < 2 ^ 63 then n else - (2 ^ 63))"

definition claim_num :: "(string \<rightharpoonup> json) \<Rightarrow> string \<Rightarrow> int" where
  "claim_num payload key = (case payload key of Some (JNum v) \<Rightarrow> int64_of v | _ \<Rightarrow> 0)"

definition required_claims :: "string list" where
  "required_claims = [''iss'', ''sub'', ''aud'', ''scope'', ''tenant'']"

definition check_claims :: "time \<Rightarrow> string \<Rightarrow> (string \<rightharpoonup> json) \<Rightarrow> (token_error, Claims) result" where
  "check_claims now audience payload =
     (case find (\<lambda>key. claim_str payload key = []) required_claims of
        Some key \<Rightarrow> Inl (MissingClaim key)
      | None \<Rightarrow>
          if claim_str payload ''aud'' \<noteq> audience then Inl AudienceMismatch
          else if claim_num payload ''exp'' = 0 \<or> now div 1000000000 > claim_num payload ''exp'' then Inl TokenExpired
          else Inr \<lparr>cl_Issuer = claim_str payload ''iss'', cl_Subject = claim_str payload ''sub'', cl_Audience = claim_str payload ''aud'',
                     cl_Scope = claim_str payload ''scope'', cl_Tenant = claim_str payload ''tenant'',
                     cl_IssuedAt = claim_num payload ''iat'', cl_Expiry = claim_num payload ''exp''\<rparr>)"

definition Verify :: "jwt_host \<Rightarrow> KeyPair \<Rightarrow> time \<Rightarrow> string \<Rightarrow> string \<Rightarrow> (token_error, Claims) result" where
  "Verify h k now token audience =
     (case Split CHR ''.'' token of
        [p0, p1, p2] \<Rightarrow>
          (case Option.bind (decodeSegment h p0) text_map of
             None \<Rightarrow> Inl BadHeader
           | Some header \<Rightarrow>
               if text_of (header ''alg'') \<noteq> ''EdDSA'' then Inl (UnexpectedAlg (text_of (header ''alg'')))
               else if text_of (header ''kid'') \<noteq> kp_KID k then Inl UnknownKid
               else case Option.bind (decodeSegment h p1) any_map of
                 None \<Rightarrow> Inl BadPayload
               | Some payload \<Rightarrow>
                   (case b64_decode p2 of
                      None \<Rightarrow> Inl BadSignature
                    | Some sig \<Rightarrow>
                        if \<not> jh_verify h (jh_public h (kp_Seed k)) (p0 @ ''.'' @ p1) sig then Inl InvalidSignature
                        else check_claims now audience payload))
      | _ \<Rightarrow> Inl Malformed)"

definition PublicJWK :: "jwt_host \<Rightarrow> KeyPair \<Rightarrow> (string \<times> string) list" where
  "PublicJWK h k = [(''kty'', ''OKP''), (''crv'', ''Ed25519''), (''alg'', ''EdDSA''), (''use'', ''sig''), (''kid'', kp_KID k),
     (''x'', b64_encode (jh_public h (kp_Seed k)))]"

subsection \<open>Passwords, opaque tokens and scopes\<close>

definition hex_digit :: "nat \<Rightarrow> char" where
  "hex_digit n = ''0123456789abcdef'' ! n"

definition hex_EncodeToString :: "string \<Rightarrow> string" where
  "hex_EncodeToString s = concat (map (\<lambda>c. [hex_digit (byte c div 16), hex_digit (byte c mod 16)]) s)"

text \<open>\<open>rand\<close> is what the random source gives, \<open>None\<close> when it fails.\<close>

definition NewOpaqueToken :: "jwt_host \<Rightarrow> string option \<Rightarrow> (string \<times> string) option" where
  "NewOpaqueToken h rand = (case rand of
      None \<Rightarrow> None
    | Some b \<Rightarrow> let raw = ''prt_'' @ hex_EncodeToString b in Some (raw, hex_EncodeToString (jh_sha256 h raw)))"

definition hashToken :: "jwt_host \<Rightarrow> string \<Rightarrow> string" where
  "hashToken h raw = hex_EncodeToString (jh_sha256 h raw)"

definition HashPassword :: "jwt_host \<Rightarrow> string \<Rightarrow> string \<Rightarrow> string" where
  "HashPassword h password salt = hex_EncodeToString (jh_sha256 h (salt @ password))"

text \<open>The loop of \<open>VerifyPassword\<close> that collects the differing bits.\<close>

fun diff_bits :: "string \<Rightarrow> string \<Rightarrow> 8 word \<Rightarrow> 8 word" where
  "diff_bits (g # gs) (x # xs) acc = diff_bits gs xs (acc OR (of_nat (byte g) XOR of_nat (byte x)))"
| "diff_bits _ _ acc = acc"

definition VerifyPassword :: "jwt_host \<Rightarrow> string \<Rightarrow> string \<Rightarrow> string \<Rightarrow> bool" where
  "VerifyPassword h password salt expected =
     (if password = [] \<or> salt = [] \<or> expected = [] then False
      else let got = HashPassword h password salt
           in if length got \<noteq> length expected then False else diff_bits got expected 0 = 0)"

definition ResolveScope :: "string \<Rightarrow> string \<Rightarrow> string \<times> string" where
  "ResolveScope scopeType tenantHeader =
     (if tenantHeader = [] \<or> tenantHeader = ''*'' then (''platform'', [])
      else (if scopeType = [] then ''org'' else scopeType, tenantHeader))"

subsection \<open>Sessions\<close>

record Session =
  sn_ID :: string
  sn_PrincipalType :: string
  sn_PrincipalID :: string
  sn_ScopeType :: string
  sn_ScopeID :: string
  sn_ExpiresAt :: time
  sn_TokenHash :: string
  sn_RevokedAt :: "time option"

text \<open>A plain insert: a second row of the same id or token hash is an error. \<open>ttl\<close> is cut to whole seconds.\<close>

definition CreateSession ::
    "bool \<Rightarrow> string \<Rightarrow> time \<Rightarrow> string \<Rightarrow> string \<Rightarrow> string \<Rightarrow> string \<Rightarrow> string \<Rightarrow> time \<Rightarrow> Session list \<Rightarrow> string option \<times> Session list" where
  "CreateSession ok newid dbnow ptype pid hash stype sid ttl t =
     (if \<not> ok \<or> list_ex (\<lambda>r. sn_ID r = newid \<or> sn_TokenHash r = hash) t then (None, t)
      else (Some newid, t @ [\<lparr>sn_ID = newid, sn_PrincipalType = ptype, sn_PrincipalID = pid, sn_ScopeType = stype, sn_ScopeID = sid,
        sn_ExpiresAt = dbnow + (if ttl < 0 then - ((- ttl) div 1000000000) else ttl div 1000000000) * 1000000000,
        sn_TokenHash = hash, sn_RevokedAt = None\<rparr>]))"

definition GetSessionByToken :: "bool \<Rightarrow> time \<Rightarrow> string \<Rightarrow> Session list \<Rightarrow> Session option" where
  "GetSessionByToken ok now hash t = (case query_row ok sn_TokenHash hash t of
      None \<Rightarrow> None
    | Some s \<Rightarrow> if sn_RevokedAt s \<noteq> None \<or> now > sn_ExpiresAt s then None else Some s)"

definition RevokeSession :: "bool \<Rightarrow> time \<Rightarrow> string \<Rightarrow> Session list \<Rightarrow> bool \<times> Session list" where
  "RevokeSession ok dbnow hash t =
     (ok, snd (exec_update ok (\<lambda>r. sn_TokenHash r = hash) (\<lambda>r. r\<lparr>sn_RevokedAt := Some dbnow\<rparr>) t))"

text \<open>Team membership: the user column holds a username or a user id.\<close>

definition AddTeamMember :: "bool \<Rightarrow> string \<Rightarrow> string \<Rightarrow> string \<Rightarrow> (string \<times> string \<times> string) list \<Rightarrow> bool \<times> (string \<times> string \<times> string) list" where
  "AddTeamMember ok groupID userID role t =
     exec_upsert (\<lambda>(g, u, _). (g, u)) (\<lambda>_ new. new) no_clash (\<lambda>(g, _, _). g \<noteq> []) ok (groupID, userID, role) t"

definition RemoveTeamMember :: "bool \<Rightarrow> string \<Rightarrow> string \<Rightarrow> (string \<times> string \<times> string) list \<Rightarrow> bool \<times> (string \<times> string \<times> string) list" where
  "RemoveTeamMember ok groupID userID t = (ok, snd (exec_delete ok (\<lambda>(g, u, _). g = groupID \<and> u = userID) t))"

subsection \<open>Lemmas\<close>

lemma b64_vals_table: "\<forall>n \<in> set [0..<64]. b64_val (b64_char n) = Some n \<and> b64_char n \<notin> set [CHR ''.'', CHR 0x0A, CHR 0x0D]"
  by code_simp

lemma b64_val_char: "n < 64 \<Longrightarrow> b64_val (b64_char n) = Some n"
  and b64_char_plain: "n < 64 \<Longrightarrow> b64_char n \<noteq> CHR ''.'' \<and> b64_char n \<noteq> CHR 0x0A \<and> b64_char n \<noteq> CHR 0x0D"
  using b64_vals_table by simp_all

lemma b64_sextets_less: "\<forall>b \<in> set bs. b < 256 \<Longrightarrow> \<forall>v \<in> set (b64_sextets bs). v < 64"
  by (induction bs rule: b64_sextets.induct) auto

lemma b64_octets_sextets: "\<forall>b \<in> set bs. b < 256 \<Longrightarrow> b64_octets (b64_sextets bs) = Some bs"
  by (induction bs rule: b64_sextets.induct) auto

lemma all_vals_chars: "\<forall>v \<in> set vs. v < 64 \<Longrightarrow> all_vals (map b64_char vs) = Some vs"
  by (induction vs) (simp_all add: b64_val_char)

lemma bytes_less: "\<forall>b \<in> set (map byte s). b < 256"
  by (simp add: byte_less_256)

lemma b64_encode_plain: "c \<in> set (b64_encode s) \<Longrightarrow> c \<noteq> CHR ''.'' \<and> c \<noteq> CHR 0x0A \<and> c \<noteq> CHR 0x0D"
  using b64_sextets_less [OF bytes_less] b64_char_plain by (auto simp: b64_encode_def)

lemma b64_roundtrip: "b64_decode (b64_encode s) = Some s"
proof -
  have "filter (\<lambda>c. c \<noteq> CHR 0x0A \<and> c \<noteq> CHR 0x0D) (b64_encode s) = b64_encode s"
    using b64_encode_plain by (auto simp: filter_id_conv)
  then show ?thesis
    using all_vals_chars [OF b64_sextets_less [OF bytes_less]] b64_octets_sextets [OF bytes_less, of s]
    by (simp add: b64_decode_def b64_encode_def comp_def)
qed

lemma word_xor_zero: "(a XOR b = (0 :: 8 word)) \<longleftrightarrow> a = b"
proof
  assume "a XOR b = 0"
  then have "(a XOR b) XOR b = b" by simp
  then show "a = b" by (simp add: xor.assoc)
qed simp

lemma diff_bits_acc: "length gs = length xs \<Longrightarrow> diff_bits gs xs acc = 0 \<longleftrightarrow> acc = 0 \<and> gs = xs"
proof (induction gs xs arbitrary: acc rule: list_induct2)
  case (Cons g gs x xs)
  have "(acc OR (of_nat (byte g) XOR of_nat (byte x)) = (0 :: 8 word)) \<longleftrightarrow> acc = 0 \<and> g = x"
  proof -
    have "(of_nat (byte g) XOR of_nat (byte x) = (0 :: 8 word)) \<longleftrightarrow> (of_nat (byte g) :: 8 word) = of_nat (byte x)"
      by (rule word_xor_zero)
    also have "\<dots> \<longleftrightarrow> byte g = byte x"
      using byte_less_256 [of g] byte_less_256 [of x] by (auto simp: word_of_nat_eq_iff take_bit_nat_eq_self)
    finally show ?thesis by (simp add: or_eq_0_iff byte_inject)
  qed
  then show ?case using Cons.IH by simp
qed simp

lemma VerifyPassword_iff:
  "VerifyPassword h password salt expected \<longleftrightarrow> password \<noteq> [] \<and> salt \<noteq> [] \<and> expected \<noteq> [] \<and> HashPassword h password salt = expected"
  using diff_bits_acc [of "HashPassword h password salt" expected 0] by (auto simp: VerifyPassword_def Let_def)

lemma Split_three:
  assumes "CHR ''.'' \<notin> set a" "CHR ''.'' \<notin> set b" "CHR ''.'' \<notin> set c"
  shows "Split CHR ''.'' (a @ ''.'' @ b @ ''.'' @ c) = [a, b, c]"
  using assms by (simp add: Split_append_sep Split_no_sep)

lemma b64_no_dot: "CHR ''.'' \<notin> set (b64_encode s)"
  using b64_encode_plain by blast

lemma decodeSegment_encode: "decodeSegment h (b64_encode (jh_text h j)) = jh_read h (jh_text h j)"
  by (simp add: decodeSegment_def b64_roundtrip)

text \<open>The claims that come back from the document of a claim set.\<close>

definition in_range :: "Claims \<Rightarrow> bool" where
  "in_range c \<longleftrightarrow> - (2 ^ 63) \<le> cl_Expiry c \<and> cl_Expiry c < 2 ^ 63 \<and> - (2 ^ 63) \<le> cl_IssuedAt c \<and> cl_IssuedAt c < 2 ^ 63"

lemma int64_of_int: "- (2 ^ 63) \<le> n \<Longrightarrow> n < 2 ^ 63 \<Longrightarrow> int64_of (of_int n) = n"
proof -
  assume n: "- (2 ^ 63) \<le> n" "n < 2 ^ 63"
  have "\<lfloor>- (of_int n :: rat)\<rfloor> = - n" by (metis floor_of_int of_int_minus)
  then show "int64_of (of_int n) = n"
    using n by (simp add: int64_of_def Let_def)
qed

lemma check_claims_json:
  assumes "any_map (claims_json c) = Some payload" "in_range c"
  shows "check_claims now audience payload =
    (if cl_Issuer c = [] then Inl (MissingClaim ''iss'') else if cl_Subject c = [] then Inl (MissingClaim ''sub'')
     else if cl_Audience c = [] then Inl (MissingClaim ''aud'') else if cl_Scope c = [] then Inl (MissingClaim ''scope'')
     else if cl_Tenant c = [] then Inl (MissingClaim ''tenant'')
     else if cl_Audience c \<noteq> audience then Inl AudienceMismatch
     else if cl_Expiry c = 0 \<or> now div 1000000000 > cl_Expiry c then Inl TokenExpired else Inr c)"
proof -
  have "claim_str payload ''iss'' = cl_Issuer c" "claim_str payload ''sub'' = cl_Subject c" "claim_str payload ''aud'' = cl_Audience c"
    "claim_str payload ''scope'' = cl_Scope c" "claim_str payload ''tenant'' = cl_Tenant c"
    "claim_num payload ''exp'' = cl_Expiry c" "claim_num payload ''iat'' = cl_IssuedAt c"
    using assms by (auto simp: claims_json_def claim_str_def claim_num_def int64_of_int in_range_def)
  then show ?thesis
    by (simp add: check_claims_def required_claims_def)
qed

lemma Verify_signed:
  assumes "jh_verify h (jh_public h (kp_Seed k)) (signing_input h k c) sig"
    and "jh_read h (jh_text h (header_json k)) = Some (header_json k)" "jh_read h (jh_text h (claims_json c)) = Some (claims_json c)"
    and "any_map (claims_json c) = Some payload" "b64_decode s = Some sig" "CHR ''.'' \<notin> set s"
  shows "Verify h k now (signing_input h k c @ ''.'' @ s) audience = check_claims now audience payload"
proof -
  let ?p0 = "b64_encode (jh_text h (header_json k))"
  let ?p1 = "b64_encode (jh_text h (claims_json c))"
  have "Split CHR ''.'' (signing_input h k c @ ''.'' @ s) = [?p0, ?p1, s]"
    using Split_three [OF b64_no_dot b64_no_dot assms(6), of "jh_text h (header_json k)" "jh_text h (claims_json c)"]
    by (simp add: signing_input_def)
  moreover have "text_map (header_json k) = Some [''alg'' \<mapsto> ''EdDSA'', ''kid'' \<mapsto> kp_KID k, ''typ'' \<mapsto> ''JWT'']"
    by (simp add: header_json_def)
  ultimately show ?thesis
    using assms(1-5) by (simp add: Verify_def decodeSegment_encode text_of_def signing_input_def)
qed

text \<open>
  \<open>Verify\<close> accepts no forged token. If the signatures that verify under the key are only those on tokens of a set
  \<open>C\<close> of claim sets, any text that is accepted carries the claims of one of them.
\<close>

lemma Verify_issued:
  assumes "\<And>m s. jh_verify h (jh_public h (kp_Seed k)) m s \<Longrightarrow> m \<in> signing_input h k ` C"
    and "\<And>c. c \<in> C \<Longrightarrow> jh_read h (jh_text h (claims_json c)) = Some (claims_json c) \<and> in_range c"
    and "Verify h k now token audience = Inr c"
  shows "c \<in> C \<and> cl_Audience c = audience \<and> cl_Subject c \<noteq> [] \<and> cl_Tenant c \<noteq> [] \<and> now div 1000000000 \<le> cl_Expiry c"
proof -
  obtain p0 p1 p2 payload sig where parts: "Split CHR ''.'' token = [p0, p1, p2]"
      and pay: "Option.bind (decodeSegment h p1) any_map = Some payload"
      and sig: "jh_verify h (jh_public h (kp_Seed k)) (p0 @ ''.'' @ p1) sig" and check: "check_claims now audience payload = Inr c"
    using assms(3) by (auto simp: Verify_def split: list.splits option.splits if_splits)
  obtain c' where c': "c' \<in> C" "p0 @ ''.'' @ p1 = signing_input h k c'"
    using assms(1) [OF sig] by auto
  have "CHR ''.'' \<notin> set p0" "CHR ''.'' \<notin> set p1"
    using Split_parts [of _ "CHR ''.''" token] parts by simp_all
  then have "Split CHR ''.'' (p0 @ ''.'' @ p1) = [p0, p1]"
    by (simp add: Split_append_sep Split_no_sep)
  moreover have "Split CHR ''.'' (signing_input h k c') = [b64_encode (jh_text h (header_json k)), b64_encode (jh_text h (claims_json c'))]"
    using b64_no_dot by (simp add: signing_input_def Split_append_sep Split_no_sep)
  ultimately have "p1 = b64_encode (jh_text h (claims_json c'))"
    using c'(2) by simp
  then have "any_map (claims_json c') = Some payload"
    using pay assms(2) [OF c'(1)] by (simp add: decodeSegment_encode)
  then have "check_claims now audience payload = Inr c \<longrightarrow> c = c' \<and> cl_Audience c' = audience \<and> cl_Subject c' \<noteq> [] \<and> cl_Tenant c' \<noteq> [] \<and>
      now div 1000000000 \<le> cl_Expiry c'"
    using check_claims_json [of c' payload now audience] assms(2) [OF c'(1)] by (auto split: if_splits)
  then show ?thesis using check c'(1) by simp
qed

text \<open>
  C13: A token that \<open>Mint\<close> issues is accepted by \<open>Verify\<close> for its audience until it expires, and gives back exactly the
  claims it was issued with. The hypotheses are that a signature made with the key verifies under it, that the two JSON
  documents are read back as written, and that issuer, subject, audience and scope are not empty. A token
  without a tenant, which is what the API issues for platform scope, is never accepted.
\<close>

theorem token_roundtrip:
  assumes "\<And>m. jh_verify h (jh_public h (kp_Seed k)) m (jh_sign h (kp_Seed k) m)"
    and "c = mint_claims k now subject audience scope tenant ttl"
    and "jh_read h (jh_text h (header_json k)) = Some (header_json k)" "jh_read h (jh_text h (claims_json c)) = Some (claims_json c)"
    and "issuerOf (kp_KID k) \<noteq> []" "subject \<noteq> []" "audience \<noteq> []" "scope \<noteq> []" "in_range c"
  shows "Verify h k later (Mint h k now subject audience scope tenant ttl) audience =
    (if tenant = [] then Inl (MissingClaim ''tenant'')
     else if cl_Expiry c = 0 \<or> later div 1000000000 > cl_Expiry c then Inl TokenExpired else Inr c)"
proof -
  obtain payload where p: "any_map (claims_json c) = Some payload"
    by (simp add: claims_json_def)
  have fields: "cl_Issuer c = issuerOf (kp_KID k)" "cl_Subject c = subject" "cl_Audience c = audience" "cl_Scope c = scope" "cl_Tenant c = tenant"
    by (simp_all add: assms(2) mint_claims_def Let_def)
  have "Mint h k now subject audience scope tenant ttl = signing_input h k c @ ''.'' @ b64_encode (jh_sign h (kp_Seed k) (signing_input h k c))"
    by (simp add: Mint_def assms(2) Let_def)
  then show ?thesis
    using Verify_signed [OF assms(1,3,4) p b64_roundtrip b64_no_dot, of later audience] check_claims_json [OF p assms(9), of later audience]
      fields assms(5-8) by simp
qed

subsection \<open>Witnesses\<close>

definition demo_pair :: KeyPair where
  "demo_pair = \<lparr>kp_Seed = ''seed'', kp_KID = ''porter:k1''\<rparr>"

definition demo_claims :: Claims where
  "demo_claims = mint_claims demo_pair 5000000000 ''ann'' ''porter-api'' ''session'' ''acme'' 3600000000000"

text \<open>A signature that repeats key and message, and a codec of the two documents above.\<close>

definition demo_jwt :: jwt_host where
  "demo_jwt = \<lparr>jh_sha256 = id, jh_public = id, jh_sign = (\<lambda>k m. k @ m), jh_verify = (\<lambda>k m s. s = k @ m \<and> m = b64_encode ''h'' @ ''.'' @ b64_encode ''c''),
     jh_text = (\<lambda>j. if j = header_json demo_pair then ''h'' else if j = claims_json demo_claims then ''c'' else ''x''),
     jh_read = (\<lambda>s. if s = ''h'' then Some (header_json demo_pair) else if s = ''c'' then Some (claims_json demo_claims) else None)\<rparr>"

lemma demo_documents:
  "jh_read demo_jwt (jh_text demo_jwt (header_json demo_pair)) = Some (header_json demo_pair)"
  "jh_read demo_jwt (jh_text demo_jwt (claims_json demo_claims)) = Some (claims_json demo_claims)"
  "signing_input demo_jwt demo_pair demo_claims = b64_encode ''h'' @ ''.'' @ b64_encode ''c''"
  "in_range demo_claims" "issuerOf (kp_KID demo_pair) = ''porter''"
  by (simp_all add: demo_jwt_def signing_input_def in_range_def demo_claims_def demo_pair_def mint_claims_def header_json_def claims_json_def
    issuerOf_def Let_def)

theorem token_roundtrip_witness:
  "Verify (demo_jwt\<lparr>jh_verify := (\<lambda>k m s. s = k @ m)\<rparr>) demo_pair 9000000000
     (Mint (demo_jwt\<lparr>jh_verify := (\<lambda>k m s. s = k @ m)\<rparr>) demo_pair 5000000000 ''ann'' ''porter-api'' ''session'' ''acme'' 3600000000000)
     ''porter-api'' = Inr demo_claims"
proof -
  let ?h = "demo_jwt\<lparr>jh_verify := (\<lambda>k m s. s = k @ m)\<rparr>"
  have v: "jh_verify ?h (jh_public ?h (kp_Seed demo_pair)) m (jh_sign ?h (kp_Seed demo_pair) m)" for m
    by (simp add: demo_jwt_def)
  have j: "jh_read ?h (jh_text ?h (header_json demo_pair)) = Some (header_json demo_pair)"
    "jh_read ?h (jh_text ?h (claims_json demo_claims)) = Some (claims_json demo_claims)"
    using demo_documents by simp_all
  have "cl_Expiry demo_claims = 3605" by (simp add: demo_claims_def mint_claims_def Let_def)
  then show ?thesis
    using token_roundtrip [OF v demo_claims_def j _ _ _ _ demo_documents(4), of 9000000000] demo_documents(5) by simp
qed

end
