(* ===== verification/Api_Routes.thy ===== *)
theory Api_Routes
  imports Porter_Prelude
begin

text \<open>
  The route table of \<open>internal/api\<close>, entry by entry in the order of the file, and the map from routes to permissions that
  is derived from it. A handler is named by its method.
\<close>

record routeDef =
  rd_method :: string
  rd_pattern :: string
  rd_perm :: string
  rd_auth :: bool
  rd_handler :: string

abbreviation route :: "string \<Rightarrow> string \<Rightarrow> string \<Rightarrow> bool \<Rightarrow> string \<Rightarrow> routeDef" where
  "route m p perm auth h \<equiv> \<lparr>rd_method = m, rd_pattern = p, rd_perm = perm, rd_auth = auth, rd_handler = h\<rparr>"

definition system_routes :: "routeDef list" where
  "system_routes = [
     route ''GET'' ''/csrf'' [] True ''handleCSRFToken'',
     route ''GET'' ''/health'' [] False ''handleHealth'',
     route ''GET'' ''/healthz'' [] False ''handleHealthz'',
     route ''GET'' ''/version'' [] False ''handleVersion'',
     route ''POST'' ''/feedback'' ''feedback.write'' True ''handleFeedback'',
     route ''GET'' ''/feedback'' ''feedback.read'' True ''handleListFeedback'',
     route ''POST'' ''/auth/login'' [] False ''handleLogin'',
     route ''POST'' ''/login'' [] False ''handleLogin'',
     route ''POST'' ''/auth/logout'' [] False ''handleLogout'',
     route ''POST'' ''/logout'' [] False ''handleLogout'',
     route ''POST'' ''/auth/signup'' [] False ''handleSignup'',
     route ''POST'' ''/auth/password/forgot'' [] False ''handlePasswordForgot'',
     route ''POST'' ''/auth/password/reset'' [] False ''handlePasswordReset'',
     route ''GET'' ''/auth/jwks'' [] False ''handleJWKS'',
     route ''POST'' ''/auth/token'' [] True ''handleMintToken'',
     route ''GET'' ''/auth/session'' [] True ''handleSession'',
     route ''GET'' ''/users/me'' [] True ''handleMe'',
     route ''PATCH'' ''/users/me'' [] True ''handlePatchMe'',
     route ''DELETE'' ''/users/me'' [] True ''handleDeleteMe'',
     route ''GET'' ''/users/me/api-keys'' ''apikey.create'' True ''handleListAPIKeys'',
     route ''POST'' ''/users/me/api-keys'' ''apikey.create'' True ''handleCreateAPIKey'',
     route ''DELETE'' ''/users/me/api-keys/{keyId}'' ''apikey.delete'' True ''handleDeleteAPIKey'',
     route ''GET'' ''/users'' ''user.list'' True ''handleListUsers'',
     route ''POST'' ''/users'' ''user.create'' True ''handleCreateUser'',
     route ''DELETE'' ''/users/{username}'' ''user.delete'' True ''handleDeleteUser'',
     route ''GET'' ''/orgs'' ''project.read'' True ''handleListOrgs'',
     route ''GET'' ''/orgs/default'' ''project.read'' True ''handleDefaultOrg'',
     route ''POST'' ''/orgs'' ''org.member.role'' True ''handleCreateOrg'',
     route ''GET'' ''/orgs/current'' ''project.read'' True ''handleGetCurrentOrg'',
     route ''PATCH'' ''/orgs/current'' ''org.settings'' True ''handlePatchCurrentOrg'',
     route ''DELETE'' ''/orgs/current'' ''org.settings'' True ''handleDeleteCurrentOrg'',
     route ''GET'' ''/orgs/members'' ''member.list'' True ''handleListOrgMembers'',
     route ''POST'' ''/orgs/members'' ''org.member.add'' True ''handleAddOrgMember'',
     route ''PATCH'' ''/orgs/members/{username}'' ''org.member.role'' True ''handlePatchOrgMember'',
     route ''DELETE'' ''/orgs/members/{username}'' ''org.member.remove'' True ''handleRemoveOrgMember'',
     route ''GET'' ''/orgs/audit'' ''org.audit'' True ''handleOrgAudit'',
     route ''POST'' ''/orgs/transfer'' ''org.transfer'' True ''handleOrgTransfer'',
     route ''GET'' ''/orgs/events'' ''event.read'' True ''handleOrgEvents'',
     route ''GET'' ''/org'' ''project.read'' True ''handleGetOrg'',
     route ''PATCH'' ''/org'' ''org.settings'' True ''handlePatchOrg'',
     route ''GET'' ''/groups'' ''group.create'' True ''handleListGroups'',
     route ''POST'' ''/groups'' ''group.create'' True ''handleCreateGroup'',
     route ''GET'' ''/groups/{groupId}'' ''project.read'' True ''handleGetGroup'',
     route ''PATCH'' ''/groups/{groupId}'' ''group.update'' True ''handlePatchGroup'',
     route ''DELETE'' ''/groups/{groupId}'' ''group.delete'' True ''handleDeleteGroup'',
     route ''GET'' ''/groups/{groupId}/projects'' ''project.read'' True ''handleGroupProjects'',
     route ''POST'' ''/groups/{groupId}/projects/{projectId}'' ''project.write'' True ''handleAddGroupProject'',
     route ''DELETE'' ''/groups/{groupId}/projects/{projectId}'' ''project.write'' True ''handleRemoveGroupProject'']"

definition project_routes :: "routeDef list" where
  "project_routes = [
     route ''GET'' ''/projects'' ''project.list'' True ''handleListProjects'',
     route ''POST'' ''/projects'' ''project.create'' True ''handleCreateProject'',
     route ''POST'' ''/projects/compose'' ''project.create'' True ''handleCreateComposeProject'',
     route ''GET'' ''/projects/{projectId}'' ''project.read'' True ''handleGetProject'',
     route ''PATCH'' ''/projects/{projectId}'' ''project.rename'' True ''handlePatchProject'',
     route ''DELETE'' ''/projects/{projectId}'' ''project.delete'' True ''handleDeleteProject'',
     route ''POST'' ''/projects/{projectId}/redeploy'' ''project.deploy'' True ''handleRedeployProject'',
     route ''GET'' ''/projects/{projectId}/scale'' ''replica.list'' True ''handleGetScale'',
     route ''PATCH'' ''/projects/{projectId}/scale'' ''project.scale'' True ''handleScale'',
     route ''GET'' ''/projects/{projectId}/healthcheck'' ''project.read'' True ''handleGetHealthcheck'',
     route ''PUT'' ''/projects/{projectId}/healthcheck'' ''project.settings'' True ''handlePutHealthcheck'',
     route ''GET'' ''/projects/{projectId}/autoscale'' ''project.read'' True ''handleGetAutoscale'',
     route ''PUT'' ''/projects/{projectId}/autoscale'' ''project.settings'' True ''handlePutAutoscale'',
     route ''POST'' ''/projects/{projectId}/restart'' ''project.restart'' True ''handleRestartProject'',
     route ''GET'' ''/projects/{projectId}/env'' ''env.list'' True ''handleListEnv'',
     route ''POST'' ''/projects/{projectId}/env'' ''env.set'' True ''handleSetEnv'',
     route ''POST'' ''/projects/{projectId}/env/bulk'' ''env.set'' True ''handleSetEnvBulk'',
     route ''PATCH'' ''/projects/{projectId}/env/{envId}'' ''env.set'' True ''handlePatchEnv'',
     route ''DELETE'' ''/projects/{projectId}/env/{envId}'' ''env.set'' True ''handleDeleteEnv'',
     route ''GET'' ''/projects/{projectId}/secrets'' ''secret.list'' True ''handleListSecrets'',
     route ''POST'' ''/projects/{projectId}/secrets'' ''secret.create'' True ''handleCreateSecret'',
     route ''DELETE'' ''/projects/{projectId}/secrets/{secretId}'' ''secret.delete'' True ''handleDeleteSecret'',
     route ''GET'' ''/projects/{projectId}/domains'' ''domain.list'' True ''handleListDomains'',
     route ''POST'' ''/projects/{projectId}/domains'' ''domain.add'' True ''handleAddDomain'',
     route ''GET'' ''/projects/{projectId}/domains/records'' ''domain.list'' True ''handleDomainRecords'',
     route ''GET'' ''/projects/{projectId}/domains/{domainId}'' ''domain.list'' True ''handleGetDomain'',
     route ''DELETE'' ''/projects/{projectId}/domains/{domainId}'' ''domain.remove'' True ''handleDeleteDomain'',
     route ''POST'' ''/projects/{projectId}/domains/{domainId}/verify'' ''domain.verify'' True ''handleVerifyDomain'',
     route ''POST'' ''/projects/{projectId}/domains/{domainId}/reverify'' ''domain.verify'' True ''handleVerifyDomain'',
     route ''GET'' ''/projects/{projectId}/dns'' ''domain.list'' True ''handleProjectDNS'',
     route ''GET'' ''/projects/{projectId}/dns/records'' ''domain.list'' True ''handleProjectDNS'',
     route ''GET'' ''/projects/{projectId}/compose'' ''project.read'' True ''handleGetCompose'',
     route ''PUT'' ''/projects/{projectId}/compose'' ''project.import'' True ''handlePutCompose'',
     route ''POST'' ''/projects/{projectId}/compose/validate'' ''project.import'' True ''handleValidateCompose'',
     route ''GET'' ''/projects/{projectId}/compose/preview'' ''project.read'' True ''handleComposePreview'',
     route ''GET'' ''/projects/{projectId}/logs'' ''log.read'' True ''handleProjectLogs'',
     route ''GET'' ''/projects/{projectId}/logs/stream'' ''log.read'' True ''handleProjectLogStream'',
     route ''GET'' ''/projects/{projectId}/metrics'' ''metric.read'' True ''handleProjectMetrics'',
     route ''GET'' ''/projects/{projectId}/traffic'' ''traffic.read'' True ''handleProjectTraffic'',
     route ''GET'' ''/projects/{projectId}/events'' ''event.read'' True ''handleProjectEvents'',
     route ''GET'' ''/projects/{projectId}/pool'' ''replica.list'' True ''handlePoolStatus'',
     route ''POST'' ''/projects/{projectId}/pool/drain'' ''project.settings'' True ''handlePoolDrain'',
     route ''GET'' ''/projects/{projectId}/status'' ''project.read'' True ''handleProjectStatus'',
     route ''GET'' ''/projects/{projectId}/liveness'' ''project.read'' True ''handleProjectLiveness'',
     route ''GET'' ''/projects/{projectId}/replicas'' ''replica.list'' True ''handleListReplicas'',
     route ''POST'' ''/projects/{projectId}/replicas/batch/start'' ''replica.start'' True ''handleReplicaBatchStart'',
     route ''POST'' ''/projects/{projectId}/replicas/batch/stop'' ''replica.stop'' True ''handleReplicaBatchStop'',
     route ''GET'' ''/projects/{projectId}/replicas/{n}'' ''replica.list'' True ''handleGetReplica'',
     route ''POST'' ''/projects/{projectId}/replicas/{n}/start'' ''replica.start'' True ''handleReplicaStart'',
     route ''POST'' ''/projects/{projectId}/replicas/{n}/stop'' ''replica.stop'' True ''handleReplicaStop'',
     route ''POST'' ''/projects/{projectId}/replicas/{n}/restart'' ''replica.restart'' True ''handleReplicaRestart'',
     route ''POST'' ''/projects/{projectId}/replicas/{n}/snapshot'' ''replica.snapshot'' True ''handleReplicaSnapshot'',
     route ''POST'' ''/projects/{projectId}/replicas/{n}/restore'' ''replica.restore'' True ''handleReplicaRestore'',
     route ''POST'' ''/projects/{projectId}/replicas/{n}/recover'' ''replica.restore'' True ''handleReplicaRestore'',
     route ''DELETE'' ''/projects/{projectId}/replicas/{n}'' ''replica.delete'' True ''handleReplicaDelete'',
     route ''GET'' ''/projects/{projectId}/replicas/{n}/logs'' ''log.read'' True ''handleReplicaLogs'',
     route ''GET'' ''/projects/{projectId}/replicas/{n}/metrics'' ''metric.read'' True ''handleReplicaMetrics'',
     route ''GET'' ''/projects/{projectId}/replicas/{n}/traffic'' ''traffic.read'' True ''handleReplicaTraffic'',
     route ''GET'' ''/projects/{projectId}/replicas/{n}/health'' ''replica.list'' True ''handleReplicaHealth'',
     route ''GET'' ''/projects/{projectId}/replicas/{n}/ssh-info'' ''ssh.connect'' True ''handleSSHInfo'',
     route ''POST'' ''/projects/{projectId}/replicas/{n}/ssh-cert'' ''ssh.connect'' True ''handleSSHCert'',
     route ''POST'' ''/projects/{projectId}/replicas/{n}/exec'' ''replica.exec'' True ''handleReplicaExec'',
     route ''GET'' ''/projects/{projectId}/replicas/{n}/console'' ''console.open'' True ''handleReplicaConsole'',
     route ''GET'' ''/projects/{projectId}/deployments'' ''deployment.list'' True ''handleListDeployments'',
     route ''POST'' ''/projects/{projectId}/deployments'' ''deployment.create'' True ''handleCreateDeployment'',
     route ''GET'' ''/projects/{projectId}/deployments/upload'' ''deployment.create'' True ''handleDeploymentUpload'',
     route ''GET'' ''/projects/{projectId}/deployments/{deployId}'' ''deployment.list'' True ''handleGetDeployment'',
     route ''GET'' ''/projects/{projectId}/deployments/{deployId}/checks'' ''deployment.list'' True ''handleGetDeploymentChecks'',
     route ''PUT'' ''/projects/{projectId}/deployments/{deployId}/checks'' ''deployment.create'' True ''handleUpsertDeploymentChecks'',
     route ''PATCH'' ''/projects/{projectId}/deployments/{deployId}/checks/{checkName}'' ''deployment.create'' True ''handleSetDeploymentCheck'',
     route ''PUT'' ''/projects/{projectId}/deployments/{deployId}/rollout'' ''deployment.promote'' True ''handleSetDeploymentRollout'',
     route ''GET'' ''/projects/{projectId}/deployments/{deployId}/logs'' ''log.read'' True ''handleDeploymentLogs'',
     route ''POST'' ''/projects/{projectId}/deployments/{deployId}/promote'' ''deployment.promote'' True ''handlePromoteDeployment'',
     route ''POST'' ''/projects/{projectId}/deployments/{deployId}/rollback'' ''deployment.rollback'' True ''handleRollbackDeployment'',
     route ''DELETE'' ''/projects/{projectId}/deployments/{deployId}'' ''deployment.rollback'' True ''handleDeleteDeployment'',
     route ''GET'' ''/projects/{projectId}/deployments/{deployId}/source'' ''deployment.list'' True ''handleDeploymentSource'',
     route ''GET'' ''/projects/{projectId}/deployments/{deployId}/og'' ''deployment.list'' True ''handleDeploymentOG'',
     route ''GET'' ''/projects/{projectId}/settings/general'' ''project.read'' True ''handleGetGeneral'',
     route ''PATCH'' ''/projects/{projectId}/settings/general'' ''project.settings'' True ''handlePatchGeneral'',
     route ''POST'' ''/projects/{projectId}/avatar'' ''project.avatar'' True ''handleSetAvatar'',
     route ''POST'' ''/projects/{projectId}/transfer'' ''project.transfer'' True ''handleTransferProject'',
     route ''GET'' ''/projects/{projectId}/settings/build'' ''project.read'' True ''handleGetBuild'',
     route ''PUT'' ''/projects/{projectId}/settings/build'' ''project.settings'' True ''handlePutBuild'',
     route ''GET'' ''/projects/{projectId}/settings/checks'' ''project.read'' True ''handleGetChecks'',
     route ''POST'' ''/projects/{projectId}/settings/checks'' ''project.settings'' True ''handlePutChecks'',
     route ''GET'' ''/projects/{projectId}/settings/rollout'' ''project.read'' True ''handleGetRollout'',
     route ''PUT'' ''/projects/{projectId}/settings/rollout'' ''project.settings'' True ''handlePutRollout'',
     route ''GET'' ''/projects/{projectId}/settings/build-machine'' ''project.read'' True ''handleGetBuildMachine'',
     route ''PUT'' ''/projects/{projectId}/settings/build-machine'' ''project.settings'' True ''handlePutBuildMachine'',
     route ''POST'' ''/projects/{projectId}/settings/ignore-command'' ''git.settings'' True ''handleSetIgnoreCommand'',
     route ''GET'' ''/projects/{projectId}/settings/framework'' ''project.read'' True ''handleGetFramework'',
     route ''GET'' ''/projects/{projectId}/environments'' ''project.read'' True ''handleListEnvironments'',
     route ''POST'' ''/projects/{projectId}/environments'' ''project.settings'' True ''handleCreateEnvironment'',
     route ''GET'' ''/projects/{projectId}/environments/available'' ''project.read'' True ''handleEnvironmentsAvailable'',
     route ''GET'' ''/projects/{projectId}/environments/{envId}'' ''project.read'' True ''handleGetEnvironment'',
     route ''PATCH'' ''/projects/{projectId}/environments/{envId}'' ''project.settings'' True ''handlePatchEnvironment'',
     route ''DELETE'' ''/projects/{projectId}/environments/{envId}'' ''project.settings'' True ''handleDeleteEnvironment'',
     route ''POST'' ''/projects/{projectId}/environments/{envId}/branch'' ''project.settings'' True ''handleEnvBranch'',
     route ''POST'' ''/projects/{projectId}/environments/{envId}/domain'' ''project.settings'' True ''handleEnvDomain'',
     route ''GET'' ''/projects/{projectId}/environments/{envId}/range'' ''project.read'' True ''handleEnvRange'',
     route ''GET'' ''/projects/{projectId}/settings/git'' ''project.read'' True ''handleGetGit'',
     route ''PUT'' ''/projects/{projectId}/settings/git'' ''git.settings'' True ''handlePutGit'']"

definition project_routes2 :: "routeDef list" where
  "project_routes2 = [
     route ''POST'' ''/projects/{projectId}/settings/git/sync'' ''git.settings'' True ''handleGitSync'',
     route ''PATCH'' ''/projects/{projectId}/settings/git/toggles'' ''git.settings'' True ''handleGitToggles'',
     route ''GET'' ''/projects/{projectId}/settings/git/lfs'' ''project.read'' True ''handleGetGitLFS'',
     route ''PUT'' ''/projects/{projectId}/settings/git/lfs'' ''git.settings'' True ''handlePutGitLFS'',
     route ''GET'' ''/projects/{projectId}/hooks'' ''project.read'' True ''handleListHooks'',
     route ''POST'' ''/projects/{projectId}/hooks'' ''hook.create'' True ''handleCreateHook'',
     route ''DELETE'' ''/projects/{projectId}/hooks/{hookId}'' ''hook.delete'' True ''handleDeleteHook'',
     route ''POST'' ''/projects/{projectId}/hooks/{hookId}/trigger'' ''hook.trigger'' True ''handleTriggerHook'',
     route ''GET'' ''/projects/{projectId}/settings/deployment-protection'' ''project.read'' True ''handleGetProtection'',
     route ''PUT'' ''/projects/{projectId}/settings/deployment-protection'' ''project.settings'' True ''handlePutProtection'',
     route ''GET'' ''/projects/{projectId}/settings/oidc'' ''project.read'' True ''handleGetOIDC'',
     route ''PUT'' ''/projects/{projectId}/settings/oidc'' ''project.settings'' True ''handlePutOIDC'',
     route ''GET'' ''/projects/{projectId}/settings/functions'' ''git.settings'' True ''handleGetFunctions'',
     route ''PUT'' ''/projects/{projectId}/settings/functions'' ''git.settings'' True ''handlePutFunctions'',
     route ''GET'' ''/projects/{projectId}/crons'' ''cron.create'' True ''handleListCrons'',
     route ''POST'' ''/projects/{projectId}/crons'' ''cron.create'' True ''handleCreateCron'',
     route ''GET'' ''/projects/{projectId}/crons/history'' ''cron.update'' True ''handleCronHistory'',
     route ''GET'' ''/projects/{projectId}/crons/{cronId}'' ''cron.create'' True ''handleGetCron'',
     route ''PATCH'' ''/projects/{projectId}/crons/{cronId}'' ''cron.update'' True ''handlePatchCron'',
     route ''DELETE'' ''/projects/{projectId}/crons/{cronId}'' ''cron.delete'' True ''handleDeleteCron'',
     route ''POST'' ''/projects/{projectId}/crons/{cronId}/run'' ''cron.run'' True ''handleRunCron'',
     route ''GET'' ''/projects/{projectId}/members'' ''member.list'' True ''handleListProjectMembers'',
     route ''POST'' ''/projects/{projectId}/members'' ''member.invite'' True ''handleAddProjectMember'',
     route ''GET'' ''/projects/{projectId}/members/{username}'' ''member.list'' True ''handleGetProjectMember'',
     route ''PATCH'' ''/projects/{projectId}/members/{username}'' ''member.role'' True ''handlePatchProjectMember'',
     route ''DELETE'' ''/projects/{projectId}/members/{username}'' ''member.remove'' True ''handleRemoveProjectMember'',
     route ''POST'' ''/projects/{projectId}/members/invite'' ''member.invite'' True ''handleInviteMember'',
     route ''GET'' ''/projects/{projectId}/drains'' ''project.settings'' True ''handleListDrains'',
     route ''POST'' ''/projects/{projectId}/drains'' ''drain.create'' True ''handleCreateDrain'',
     route ''DELETE'' ''/projects/{projectId}/drains/{drainId}'' ''drain.delete'' True ''handleDeleteDrain'',
     route ''POST'' ''/projects/{projectId}/drains/{drainId}/test'' ''drain.create'' True ''handleTestDrain'',
     route ''GET'' ''/projects/{projectId}/alerts'' ''project.read'' True ''handleListAlerts'',
     route ''POST'' ''/projects/{projectId}/alerts'' ''alert.create'' True ''handleCreateAlert'',
     route ''GET'' ''/projects/{projectId}/alerts/{alertId}'' ''project.read'' True ''handleGetAlert'',
     route ''PATCH'' ''/projects/{projectId}/alerts/{alertId}'' ''alert.update'' True ''handlePatchAlert'',
     route ''DELETE'' ''/projects/{projectId}/alerts/{alertId}'' ''alert.delete'' True ''handleDeleteAlert'',
     route ''POST'' ''/projects/{projectId}/alerts/{alertId}/silence'' ''alert.silence'' True ''handleSilenceAlert'',
     route ''POST'' ''/projects/{projectId}/alerts/{alertId}/unsilence'' ''alert.silence'' True ''handleUnsilenceAlert'',
     route ''GET'' ''/projects/{projectId}/settings/security'' ''project.read'' True ''handleGetSecurity'',
     route ''PUT'' ''/projects/{projectId}/settings/security'' ''project.settings'' True ''handlePutSecurity'',
     route ''GET'' ''/projects/{projectId}/settings/retention'' ''project.read'' True ''handleGetRetention'',
     route ''PUT'' ''/projects/{projectId}/settings/retention'' ''project.settings'' True ''handlePutRetention'',
     route ''GET'' ''/projects/{projectId}/settings/networking'' ''project.network'' True ''handleGetNetworking'',
     route ''PUT'' ''/projects/{projectId}/settings/networking'' ''project.network'' True ''handlePutNetworking'',
     route ''GET'' ''/projects/{projectId}/settings/advanced'' ''project.read'' True ''handleGetAdvanced'',
     route ''PUT'' ''/projects/{projectId}/settings/advanced'' ''project.settings'' True ''handlePutAdvanced'',
     route ''GET'' ''/projects/{projectId}/settings/passport'' ''project.read'' True ''handleGetPassport'',
     route ''PUT'' ''/projects/{projectId}/settings/passport'' ''project.settings'' True ''handlePutPassport'',
     route ''GET'' ''/projects/{projectId}/settings/microfrontends'' ''project.read'' True ''handleGetMicrofrontends'',
     route ''PUT'' ''/projects/{projectId}/settings/microfrontends'' ''project.settings'' True ''handlePutMicrofrontends'',
     route ''GET'' ''/projects/{projectId}/redirects'' ''project.read'' True ''handleListRedirects'',
     route ''POST'' ''/projects/{projectId}/redirects'' ''redirect.create'' True ''handleCreateRedirect'',
     route ''DELETE'' ''/projects/{projectId}/redirects/{redirectId}'' ''redirect.delete'' True ''handleDeleteRedirect'',
     route ''PUT'' ''/projects/{projectId}/redirects/bulk'' ''redirect.create'' True ''handleBulkRedirects'',
     route ''GET'' ''/projects/{projectId}/analytics/usage'' ''analytics.read'' True ''handleAnalyticsUsage'',
     route ''GET'' ''/projects/{projectId}/analytics/usage/timeseries'' ''analytics.read'' True ''handleAnalyticsTimeseries'',
     route ''GET'' ''/projects/{projectId}/analytics/paths'' ''analytics.read'' True ''handleAnalyticsPaths'',
     route ''GET'' ''/projects/{projectId}/analytics/status-codes'' ''analytics.read'' True ''handleAnalyticsStatusCodes'',
     route ''GET'' ''/projects/{projectId}/analytics/bandwidth'' ''analytics.read'' True ''handleAnalyticsBandwidth'',
     route ''GET'' ''/projects/{projectId}/analytics/requests'' ''analytics.read'' True ''handleAnalyticsRequests'',
     route ''GET'' ''/projects/{projectId}/analytics/invocations'' ''analytics.read'' True ''handleAnalyticsInvocations'',
     route ''GET'' ''/projects/{projectId}/observability/web-vitals'' ''webvital.read'' True ''handleWebVitals'',
     route ''POST'' ''/projects/{projectId}/observability/web-vitals/beacon'' ''webvital.read'' True ''handleWebVitalsBeacon'',
     route ''GET'' ''/projects/{projectId}/observability/web-vitals/timeseries'' ''webvital.read'' True ''handleWebVitalsTimeseries'',
     route ''GET'' ''/projects/{projectId}/observability/lcp'' ''webvital.read'' True ''handleAnalyticsUsage'',
     route ''GET'' ''/projects/{projectId}/observability/cls'' ''webvital.read'' True ''handleAnalyticsUsage'',
     route ''GET'' ''/projects/{projectId}/observability/fid'' ''webvital.read'' True ''handleAnalyticsUsage'',
     route ''GET'' ''/projects/{projectId}/firewall/rules'' ''project.read'' True ''handleListFirewallRules'',
     route ''POST'' ''/projects/{projectId}/firewall/rules'' ''firewall.create'' True ''handleCreateFirewallRule'',
     route ''GET'' ''/projects/{projectId}/firewall/rules/{ruleId}'' ''project.read'' True ''handleGetFirewallRule'',
     route ''DELETE'' ''/projects/{projectId}/firewall/rules/{ruleId}'' ''firewall.delete'' True ''handleDeleteFirewallRule'',
     route ''PATCH'' ''/projects/{projectId}/firewall/rules/{ruleId}'' ''firewall.update'' True ''handlePatchFirewallRule'',
     route ''GET'' ''/projects/{projectId}/firewall/events'' ''traffic.read'' True ''handleFirewallEvents'',
     route ''GET'' ''/projects/{projectId}/firewall/stats'' ''traffic.read'' True ''handleFirewallStats'',
     route ''POST'' ''/projects/{projectId}/firewall/whitelist'' ''firewall.create'' True ''handleFirewallWhitelist'',
     route ''GET'' ''/projects/{projectId}/cache/stats'' ''cache.stats'' True ''handleCacheStats'',
     route ''POST'' ''/projects/{projectId}/cache/purge'' ''cache.purge'' True ''handleCachePurge'',
     route ''POST'' ''/projects/{projectId}/cache/purge/path'' ''cache.purge'' True ''handleCachePurgePath'',
     route ''GET'' ''/projects/{projectId}/volumes'' ''volume.read'' True ''handleListVolumes'',
     route ''POST'' ''/projects/{projectId}/volumes'' ''volume.create'' True ''handleCreateVolume'',
     route ''GET'' ''/projects/{projectId}/volumes/{volumeId}'' ''volume.read'' True ''handleGetVolume'',
     route ''DELETE'' ''/projects/{projectId}/volumes/{volumeId}'' ''volume.delete'' True ''handleDeleteVolume'',
     route ''POST'' ''/projects/{projectId}/volumes/{volumeId}/resize'' ''volume.resize'' True ''handleResizeVolume'',
     route ''GET'' ''/projects/{projectId}/volumes/{volumeId}/usage'' ''volume.read'' True ''handleVolumeUsage'',
     route ''POST'' ''/projects/{projectId}/export'' ''project.export'' True ''handleExportProject'',
     route ''POST'' ''/projects/{projectId}/import'' ''project.import'' True ''handleImportProject'',
     route ''PUT'' ''/projects/{projectId}/ssh'' ''ssh.toggle'' True ''handleSSHToggle'',
     route ''POST'' ''/projects/{projectId}/git/import'' ''git.import'' True ''handleGitImport'',
     route ''POST'' ''/projects/{projectId}/deployments/git'' ''build.create'' True ''handleDeployGit'',
     route ''GET'' ''/projects/{projectId}/builds'' ''build.create'' True ''handleListBuilds'',
     route ''POST'' ''/projects/{projectId}/builds'' ''build.create'' True ''handleCreateBuild'',
     route ''POST'' ''/projects/{projectId}/builds/run'' ''build.create'' True ''handleCreateBuild'',
     route ''GET'' ''/projects/{projectId}/builds/{buildId}/logs'' ''log.read'' True ''handleBuildLogs'',
     route ''GET'' ''/projects/{projectId}/builds/{buildId}/logs/stream'' ''log.read'' True ''handleBuildLogStream'',
     route ''GET'' ''/projects/{projectId}/git/branches'' ''git.import'' True ''handleGitBranches'',
     route ''GET'' ''/projects/{projectId}/rollouts'' ''deployment.list'' True ''handleListRollouts'',
     route ''GET'' ''/projects/{projectId}/services'' ''project.read'' True ''handleListServices'',
     route ''GET'' ''/projects/{projectId}/services/{serviceName}'' ''project.read'' True ''handleGetService'',
     route ''POST'' ''/projects/{projectId}/services/{serviceName}/scale'' ''project.scale'' True ''handleScaleService'',
     route ''GET'' ''/projects/{projectId}/networks'' ''project.network'' True ''handleListNetworks'',
     route ''POST'' ''/projects/{projectId}/networks'' ''project.network'' True ''handleCreateNetwork'']"

definition platform_routes :: "routeDef list" where
  "platform_routes = [
     route ''GET'' ''/global/analytics'' ''analytics.read'' True ''handleGlobalAnalytics'',
     route ''GET'' ''/global/analytics/timeseries'' ''analytics.read'' True ''handleGlobalAnalyticsTimeseries'',
     route ''GET'' ''/usage'' ''analytics.read'' True ''handleUsage'',
     route ''GET'' ''/usage/bandwidth'' ''analytics.read'' True ''handleUsageBandwidth'',
     route ''GET'' ''/usage/requests'' ''analytics.read'' True ''handleUsageRequests'',
     route ''GET'' ''/usage/timeseries'' ''analytics.read'' True ''handleGlobalAnalyticsTimeseries'',
     route ''GET'' ''/replicas'' ''replica.list'' True ''handleGlobalReplicas'',
     route ''GET'' ''/replicas/{replicaId}'' ''replica.list'' True ''handleGlobalReplica'',
     route ''GET'' ''/volumes'' ''volume.read'' True ''handleListVolumes'',
     route ''POST'' ''/volumes'' ''volume.create'' True ''handleCreateVolume'',
     route ''GET'' ''/volumes/{volumeId}'' ''volume.read'' True ''handleGetVolume'',
     route ''DELETE'' ''/volumes/{volumeId}'' ''volume.delete'' True ''handleDeleteVolume'',
     route ''POST'' ''/volumes/{volumeId}/resize'' ''volume.resize'' True ''handleResizeVolume'',
     route ''GET'' ''/volumes/{volumeId}/usage'' ''volume.read'' True ''handleVolumeUsage'',
     route ''GET'' ''/guest-bases'' ''project.read'' True ''handleListGuestBases'',
     route ''GET'' ''/images'' ''project.read'' True ''handleListImages'',
     route ''GET'' ''/images/base'' ''project.read'' True ''handleBaseImage'',
     route ''GET'' ''/images/base/readiness'' ''project.read'' True ''handleBaseImageReadiness'',
     route ''POST'' ''/images/custom'' ''image.upload'' True ''handleUploadCustomImage'',
     route ''GET'' ''/images/search'' ''project.read'' True ''handleImageSearch'',
     route ''GET'' ''/images/{reference}'' ''project.read'' True ''handleGetImage'',
     route ''DELETE'' ''/images/{reference}'' ''project.delete'' True ''handleDeleteImage'',
     route ''POST'' ''/images/prune'' ''cache.purge'' True ''handlePruneImages'',
     route ''GET'' ''/images/stats'' ''project.read'' True ''handleImageStats'',
     route ''GET'' ''/images/ml'' ''project.read'' True ''handleImageSearch'',
     route ''GET'' ''/overview'' ''project.read'' True ''handleOverview'',
     route ''GET'' ''/vms'' ''replica.list'' True ''handleListAllVMs'',
     route ''GET'' ''/vms/{replicaId}'' ''replica.list'' True ''handleGetVMCompat'',
     route ''POST'' ''/vms/{replicaId}/start'' ''replica.start'' True ''handleReplicaStartByID'',
     route ''POST'' ''/vms/{replicaId}/stop'' ''replica.stop'' True ''handleReplicaStopByID'',
     route ''POST'' ''/vms/{replicaId}/restart'' ''replica.restart'' True ''handleReplicaRestartByID'',
     route ''POST'' ''/vms/{replicaId}/snapshot'' ''replica.snapshot'' True ''handleReplicaSnapshotByID'',
     route ''POST'' ''/vms/{replicaId}/restore'' ''replica.restore'' True ''handleReplicaRestoreByID'',
     route ''POST'' ''/vms/{replicaId}/recover'' ''replica.restore'' True ''handleReplicaRestoreByID'',
     route ''DELETE'' ''/vms/{replicaId}'' ''replica.delete'' True ''handleVMCompatDelete'',
     route ''GET'' ''/vms/{replicaId}/domains'' ''domain.list'' True ''handleVMCompatDomains'',
     route ''GET'' ''/vms/{replicaId}/logs'' ''log.read'' True ''handleReplicaLogsByID'',
     route ''GET'' ''/vms/{replicaId}/logs/stream'' ''log.read'' True ''handleReplicaLogStream'',
     route ''GET'' ''/vms/{replicaId}/metrics'' ''metric.read'' True ''handleReplicaMetricsByID'',
     route ''GET'' ''/vms/{replicaId}/traffic'' ''traffic.read'' True ''handleReplicaTrafficByID'',
     route ''GET'' ''/vms/{replicaId}/health'' ''replica.list'' True ''handleReplicaHealthByID'',
     route ''GET'' ''/vms/{replicaId}/ssh-info'' ''ssh.connect'' True ''handleSSHInfoByID'',
     route ''POST'' ''/vms/{replicaId}/ssh-cert'' ''ssh.connect'' True ''handleSSHCertByID'',
     route ''POST'' ''/vms/{replicaId}/exec'' ''replica.exec'' True ''handleReplicaExecByID'',
     route ''GET'' ''/vms/{replicaId}/console'' ''console.open'' True ''handleReplicaConsoleByID'',
     route ''GET'' ''/host/overview'' ''metric.read'' True ''handleHostOverview'',
     route ''GET'' ''/host/ports'' ''metric.read'' True ''handleHostPorts'',
     route ''GET'' ''/host/kernel'' ''metric.read'' True ''handleHostKernel'',
     route ''GET'' ''/host/prerequisites'' ''metric.read'' True ''handleHostPrerequisites'',
     route ''GET'' ''/host/runtime'' ''metric.read'' True ''handleRuntimeConfig'',
     route ''GET'' ''/logs'' ''log.read'' True ''handleDaemonLogs'',
     route ''GET'' ''/traffic'' ''traffic.read'' True ''handleAllTraffic'',
     route ''DELETE'' ''/traffic'' ''cache.purge'' True ''handleClearTraffic'',
     route ''GET'' ''/traffic/search'' ''traffic.read'' True ''handleTrafficSearch'',
     route ''GET'' ''/servers'' ''server.register'' True ''handleListServers'',
     route ''POST'' ''/servers'' ''server.register'' True ''handleRegisterServer'',
     route ''GET'' ''/servers/{id}'' ''server.register'' True ''handleGetServer'',
     route ''POST'' ''/servers/{id}/heartbeat'' ''server.register'' True ''handleServerHeartbeat'',
     route ''GET'' ''/servers/{id}/ssh'' ''server.register'' True ''handleServerSSH'',
     route ''DELETE'' ''/servers/{id}'' ''server.remove'' True ''handleDeleteServer'',
     route ''GET'' ''/roles'' ''org.audit'' True ''handleListRoles'',
     route ''POST'' ''/roles'' ''org.member.role'' True ''handleCreateRole'',
     route ''GET'' ''/roles/{roleId}'' ''org.audit'' True ''handleGetRole'',
     route ''PATCH'' ''/roles/{roleId}'' ''org.member.role'' True ''handlePatchRole'',
     route ''DELETE'' ''/roles/{roleId}'' ''org.member.role'' True ''handleDeleteRole'',
     route ''GET'' ''/roles/{roleId}/permissions'' ''org.audit'' True ''handleGetRolePermissions'',
     route ''PUT'' ''/roles/{roleId}/permissions'' ''org.member.role'' True ''handleSetRolePermissions'',
     route ''POST'' ''/roles/{roleId}/permissions/{permissionId}'' ''org.member.role'' True ''handleAddRolePermission'',
     route ''DELETE'' ''/roles/{roleId}/permissions/{permissionId}'' ''org.member.role'' True ''handleRemoveRolePermission'',
     route ''GET'' ''/permissions'' ''org.audit'' True ''handleListPermissions'']"

definition apiRoutes :: "routeDef list" where
  "apiRoutes = system_routes @ project_routes @ project_routes2 @ platform_routes"

text \<open>\<open>buildRoutePerms\<close>: a later entry of the same key would overwrite an earlier one.\<close>

definition route_key :: "routeDef \<Rightarrow> string" where
  "route_key rd = rd_method rd @ '' '' @ rd_pattern rd"

fun route_perms :: "routeDef list \<Rightarrow> (string \<rightharpoonup> string) \<Rightarrow> (string \<rightharpoonup> string)" where
  "route_perms [] out = out"
| "route_perms (rd # rds) out = route_perms rds (if rd_perm rd \<noteq> [] then out(route_key rd \<mapsto> rd_perm rd) else out)"

definition routePerms :: "string \<rightharpoonup> string" where
  "routePerms = route_perms apiRoutes (\<lambda>_. None)"

text \<open>\<open>permForRoute\<close>, given the pattern the request was matched with.\<close>

definition permForRoute :: "string \<Rightarrow> string" where
  "permForRoute pattern = (case routePerms pattern of Some perm \<Rightarrow> perm | None \<Rightarrow> [])"

subsection \<open>Lemmas\<close>

text \<open>Distinctness of lists by sorting them on their first element, then on the next, and so on.\<close>

function radix :: "'a list list \<Rightarrow> bool" where
  "radix [] = True"
| "radix ([] # ks) = (list_all (\<lambda>x. x \<noteq> []) ks \<and> radix ks)"
| "radix ((c # k) # ks) =
     (ks = [] \<or> radix (k # map tl (filter (\<lambda>x. x \<noteq> [] \<and> hd x = c) ks)) \<and> radix (filter (\<lambda>x. \<not> (x \<noteq> [] \<and> hd x = c)) ks))"
  by pat_completeness auto
termination
proof (relation "measure (\<lambda>ks. sum_list (map (\<lambda>x. Suc (length x)) ks))", goal_cases)
  case (3 c k ks)
  have "sum_list (map (\<lambda>x. Suc (length x)) (map tl (filter P ks))) \<le> sum_list (map (\<lambda>x. Suc (length x)) ks)" for P :: "'a list \<Rightarrow> bool"
    by (induction ks) auto
  from this [of "\<lambda>x. x \<noteq> [] \<and> hd x = c"] show ?case by simp
next
  case (4 c k ks)
  have "sum_list (map (\<lambda>x. Suc (length x)) (filter P ks)) \<le> sum_list (map (\<lambda>x. Suc (length x)) ks)" for P :: "'a list \<Rightarrow> bool"
    by (induction ks) auto
  from this [of "\<lambda>x. \<not> (x \<noteq> [] \<and> hd x = c)"] show ?case by simp
qed auto

lemma distinct_filters: "distinct (filter P xs) \<Longrightarrow> distinct (filter (\<lambda>x. \<not> P x) xs) \<Longrightarrow> distinct xs"
  by (induction xs) (simp_all split: if_splits)

lemma radix_distinct: "radix ks \<Longrightarrow> distinct ks"
proof (induction ks rule: radix.induct)
  case (2 ks)
  then show ?case by (auto simp: list_all_iff)
next
  case (3 c k ks)
  show ?case
  proof (cases "ks = []")
    case False
    let ?P = "\<lambda>x. x \<noteq> [] \<and> hd x = c"
    have d: "distinct (k # map tl (filter ?P ks))" "distinct (filter (\<lambda>x. \<not> ?P x) ks)"
      using 3 False by simp_all
    have "distinct (filter ?P ks)" using d(1) by (simp add: distinct_map)
    then have "distinct ks" using d(2) by (rule distinct_filters)
    moreover have "c # k \<notin> set ks"
    proof
      assume "c # k \<in> set ks"
      then have "k \<in> set (map tl (filter ?P ks))" by (force simp: image_iff)
      then show False using d(1) by simp
    qed
    ultimately show ?thesis by simp
  qed simp
qed simp

text \<open>A fingerprint of 24 bits, which tells the keys of the table apart.\<close>

fun mix :: "char \<Rightarrow> char \<Rightarrow> char" where
  "mix (Char a0 a1 a2 a3 a4 a5 a6 a7) (Char b0 b1 b2 b3 b4 b5 b6 b7) =
     Char (a7 \<noteq> b0) (a0 \<noteq> b1) (a1 \<noteq> b2) (a2 \<noteq> b3) (a3 \<noteq> b4) (a4 \<noteq> b5) (a5 \<noteq> b6) (a6 \<noteq> b7)"

fun bits_of :: "char \<Rightarrow> bool list" where
  "bits_of (Char b0 b1 b2 b3 b4 b5 b6 b7) = [b0, b1, b2, b3, b4, b5, b6, b7]"

fun fingerprint :: "char \<Rightarrow> char \<Rightarrow> char \<Rightarrow> string \<Rightarrow> bool list" where
  "fingerprint a b c [] = bits_of a @ bits_of b @ bits_of c"
| "fingerprint a b c (x # xs) = fingerprint b c (mix a x) xs"

definition key_bits :: "routeDef \<Rightarrow> bool list" where
  "key_bits rd = fingerprint CHR 0x00 CHR 0x00 CHR 0x00 (rd_method rd @ '' '' @ rd_pattern rd)"

lemma key_bits_distinct: "radix (map key_bits apiRoutes)"
  by code_simp

lemma route_keys_distinct: "distinct (map route_key apiRoutes)"
proof -
  have "map key_bits apiRoutes = map (fingerprint CHR 0x00 CHR 0x00 CHR 0x00) (map route_key apiRoutes)"
    by (simp add: key_bits_def route_key_def)
  then show ?thesis
    using radix_distinct [OF key_bits_distinct] by (simp only: distinct_map)
qed

lemma route_perms_lookup:
  "distinct (map route_key rds) \<Longrightarrow> rd \<in> set rds \<Longrightarrow>
     route_perms rds out (route_key rd) = (if rd_perm rd \<noteq> [] then Some (rd_perm rd) else out (route_key rd))"
proof (induction rds arbitrary: out)
  case (Cons x rds)
  have other: "k \<notin> route_key ` set rds \<Longrightarrow> route_perms rds m k = m k" for k m
    by (induction rds arbitrary: m) auto
  show ?case
  proof (cases "rd = x")
    case True
    then show ?thesis using Cons.prems(1) by (simp add: other)
  next
    case False
    then have "rd \<in> set rds" "route_key rd \<noteq> route_key x" using Cons.prems by (auto simp: image_iff)
    then show ?thesis using Cons by simp
  qed
qed simp

lemma permForRoute_table: "rd \<in> set apiRoutes \<Longrightarrow> permForRoute (route_key rd) = rd_perm rd"
  by (simp add: permForRoute_def routePerms_def route_perms_lookup [OF route_keys_distinct])

text \<open>The routes that need no token, and those that need one but no permission.\<close>

definition public_patterns :: "string list" where
  "public_patterns = [''/health'', ''/healthz'', ''/version'', ''/auth/login'', ''/login'', ''/auth/logout'', ''/logout'', ''/auth/signup'',
     ''/auth/password/forgot'', ''/auth/password/reset'', ''/auth/jwks'']"

definition self_patterns :: "string list" where
  "self_patterns = [''/csrf'', ''/auth/token'', ''/auth/session'', ''/users/me'']"

definition route_wf :: "routeDef \<Rightarrow> bool" where
  "route_wf rd \<longleftrightarrow> rd_method rd \<in> set [''GET'', ''POST'', ''PUT'', ''PATCH'', ''DELETE''] \<and> HasPrefix (rd_pattern rd) ''/'' \<and>
     (if rd_auth rd then (if rd_perm rd = [] then rd_pattern rd \<in> set self_patterns else True)
      else rd_perm rd = [] \<and> rd_pattern rd \<in> set public_patterns)"

lemma routes_wf: "list_all route_wf apiRoutes"
  by code_simp

subsection \<open>Properties\<close>


end
