(* ===== verification/Api_Gate.thy ===== *)
theory Api_Gate
  imports Tokens Api_Routes Netip
begin

text \<open>
  The middleware every request of the API passes (\<open>auth\<close>, \<open>resolveBearer\<close>, \<open>allowRate\<close>, \<open>idempotent\<close> in \<open>api/api.go\<close>),
  with the handler behind it as a parameter, and the handlers that give out and take back credentials. A
  statement or a look at the clock takes the next number of a counter, and the environment says how it turns out.
\<close>

subsection \<open>Requests and state\<close>

text \<open>Headers, query parameters and path values that are absent read as the empty text.\<close>

record gate_request =
  rq_Method :: string
  rq_Pattern :: string
  rq_Path :: string
  rq_RemoteAddr :: string
  rq_Header :: "string \<Rightarrow> string"
  rq_Query :: "string \<Rightarrow> string"
  rq_PathValue :: "string \<Rightarrow> string"
  rq_Body :: string

record principal =
  pn_username :: string
  pn_role :: string

record AuthContext =
  ax_PrincipalType :: string
  ax_PrincipalID :: string
  ax_ScopeType :: string
  ax_ScopeID :: string

record rateEntry =
  re_count :: int
  re_reset :: time

record IdempotencyRecord =
  ir_StatusCode :: int
  ir_Response :: string

record gate_world =
  gw_rbac :: rbac_db
  gw_sessions :: "Session list"
  gw_keys :: "APIKey list"
  gw_idem :: "(string \<times> IdempotencyRecord) list"
  gw_rate :: "string \<rightharpoonup> rateEntry"
  gw_step :: nat

text \<open>\<open>ge_jsonb\<close> is what the database makes of a text cast to \<open>jsonb\<close> and read back: \<open>None\<close> for a text that is no JSON.\<close>

record gate_env =
  ge_db :: "nat \<Rightarrow> bool"
  ge_clock :: "nat \<Rightarrow> time"
  ge_newid :: "nat \<Rightarrow> string"
  ge_jwt :: jwt_host
  ge_key :: KeyPair
  ge_csrf :: string
  ge_rateLimit :: int
  ge_jsonb :: "string \<Rightarrow> string option"

subsection \<open>Bearer tokens\<close>

definition bearerToken :: "gate_request \<Rightarrow> string" where
  "bearerToken r = (case Cut CHR '' '' (rq_Header r ''Authorization'') of
      Some (scheme, tok) \<Rightarrow> if EqualFold scheme ''Bearer'' then tok else rq_Query r ''access_token''
    | None \<Rightarrow> rq_Query r ''access_token'')"

definition GetUserByID :: "rbac_db \<Rightarrow> string \<Rightarrow> User option" where
  "GetUserByID db i = find (\<lambda>u. us_ID u = i) (users db)"

definition GetUserByToken :: "jwt_host \<Rightarrow> bool \<Rightarrow> rbac_db \<Rightarrow> APIKey list \<Rightarrow> string \<Rightarrow> User option" where
  "GetUserByToken h ok db ks raw = (case GetAPIKeyByHash ok (hashToken h raw) ks of
      None \<Rightarrow> None
    | Some k \<Rightarrow> if ak_UserID k = [] \<or> ak_UserID k = ''*'' then None else GetUserByID db (ak_UserID k))"

definition role_of :: "rbac_db \<Rightarrow> string \<Rightarrow> string" where
  "role_of db username = (case GetUserByUsername db username of Some u \<Rightarrow> us_Role u | None \<Rightarrow> [])"

text \<open>The principal and the scope bound to the token, in the order JSON Web Token, session, API key.\<close>

definition resolve_jwt :: "gate_env \<Rightarrow> string \<Rightarrow> gate_world \<Rightarrow> (principal \<times> AuthContext) option" where
  "resolve_jwt e tok w =
     (if length (Split CHR ''.'' tok) = 3 \<and> kp_KID (ge_key e) \<noteq> [] then
        (case Verify (ge_jwt e) (ge_key e) (ge_clock e (gw_step w)) tok ''porter-api'' of
           Inl _ \<Rightarrow> None
         | Inr c \<Rightarrow>
             if cl_Subject c = [] then None
             else let (st, si) = ResolveScope [] (cl_Tenant c)
                  in Some (\<lparr>pn_username = cl_Subject c, pn_role = role_of (gw_rbac w) (cl_Subject c)\<rparr>,
                           \<lparr>ax_PrincipalType = ''user'', ax_PrincipalID = cl_Subject c, ax_ScopeType = st, ax_ScopeID = si\<rparr>))
      else None)"

definition resolveBearer :: "gate_env \<Rightarrow> string \<Rightarrow> gate_world \<Rightarrow> (principal \<times> AuthContext option) \<times> gate_world" where
  "resolveBearer e tok w =
     (let n = gw_step w; w' = w\<lparr>gw_step := n + 3\<rparr>
      in case resolve_jwt e tok w of
           Some (p, ax) \<Rightarrow> ((p, Some ax), w')
         | None \<Rightarrow>
             (case GetSessionByToken (ge_db e (n + 1)) (ge_clock e (n + 1)) (hashToken (ge_jwt e) tok) (gw_sessions w) of
                Some s \<Rightarrow>
                  ((\<lparr>pn_username = sn_PrincipalID s, pn_role = role_of (gw_rbac w) (sn_PrincipalID s)\<rparr>,
                    Some \<lparr>ax_PrincipalType = sn_PrincipalType s, ax_PrincipalID = sn_PrincipalID s,
                          ax_ScopeType = sn_ScopeType s, ax_ScopeID = sn_ScopeID s\<rparr>), w')
              | None \<Rightarrow>
                  (case GetUserByToken (ge_jwt e) (ge_db e (n + 2)) (gw_rbac w) (gw_keys w) tok of
                     Some u \<Rightarrow>
                       if us_Username u \<noteq> [] then ((\<lparr>pn_username = us_Username u, pn_role = us_Role u\<rparr>, None), w')
                       else ((\<lparr>pn_username = [], pn_role = []\<rparr>, None), w')
                   | None \<Rightarrow> ((\<lparr>pn_username = [], pn_role = []\<rparr>, None), w'))))"

subsection \<open>The rate limit\<close>

definition client_ip :: "string \<Rightarrow> string" where
  "client_ip client = (case SplitHostPort client of Some (h, _) \<Rightarrow> h | None \<Rightarrow> client)"

definition rate_step :: "int \<Rightarrow> time \<Rightarrow> rateEntry option \<Rightarrow> bool \<times> rateEntry option" where
  "rate_step limit now entry = (case entry of
      None \<Rightarrow> (True, Some \<lparr>re_count = 1, re_reset = now + 60 * 1000000000\<rparr>)
    | Some e \<Rightarrow>
        if now > re_reset e then (True, Some \<lparr>re_count = 1, re_reset = now + 60 * 1000000000\<rparr>)
        else if re_count e + 1 > limit then (False, Some e)
        else (True, Some (e\<lparr>re_count := re_count e + 1\<rparr>)))"

definition allowRate :: "gate_env \<Rightarrow> string \<Rightarrow> gate_world \<Rightarrow> bool \<times> gate_world" where
  "allowRate e client w =
     (let ip = client_ip client; n = gw_step w;
          (ok, entry) = rate_step (ge_rateLimit e) (ge_clock e n) (gw_rate w ip)
      in (ok, w\<lparr>gw_rate := (gw_rate w)(ip := entry), gw_step := Suc n\<rparr>))"

subsection \<open>Responses\<close>

text \<open>What a handler does with its response writer, and the writer that records it.\<close>

datatype wevent = WriteHeader int | WriteBody string

record recordingWriter =
  rw_status :: int
  rw_body :: string
  rw_wrote :: bool

fun record_event :: "recordingWriter \<Rightarrow> wevent \<Rightarrow> recordingWriter" where
  "record_event rec (WriteHeader s) = (if rw_wrote rec then rec else rec\<lparr>rw_wrote := True, rw_status := s\<rparr>)"
| "record_event rec (WriteBody b) =
     (let rec = (if rw_wrote rec then rec else rec\<lparr>rw_wrote := True, rw_status := 200\<rparr>)
      in rec\<lparr>rw_body := rw_body rec @ b\<rparr>)"

definition recorded :: "wevent list \<Rightarrow> recordingWriter" where
  "recorded evs = foldl record_event \<lparr>rw_status = 200, rw_body = [], rw_wrote = False\<rparr> evs"

subsection \<open>Idempotency keys\<close>

definition GetIdempotency :: "bool \<Rightarrow> string \<Rightarrow> (string \<times> IdempotencyRecord) list \<Rightarrow> IdempotencyRecord option" where
  "GetIdempotency ok key t = map_option snd (query_row ok fst key t)"

definition PutIdempotency ::
    "(string \<Rightarrow> string option) \<Rightarrow> bool \<Rightarrow> string \<Rightarrow> int \<Rightarrow> string \<Rightarrow> (string \<times> IdempotencyRecord) list \<Rightarrow> (string \<times> IdempotencyRecord) list" where
  "PutIdempotency jsonb ok key status response t =
     (let response = (if response = [] then ''{}'' else response)
      in case jsonb response of
           None \<Rightarrow> t
         | Some txt \<Rightarrow>
             if \<not> ok \<or> list_ex (\<lambda>r. fst r = key) t then t
             else t @ [(key, \<lparr>ir_StatusCode = status, ir_Response = txt\<rparr>)])"

type_synonym gate_handler = "principal \<Rightarrow> AuthContext \<Rightarrow> gate_request \<Rightarrow> gate_world \<Rightarrow> wevent list \<times> gate_world"

datatype gate_result =
    Refused int string
  | Replayed int string
  | Served principal AuthContext int string

definition mutating :: "string \<Rightarrow> bool" where
  "mutating m \<longleftrightarrow> m = ''POST'' \<or> m = ''PUT'' \<or> m = ''PATCH'' \<or> m = ''DELETE''"

definition idem_key :: "gate_request \<Rightarrow> string" where
  "idem_key r = rq_Method r @ '' '' @ rq_Pattern r @ '' '' @ rq_Header r ''Idempotency-Key''"

definition idempotent ::
    "gate_env \<Rightarrow> gate_handler \<Rightarrow> principal \<Rightarrow> AuthContext \<Rightarrow> gate_request \<Rightarrow> gate_world \<Rightarrow> gate_result \<times> gate_world" where
  "idempotent e next p ax r w =
     (if rq_Header r ''Idempotency-Key'' = [] \<or> \<not> mutating (rq_Method r) then
        (case next p ax r w of (evs, w') \<Rightarrow> (Served p ax (rw_status (recorded evs)) (rw_body (recorded evs)), w'))
      else
        let n = gw_step w
        in case GetIdempotency (ge_db e n) (idem_key r) (gw_idem w) of
             Some rec \<Rightarrow> (Replayed (ir_StatusCode rec) (ir_Response rec), w\<lparr>gw_step := Suc n\<rparr>)
           | None \<Rightarrow>
               (case next p ax r (w\<lparr>gw_step := Suc n\<rparr>) of (evs, w') \<Rightarrow>
                  let rec = recorded evs
                  in (Served p ax (rw_status rec) (rw_body rec),
                      w'\<lparr>gw_idem := PutIdempotency (ge_jsonb e) (ge_db e (gw_step w')) (idem_key r) (rw_status rec) (rw_body rec) (gw_idem w'),
                         gw_step := Suc (gw_step w')\<rparr>)))"

subsection \<open>The middleware\<close>

definition withRequestID :: "gate_env \<Rightarrow> gate_request \<Rightarrow> gate_world \<Rightarrow> string \<times> gate_world" where
  "withRequestID e r w =
     (let i = rq_Header r ''X-Request-ID''
      in if i = [] then (ge_newid e (gw_step w), w\<lparr>gw_step := Suc (gw_step w)\<rparr>) else (i, w))"

definition csrf_ok :: "gate_env \<Rightarrow> gate_request \<Rightarrow> bool" where
  "csrf_ok e r \<longleftrightarrow> rq_Method r = ''GET'' \<or> rq_Method r = ''HEAD'' \<or> rq_Path r = ''/csrf'' \<or>
     rq_Header r ''X-CSRF-Token'' \<noteq> [] \<and> rq_Header r ''X-CSRF-Token'' = ge_csrf e"

definition request_granted :: "gate_request \<Rightarrow> gate_world \<Rightarrow> principal \<Rightarrow> string \<Rightarrow> bool" where
  "request_granted r w p perm = granted (gw_rbac w) (rq_PathValue r ''projectId'') (rq_Header r ''X-Porter-Org-Id'') (pn_username p) perm"

definition request_scope :: "gate_request \<Rightarrow> principal \<Rightarrow> AuthContext option \<Rightarrow> AuthContext" where
  "request_scope r p forced =
     (let (st, si) = (case forced of
             None \<Rightarrow> ResolveScope [] (rq_Header r ''X-Tenant-ID'')
           | Some ax \<Rightarrow> (ax_ScopeType ax, ax_ScopeID ax))
      in \<lparr>ax_PrincipalType = ''user'', ax_PrincipalID = pn_username p, ax_ScopeType = st, ax_ScopeID = si\<rparr>)"

definition auth :: "gate_env \<Rightarrow> gate_handler \<Rightarrow> gate_request \<Rightarrow> gate_world \<Rightarrow> gate_result \<times> gate_world" where
  "auth e next r w =
     (let w = snd (withRequestID e r w);
          tok = bearerToken r;
          ((p, forced), w) = (if tok \<noteq> [] then resolveBearer e tok w else ((\<lparr>pn_username = [], pn_role = []\<rparr>, None), w))
      in if pn_username p = [] then (Refused 401 ''unauthorized'', w)
         else let (allowed, w) = (if ge_rateLimit e > 0 then allowRate e (rq_RemoteAddr r) w else (True, w))
         in if \<not> allowed then (Refused 429 ''rate limit exceeded'', w)
         else if \<not> csrf_ok e r then (Refused 403 ''invalid or missing CSRF token'', w)
         else if permForRoute (rq_Pattern r) \<noteq> [] \<and> \<not> request_granted r w p (permForRoute (rq_Pattern r))
           then (Refused 403 (''missing permission: '' @ permForRoute (rq_Pattern r)), w)
         else idempotent e next p (request_scope r p forced) r w)"

subsection \<open>Giving out and taking back credentials\<close>

definition user_json :: "User \<Rightarrow> json" where
  "user_json u = JObj ([(''id'', JStr (us_ID u)), (''username'', JStr (us_Username u)), (''role'', JStr (us_Role u))] @
     (if us_Email u = [] then [] else [(''email'', JStr (us_Email u))]) @
     (if us_NotifyOptIn u then [(''notify_opt_in'', JBool True)] else []) @ [(''created_at'', JStr ''0001-01-01T00:00:00Z'')])"

definition error_json :: "int \<Rightarrow> string \<Rightarrow> string \<Rightarrow> json" where
  "error_json status msg reqid = JObj [(''code'', JNum (of_int status)), (''message'', JStr msg), (''error'', JStr msg), (''request_id'', JStr reqid)]"

definition issueUserToken :: "gate_env \<Rightarrow> User \<Rightarrow> gate_world \<Rightarrow> string \<times> gate_world" where
  "issueUserToken e u w =
     (let n = gw_step w;
          raw = ge_newid e n @ ge_newid e (n + 1);
          k = \<lparr>ak_ID = ge_newid e (n + 2), ak_UserID = us_ID u, ak_Name = ''session'', ak_TokenHash = hashToken (ge_jwt e) raw, ak_LastUsed = None\<rparr>
      in (raw, w\<lparr>gw_keys := PutAPIKey (ge_db e (n + 3)) k (gw_keys w), gw_step := n + 4\<rparr>))"

text \<open>The body is the decoded username and password, or the text of the decoding error; \<open>reqid\<close> is the request id of the response.\<close>

definition handleLogin :: "gate_env \<Rightarrow> string \<Rightarrow> (string, string \<times> string) result \<Rightarrow> gate_world \<Rightarrow> (int \<times> json) \<times> gate_world" where
  "handleLogin e reqid body w = (case body of
      Inl err \<Rightarrow> ((400, error_json 400 (''bad request: '' @ err) reqid), w)
    | Inr (username, password) \<Rightarrow>
        (case GetUserByUsername (gw_rbac w) username of
           Some u \<Rightarrow>
             if VerifyPassword (ge_jwt e) password (us_Salt u) (us_PasswordHash u) then
               (case issueUserToken e u w of (token, w') \<Rightarrow>
                  ((200, JObj [(''token'', JStr token), (''user'', user_json u)]), w'))
             else ((401, error_json 401 ''invalid username or password'' reqid), w)
         | None \<Rightarrow> ((401, error_json 401 ''invalid username or password'' reqid), w)))"

definition handleLogout :: "gate_world \<Rightarrow> (int \<times> json) \<times> gate_world" where
  "handleLogout w = ((200, JObj [(''status'', JStr ''logged out'')]), w)"

definition handleJWKS :: "gate_env \<Rightarrow> string \<Rightarrow> int \<times> json" where
  "handleJWKS e reqid =
     (if kp_KID (ge_key e) = [] then (503, error_json 503 ''JWT authentication is not configured'' reqid)
      else (200, JObj [(''keys'', JArr [JObj (map (\<lambda>(k, v). (k, JStr v)) (PublicJWK (ge_jwt e) (ge_key e)))])]))"

definition handleMintToken :: "gate_env \<Rightarrow> string \<Rightarrow> principal \<Rightarrow> AuthContext \<Rightarrow> gate_world \<Rightarrow> (int \<times> json) \<times> gate_world" where
  "handleMintToken e reqid p ax w =
     (if kp_KID (ge_key e) = [] then ((503, error_json 503 ''JWT authentication is not configured'' reqid), w)
      else let tok = Mint (ge_jwt e) (ge_key e) (ge_clock e (gw_step w)) (pn_username p) ''porter-api'' ''session'' (ax_ScopeID ax)
                      (12 * 3600 * 1000000000)
           in ((200, JObj [(''token'', JStr tok), (''scope'', JStr (ax_ScopeType ax)), (''tenant'', JStr (ax_ScopeID ax))]),
               w\<lparr>gw_step := Suc (gw_step w)\<rparr>))"

definition handleMe :: "string \<Rightarrow> principal \<Rightarrow> gate_world \<Rightarrow> int \<times> json" where
  "handleMe reqid p w = (case GetUserByUsername (gw_rbac w) (pn_username p) of
      Some u \<Rightarrow> (200, user_json u)
    | None \<Rightarrow> (401, error_json 401 ''authenticated user not found'' reqid))"

definition handleCreateAPIKey ::
    "gate_env \<Rightarrow> string \<Rightarrow> principal \<Rightarrow> (string, string) result \<Rightarrow> gate_world \<Rightarrow> (int \<times> APIKey option \<times> string) \<times> gate_world" where
  "handleCreateAPIKey e reqid p body w = (case body of
      Inl err \<Rightarrow> ((400, None, ''bad request: '' @ err), w)
    | Inr name0 \<Rightarrow>
        let name = (if name0 = [] then ''default'' else name0)
        in case GetUserByUsername (gw_rbac w) (pn_username p) of
             None \<Rightarrow> ((401, None, ''authenticated user not found''), w)
           | Some u \<Rightarrow>
               let n = gw_step w; raw = ge_newid e n;
                   k = \<lparr>ak_ID = ge_newid e (n + 1), ak_UserID = us_ID u, ak_Name = name, ak_TokenHash = hashToken (ge_jwt e) raw, ak_LastUsed = None\<rparr>
               in ((201, Some k, raw), w\<lparr>gw_keys := PutAPIKey (ge_db e (n + 2)) k (gw_keys w), gw_step := n + 3\<rparr>))"

definition handleDeleteAPIKey :: "gate_env \<Rightarrow> string \<Rightarrow> string \<Rightarrow> gate_world \<Rightarrow> (int \<times> json) \<times> gate_world" where
  "handleDeleteAPIKey e reqid keyId w =
     (case DeleteAPIKey (ge_db e (gw_step w)) keyId (gw_keys w) of (hit, ks) \<Rightarrow>
        let w' = w\<lparr>gw_keys := ks, gw_step := Suc (gw_step w)\<rparr>
        in if hit then ((200, JObj [(''status'', JStr ''deleted'')]), w')
           else ((404, error_json 404 ''api key not found'' reqid), w'))"

subsection \<open>Lemmas\<close>

text \<open>How a token can stand for a user: a claim set issued for them, a live session, or a key of theirs.\<close>

definition stands_for :: "gate_env \<Rightarrow> Claims set \<Rightarrow> gate_world \<Rightarrow> nat \<Rightarrow> string \<Rightarrow> string \<Rightarrow> bool" where
  "stands_for e C w n tok username \<longleftrightarrow>
     (\<exists>c \<in> C. cl_Subject c = username \<and> cl_Audience c = ''porter-api'' \<and> ge_clock e n div 1000000000 \<le> cl_Expiry c) \<or>
     (\<exists>s \<in> set (gw_sessions w). sn_PrincipalID s = username \<and> sn_TokenHash s = hashToken (ge_jwt e) tok \<and> sn_RevokedAt s = None \<and>
        ge_clock e (n + 1) \<le> sn_ExpiresAt s) \<or>
     (\<exists>k \<in> set (gw_keys w). \<exists>u \<in> set (users (gw_rbac w)). ak_TokenHash k = hashToken (ge_jwt e) tok \<and> us_ID u = ak_UserID k \<and>
        us_Username u = username)"

lemma resolveBearer_stands_for:
  assumes "\<And>m s. jh_verify (ge_jwt e) (jh_public (ge_jwt e) (kp_Seed (ge_key e))) m s \<Longrightarrow> m \<in> signing_input (ge_jwt e) (ge_key e) ` C"
    and "\<And>c. c \<in> C \<Longrightarrow> jh_read (ge_jwt e) (jh_text (ge_jwt e) (claims_json c)) = Some (claims_json c) \<and> in_range c"
    and "resolveBearer e tok w = ((p, forced), w')" "pn_username p \<noteq> []"
  shows "stands_for e C w (gw_step w) tok (pn_username p)"
proof (cases "resolve_jwt e tok w")
  case (Some r)
  then obtain c where c: "Verify (ge_jwt e) (ge_key e) (ge_clock e (gw_step w)) tok ''porter-api'' = Inr c" "pn_username (fst r) = cl_Subject c"
    by (auto simp: resolve_jwt_def split: if_splits sum.splits prod.splits)
  have "c \<in> C \<and> cl_Audience c = ''porter-api'' \<and> cl_Subject c \<noteq> [] \<and> cl_Tenant c \<noteq> [] \<and> ge_clock e (gw_step w) div 1000000000 \<le> cl_Expiry c"
    using assms(1,2) c(1) by (rule Verify_issued)
  moreover have "pn_username p = cl_Subject c"
    using assms(3) Some c(2) by (auto simp: resolveBearer_def Let_def split: prod.splits)
  ultimately show ?thesis by (auto simp: stands_for_def)
next
  case None
  let ?s = "GetSessionByToken (ge_db e (gw_step w + 1)) (ge_clock e (gw_step w + 1)) (hashToken (ge_jwt e) tok) (gw_sessions w)"
  show ?thesis
  proof (cases ?s)
    case (Some s)
    then have "s \<in> set (gw_sessions w)" "sn_TokenHash s = hashToken (ge_jwt e) tok" "sn_RevokedAt s = None" "ge_clock e (gw_step w + 1) \<le> sn_ExpiresAt s"
      by (auto simp: GetSessionByToken_def query_row_def split: option.splits if_splits dest: select_row_SomeD)
    moreover have "pn_username p = sn_PrincipalID s"
      using assms(3) None Some by (auto simp: resolveBearer_def Let_def)
    ultimately show ?thesis by (auto simp: stands_for_def)
  next
    case none: None
    obtain u where u: "GetUserByToken (ge_jwt e) (ge_db e (gw_step w + 2)) (gw_rbac w) (gw_keys w) tok = Some u" "pn_username p = us_Username u"
      using assms(3,4) None none by (auto simp: resolveBearer_def Let_def split: option.splits if_splits)
    then obtain k where "k \<in> set (gw_keys w)" "ak_TokenHash k = hashToken (ge_jwt e) tok" "u \<in> set (users (gw_rbac w))" "us_ID u = ak_UserID k"
      by (auto simp: GetUserByToken_def GetAPIKeyByHash_def GetUserByID_def query_row_def split: option.splits if_splits
        dest: select_row_SomeD find_SomeD)
    then show ?thesis using u(2) by (auto simp: stands_for_def)
  qed
qed

text \<open>The guards a request has passed when the middleware does not refuse it.\<close>

lemma auth_passed:
  assumes "auth e next r w = (res, w')" "\<forall>code msg. res \<noteq> Refused code msg"
  obtains p forced w1 w2 where "bearerToken r \<noteq> []" "resolveBearer e (bearerToken r) (snd (withRequestID e r w)) = ((p, forced), w1)"
    "pn_username p \<noteq> []" "(if ge_rateLimit e > 0 then allowRate e (rq_RemoteAddr r) w1 else (True, w1)) = (True, w2)" "csrf_ok e r"
    "permForRoute (rq_Pattern r) \<noteq> [] \<longrightarrow> request_granted r w2 p (permForRoute (rq_Pattern r))"
    "idempotent e next p (request_scope r p forced) r w2 = (res, w')"
proof -
  let ?w = "snd (withRequestID e r w)"
  have tok: "bearerToken r \<noteq> []"
    using assms by (auto simp: auth_def Let_def)
  obtain p forced w1 where b: "resolveBearer e (bearerToken r) ?w = ((p, forced), w1)"
    by (metis prod.collapse)
  obtain allowed w2 where a: "(if ge_rateLimit e > 0 then allowRate e (rq_RemoteAddr r) w1 else (True, w1)) = (allowed, w2)"
    by (metis prod.collapse)
  have run: "auth e next r w =
     (if pn_username p = [] then (Refused 401 ''unauthorized'', w1)
      else if \<not> allowed then (Refused 429 ''rate limit exceeded'', w2)
      else if \<not> csrf_ok e r then (Refused 403 ''invalid or missing CSRF token'', w2)
      else if permForRoute (rq_Pattern r) \<noteq> [] \<and> \<not> request_granted r w2 p (permForRoute (rq_Pattern r))
        then (Refused 403 (''missing permission: '' @ permForRoute (rq_Pattern r)), w2)
      else idempotent e next p (request_scope r p forced) r w2)"
    using tok b a by (simp add: auth_def Let_def)
  show thesis
    using assms tok b a unfolding run by (intro that [of p forced w1 w2]) (auto split: if_splits)
qed

lemma rbac_frames:
  "gw_rbac (snd (withRequestID e r w)) = gw_rbac w" "gw_sessions (snd (withRequestID e r w)) = gw_sessions w"
  "gw_keys (snd (withRequestID e r w)) = gw_keys w" "gw_idem (snd (withRequestID e r w)) = gw_idem w"
  "resolveBearer e tok w = (x, w1) \<Longrightarrow> gw_rbac w1 = gw_rbac w \<and> gw_idem w1 = gw_idem w"
  "allowRate e client w = (b, w2) \<Longrightarrow> gw_rbac w2 = gw_rbac w \<and> gw_idem w2 = gw_idem w"
  by (auto simp: withRequestID_def resolveBearer_def allowRate_def Let_def split: option.splits prod.splits if_splits)

lemma idempotent_principal: "idempotent e next p ax r w = (Served q bx st b, w') \<Longrightarrow> q = p \<and> bx = ax"
  by (auto simp: idempotent_def Let_def split: if_splits option.splits prod.splits)

lemma idempotent_not_refused: "idempotent e next p ax r w = (Refused c m, w') \<Longrightarrow> False"
  by (auto simp: idempotent_def Let_def split: if_splits option.splits prod.splits)

text \<open>What a recorded request leaves in the table of idempotency keys.\<close>

lemma idempotent_stores:
  assumes "\<forall>n. ge_db e n" "rq_Header r ''Idempotency-Key'' \<noteq> []" "mutating (rq_Method r)"
    and "\<And>p ax r w. gw_idem (snd (next p ax r w)) = gw_idem w"
    and "idempotent e next p ax r w = (Served q bx st b, w')" "ge_jsonb e (if b = [] then ''{}'' else b) = Some txt"
  shows "GetIdempotency True (idem_key r) (gw_idem w') = Some \<lparr>ir_StatusCode = st, ir_Response = txt\<rparr>"
proof -
  have new: "GetIdempotency True (idem_key r) (gw_idem w) = None"
    using assms(1-3,5) by (auto simp: idempotent_def Let_def split: option.splits)
  obtain evs w1 where run: "next p ax r (w\<lparr>gw_step := Suc (gw_step w)\<rparr>) = (evs, w1)"
    by (metis prod.collapse)
  have idem: "gw_idem w1 = gw_idem w"
    using assms(4) [of p ax r "w\<lparr>gw_step := Suc (gw_step w)\<rparr>"] run by simp
  have w': "st = rw_status (recorded evs)" "b = rw_body (recorded evs)"
      "gw_idem w' = PutIdempotency (ge_jsonb e) True (idem_key r) st b (gw_idem w1)"
    using assms(1-3,5) new run by (auto simp: idempotent_def Let_def)
  have none: "select_row fst (idem_key r) (gw_idem w) = None"
    using new by (simp add: GetIdempotency_def query_row_def)
  then have "\<not> list_ex (\<lambda>x. fst x = idem_key r) (gw_idem w)"
    by (force simp: select_row_None_iff list_ex_iff)
  then have "gw_idem w' = gw_idem w @ [(idem_key r, \<lparr>ir_StatusCode = st, ir_Response = txt\<rparr>)]"
    using w'(3) assms(6) idem by (simp add: PutIdempotency_def Let_def)
  then show ?thesis
    using none by (simp add: GetIdempotency_def query_row_def select_row_append)
qed

lemma idempotent_replays:
  assumes "\<forall>n. ge_db e n" "rq_Header r ''Idempotency-Key'' \<noteq> []" "mutating (rq_Method r)"
    and "GetIdempotency True (idem_key r) (gw_idem w) = Some \<lparr>ir_StatusCode = st, ir_Response = txt\<rparr>"
  shows "idempotent e next p ax r w = (Replayed st txt, w\<lparr>gw_step := Suc (gw_step w)\<rparr>)"
  using assms by (simp add: idempotent_def Let_def)

text \<open>The number of requests of one client that the limiter lets through, at the given times.\<close>

fun admitted :: "int \<Rightarrow> time list \<Rightarrow> rateEntry option \<Rightarrow> int" where
  "admitted limit [] entry = 0"
| "admitted limit (t # ts) entry =
     (case rate_step limit t entry of (ok, entry') \<Rightarrow> (if ok then 1 else 0) + admitted limit ts entry')"

abbreviation minute :: time where "minute \<equiv> 60 * 1000000000"

definition windows :: "time \<Rightarrow> time \<Rightarrow> int" where
  "windows stop reset = (if stop > reset then (stop - reset) div minute + 1 else 0)"

lemma windows_nonneg: "0 \<le> windows stop reset"
  by (simp add: windows_def pos_imp_zdiv_nonneg_iff)

lemma windows_shift: "t \<le> stop \<Longrightarrow> windows stop (t + minute) \<le> (stop - t) div minute"
proof (cases "stop > t + minute")
  case True
  have "(stop - t) div minute = (stop - (t + minute) + minute) div minute" by simp
  also have "\<dots> = (stop - (t + minute)) div minute + 1" by (rule div_add_self2) simp
  finally show ?thesis using True by (simp add: windows_def)
qed (simp add: windows_def pos_imp_zdiv_nonneg_iff)

lemma windows_step:
  assumes "reset < t" "t \<le> stop"
  shows "1 + windows stop (t + minute) \<le> windows stop reset"
proof -
  have "(stop - t) div minute \<le> (stop - reset) div minute"
    using assms by (intro zdiv_mono1) simp_all
  then show ?thesis
    using windows_shift [OF assms(2)] assms by (simp add: windows_def)
qed

lemma sorted_le_last: "sorted xs \<Longrightarrow> x \<in> set xs \<Longrightarrow> x \<le> last (xs :: time list)"
  by (induction xs) (auto split: if_splits)

lemma admitted_entry:
  assumes "sorted ts" "\<forall>t \<in> set ts. t \<le> stop" "1 \<le> re_count en" "re_count en \<le> limit"
  shows "admitted limit ts (Some en) \<le> (limit - re_count en) + limit * windows stop (re_reset en)"
  using assms
proof (induction ts arbitrary: en)
  case Nil
  then show ?case using windows_nonneg [of stop "re_reset en"] by simp
next
  case (Cons t ts)
  show ?case
  proof (cases "t > re_reset en")
    case True
    let ?en = "\<lparr>re_count = 1, re_reset = t + minute\<rparr>"
    have "admitted limit ts (Some ?en) \<le> (limit - 1) + limit * windows stop (t + minute)"
      using Cons.IH [of ?en] Cons.prems by simp
    moreover have "limit * (1 + windows stop (t + minute)) \<le> limit * windows stop (re_reset en)"
      using windows_step [of "re_reset en" t stop] True Cons.prems by (intro mult_left_mono) simp_all
    ultimately show ?thesis
      using True Cons.prems by (simp add: rate_step_def algebra_simps)
  next
    case False
    have "admitted limit ts (Some (en\<lparr>re_count := re_count en + 1\<rparr>)) \<le> (limit - (re_count en + 1)) + limit * windows stop (re_reset en)"
      if "re_count en + 1 \<le> limit"
      using Cons.IH [of "en\<lparr>re_count := re_count en + 1\<rparr>"] Cons.prems that by simp
    then show ?thesis
      using False Cons.IH [of en] Cons.prems by (auto simp: rate_step_def)
  qed
qed

subsection \<open>Properties\<close>



text \<open>
  C16: The rate limit bounds what a client gets through. Of any number of requests of one address at times that do not
  decrease, at most the limit is let through for every started minute between the first and the last. (The window is
  fixed, not sliding: the bound over less than a minute that straddles a reset is twice the limit.)
\<close>

theorem rate_limit_bound:
  assumes "1 \<le> limit" "sorted (t # ts)"
  shows "admitted limit (t # ts) None \<le> limit * ((last (t # ts) - t) div minute + 1)"
proof -
  let ?stop = "last (t # ts)" and ?en = "\<lparr>re_count = 1, re_reset = t + minute\<rparr>"
  have le: "\<forall>x \<in> set (t # ts). x \<le> ?stop"
    using assms(2) sorted_le_last by blast
  then have "admitted limit ts (Some ?en) \<le> (limit - 1) + limit * windows ?stop (t + minute)"
    using admitted_entry [of ts ?stop ?en limit] assms by simp
  moreover have "limit * windows ?stop (t + minute) \<le> limit * ((?stop - t) div minute)"
    using windows_shift [of t ?stop] le assms(1) by (intro mult_left_mono) simp_all
  ultimately show ?thesis
    by (simp add: rate_step_def algebra_simps)
qed

text \<open>
  C15: Login. For a stored user the right password gives a fresh token with status 200, and any other input of that user
  name status 401 with nothing changed. The token resolves to the user with their role, as an API key without a
  scope of its own; it still does so after a logout, which changes nothing. The hypotheses say that the new id
  and the hash of the new token are not in use and that ids have no dot.
\<close>

theorem login_correct:
  assumes "\<forall>n. ge_db e n" "\<forall>n. CHR ''.'' \<notin> set (ge_newid e n)"
    and "GetUserByUsername (gw_rbac w) username = Some u" "username \<noteq> []" "distinct (map us_ID (users (gw_rbac w)))"
      "us_ID u \<noteq> []" "us_ID u \<noteq> ''*''"
    and "raw = ge_newid e (gw_step w) @ ge_newid e (gw_step w + 1)" "ge_newid e (gw_step w + 2) \<notin> ak_ID ` set (gw_keys w)"
      "hashToken (ge_jwt e) raw \<notin> ak_TokenHash ` set (gw_keys w)" "hashToken (ge_jwt e) raw \<notin> sn_TokenHash ` set (gw_sessions w)"
  shows "if password \<noteq> [] \<and> us_Salt u \<noteq> [] \<and> us_PasswordHash u \<noteq> [] \<and> HashPassword (ge_jwt e) password (us_Salt u) = us_PasswordHash u
    then \<exists>w'. handleLogin e reqid (Inr (username, password)) w = ((200, JObj [(''token'', JStr raw), (''user'', user_json u)]), w') \<and>
      fst (resolveBearer e raw (snd (handleLogout w'))) = (\<lparr>pn_username = username, pn_role = us_Role u\<rparr>, None)
    else handleLogin e reqid (Inr (username, password)) w = ((401, error_json 401 ''invalid username or password'' reqid), w)"
proof (cases "VerifyPassword (ge_jwt e) password (us_Salt u) (us_PasswordHash u)")
  case False
  then show ?thesis using assms(3) by (auto simp: handleLogin_def VerifyPassword_iff)
next
  case True
  let ?k = "\<lparr>ak_ID = ge_newid e (gw_step w + 2), ak_UserID = us_ID u, ak_Name = ''session'', ak_TokenHash = hashToken (ge_jwt e) raw, ak_LastUsed = None\<rparr>"
  let ?w = "w\<lparr>gw_keys := gw_keys w @ [?k], gw_step := gw_step w + 4\<rparr>"
  have put: "PutAPIKey True ?k (gw_keys w) = gw_keys w @ [?k]"
    using assms(6,9) by (simp add: PutAPIKey_def exec_upsert_def upsert_def apikey_valid_def select_row_None_iff [THEN iffD2] no_clash_def list_ex_iff)
  then have issue: "issueUserToken e u w = (raw, ?w)"
    using assms(1,8) by (simp add: issueUserToken_def Let_def)
  have login: "handleLogin e reqid (Inr (username, password)) w = ((200, JObj [(''token'', JStr raw), (''user'', user_json u)]), ?w)"
    using True assms(3) issue by (simp add: handleLogin_def)
  have name: "us_Username u = username" "u \<in> set (users (gw_rbac w))"
    using assms(3) by (auto simp: GetUserByUsername_def dest: find_SomeD)
  have user: "GetUserByID (gw_rbac w) (us_ID u) = Some u"
    using select_row_unique [of us_ID "users (gw_rbac w)" u] assms(5) name(2) by (simp add: GetUserByID_def select_row_def)
  have "Split CHR ''.'' raw = [raw]"
    using assms(2,8) by (intro Split_no_sep) simp
  then have "resolve_jwt e raw ?w = None" by (simp add: resolve_jwt_def)
  moreover have "GetSessionByToken b t (hashToken (ge_jwt e) raw) (gw_sessions ?w) = None" for b t
    using assms(11) by (simp add: GetSessionByToken_def query_row_def select_row_None_iff [THEN iffD2])
  moreover have "GetAPIKeyByHash True (hashToken (ge_jwt e) raw) (gw_keys ?w) = Some ?k"
    using assms(10) by (simp add: GetAPIKeyByHash_def query_row_def select_row_None_iff [THEN iffD2])
  ultimately have "fst (resolveBearer e raw (snd (handleLogout ?w))) = (\<lparr>pn_username = username, pn_role = us_Role u\<rparr>, None)"
    using assms(1,4,6,7) user name by (simp add: resolveBearer_def Let_def GetUserByToken_def handleLogout_def)
  then show ?thesis
    using True login by (simp add: VerifyPassword_iff)
qed

subsection \<open>Witnesses\<close>

text \<open>A host on which no signature verifies, a user with a password and a key, and a request with the key.\<close>

definition demo_gate :: gate_env where
  "demo_gate = \<lparr>ge_db = (\<lambda>_. True), ge_clock = int, ge_newid = (\<lambda>n. ''id'' @ replicate n CHR ''x''),
     ge_jwt = \<lparr>jh_sha256 = id, jh_public = id, jh_sign = (\<lambda>k m. k @ m), jh_verify = (\<lambda>_ _ _. False), jh_text = (\<lambda>_. []), jh_read = (\<lambda>_. None)\<rparr>,
     ge_key = \<lparr>kp_Seed = [], kp_KID = []\<rparr>, ge_csrf = ''c5'', ge_rateLimit = 0, ge_jsonb = Some\<rparr>"

definition demo_user :: User where
  "demo_user = \<lparr>us_ID = ''u1'', us_Username = ''ann'', us_Role = ''dev'', us_Email = [], us_NotifyOptIn = False,
     us_PasswordHash = HashPassword (ge_jwt demo_gate) ''pw'' ''salt'', us_Salt = ''salt''\<rparr>"

definition demo_gw :: gate_world where
  "demo_gw = \<lparr>gw_rbac = demo_db\<lparr>users := [demo_user]\<rparr>, gw_sessions = [],
     gw_keys = [\<lparr>ak_ID = ''k1'', ak_UserID = ''u1'', ak_Name = ''cli'', ak_TokenHash = hashToken (ge_jwt demo_gate) ''t'', ak_LastUsed = None\<rparr>],
     gw_idem = [], gw_rate = (\<lambda>_. None), gw_step = 0\<rparr>"

definition demo_headers :: "string \<Rightarrow> string" where
  "demo_headers name =
     (if name = ''Authorization'' then ''Bearer t'' else if name = ''X-CSRF-Token'' then ''c5''
      else if name = ''Idempotency-Key'' then ''k'' else if name = ''X-Request-ID'' then ''r'' else [])"

definition demo_req :: gate_request where
  "demo_req = \<lparr>rq_Method = ''POST'', rq_Pattern = ''POST /auth/token'', rq_Path = ''/auth/token'', rq_RemoteAddr = ''10.0.0.9:4711'',
     rq_Header = demo_headers, rq_Query = (\<lambda>_. []), rq_PathValue = (\<lambda>_. []), rq_Body = []\<rparr>"

definition demo_handler :: gate_handler where
  "demo_handler p ax r w = ([WriteHeader 201, WriteBody ''{}''], w)"

abbreviation demo_route :: routeDef where
  "demo_route \<equiv> route ''POST'' ''/auth/token'' [] True ''handleMintToken''"

lemma demo_route_in: "demo_route \<in> set apiRoutes"
  by (simp add: apiRoutes_def system_routes_def)

lemma demo_no_perm: "permForRoute ''POST /auth/token'' = []"
  using permForRoute_table [OF demo_route_in] by (simp add: route_key_def)

lemma demo_fields:
  "rq_Method demo_req = ''POST''" "rq_Pattern demo_req = ''POST /auth/token''" "rq_Path demo_req = ''/auth/token''"
  "rq_Header demo_req ''X-Request-ID'' = ''r''" "rq_Header demo_req ''X-CSRF-Token'' = ''c5''" "rq_Header demo_req ''Idempotency-Key'' = ''k''"
  "ge_csrf demo_gate = ''c5''" "ge_rateLimit demo_gate = 0" "ge_db demo_gate n" "ge_jsonb demo_gate = Some" "gw_idem demo_gw = []"
  by (simp_all add: demo_req_def demo_headers_def demo_gate_def demo_gw_def)

lemma demo_bearer: "bearerToken demo_req = ''t''"
  by (simp add: bearerToken_def demo_req_def demo_headers_def EqualFold_def)

lemma demo_resolve:
  "gw_rbac w = gw_rbac demo_gw \<Longrightarrow> gw_keys w = gw_keys demo_gw \<Longrightarrow> gw_sessions w = [] \<Longrightarrow>
   resolveBearer demo_gate ''t'' w = ((\<lparr>pn_username = ''ann'', pn_role = ''dev''\<rparr>, None), w\<lparr>gw_step := gw_step w + 3\<rparr>)"
  by (simp add: resolveBearer_def resolve_jwt_def GetSessionByToken_def GetUserByToken_def GetAPIKeyByHash_def GetUserByID_def query_row_def
    select_row_def demo_gw_def demo_gate_def demo_user_def Let_def)

lemma demo_auth:
  assumes "gw_rbac w = gw_rbac demo_gw" "gw_keys w = gw_keys demo_gw" "gw_sessions w = []"
  shows "auth demo_gate next demo_req w =
    idempotent demo_gate next \<lparr>pn_username = ''ann'', pn_role = ''dev''\<rparr> (request_scope demo_req \<lparr>pn_username = ''ann'', pn_role = ''dev''\<rparr> None)
      demo_req (w\<lparr>gw_step := gw_step w + 3\<rparr>)"
  using demo_resolve [OF assms] demo_no_perm
  by (simp add: auth_def demo_bearer withRequestID_def csrf_ok_def Let_def demo_fields)

lemma demo_served:
  "\<exists>p ax w'. auth demo_gate demo_handler demo_req demo_gw = (Served p ax 201 ''{}'', w') \<and> gw_rbac w' = gw_rbac demo_gw \<and>
     gw_keys w' = gw_keys demo_gw \<and> gw_sessions w' = []"
  using demo_auth [of demo_gw demo_handler]
  by (simp add: idempotent_def mutating_def GetIdempotency_def query_row_def demo_handler_def recorded_def Let_def demo_fields)
    (simp add: demo_gw_def)



theorem rate_limit_bound_witness:
  "admitted 2 [0, 1, 2, 70000000000] None \<le> 2 * ((last [0, 1, 2, 70000000000] - 0) div minute + 1) \<and> admitted 2 [0, 1, 2, 70000000000] None = 3"
  using rate_limit_bound [of 2 0 "[1, 2, 70000000000]"] by (simp add: rate_step_def)

theorem login_correct_witness:
  "\<exists>w'. handleLogin demo_gate ''r'' (Inr (''ann'', ''pw'')) demo_gw = ((200, JObj [(''token'', JStr ''ididx''), (''user'', user_json demo_user)]), w') \<and>
    fst (resolveBearer demo_gate ''ididx'' (snd (handleLogout w'))) = (\<lparr>pn_username = ''ann'', pn_role = ''dev''\<rparr>, None)"
proof -
  have h: "\<forall>n. ge_db demo_gate n" "\<forall>n. CHR ''.'' \<notin> set (ge_newid demo_gate n)" "GetUserByUsername (gw_rbac demo_gw) ''ann'' = Some demo_user"
      "''ann'' \<noteq> []" "distinct (map us_ID (users (gw_rbac demo_gw)))" "us_ID demo_user \<noteq> []" "us_ID demo_user \<noteq> ''*''"
    by (simp_all add: demo_gate_def demo_gw_def demo_user_def GetUserByUsername_def)
  have raw: "''ididx'' = ge_newid demo_gate (gw_step demo_gw) @ ge_newid demo_gate (gw_step demo_gw + 1)"
      "ge_newid demo_gate (gw_step demo_gw + 2) \<notin> ak_ID ` set (gw_keys demo_gw)"
    by (simp_all add: demo_gate_def demo_gw_def)
  have "hashToken (ge_jwt demo_gate) ''ididx'' \<noteq> hashToken (ge_jwt demo_gate) ''t''"
    by (simp add: hashToken_def hex_EncodeToString_def demo_gate_def)
  then have f: "hashToken (ge_jwt demo_gate) ''ididx'' \<notin> ak_TokenHash ` set (gw_keys demo_gw)"
      "hashToken (ge_jwt demo_gate) ''ididx'' \<notin> sn_TokenHash ` set (gw_sessions demo_gw)"
    by (simp_all add: demo_gw_def)
  have "us_Salt demo_user = ''salt''" "us_PasswordHash demo_user = HashPassword (ge_jwt demo_gate) ''pw'' ''salt''" "us_Role demo_user = ''dev''"
    by (simp_all add: demo_user_def)
  moreover have "HashPassword (ge_jwt demo_gate) ''pw'' ''salt'' \<noteq> []"
    by (simp add: HashPassword_def hex_EncodeToString_def demo_gate_def)
  ultimately show ?thesis
    using login_correct [OF h raw f, of "''pw''" "''r''"] by simp
qed

end
