(* ===== verification/Host_Fs.thy ===== *)
theory Host_Fs
  imports Firecracker
begin

text \<open>
  The host's file system as the functions of package \<open>os\<close> see it, for the components that write files
  (\<open>internal/buildkit\<close>, \<open>internal/volumes\<close>). A node is named by the list of its path's elements; a path is
  resolved element by element, following symbolic links as Linux does, forty of them at most. Modes and
  owners are left out: the daemon runs as root.
\<close>

subsection \<open>Path elements\<close>

text \<open>\<open>filepath.Base\<close> and \<open>filepath.Dir\<close>.\<close>

definition after_slash :: "string \<Rightarrow> string" where
  "after_slash p = rev (takeWhile (\<lambda>c. c \<noteq> CHR ''/'') (rev p))"

definition path_Base :: "string \<Rightarrow> string" where
  "path_Base p =
     (if p = [] then ''.''
      else let b = after_slash (TrimRightF (\<lambda>c. c = CHR ''/'') p) in if b = [] then ''/'' else b)"

definition path_Dir :: "string \<Rightarrow> string" where
  "path_Dir p = path_Clean (take (length p - length (after_slash p)) p)"

definition normal_elem :: "string \<Rightarrow> bool" where
  "normal_elem e = (e \<noteq> [] \<and> e \<noteq> ''.'' \<and> e \<noteq> ''..'' \<and> CHR ''/'' \<notin> set e)"

text \<open>The text of an absolute path.\<close>

definition abs_path :: "string list \<Rightarrow> string" where
  "abs_path es = CHR ''/'' # Join ''/'' es"

subsection \<open>Nodes and path resolution\<close>

datatype fnode = FDir | FFile string | FLink string

type_synonym nodes = "(string list \<times> fnode) list"

datatype errno = ENOENT | EEXIST | ENOTDIR | EISDIR | ELOOP | EINVAL

record host_fs =
  fs_cwd :: "string list"
  fs_nodes :: nodes

text \<open>
  The node a path names, from a directory on: the node need not exist, its parent does. The last element
  is followed when it is a link and \<open>follow\<close> is set. The root directory is always there.
\<close>

function walk :: "nat \<Rightarrow> nodes \<Rightarrow> bool \<Rightarrow> string list \<Rightarrow> string list \<Rightarrow> errno + string list" where
  "walk links t follow cur [] = Inr cur"
| "walk links t follow cur (e # es) =
     (if e = [] \<or> e = ''.'' then walk links t follow cur es
      else if e = ''..'' then walk links t follow (butlast cur) es
      else (case map_of t (cur @ [e]) of
          None \<Rightarrow> if es = [] then Inr (cur @ [e]) else Inl ENOENT
        | Some FDir \<Rightarrow> walk links t follow (cur @ [e]) es
        | Some (FFile _) \<Rightarrow> if es = [] then Inr (cur @ [e]) else Inl ENOTDIR
        | Some (FLink target) \<Rightarrow>
            if es = [] \<and> \<not> follow then Inr (cur @ [e])
            else if links = 0 then Inl ELOOP
            else walk (links - 1) t follow (if HasPrefix target ''/'' then [] else cur) (Split (CHR ''/'') target @ es)))"
  by pat_completeness auto
termination
  by (relation "measures [\<lambda>(links, _). links, \<lambda>(_, _, _, _, es). length es]") auto

definition resolve :: "host_fs \<Rightarrow> bool \<Rightarrow> string \<Rightarrow> errno + string list" where
  "resolve fs follow p =
     (if p = [] then Inl ENOENT
      else walk 40 (fs_nodes fs) follow (if HasPrefix p ''/'' then [] else fs_cwd fs) (Split (CHR ''/'') p))"

definition node_at :: "nodes \<Rightarrow> string list \<Rightarrow> fnode option" where
  "node_at t p = (if p = [] then Some FDir else map_of t p)"

subsection \<open>The functions of package os\<close>

definition stat_node :: "bool \<Rightarrow> host_fs \<Rightarrow> string \<Rightarrow> errno + fnode" where
  "stat_node follow fs p =
     (case resolve fs follow p of
        Inl e \<Rightarrow> Inl e
      | Inr q \<Rightarrow> (case node_at (fs_nodes fs) q of None \<Rightarrow> Inl ENOENT | Some n \<Rightarrow> Inr n))"

abbreviation os_Stat :: "host_fs \<Rightarrow> string \<Rightarrow> errno + fnode" where
  "os_Stat \<equiv> stat_node True"

abbreviation os_Lstat :: "host_fs \<Rightarrow> string \<Rightarrow> errno + fnode" where
  "os_Lstat \<equiv> stat_node False"

definition set_node :: "string list \<Rightarrow> fnode \<Rightarrow> host_fs \<Rightarrow> host_fs" where
  "set_node q n fs = fs\<lparr>fs_nodes := AList.update q n (fs_nodes fs)\<rparr>"

text \<open>Creating a node that must not exist: \<open>os.Mkdir\<close> and \<open>os.Symlink\<close>.\<close>

definition make_node :: "fnode \<Rightarrow> host_fs \<Rightarrow> string \<Rightarrow> errno + host_fs" where
  "make_node n fs p =
     (case resolve fs False p of
        Inl e \<Rightarrow> Inl e
      | Inr q \<Rightarrow> if node_at (fs_nodes fs) q = None then Inr (set_node q n fs) else Inl EEXIST)"

definition os_Mkdir :: "host_fs \<Rightarrow> string \<Rightarrow> errno + host_fs" where
  "os_Mkdir = make_node FDir"

definition os_Symlink :: "host_fs \<Rightarrow> string \<Rightarrow> string \<Rightarrow> errno + host_fs" where
  "os_Symlink fs target p = make_node (FLink target) fs p"

text \<open>
  \<open>os.MkdirAll\<close> makes the parent first and tolerates a directory that is there. Its recursion is on the
  text before the last slash, trailing slashes apart.
\<close>

definition mkdir_parent :: "string \<Rightarrow> string" where
  "mkdir_parent p =
     (let q = TrimRightF (\<lambda>c. c = CHR ''/'') p
      in TrimRightF (\<lambda>c. c = CHR ''/'') (take (length q - length (after_slash q)) q))"

lemma length_mkdir_parent: "p \<noteq> [] \<Longrightarrow> length (mkdir_parent p) < length p"
proof -
  assume "p \<noteq> []"
  have trim: "length (TrimRightF P s) \<le> length s" for P and s :: string
    by (simp add: TrimRightF_def length_dropWhile_le [of P "rev s", simplified])
  let ?q = "TrimRightF (\<lambda>c. c = CHR ''/'') p"
  show ?thesis
  proof (cases "?q = []")
    case True
    then have "mkdir_parent p = []"
      by (simp add: mkdir_parent_def) (simp add: TrimRightF_def)
    then show ?thesis using \<open>p \<noteq> []\<close> by simp
  next
    case False
    then have "last ?q \<noteq> CHR ''/''"
      using hd_dropWhile [of "\<lambda>c. c = CHR ''/''" "rev p"] by (auto simp: TrimRightF_def last_rev)
    then have "0 < length (after_slash ?q)"
      using False by (cases ?q rule: rev_cases) (auto simp: after_slash_def)
    moreover have "0 < length ?q"
      using False by simp
    ultimately have "length (take (length ?q - length (after_slash ?q)) ?q) < length ?q"
      by (simp del: length_greater_0_conv)
    then show ?thesis
      using trim [of "\<lambda>c. c = CHR ''/''" p]
        trim [of "\<lambda>c. c = CHR ''/''" "take (length ?q - length (after_slash ?q)) ?q"]
      by (simp add: mkdir_parent_def Let_def)
  qed
qed

function MkdirAll :: "host_fs \<Rightarrow> string \<Rightarrow> errno + host_fs" where
  "MkdirAll fs p =
     (case os_Stat fs p of
        Inr FDir \<Rightarrow> Inr fs
      | Inr _ \<Rightarrow> Inl ENOTDIR
      | Inl _ \<Rightarrow>
          (case (if p = [] \<or> mkdir_parent p = [] then Inr fs else MkdirAll fs (mkdir_parent p)) of
             Inl e \<Rightarrow> Inl e
           | Inr fs' \<Rightarrow>
               (case os_Mkdir fs' p of
                  Inr fs'' \<Rightarrow> Inr fs''
                | Inl e \<Rightarrow> if os_Lstat fs' p = Inr FDir then Inr fs' else Inl e)))"
  by pat_completeness auto
termination
  by (relation "measure (\<lambda>(fs, p). length p)") (auto simp: length_mkdir_parent)

declare MkdirAll.simps [simp del]

text \<open>Opening a file to write it from the start on, and writing it.\<close>

definition write_file :: "host_fs \<Rightarrow> string \<Rightarrow> string \<Rightarrow> errno + host_fs" where
  "write_file fs p content =
     (case resolve fs True p of
        Inl e \<Rightarrow> Inl e
      | Inr q \<Rightarrow> if node_at (fs_nodes fs) q = Some FDir then Inl EISDIR else Inr (set_node q (FFile content) fs))"

definition del_tree :: "string list \<Rightarrow> host_fs \<Rightarrow> host_fs" where
  "del_tree q fs = fs\<lparr>fs_nodes := filter (\<lambda>(r, n). \<not> prefix q r) (fs_nodes fs)\<rparr>"

text \<open>\<open>os.RemoveAll\<close>: a path that is not there is removed already, one that ends in a dot is refused.\<close>

definition RemoveAll :: "host_fs \<Rightarrow> string \<Rightarrow> errno + host_fs" where
  "RemoveAll fs p =
     (if p = [] then Inr fs
      else if p = ''.'' \<or> HasSuffix p ''/.'' then Inl EINVAL
      else (case resolve fs False p of
          Inl ENOENT \<Rightarrow> Inr fs
        | Inl e \<Rightarrow> Inl e
        | Inr q \<Rightarrow> Inr (del_tree q fs)))"

text \<open>The effect of a call whose error is dropped.\<close>

definition ignoring :: "host_fs \<Rightarrow> errno + host_fs \<Rightarrow> host_fs" where
  "ignoring fs r = (case r of Inl _ \<Rightarrow> fs | Inr fs' \<Rightarrow> fs')"

text \<open>\<open>os.ReadDir\<close>: the names in a directory, in order; none when it cannot be read.\<close>

definition child_names :: "string list \<Rightarrow> nodes \<Rightarrow> string list" where
  "child_names q t = sort (remdups (map last (filter (\<lambda>p. p \<noteq> [] \<and> butlast p = q) (map fst t))))"

definition ReadDir :: "host_fs \<Rightarrow> string \<Rightarrow> string list" where
  "ReadDir fs p =
     (case resolve fs True p of
        Inl _ \<Rightarrow> []
      | Inr q \<Rightarrow> if node_at (fs_nodes fs) q = Some FDir then child_names q (fs_nodes fs) else [])"

text \<open>\<open>os.Remove\<close>: a file, a link or an empty directory.\<close>

definition os_Remove :: "host_fs \<Rightarrow> string \<Rightarrow> errno + host_fs" where
  "os_Remove fs p =
     (case resolve fs False p of
        Inl e \<Rightarrow> Inl e
      | Inr q \<Rightarrow>
          (case node_at (fs_nodes fs) q of
             None \<Rightarrow> Inl ENOENT
           | Some FDir \<Rightarrow> if child_names q (fs_nodes fs) = [] then Inr (del_tree q fs) else Inl EEXIST
           | Some _ \<Rightarrow> Inr (del_tree q fs)))"

subsection \<open>Paths that are clean\<close>

abbreviation normals :: "string list \<Rightarrow> bool" where
  "normals \<equiv> list_all normal_elem"

lemma normals_no_slash: "normals es \<Longrightarrow> list_all (\<lambda>p. CHR ''/'' \<notin> set p) es"
  by (auto simp: list_all_iff normal_elem_def)

lemma Split_rel: "normals es \<Longrightarrow> es \<noteq> [] \<Longrightarrow> Split (CHR ''/'') (Join ''/'' es) = es"
  by (rule Split_Join) (auto simp: normals_no_slash)

lemma Split_abs: "normals es \<Longrightarrow> Split (CHR ''/'') (abs_path es) = [] # (if es = [] then [[]] else es)"
  by (simp add: abs_path_def Split_rel)

lemma clean_parts_normals: "normals es \<Longrightarrow> clean_parts r acc (es @ ps) = clean_parts r (rev es @ acc) ps"
  by (induction es arbitrary: acc) (auto simp: normal_elem_def)

lemma clean_parts_all: "normals es \<Longrightarrow> clean_parts r acc es = rev acc @ es"
  using clean_parts_normals [of es r acc "[]"] by simp

lemma hd_Join: "normals es \<Longrightarrow> es \<noteq> [] \<Longrightarrow> Join ''/'' es \<noteq> [] \<and> hd (Join ''/'' es) \<noteq> CHR ''/''"
  by (induction "''/''" es rule: Join.induct) (auto simp: normal_elem_def hd_append dest: hd_in_set)

lemma path_Clean_abs [simp]: "normals es \<Longrightarrow> path_Clean (abs_path es) = abs_path es"
  by (simp add: path_Clean_def Split_abs clean_parts_all) (simp add: abs_path_def)

lemma Join_append:
  "xs \<noteq> [] \<Longrightarrow> ys \<noteq> [] \<Longrightarrow> Join sep (xs @ ys) = Join sep xs @ sep @ Join sep ys"
proof (induction xs)
  case (Cons x xs)
  then show ?case by (cases xs; cases ys) auto
qed simp

lemma Split_append: "Split c (s @ c # t) = Split c s @ Split c t"
proof (induction s)
  case (Cons x s)
  then show ?case by (auto split: list.splits)
qed simp

lemma path_Join_abs:
  assumes "normals ps" "normals qs" "s = Join ''/'' qs \<and> qs \<noteq> [] \<or> s = abs_path qs"
  shows "path_Join (abs_path ps) s = abs_path (ps @ qs)"
proof -
  have split: "clean_parts True acc (Split (CHR ''/'') s) = rev acc @ qs" for acc
    using assms(2,3) by (auto simp: Split_rel Split_abs clean_parts_all)
  have "s \<noteq> []"
    using assms(2,3) hd_Join [of qs] by (auto simp: abs_path_def)
  moreover have "clean_parts True [] (Split (CHR ''/'') (abs_path ps @ CHR ''/'' # s)) = ps @ qs"
    using assms(1) by (simp add: Split_append Split_abs clean_parts_normals split)
  ultimately show ?thesis
    by (simp add: path_Join_def path_Clean_def) (simp add: abs_path_def)
qed

lemma abs_path_snoc: "abs_path (es @ [e]) = (if es = [] then ''/'' else abs_path es @ ''/'') @ e"
  by (simp add: abs_path_def Join_append)

lemma takeWhile_rev_no_slash:
  "CHR ''/'' \<notin> set e \<Longrightarrow> takeWhile (\<lambda>c. c \<noteq> CHR ''/'') (rev e @ CHR ''/'' # s) = rev e"
  by (induction e rule: rev_induct) auto

lemma after_slash_abs: "normals (es @ [e]) \<Longrightarrow> after_slash (abs_path (es @ [e])) = e"
  by (auto simp: abs_path_snoc after_slash_def normal_elem_def takeWhile_rev_no_slash)

lemma before_last_abs:
  "normals (es @ [e]) \<Longrightarrow>
   take (length (abs_path (es @ [e])) - length e) (abs_path (es @ [e])) = (if es = [] then ''/'' else abs_path es @ ''/'')"
  by (simp add: abs_path_snoc)

lemma last_abs: "normals (es @ [e]) \<Longrightarrow> last (abs_path (es @ [e])) \<noteq> CHR ''/''"
  by (auto simp: abs_path_snoc normal_elem_def dest: last_in_set)

lemma trim_no_slash: "s \<noteq> [] \<Longrightarrow> last s \<noteq> CHR ''/'' \<Longrightarrow> TrimRightF (\<lambda>c. c = CHR ''/'') s = s"
  by (cases s rule: rev_cases) (auto simp: TrimRightF_def)

lemma trim_abs: "normals es \<Longrightarrow> TrimRightF (\<lambda>c. c = CHR ''/'') (abs_path es) = (if es = [] then [] else abs_path es)"
proof (cases es rule: rev_cases)
  case Nil
  then show ?thesis by (simp add: abs_path_def TrimRightF_def)
next
  case (snoc es' e)
  assume "normals es"
  moreover have "abs_path es \<noteq> []"
    by (simp add: abs_path_def)
  ultimately show ?thesis
    using last_abs [of es' e] trim_no_slash [of "abs_path es"] snoc by simp
qed

lemma trim_abs_slash:
  "normals es \<Longrightarrow> TrimRightF (\<lambda>c. c = CHR ''/'') (abs_path es @ ''/'') = (if es = [] then [] else abs_path es)"
  using trim_abs [of es] by (simp add: TrimRightF_def)

lemma path_Base_abs [simp]: "normals (es @ [e]) \<Longrightarrow> path_Base (abs_path (es @ [e])) = e"
  using after_slash_abs [of es e] trim_abs [of "es @ [e]"]
  by (simp add: path_Base_def normal_elem_def) (simp add: abs_path_def)

lemma path_Clean_abs_slash: "normals es \<Longrightarrow> path_Clean (abs_path es @ ''/'') = abs_path es"
  using clean_parts_normals [of es True "[]" "[[]]"] Split_append [of "CHR ''/''" "abs_path es" "[]"]
  by (simp add: path_Clean_def Split_abs) (simp add: abs_path_def)

lemma path_Dir_abs [simp]:
  assumes "normals (es @ [e])"
  shows "path_Dir (abs_path (es @ [e])) = abs_path es"
proof -
  have "path_Clean ''/'' = abs_path []"
    using path_Clean_abs [of "[]"] by (simp add: abs_path_def)
  then show ?thesis
    using assms by (simp add: path_Dir_def after_slash_abs before_last_abs path_Clean_abs_slash)
qed

lemma mkdir_parent_abs [simp]:
  "normals (es @ [e]) \<Longrightarrow> mkdir_parent (abs_path (es @ [e])) = (if es = [] then [] else abs_path es)"
  by (simp add: mkdir_parent_def trim_abs after_slash_abs before_last_abs trim_abs_slash)
    (simp add: TrimRightF_def)

subsection \<open>The tree under a directory\<close>

text \<open>
  What a directory holds, by path relative to it, and the frame: what is outside of it. A tree is closed
  when the parent of every node is a directory.
\<close>

type_synonym file_tree = "string list \<rightharpoonup> fnode"

definition subtree :: "string list \<Rightarrow> host_fs \<Rightarrow> file_tree" where
  "subtree rt fs rel = node_at (fs_nodes fs) (rt @ rel)"

definition outside_same :: "string list \<Rightarrow> host_fs \<Rightarrow> host_fs \<Rightarrow> bool" where
  "outside_same rt fs fs' =
     (fs_cwd fs' = fs_cwd fs \<and> (\<forall>q. \<not> prefix rt q \<longrightarrow> map_of (fs_nodes fs') q = map_of (fs_nodes fs) q))"

definition rooted :: "string list \<Rightarrow> host_fs \<Rightarrow> bool" where
  "rooted rt fs = (\<forall>q. q \<noteq> [] \<longrightarrow> prefix q rt \<longrightarrow> map_of (fs_nodes fs) q = Some FDir)"

definition closed_tree :: "file_tree \<Rightarrow> bool" where
  "closed_tree T = (\<forall>q e. T (q @ [e]) \<noteq> None \<longrightarrow> T q = Some FDir)"

definition cut_tree :: "string list \<Rightarrow> file_tree \<Rightarrow> file_tree" where
  "cut_tree rel T = (\<lambda>q. if prefix rel q then None else T q)"

lemma closed_tree_prefix:
  assumes "closed_tree T" "T q \<noteq> None" "strict_prefix r q"
  shows "T r = Some FDir"
  using assms(2,3)
proof (induction q rule: rev_induct)
  case (snoc e q)
  have "T q = Some FDir"
    using assms(1) snoc.prems(1) unfolding closed_tree_def by blast
  moreover have "r = q \<or> strict_prefix r q"
    using snoc.prems(2) by (auto simp: strict_prefix_def)
  ultimately show ?case
    using snoc.IH by auto
qed simp

lemma walk_dirs:
  assumes "normals es" "\<forall>q. q \<noteq> [] \<longrightarrow> strict_prefix q es \<longrightarrow> map_of t (cur @ q) = Some FDir"
    "\<forall>l. map_of t (cur @ es) = Some (FLink l) \<longrightarrow> es = [] \<or> \<not> follow"
  shows "walk n t follow cur es = Inr (cur @ es)"
  using assms
proof (induction es arbitrary: cur)
  case (Cons e es)
  have e: "e \<noteq> []" "e \<noteq> ''.''" "e \<noteq> ''..''"
    using Cons.prems(1) by (auto simp: normal_elem_def)
  show ?case
  proof (cases "es = []")
    case True
    then show ?thesis
      using e Cons.prems(3) by (auto split: option.splits fnode.splits)
  next
    case False
    have "map_of t (cur @ [e]) = Some FDir"
      using Cons.prems(2) False by (auto simp: strict_prefix_def)
    moreover have "walk n t follow (cur @ [e]) es = Inr ((cur @ [e]) @ es)"
    proof (rule Cons.IH)
      show "normals es" using Cons.prems(1) by simp
      show "\<forall>q. q \<noteq> [] \<longrightarrow> strict_prefix q es \<longrightarrow> map_of t ((cur @ [e]) @ q) = Some FDir"
        using Cons.prems(2) by (auto dest: spec [of _ "e # _"])
      show "\<forall>l. map_of t ((cur @ [e]) @ es) = Some (FLink l) \<longrightarrow> es = [] \<or> \<not> follow"
        using Cons.prems(3) by auto
    qed
    ultimately show ?thesis
      using e by simp
  qed
qed simp

lemma walk_blocked:
  assumes "normals es" "strict_prefix q es" "q \<noteq> []" "map_of t (cur @ q) \<noteq> Some FDir"
    "\<forall>q l. q \<noteq> [] \<longrightarrow> strict_prefix q es \<longrightarrow> map_of t (cur @ q) \<noteq> Some (FLink l)"
  shows "\<exists>err. walk n t follow cur es = Inl err"
  using assms
proof (induction es arbitrary: cur q)
  case (Cons e es)
  have e: "e \<noteq> []" "e \<noteq> ''.''" "e \<noteq> ''..''"
    using Cons.prems(1) by (auto simp: normal_elem_def)
  obtain q' where q: "q = e # q'" "strict_prefix q' es"
    using Cons.prems(2,3) by (cases q) auto
  then have es: "es \<noteq> []" by auto
  then have "strict_prefix [e] (e # es)" by (simp add: strict_prefix_def)
  then have no_link: "map_of t (cur @ [e]) \<noteq> Some (FLink l)" for l
    using Cons.prems(5) by blast
  show ?case
  proof (cases "map_of t (cur @ [e]) = Some FDir")
    case True
    have "\<exists>err. walk n t follow (cur @ [e]) es = Inl err"
    proof (rule Cons.IH)
      show "normals es" using Cons.prems(1) by simp
      show "strict_prefix q' es" by (rule q(2))
      show "q' \<noteq> []" using True Cons.prems(4) q(1) by auto
      show "map_of t ((cur @ [e]) @ q') \<noteq> Some FDir" using Cons.prems(4) q(1) by simp
      show "\<forall>q l. q \<noteq> [] \<longrightarrow> strict_prefix q es \<longrightarrow> map_of t ((cur @ [e]) @ q) \<noteq> Some (FLink l)"
      proof (intro allI impI)
        fix r l assume "strict_prefix r es"
        then have "strict_prefix (e # r) (e # es)" by simp
        then have "map_of t (cur @ e # r) \<noteq> Some (FLink l)" using Cons.prems(5) by blast
        then show "map_of t ((cur @ [e]) @ r) \<noteq> Some (FLink l)" by simp
      qed
    qed
    with True show ?thesis using e by simp
  next
    case False
    with e es no_link show ?thesis
      by (auto split: option.splits fnode.splits)
  qed
qed simp

lemma resolve_abs:
  assumes "normals es"
  shows "resolve fs follow (abs_path es) = walk 40 (fs_nodes fs) follow [] es"
proof -
  have "HasPrefix (abs_path es) ''/''" "abs_path es \<noteq> []"
    by (simp_all add: abs_path_def HasPrefix_def)
  then show ?thesis
    using assms by (simp add: resolve_def Split_abs)
qed

lemma strict_prefix_append_cases:
  "strict_prefix q (rt @ rel) \<Longrightarrow> prefix q rt \<or> (\<exists>r. q = rt @ r \<and> strict_prefix r rel)"
  by (auto simp: strict_prefix_def prefix_append)

lemma rooted_node:
  "rooted rt fs \<Longrightarrow> strict_prefix q (rt @ rel) \<Longrightarrow> q \<noteq> [] \<Longrightarrow>
     map_of (fs_nodes fs) q = Some FDir \<or> (\<exists>r. q = rt @ r \<and> r \<noteq> [] \<and> strict_prefix r rel \<and> map_of (fs_nodes fs) q = subtree rt fs r)"
proof (cases "prefix q rt")
  case True
  assume "rooted rt fs" "q \<noteq> []"
  then show ?thesis using True by (simp add: rooted_def)
next
  case False
  assume "strict_prefix q (rt @ rel)"
  then obtain r where r: "q = rt @ r" "strict_prefix r rel"
    using strict_prefix_append_cases [of q rt rel] False by blast
  moreover have "r \<noteq> []" using False r(1) by auto
  ultimately show ?thesis by (simp add: subtree_def node_at_def)
qed

lemma subtree_root: "rooted rt fs \<Longrightarrow> subtree rt fs [] = Some FDir"
  by (simp add: rooted_def subtree_def node_at_def)

lemma resolve_in_tree:
  assumes "rooted rt fs" "normals (rt @ rel)" "\<forall>q. strict_prefix q rel \<longrightarrow> subtree rt fs q = Some FDir"
    "follow \<longrightarrow> (\<forall>l. subtree rt fs rel \<noteq> Some (FLink l))"
  shows "resolve fs follow (abs_path (rt @ rel)) = Inr (rt @ rel)"
proof -
  have "walk 40 (fs_nodes fs) follow [] (rt @ rel) = Inr ([] @ (rt @ rel))"
  proof (rule walk_dirs)
    show "\<forall>q. q \<noteq> [] \<longrightarrow> strict_prefix q (rt @ rel) \<longrightarrow> map_of (fs_nodes fs) ([] @ q) = Some FDir"
      using rooted_node [OF assms(1)] assms(3) by fastforce
    show "\<forall>l. map_of (fs_nodes fs) ([] @ rt @ rel) = Some (FLink l) \<longrightarrow> rt @ rel = [] \<or> \<not> follow"
      using assms(4) by (auto simp: subtree_def node_at_def split: if_splits)
  qed (rule assms(2))
  then show ?thesis
    using resolve_abs [OF assms(2), of fs follow] by simp
qed

lemma resolve_blocked:
  assumes "rooted rt fs" "normals (rt @ rel)" "strict_prefix q rel" "subtree rt fs q \<noteq> Some FDir"
    "\<forall>q l. strict_prefix q rel \<longrightarrow> subtree rt fs q \<noteq> Some (FLink l)"
  shows "\<exists>err. resolve fs follow (abs_path (rt @ rel)) = Inl err"
proof -
  have q: "q \<noteq> []"
    using assms(1,4) subtree_root by auto
  have "\<exists>err. walk 40 (fs_nodes fs) follow [] (rt @ rel) = Inl err"
  proof (rule walk_blocked)
    show "strict_prefix (rt @ q) (rt @ rel)" using assms(3) by (simp add: strict_prefix_def)
    show "rt @ q \<noteq> []" using q by simp
    show "map_of (fs_nodes fs) ([] @ rt @ q) \<noteq> Some FDir"
      using assms(4) q by (simp add: subtree_def node_at_def)
    show "\<forall>q l. q \<noteq> [] \<longrightarrow> strict_prefix q (rt @ rel) \<longrightarrow> map_of (fs_nodes fs) ([] @ q) \<noteq> Some (FLink l)"
      using rooted_node [OF assms(1)] assms(5) by fastforce
  qed (rule assms(2))
  then show ?thesis
    using resolve_abs [OF assms(2), of fs follow] by simp
qed

subsection \<open>What the functions do to the tree\<close>

definition tree_becomes :: "string list \<Rightarrow> host_fs \<Rightarrow> file_tree \<Rightarrow> host_fs \<Rightarrow> bool" where
  "tree_becomes rt fs T fs' = (outside_same rt fs fs' \<and> subtree rt fs' = T)"

lemma tree_becomes_refl: "tree_becomes rt fs (subtree rt fs) fs"
  by (simp add: tree_becomes_def outside_same_def)

lemma tree_becomes_trans: "tree_becomes rt fs T fs' \<Longrightarrow> tree_becomes rt fs' T' fs'' \<Longrightarrow> tree_becomes rt fs T' fs''"
  by (simp add: tree_becomes_def outside_same_def)

lemma tree_becomes_rooted:
  assumes "tree_becomes rt fs T fs'" "rooted rt fs" "T [] = Some FDir"
  shows "rooted rt fs'"
  unfolding rooted_def
proof (intro allI impI)
  fix q assume q: "q \<noteq> []" "prefix q rt"
  show "map_of (fs_nodes fs') q = Some FDir"
  proof (cases "q = rt")
    case True
    have "subtree rt fs' [] = Some FDir"
      using assms(1,3) by (simp add: tree_becomes_def)
    then show ?thesis
      using True q by (simp add: subtree_def node_at_def)
  next
    case False
    then have "\<not> prefix rt q"
      using q(2) prefix_order.antisym by blast
    then show ?thesis
      using assms(1,2) q by (simp add: tree_becomes_def outside_same_def rooted_def)
  qed
qed

lemma set_node_tree:
  "rel \<noteq> [] \<Longrightarrow> tree_becomes rt fs ((subtree rt fs)(rel \<mapsto> n)) (set_node (rt @ rel) n fs)"
  by (auto simp: tree_becomes_def outside_same_def subtree_def node_at_def set_node_def fun_eq_iff AList.update_conv')

lemma map_of_cut: "map_of (filter (\<lambda>(r, n). \<not> prefix p r) t) q = (if prefix p q then None else map_of t q)"
  by (induction t) auto

lemma del_tree_tree: "rel \<noteq> [] \<Longrightarrow> tree_becomes rt fs (cut_tree rel (subtree rt fs)) (del_tree (rt @ rel) fs)"
  by (auto simp: tree_becomes_def outside_same_def subtree_def node_at_def del_tree_def fun_eq_iff map_of_cut cut_tree_def
      dest: append_prefixD)

definition ov_mkdirs :: "file_tree \<Rightarrow> string list \<Rightarrow> file_tree option" where
  "ov_mkdirs T rel =
     (if \<exists>q \<in> set (prefixes rel). T q \<noteq> None \<and> T q \<noteq> Some FDir then None
      else Some (\<lambda>q. if prefix q rel then Some FDir else T q))"

definition link_free :: "file_tree \<Rightarrow> string list \<Rightarrow> bool" where
  "link_free T rel = (\<forall>q l. prefix q rel \<longrightarrow> T q \<noteq> Some (FLink l))"

definition dirs_above :: "file_tree \<Rightarrow> string list \<Rightarrow> bool" where
  "dirs_above T rel = (\<forall>q. strict_prefix q rel \<longrightarrow> T q = Some FDir)"

lemma stat_in_tree:
  assumes "rooted rt fs" "normals (rt @ rel)" "dirs_above (subtree rt fs) rel"
    "follow \<longrightarrow> link_free (subtree rt fs) rel"
  shows "stat_node follow fs (abs_path (rt @ rel)) =
           (case subtree rt fs rel of None \<Rightarrow> Inl ENOENT | Some n \<Rightarrow> Inr n)"
  using assms resolve_in_tree [OF assms(1,2), of follow]
  by (auto simp: stat_node_def link_free_def dirs_above_def subtree_def)

lemma resolve_not_dirs:
  assumes "rooted rt fs" "normals (rt @ rel)" "\<not> dirs_above (subtree rt fs) rel"
    "\<forall>q l. strict_prefix q rel \<longrightarrow> subtree rt fs q \<noteq> Some (FLink l)"
  shows "\<exists>err. resolve fs follow (abs_path (rt @ rel)) = Inl err"
  using assms(3,4) resolve_blocked [OF assms(1,2)] unfolding dirs_above_def by blast

lemma stat_not_dirs:
  assumes "rooted rt fs" "normals (rt @ rel)" "\<not> dirs_above (subtree rt fs) rel" "link_free (subtree rt fs) rel"
  shows "\<exists>err. stat_node follow fs (abs_path (rt @ rel)) = Inl err"
  using resolve_not_dirs [OF assms(1-3), of follow] assms(4)
  by (auto simp: stat_node_def link_free_def strict_prefix_def)

lemma ov_mkdirs_None_iff: "ov_mkdirs T rel = None \<longleftrightarrow> (\<exists>q. prefix q rel \<and> T q \<noteq> None \<and> T q \<noteq> Some FDir)"
  by (auto simp: ov_mkdirs_def)

lemma ov_mkdirs_Some: "ov_mkdirs T rel = Some T' \<Longrightarrow> T' = (\<lambda>q. if prefix q rel then Some FDir else T q)"
  by (auto simp: ov_mkdirs_def split: if_splits)

text \<open>The last step of \<open>MkdirAll\<close>, when the parent is there.\<close>

definition mkdir_last :: "host_fs \<Rightarrow> string \<Rightarrow> errno + host_fs" where
  "mkdir_last fs p =
     (case os_Mkdir fs p of
        Inr fs' \<Rightarrow> Inr fs'
      | Inl e \<Rightarrow> if os_Lstat fs p = Inr FDir then Inr fs else Inl e)"

lemma mkdir_last_tree:
  assumes "rooted rt fs" "normals (rt @ rel)" "rel \<noteq> []" "dirs_above (subtree rt fs) rel"
  shows "case subtree rt fs rel of
           Some (FFile f) \<Rightarrow> \<exists>err. mkdir_last fs (abs_path (rt @ rel)) = Inl err
         | Some (FLink l) \<Rightarrow> \<exists>err. mkdir_last fs (abs_path (rt @ rel)) = Inl err
         | _ \<Rightarrow> \<exists>fs'. mkdir_last fs (abs_path (rt @ rel)) = Inr fs' \<and>
                  tree_becomes rt fs ((subtree rt fs)(rel \<mapsto> FDir)) fs'"
proof -
  let ?T = "subtree rt fs" and ?p = "abs_path (rt @ rel)"
  have res: "resolve fs False ?p = Inr (rt @ rel)"
    using resolve_in_tree [OF assms(1,2), of False] assms(4) by (simp add: dirs_above_def)
  have node: "node_at (fs_nodes fs) (rt @ rel) = ?T rel"
    by (simp add: subtree_def)
  have lstat: "os_Lstat fs ?p = (case ?T rel of None \<Rightarrow> Inl ENOENT | Some n \<Rightarrow> Inr n)"
    by (simp add: stat_node_def res node)
  have idem: "?T(rel \<mapsto> FDir) = ?T" if "?T rel = Some FDir"
    using that by (simp add: fun_upd_idem)
  show ?thesis
    using set_node_tree [OF assms(3), of rt fs FDir] tree_becomes_refl [of rt fs] idem
    by (auto simp: mkdir_last_def os_Mkdir_def make_node_def res node lstat split: option.splits fnode.splits)
qed

lemma MkdirAll_missing:
  assumes "os_Stat fs p = Inl err" "p \<noteq> []" "mkdir_parent p \<noteq> []"
  shows "MkdirAll fs p =
           (case MkdirAll fs (mkdir_parent p) of Inl e \<Rightarrow> Inl e | Inr fs' \<Rightarrow> mkdir_last fs' p)"
  using assms by (subst MkdirAll.simps) (simp add: mkdir_last_def split: sum.split)

text \<open>\<open>MkdirAll\<close> makes the missing directories and nothing else, and fails exactly when a file is in the way.\<close>

definition mkdirs_done :: "string list \<Rightarrow> host_fs \<Rightarrow> string list \<Rightarrow> bool" where
  "mkdirs_done rt fs rel =
     (case ov_mkdirs (subtree rt fs) rel of
        None \<Rightarrow> \<exists>err. MkdirAll fs (abs_path (rt @ rel)) = Inl err
      | Some T \<Rightarrow> \<exists>fs'. MkdirAll fs (abs_path (rt @ rel)) = Inr fs' \<and> tree_becomes rt fs T fs')"

lemma MkdirAll_existing:
  assumes "rooted rt fs" "normals (rt @ rel)" "link_free (subtree rt fs) rel"
    "dirs_above (subtree rt fs) rel" "subtree rt fs rel = Some n"
  shows "mkdirs_done rt fs rel"
proof -
  let ?T = "subtree rt fs"
  have stat: "os_Stat fs (abs_path (rt @ rel)) = Inr n"
    using stat_in_tree [OF assms(1,2,4), of True] assms(3,5) by simp
  show ?thesis
  proof (cases "n = FDir")
    case dir: True
    have "?T q = Some FDir" if "prefix q rel" for q
      using that assms(4,5) dir by (auto simp: dirs_above_def strict_prefix_def)
    then have "ov_mkdirs ?T rel = Some ?T"
      by (auto simp: ov_mkdirs_def fun_eq_iff)
    moreover have "MkdirAll fs (abs_path (rt @ rel)) = Inr fs"
      by (subst MkdirAll.simps) (simp only: stat dir sum.case fnode.case)
    ultimately show ?thesis
      using tree_becomes_refl [of rt fs] by (simp add: mkdirs_done_def)
  next
    case False
    then have "ov_mkdirs ?T rel = None"
      unfolding ov_mkdirs_None_iff using assms(5) by auto
    moreover have "MkdirAll fs (abs_path (rt @ rel)) = Inl ENOTDIR"
      by (subst MkdirAll.simps) (use False in \<open>simp add: stat split: fnode.splits\<close>)
    ultimately show ?thesis by (simp add: mkdirs_done_def)
  qed
qed

lemma MkdirAll_parent:
  assumes "rooted rt fs" "normals (rt @ rel @ [e])" "link_free (subtree rt fs) (rel @ [e])"
    "mkdirs_done rt fs rel" "os_Stat fs (abs_path (rt @ rel @ [e])) = Inl err" "rt \<noteq> []"
  shows "mkdirs_done rt fs (rel @ [e])"
proof -
  let ?T = "subtree rt fs" and ?p = "abs_path (rt @ rel @ [e])"
  have parent: "mkdir_parent ?p = abs_path (rt @ rel)" "?p \<noteq> []" "abs_path (rt @ rel) \<noteq> []"
    using mkdir_parent_abs [of "rt @ rel" e] assms(2,6) by (auto simp: abs_path_def)
  note rec = MkdirAll_missing [OF assms(5) parent(2), unfolded parent(1), OF parent(3)]
  have nolink: "?T (rel @ [e]) \<noteq> Some (FLink l)" for l
    using assms(3) by (auto simp: link_free_def)
  show ?thesis
  proof (cases "ov_mkdirs ?T rel")
    case None
    then have "ov_mkdirs ?T (rel @ [e]) = None"
      unfolding ov_mkdirs_None_iff by auto
    then show ?thesis
      using assms(4) None by (auto simp: rec mkdirs_done_def)
  next
    case (Some T1)
    then obtain fs1 where fs1: "MkdirAll fs (abs_path (rt @ rel)) = Inr fs1" "tree_becomes rt fs T1 fs1"
      using assms(4) by (auto simp: mkdirs_done_def)
    have T1: "T1 = (\<lambda>q. if prefix q rel then Some FDir else ?T q)"
      by (rule ov_mkdirs_Some [OF Some])
    have sub1: "subtree rt fs1 = T1" and root1: "rooted rt fs1"
      using fs1(2) tree_becomes_rooted [OF fs1(2) assms(1)] by (auto simp: tree_becomes_def T1)
    have above: "dirs_above T1 (rel @ [e])" and last: "T1 (rel @ [e]) = ?T (rel @ [e])"
      by (auto simp: dirs_above_def T1 strict_prefix_def)
    have ov: "ov_mkdirs ?T (rel @ [e]) = (case ?T (rel @ [e]) of
        Some (FFile f) \<Rightarrow> None | _ \<Rightarrow> Some (T1(rel @ [e] \<mapsto> FDir)))"
      using Some nolink by (auto simp: ov_mkdirs_def T1 fun_eq_iff split: if_splits option.splits fnode.splits)
    show ?thesis
      using mkdir_last_tree [OF root1 assms(2)] nolink tree_becomes_trans [OF fs1(2)]
      by (fastforce simp: mkdirs_done_def rec fs1(1) ov sub1 above last split: option.splits fnode.splits)
  qed
qed

lemma MkdirAll_tree:
  assumes "rooted rt fs" "rt \<noteq> []" "normals (rt @ rel)" "link_free (subtree rt fs) rel"
  shows "mkdirs_done rt fs rel"
  using assms(3,4)
proof (induction rel rule: rev_induct)
  case Nil
  then show ?case
    by (intro MkdirAll_existing [OF assms(1) _ _ _ subtree_root [OF assms(1)]]) (auto simp: dirs_above_def)
next
  case (snoc e rel)
  let ?T = "subtree rt fs"
  have "mkdirs_done rt fs rel"
    using snoc by (simp add: link_free_def)
  show ?case
  proof (cases "dirs_above ?T (rel @ [e]) \<and> ?T (rel @ [e]) \<noteq> None")
    case True
    then show ?thesis
      using MkdirAll_existing [OF assms(1) snoc.prems] by blast
  next
    case False
    then have "\<exists>err. os_Stat fs (abs_path (rt @ rel @ [e])) = Inl err"
      using stat_in_tree [OF assms(1) snoc.prems(1), of True] stat_not_dirs [OF assms(1) snoc.prems(1), of True] snoc.prems(2)
      by (cases "dirs_above ?T (rel @ [e])") simp_all
    then show ?thesis
      using MkdirAll_parent [OF assms(1) snoc.prems \<open>mkdirs_done rt fs rel\<close> _ assms(2)] by blast
  qed
qed

text \<open>A directory whose content the functions below keep in order.\<close>

definition good_tree :: "file_tree \<Rightarrow> bool" where
  "good_tree T = (closed_tree T \<and> T [] = Some FDir \<and> (\<forall>q. T q \<noteq> None \<longrightarrow> normals q))"

lemma good_tree_upd:
  assumes "good_tree T" "normals rel" "rel \<noteq> []" "dirs_above T rel" "T rel \<noteq> Some FDir \<or> n = FDir"
  shows "good_tree (T(rel \<mapsto> n))"
proof -
  have "(T(rel \<mapsto> n)) q = Some FDir" if "(T(rel \<mapsto> n)) (q @ [e]) \<noteq> None" for q e
  proof (cases "q @ [e] = rel")
    case True
    then have "strict_prefix q rel" by (auto simp: strict_prefix_def)
    then show ?thesis using assms(4) by (auto simp: dirs_above_def)
  next
    case False
    then have "T q = Some FDir"
      using that assms(1) by (auto simp: good_tree_def closed_tree_def)
    then show ?thesis using assms(5) by auto
  qed
  then show ?thesis
    using assms(1-3) by (simp add: good_tree_def closed_tree_def)
qed

lemma good_tree_cut: "good_tree T \<Longrightarrow> rel \<noteq> [] \<Longrightarrow> good_tree (cut_tree rel T)"
  unfolding good_tree_def closed_tree_def cut_tree_def by (auto dest: prefix_order.trans [OF _ prefixI])

lemma good_tree_mkdirs:
  assumes "good_tree T" "normals rel" "ov_mkdirs T rel = Some T'"
  shows "good_tree T'"
proof -
  have T': "T' = (\<lambda>q. if prefix q rel then Some FDir else T q)"
    by (rule ov_mkdirs_Some [OF assms(3)])
  have dirs: "T q = None \<or> T q = Some FDir" if "prefix q rel" for q
    using assms(3) that ov_mkdirs_None_iff [of T rel] by auto
  have "normals q" if "prefix q rel" for q
    using that assms(2) by (auto simp: prefix_def)
  then show ?thesis
    using assms(1) unfolding good_tree_def closed_tree_def T' by (auto dest: append_prefixD)
qed

lemma mkdirs_above: "ov_mkdirs T (butlast rel) = Some T' \<Longrightarrow> dirs_above T' rel"
  by (cases rel rule: rev_cases) (auto simp: ov_mkdirs_def dirs_above_def strict_prefix_def split: if_splits)

lemma write_file_tree:
  assumes "rooted rt fs" "normals (rt @ rel)" "rel \<noteq> []" "dirs_above (subtree rt fs) rel"
    "\<forall>l. subtree rt fs rel \<noteq> Some (FLink l)"
  shows "if subtree rt fs rel = Some FDir then \<exists>err. write_file fs (abs_path (rt @ rel)) content = Inl err
         else \<exists>fs'. write_file fs (abs_path (rt @ rel)) content = Inr fs' \<and>
                tree_becomes rt fs ((subtree rt fs)(rel \<mapsto> FFile content)) fs'"
  using resolve_in_tree [OF assms(1,2), of True] assms(4,5) set_node_tree [OF assms(3), of rt fs "FFile content"]
  by (auto simp: write_file_def dirs_above_def subtree_def)

lemma no_dot_suffix:
  assumes "normals (es @ [e])"
  shows "\<not> HasSuffix (abs_path (es @ [e])) ''/.''"
proof
  let ?p = "abs_path (es @ [e])"
  assume "HasSuffix ?p ''/.''"
  then have "drop (length ?p - 2) ?p = ''/.''"
    by (simp add: HasSuffix_def numeral_2_eq_2)
  then have p: "?p = take (length ?p - 2) ?p @ ''/.''"
    using append_take_drop_id [of "length ?p - 2" ?p] by simp
  have "?p = (if es = [] then [] else abs_path es) @ ''/'' @ e"
    by (simp add: abs_path_snoc)
  from trans [OF sym [OF this] p] obtain u w where "w @ ''/'' @ e = u @ ''/.''"
    by blast
  moreover obtain e' c where e: "e = e' @ [c]"
    using assms by (cases e rule: rev_cases) (auto simp: normal_elem_def)
  ultimately have "c = CHR ''.''" "w @ ''/'' @ e' = u @ ''/''"
    by auto
  then show False
    using assms e by (cases e' rule: rev_cases) (auto simp: normal_elem_def)
qed

lemma RemoveAll_tree:
  assumes "rooted rt fs" "normals (rt @ rel)" "rel \<noteq> []" "good_tree (subtree rt fs)"
    "\<forall>q l. strict_prefix q rel \<longrightarrow> subtree rt fs q \<noteq> Some (FLink l)"
  shows "tree_becomes rt fs (cut_tree rel (subtree rt fs)) (ignoring fs (RemoveAll fs (abs_path (rt @ rel))))"
proof (cases "dirs_above (subtree rt fs) rel")
  case True
  obtain es e where "rt @ rel = es @ [e]"
    using assms(3) by (cases "rt @ rel" rule: rev_cases) auto
  then have "\<not> HasSuffix (abs_path (rt @ rel)) ''/.''" "abs_path (rt @ rel) \<noteq> ''.''" "abs_path (rt @ rel) \<noteq> []"
    using no_dot_suffix [of es e] assms(2) by (simp_all only:) (simp_all add: abs_path_def)
  moreover have "resolve fs False (abs_path (rt @ rel)) = Inr (rt @ rel)"
    using resolve_in_tree [OF assms(1,2), of False] True by (simp add: dirs_above_def)
  ultimately show ?thesis
    using del_tree_tree [OF assms(3), of rt fs] by (simp add: RemoveAll_def ignoring_def)
next
  case False
  obtain err where "resolve fs False (abs_path (rt @ rel)) = Inl err"
    using resolve_not_dirs [OF assms(1,2) False assms(5)] by blast
  then have "ignoring fs (RemoveAll fs (abs_path (rt @ rel))) = fs"
    by (cases err) (simp_all add: RemoveAll_def ignoring_def)
  moreover have "cut_tree rel (subtree rt fs) = subtree rt fs"
  proof
    fix q
    have "subtree rt fs q = None" if "prefix rel q"
      using False that assms(4) closed_tree_prefix [of "subtree rt fs" q] prefix_order.less_le_trans [of _ rel q]
      unfolding good_tree_def dirs_above_def by blast
    then show "cut_tree rel (subtree rt fs) q = subtree rt fs q"
      by (simp add: cut_tree_def)
  qed
  ultimately show ?thesis
    using tree_becomes_refl [of rt fs] by simp
qed

lemma symlink_tree:
  assumes "rooted rt fs" "normals (rt @ rel)" "rel \<noteq> []" "dirs_above (subtree rt fs) rel" "subtree rt fs rel = None"
  shows "\<exists>fs'. os_Symlink fs target (abs_path (rt @ rel)) = Inr fs' \<and>
           tree_becomes rt fs ((subtree rt fs)(rel \<mapsto> FLink target)) fs'"
  using resolve_in_tree [OF assms(1,2), of False] assms(4,5) set_node_tree [OF assms(3), of rt fs "FLink target"]
  by (auto simp: os_Symlink_def make_node_def dirs_above_def subtree_def)

lemma child_names_iff: "e \<in> set (child_names q t) \<longleftrightarrow> map_of t (q @ [e]) \<noteq> None"
proof -
  have "map_of t (q @ [e]) \<noteq> None \<longleftrightarrow> q @ [e] \<in> fst ` set t"
    by (simp add: map_of_eq_None_iff)
  also have "\<dots> \<longleftrightarrow> e \<in> set (child_names q t)"
    by (force simp: child_names_def)
  finally show ?thesis by simp
qed

text \<open>Removing every entry of a directory empties it.\<close>

definition RemoveNames :: "host_fs \<Rightarrow> string \<Rightarrow> string list \<Rightarrow> host_fs" where
  "RemoveNames fs d names = fold (\<lambda>n fs. ignoring fs (RemoveAll fs (path_Join d n))) names fs"

definition cut_names :: "string list \<Rightarrow> string list \<Rightarrow> file_tree \<Rightarrow> file_tree" where
  "cut_names rel names T = fold (\<lambda>n. cut_tree (rel @ [n])) names T"

lemma cut_names_iff: "cut_names rel names T q = (if \<exists>n \<in> set names. prefix (rel @ [n]) q then None else T q)"
  by (induction names arbitrary: T) (auto simp: cut_names_def cut_tree_def)

lemma cut_tree_link: "cut_tree rel T q = Some n \<Longrightarrow> T q = Some n"
  by (auto simp: cut_tree_def split: if_splits)

lemma RemoveNames_tree:
  assumes "rooted rt fs" "normals (rt @ rel)" "good_tree (subtree rt fs)" "link_free (subtree rt fs) rel"
    "list_all normal_elem names"
  shows "tree_becomes rt fs (cut_names rel names (subtree rt fs)) (RemoveNames fs (abs_path (rt @ rel)) names)"
  using assms(1,3,4,5)
proof (induction names arbitrary: fs)
  case Nil
  then show ?case using tree_becomes_refl [of rt fs] by (simp add: RemoveNames_def cut_names_def)
next
  case (Cons n names)
  let ?fs = "ignoring fs (RemoveAll fs (abs_path (rt @ rel @ [n])))"
  have join: "path_Join (abs_path (rt @ rel)) n = abs_path (rt @ rel @ [n])"
    using path_Join_abs [of "rt @ rel" "[n]" n] assms(2) Cons.prems(4) by simp
  have step: "tree_becomes rt fs (cut_tree (rel @ [n]) (subtree rt fs)) ?fs"
    using Cons.prems assms(2) by (intro RemoveAll_tree) (auto simp: link_free_def strict_prefix_def)
  then have sub: "subtree rt ?fs = cut_tree (rel @ [n]) (subtree rt fs)"
    by (simp add: tree_becomes_def)
  have good: "good_tree (subtree rt ?fs)"
    unfolding sub by (rule good_tree_cut) (use Cons.prems in simp_all)
  have "tree_becomes rt ?fs (cut_names rel names (subtree rt ?fs)) (RemoveNames ?fs (abs_path (rt @ rel)) names)"
  proof (rule Cons.IH)
    show "rooted rt ?fs"
      using tree_becomes_rooted [OF step Cons.prems(1)] good by (simp add: sub good_tree_def)
    show "link_free (subtree rt ?fs) rel"
      using Cons.prems(3) by (auto simp: link_free_def sub dest: cut_tree_link)
  qed (use good Cons.prems in simp_all)
  then show ?case
    using tree_becomes_trans [OF step] by (simp add: sub RemoveNames_def cut_names_def join)
qed

definition empty_dir :: "string list \<Rightarrow> file_tree \<Rightarrow> file_tree" where
  "empty_dir rel T = (\<lambda>q. if strict_prefix rel q then None else T q)"

lemma empty_dir_names:
  assumes "closed_tree T" "\<forall>e. e \<in> set names \<longleftrightarrow> T (rel @ [e]) \<noteq> None"
  shows "cut_names rel names T = empty_dir rel T"
proof
  fix q
  have "T q = None" if "strict_prefix rel q" "\<forall>n \<in> set names. \<not> prefix (rel @ [n]) q"
  proof (rule ccontr)
    assume some: "T q \<noteq> None"
    obtain e r where q: "q = rel @ e # r"
      using \<open>strict_prefix rel q\<close> by (rule strict_prefixE')
    have "T (rel @ [e]) \<noteq> None"
    proof (cases "r = []")
      case False
      then have "strict_prefix (rel @ [e]) q" by (simp add: q strict_prefix_def)
      then show ?thesis using closed_tree_prefix [OF assms(1) some] by simp
    qed (use some q in simp)
    then have "e \<in> set names" using assms(2) by blast
    then show False using that(2) q by auto
  qed
  moreover have "strict_prefix rel q" if "prefix (rel @ [n]) q" for n
    using that by (auto simp: strict_prefix_def prefix_def)
  ultimately show "cut_names rel names T q = empty_dir rel T q"
    by (auto simp: cut_names_iff empty_dir_def)
qed

lemma ReadDir_tree:
  assumes "rooted rt fs" "normals (rt @ rel)" "good_tree (subtree rt fs)" "link_free (subtree rt fs) rel"
  shows "e \<in> set (ReadDir fs (abs_path (rt @ rel))) \<longleftrightarrow> subtree rt fs (rel @ [e]) \<noteq> None"
proof -
  have closed: "closed_tree (subtree rt fs)"
    using assms(3) by (simp add: good_tree_def)
  have dir: "dirs_above (subtree rt fs) rel \<and> subtree rt fs rel = Some FDir" if "subtree rt fs (rel @ [e]) \<noteq> None"
  proof -
    have "subtree rt fs rel = Some FDir"
      using that closed by (auto simp: closed_tree_def)
    then show ?thesis
      using closed_tree_prefix [OF closed, of rel] by (simp add: dirs_above_def)
  qed
  have nolink: "True \<longrightarrow> (\<forall>l. subtree rt fs rel \<noteq> Some (FLink l))"
    using assms(4) by (simp add: link_free_def)
  show ?thesis
  proof (cases "dirs_above (subtree rt fs) rel")
    case True
    then have "resolve fs True (abs_path (rt @ rel)) = Inr (rt @ rel)"
      using resolve_in_tree [OF assms(1,2) _ nolink] by (simp add: dirs_above_def)
    then show ?thesis
      using dir by (auto simp: ReadDir_def subtree_def node_at_def child_names_iff)
  next
    case False
    then obtain err where "resolve fs True (abs_path (rt @ rel)) = Inl err"
      using resolve_not_dirs [OF assms(1,2) False, of True] assms(4) by (auto simp: link_free_def strict_prefix_def)
    moreover have "subtree rt fs (rel @ [e]) = None"
      using dir False by blast
    ultimately show ?thesis
      by (simp add: ReadDir_def)
  qed
qed

lemma empty_dir_tree:
  assumes "rooted rt fs" "normals (rt @ rel)" "good_tree (subtree rt fs)" "link_free (subtree rt fs) rel"
  shows "tree_becomes rt fs (empty_dir rel (subtree rt fs))
           (RemoveNames fs (abs_path (rt @ rel)) (ReadDir fs (abs_path (rt @ rel))))"
proof -
  let ?names = "ReadDir fs (abs_path (rt @ rel))"
  have "list_all normal_elem ?names"
    using assms(3) ReadDir_tree [OF assms] by (auto simp: list_all_iff good_tree_def)
  moreover have "cut_names rel ?names (subtree rt fs) = empty_dir rel (subtree rt fs)"
    using assms(3) ReadDir_tree [OF assms] by (intro empty_dir_names) (simp_all add: good_tree_def)
  ultimately show ?thesis
    using RemoveNames_tree [OF assms, of ?names] by simp
qed

end
