(* ===== verification/Init_Script.thy ===== *)
theory Init_Script
  imports Porter_Prelude
begin

text \<open>
  The init script of a converted image (\<open>internal/buildkit/initshim.go\<close>) and the part of the POSIX shell
  that reads it: the lexer with its quoting rules, and-or lists, and the built-ins the script uses. The
  shell gives up on everything outside of that part, so that a script it runs to the end is one in which
  no text of the image took effect as shell syntax.
\<close>

subsection \<open>Building the script\<close>

abbreviation sq :: char where
  "sq \<equiv> CHR 0x27"

abbreviation nl :: char where
  "nl \<equiv> CHR 0x0A"

definition shQuote :: "string \<Rightarrow> string" where
  "shQuote s = [sq] @ ReplaceAll s [sq] [sq, CHR 0x5C, sq, sq] @ [sq]"

text \<open>The bytes of a character outside of ASCII are no letters either.\<close>

fun valid_name_from :: "nat \<Rightarrow> string \<Rightarrow> bool" where
  "valid_name_from i [] = True"
| "valid_name_from i (r # k) =
     (if r = CHR ''_'' \<or> is_upper r \<or> is_lower r then valid_name_from (Suc i) k
      else if is_digit r \<and> i > 0 then valid_name_from (Suc i) k
      else False)"

definition validEnvName :: "string \<Rightarrow> bool" where
  "validEnvName k = (if k = [] then False else valid_name_from 0 k)"

definition init_preamble :: string where
  "init_preamble =
     ''#!/bin/sh'' @ [nl] @ ''# generated by porter: OCI config -> PID 1'' @ [nl] @
     ''mount -t proc proc /proc 2>/dev/null'' @ [nl] @
     ''mount -t sysfs sys /sys 2>/dev/null'' @ [nl] @
     ''mount -t devtmpfs dev /dev 2>/dev/null'' @ [nl] @
     ''mkdir -p /dev/pts /dev/shm && mount -t devpts devpts /dev/pts 2>/dev/null'' @ [nl] @
     ''mount -t tmpfs tmpfs /tmp 2>/dev/null'' @ [nl] @
     ''export PATH=/usr/local/sbin:/usr/local/bin:/usr/sbin:/usr/bin:/sbin:/bin'' @ [nl]"

definition export_line :: "string \<Rightarrow> string" where
  "export_line kv =
     (case Cut (CHR ''='') kv of
        None \<Rightarrow> []
      | Some (k, v) \<Rightarrow> if \<not> validEnvName k then [] else ''export '' @ k @ ''='' @ shQuote v @ [nl])"

datatype init_error = NothingToRun

definition BuildInitScript :: "string list \<Rightarrow> string list \<Rightarrow> string list \<Rightarrow> string \<Rightarrow> (init_error, string) result" where
  "BuildInitScript entrypoint cmd env workdir =
     (let argv = entrypoint @ cmd
      in if argv = [] then Inl NothingToRun
         else Inr (init_preamble @ concat (map export_line env) @
                   (if workdir \<noteq> [] then ''cd '' @ shQuote workdir @ '' || exit 1'' @ [nl] else []) @
                   ''exec'' @ concat (map (\<lambda>a. '' '' @ shQuote a) argv) @ [nl]))"

subsection \<open>The shell's lexer\<close>

datatype sh_tok = Word string | Redir string | AndIf | OrIf | Newline

datatype sh_mode = Plain | Single | Escape | Comment | Amp | Bar

text \<open>The word being read, with whether a part of it was quoted.\<close>

type_synonym sh_word = "(string \<times> bool) option"

fun word_of :: "sh_word \<Rightarrow> sh_tok list" where
  "word_of None = []"
| "word_of (Some (w, _)) = [Word w]"

fun add_char :: "bool \<Rightarrow> char \<Rightarrow> sh_word \<Rightarrow> sh_word" where
  "add_char b c None = Some ([c], b)"
| "add_char b c (Some (w, q)) = Some (w @ [c], q \<or> b)"

fun open_quote :: "sh_word \<Rightarrow> sh_word" where
  "open_quote None = Some ([], True)"
| "open_quote (Some (w, q)) = Some (w, True)"

fun redirect :: "sh_word \<Rightarrow> sh_tok list" where
  "redirect (Some (w, False)) = (if list_all is_digit w then [Redir w] else [Word w, Redir ''1''])"
| "redirect cur = word_of cur @ [Redir ''1'']"

text \<open>Expansions, double quotes, subshells, patterns and the other operators are outside of the part.\<close>

definition sh_special :: string where
  "sh_special = [CHR ''$'', CHR 0x60, CHR 0x22] @ ''();<*?[]{}~!%''"

definition then_toks :: "sh_tok list \<Rightarrow> sh_tok list option \<Rightarrow> sh_tok list option" where
  "then_toks ts r = map_option (\<lambda>rs. ts @ rs) r"

fun sh_lex :: "sh_mode \<Rightarrow> sh_word \<Rightarrow> string \<Rightarrow> sh_tok list option" where
  "sh_lex m cur [] = (case m of Plain \<Rightarrow> Some (word_of cur) | Comment \<Rightarrow> Some [] | _ \<Rightarrow> None)"
| "sh_lex m cur (c # cs) =
     (if c = CHR 0x00 then None
      else (case m of
          Single \<Rightarrow> if c = sq then sh_lex Plain cur cs else sh_lex Single (add_char True c cur) cs
        | Escape \<Rightarrow> if c = nl then sh_lex Plain cur cs else sh_lex Plain (add_char True c cur) cs
        | Comment \<Rightarrow> if c = nl then then_toks [Newline] (sh_lex Plain None cs) else sh_lex Comment cur cs
        | Amp \<Rightarrow> if c = CHR ''&'' then then_toks [AndIf] (sh_lex Plain None cs) else None
        | Bar \<Rightarrow> if c = CHR ''|'' then then_toks [OrIf] (sh_lex Plain None cs) else None
        | Plain \<Rightarrow>
            if c = sq then sh_lex Single (open_quote cur) cs
            else if c = CHR 0x5C then sh_lex Escape cur cs
            else if c = nl then then_toks (word_of cur @ [Newline]) (sh_lex Plain None cs)
            else if c = CHR '' '' \<or> c = CHR 0x09 then then_toks (word_of cur) (sh_lex Plain None cs)
            else if c = CHR ''#'' \<and> cur = None then sh_lex Comment None cs
            else if c = CHR ''>'' then then_toks (redirect cur) (sh_lex Plain None cs)
            else if c = CHR ''&'' then then_toks (word_of cur) (sh_lex Amp None cs)
            else if c = CHR ''|'' then then_toks (word_of cur) (sh_lex Bar None cs)
            else if c \<in> set sh_special then None
            else sh_lex Plain (add_char False c cur) cs))"

subsection \<open>Running a script\<close>

fun split_lines :: "sh_tok list \<Rightarrow> sh_tok list list" where
  "split_lines [] = [[]]"
| "split_lines (Newline # ts) = [] # split_lines ts"
| "split_lines (t # ts) = (case split_lines ts of [] \<Rightarrow> [[t]] | l # ls \<Rightarrow> (t # l) # ls)"

text \<open>The commands of an and-or list, each with the status of the one before on which it runs.\<close>

fun sh_andor :: "bool \<Rightarrow> string list \<Rightarrow> sh_tok list \<Rightarrow> (bool \<times> string list) list option" where
  "sh_andor on ws [] = (if ws = [] then None else Some [(on, ws)])"
| "sh_andor on ws (Word w # ts) = sh_andor on (ws @ [w]) ts"
| "sh_andor on ws (Redir n # Word w # ts) = sh_andor on ws ts"
| "sh_andor on ws (Redir n # ts) = None"
| "sh_andor on ws (AndIf # ts) = (if ws = [] then None else map_option (Cons (on, ws)) (sh_andor True [] ts))"
| "sh_andor on ws (OrIf # ts) = (if ws = [] then None else map_option (Cons (on, ws)) (sh_andor False [] ts))"
| "sh_andor on ws (Newline # ts) = None"

record sh_state =
  sh_env :: "string \<rightharpoonup> string"
  sh_cwd :: string

record sh_host =
  sh_utility :: "string list \<Rightarrow> bool"
  sh_chdir :: "string \<Rightarrow> bool"

text \<open>How a script ends: the shell replaces itself by a program, exits, or the script is outside of the part.\<close>

datatype sh_outcome = Execed "string list" "string \<rightharpoonup> string" string | Exited nat | Unsupported

datatype sh_step = Cont bool sh_state | Stop sh_outcome

definition export_var :: "string \<Rightarrow> sh_state \<Rightarrow> sh_state option" where
  "export_var w st =
     (case Cut (CHR ''='') w of
        None \<Rightarrow> None
      | Some (k, v) \<Rightarrow> if validEnvName k then Some (st\<lparr>sh_env := (sh_env st)(k \<mapsto> v)\<rparr>) else None)"

text \<open>\<open>cd\<close> keeps \<open>PWD\<close> and \<open>OLDPWD\<close> up to date, which the program sees when they are exported.\<close>

definition set_exported :: "string \<Rightarrow> string \<Rightarrow> (string \<rightharpoonup> string) \<Rightarrow> (string \<rightharpoonup> string)" where
  "set_exported k v e = (if e k = None then e else e(k \<mapsto> v))"

definition sh_cd :: "string \<Rightarrow> sh_state \<Rightarrow> sh_state" where
  "sh_cd d st =
     st\<lparr>sh_env := set_exported ''PWD'' d (set_exported ''OLDPWD'' (sh_cwd st) (sh_env st)), sh_cwd := d\<rparr>"

fun sh_simple :: "sh_host \<Rightarrow> sh_state \<Rightarrow> string list \<Rightarrow> sh_step" where
  "sh_simple h st [] = Stop Unsupported"
| "sh_simple h st (c # ws) =
     (if c = ''export'' then
        (case ws of
           [w] \<Rightarrow> (case export_var w st of None \<Rightarrow> Stop Unsupported | Some st' \<Rightarrow> Cont True st')
         | _ \<Rightarrow> Stop Unsupported)
      else if c = ''cd'' then
        (case ws of
           [d] \<Rightarrow> if HasPrefix d ''/'' then if sh_chdir h d then Cont True (sh_cd d st) else Cont False st
                  else Stop Unsupported
         | _ \<Rightarrow> Stop Unsupported)
      else if c = ''exit'' then (if ws = [''1''] then Stop (Exited 1) else Stop Unsupported)
      else if c = ''exec'' then
        (if ws = [] \<or> HasPrefix (hd ws) ''-'' then Stop Unsupported else Stop (Execed ws (sh_env st) (sh_cwd st)))
      else if c = ''mount'' \<or> c = ''mkdir'' then Cont (sh_utility h (c # ws)) st
      else Stop Unsupported)"

fun sh_list :: "sh_host \<Rightarrow> sh_state \<Rightarrow> bool \<Rightarrow> (bool \<times> string list) list \<Rightarrow> sh_step" where
  "sh_list h st status [] = Cont status st"
| "sh_list h st status ((on, ws) # cs) =
     (if on = status then
        (case sh_simple h st ws of Cont status' st' \<Rightarrow> sh_list h st' status' cs | Stop out \<Rightarrow> Stop out)
      else sh_list h st status cs)"

text \<open>A shell that reaches the end of its script exits; the status is that of the last command.\<close>

fun sh_lines :: "sh_host \<Rightarrow> sh_state \<Rightarrow> bool \<Rightarrow> sh_tok list list \<Rightarrow> sh_outcome" where
  "sh_lines h st status [] = Exited (if status then 0 else 1)"
| "sh_lines h st status ([] # ls) = sh_lines h st status ls"
| "sh_lines h st status (l # ls) =
     (case sh_andor True [] l of
        None \<Rightarrow> Unsupported
      | Some cs \<Rightarrow> (case sh_list h st True cs of Cont status' st' \<Rightarrow> sh_lines h st' status' ls | Stop out \<Rightarrow> out))"

definition sh_run :: "sh_host \<Rightarrow> sh_state \<Rightarrow> string \<Rightarrow> sh_outcome" where
  "sh_run h st script =
     (case sh_lex Plain None script of None \<Rightarrow> Unsupported | Some ts \<Rightarrow> sh_lines h st True (split_lines ts))"

text \<open>The variables the image asks for: of two entries for a name the later one wins.\<close>

definition image_env :: "string list \<Rightarrow> (string \<rightharpoonup> string)" where
  "image_env env =
     map_of (rev (filter (\<lambda>(k, v). validEnvName k) (List.map_filter (Cut (CHR ''='')) env)))"

subsection \<open>Lexing\<close>

lemma then_toks_simps [simp]:
  "then_toks ts None = None" "then_toks ts (Some rs) = Some (ts @ rs)"
  "then_toks ts (then_toks rs r) = then_toks (ts @ rs) r" "then_toks [] r = r"
  by (simp_all add: then_toks_def option.map_comp comp_def option.map_ident)

lemma ReplaceAll_one: "ReplaceAll s [a] new = concat (map (\<lambda>c. if c = a then new else [c]) s)"
proof (induction s)
  case Nil
  show ?case by (subst ReplaceAll.simps) simp
next
  case (Cons c s)
  then show ?case by (subst ReplaceAll.simps) (auto simp: HasPrefix_def)
qed

lemma lex_single:
  "CHR 0x00 \<notin> set s \<Longrightarrow>
     sh_lex Single (Some (w, True)) (ReplaceAll s [sq] [sq, CHR 0x5C, sq, sq] @ sq # rest) =
     sh_lex Plain (Some (w @ s, True)) rest"
  by (induction s arbitrary: w) (auto simp: ReplaceAll_one)

lemma lex_shQuote [simp]:
  assumes "CHR 0x00 \<notin> set s"
  shows "sh_lex Plain None (shQuote s @ rest) = sh_lex Plain (Some (s, True)) rest"
    and "sh_lex Plain (Some (w, b)) (shQuote s @ rest) = sh_lex Plain (Some (w @ s, True)) rest"
  using assms by (simp_all add: shQuote_def lex_single)

text \<open>The characters of a name stand for themselves.\<close>

definition sh_literal :: "char \<Rightarrow> bool" where
  "sh_literal c = (c \<notin> {CHR 0x00, sq, CHR 0x5C, nl, CHR '' '', CHR 0x09, CHR ''#'', CHR ''>'', CHR ''&'', CHR ''|''} \<and>
                   c \<notin> set sh_special)"

lemma lex_literal:
  "list_all sh_literal s \<Longrightarrow> sh_lex Plain (Some (w, b)) (s @ rest) = sh_lex Plain (Some (w @ s, b)) rest"
  by (induction s arbitrary: w) (auto simp: sh_literal_def)

lemma lex_literal_word:
  assumes "list_all sh_literal s" "s \<noteq> []"
  shows "sh_lex Plain None (s @ rest) = sh_lex Plain (Some (s, False)) rest"
proof -
  obtain c s' where "s = c # s'"
    using assms(2) by (cases s) auto
  then show ?thesis
    using assms(1) lex_literal [of s' "[c]" False rest] by (auto simp: sh_literal_def)
qed

lemma valid_name_literal: "valid_name_from i k \<Longrightarrow> list_all sh_literal k"
proof (induction k arbitrary: i)
  case (Cons c k)
  have "c = CHR ''_'' \<or> is_upper c \<or> is_lower c \<or> is_digit c" "list_all sh_literal k"
    using Cons by (auto split: if_splits)
  moreover from this(1) have "sh_literal c"
    by (auto simp: sh_literal_def sh_special_def char_class_defs)
  ultimately show ?case by simp
qed simp

lemma validEnvName_literal: "validEnvName k \<Longrightarrow> list_all sh_literal k \<and> k \<noteq> []"
  by (auto simp: validEnvName_def valid_name_literal split: if_splits)

text \<open>A text that is a number of whole lines with the given tokens.\<close>

definition lexes :: "string \<Rightarrow> sh_tok list \<Rightarrow> bool" where
  "lexes s ts = (\<forall>rest. sh_lex Plain None (s @ rest) = then_toks ts (sh_lex Plain None rest))"

lemma lexes_append: "lexes s ts \<Longrightarrow> lexes s' ts' \<Longrightarrow> lexes (s @ s') (ts @ ts')"
  by (simp add: lexes_def)

lemma lexes_Nil: "lexes [] []"
  by (simp add: lexes_def)

lemma lexes_concat: "(\<And>x. x \<in> set xs \<Longrightarrow> lexes (f x) (g x)) \<Longrightarrow> lexes (concat (map f xs)) (concat (map g xs))"
  by (induction xs) (auto intro: lexes_append lexes_Nil)

definition export_toks :: "string \<Rightarrow> sh_tok list" where
  "export_toks kv =
     (case Cut (CHR ''='') kv of
        None \<Rightarrow> []
      | Some (k, v) \<Rightarrow> if \<not> validEnvName k then [] else [Word ''export'', Word (k @ ''='' @ v), Newline])"

lemma lexes_export:
  assumes "CHR 0x00 \<notin> set kv"
  shows "lexes (export_line kv) (export_toks kv)"
proof (cases "Cut (CHR ''='') kv")
  case None
  then show ?thesis by (simp add: export_line_def export_toks_def lexes_Nil)
next
  case (Some kv')
  obtain k v where kv': "kv' = (k, v)" by force
  have v: "CHR 0x00 \<notin> set v"
    using Some assms by (auto simp: kv' Cut_Some_iff)
  show ?thesis
  proof (cases "validEnvName k")
    case True
    have "sh_lex Plain None (k @ CHR ''='' # shQuote v @ nl # rest) =
          then_toks [Word (k @ ''='' @ v), Newline] (sh_lex Plain None rest)" for rest
      using v validEnvName_literal [OF True] by (simp add: lex_literal_word sh_special_def)
    then show ?thesis
      using True by (simp add: Some kv' export_line_def export_toks_def lexes_def sh_special_def)
  qed (simp add: Some kv' export_line_def export_toks_def lexes_Nil)
qed

definition cd_toks :: "string \<Rightarrow> sh_tok list" where
  "cd_toks d = [Word ''cd'', Word d, OrIf, Word ''exit'', Word ''1'', Newline]"

lemma lexes_cd:
  assumes "CHR 0x00 \<notin> set d"
  shows "lexes (''cd '' @ shQuote d @ '' || exit 1'' @ [nl]) (cd_toks d)"
  using assms by (simp add: lexes_def cd_toks_def sh_special_def)

lemma lexes_args:
  assumes "\<forall>a \<in> set argv. CHR 0x00 \<notin> set a"
  shows "sh_lex Plain (Some (w, b)) (concat (map (\<lambda>a. '' '' @ shQuote a) argv) @ nl # rest) =
         then_toks (Word w # map Word argv @ [Newline]) (sh_lex Plain None rest)"
  using assms by (induction argv arbitrary: w b) (auto simp: sh_special_def)

lemma lexes_exec:
  assumes "\<forall>a \<in> set argv. CHR 0x00 \<notin> set a"
  shows "lexes (''exec'' @ concat (map (\<lambda>a. '' '' @ shQuote a) argv) @ [nl]) (map Word (''exec'' # argv) @ [Newline])"
  using lexes_args [OF assms] by (simp add: lexes_def sh_special_def)

definition preamble_toks :: "sh_tok list" where
  "preamble_toks =
     [Newline, Newline] @
     map Word [''mount'', ''-t'', ''proc'', ''proc'', ''/proc''] @ [Redir ''2'', Word ''/dev/null'', Newline] @
     map Word [''mount'', ''-t'', ''sysfs'', ''sys'', ''/sys''] @ [Redir ''2'', Word ''/dev/null'', Newline] @
     map Word [''mount'', ''-t'', ''devtmpfs'', ''dev'', ''/dev''] @ [Redir ''2'', Word ''/dev/null'', Newline] @
     map Word [''mkdir'', ''-p'', ''/dev/pts'', ''/dev/shm''] @ [AndIf] @
     map Word [''mount'', ''-t'', ''devpts'', ''devpts'', ''/dev/pts''] @ [Redir ''2'', Word ''/dev/null'', Newline] @
     map Word [''mount'', ''-t'', ''tmpfs'', ''tmpfs'', ''/tmp''] @ [Redir ''2'', Word ''/dev/null'', Newline] @
     map Word [''export'', ''PATH=/usr/local/sbin:/usr/local/bin:/usr/sbin:/usr/bin:/sbin:/bin''] @ [Newline]"

lemma lexes_preamble: "lexes init_preamble preamble_toks"
  unfolding lexes_def init_preamble_def preamble_toks_def sh_special_def by (simp add: sh_special_def is_digit_def)

subsection \<open>Running the lines\<close>

lemma split_lines_append:
  "Newline \<notin> set l \<Longrightarrow> split_lines (l @ Newline # ts) = l # split_lines ts"
proof (induction l)
  case (Cons t l)
  then show ?case by (cases t) auto
qed simp

definition path_default :: string where
  "path_default = ''/usr/local/sbin:/usr/local/bin:/usr/sbin:/usr/bin:/sbin:/bin''"

lemma sh_lines_preamble:
  "sh_lines h st True (split_lines (preamble_toks @ ts)) =
     sh_lines h (st\<lparr>sh_env := (sh_env st)(''PATH'' \<mapsto> path_default)\<rparr>) True (split_lines ts)"
  unfolding preamble_toks_def path_default_def
  by (simp add: export_var_def validEnvName_def char_class_defs)

lemma sh_lines_export:
  "sh_lines h st True (split_lines (export_toks kv @ ts)) =
     sh_lines h (st\<lparr>sh_env := sh_env st ++ image_env [kv]\<rparr>) True (split_lines ts)"
proof (cases "Cut (CHR ''='') kv")
  case None
  then show ?thesis by (simp add: export_toks_def image_env_def List.map_filter_def)
next
  case (Some kv')
  obtain k v where kv': "kv' = (k, v)" by force
  have cut: "Cut (CHR ''='') (k @ CHR ''='' # v) = Some (k, v)"
    using Some by (auto simp: kv' Cut_Some_iff)
  show ?thesis
    using Some cut by (simp add: kv' export_toks_def image_env_def List.map_filter_def export_var_def)
qed

lemma image_env_Cons: "image_env (kv # env) = image_env [kv] ++ image_env env"
  by (auto simp: image_env_def List.map_filter_def map_add_def fun_eq_iff split: option.splits)

lemma sh_lines_exports:
  "sh_lines h st True (split_lines (concat (map export_toks env) @ ts)) =
     sh_lines h (st\<lparr>sh_env := sh_env st ++ image_env env\<rparr>) True (split_lines ts)"
proof (induction env arbitrary: st)
  case Nil
  then show ?case by (simp add: image_env_def List.map_filter_def)
next
  case (Cons kv env)
  then show ?case
    by (simp add: sh_lines_export image_env_Cons [of kv env])
qed

lemma sh_andor_words: "sh_andor on ws (map Word vs) = (if ws @ vs = [] then None else Some [(on, ws @ vs)])"
  by (induction vs arbitrary: ws) auto

lemma Newline_words [simp]: "Newline \<notin> Word ` set ws"
  by auto

lemma sh_lines_exec:
  assumes "argv \<noteq> []" "\<not> HasPrefix (hd argv) ''-''"
  shows "sh_lines h st True (split_lines (map Word (''exec'' # argv) @ [Newline])) = Execed argv (sh_env st) (sh_cwd st)"
proof -
  have "sh_andor True [] (map Word (''exec'' # argv)) = Some [(True, ''exec'' # argv)]"
    by (subst sh_andor_words) simp
  moreover have "split_lines (map Word (''exec'' # argv) @ [Newline]) = [map Word (''exec'' # argv), []]"
    by (subst split_lines_append) simp_all
  ultimately show ?thesis
    using assms by simp
qed

lemma sh_lines_cd:
  assumes "HasPrefix d ''/''"
  shows "sh_lines h st True (split_lines (cd_toks d @ ts)) =
           (if sh_chdir h d then sh_lines h (sh_cd d st) True (split_lines ts) else Exited 1)"
  using assms by (simp add: cd_toks_def)

text \<open>What the shell runs in the end: the program, with its environment and directory.\<close>

definition init_process :: "sh_host \<Rightarrow> sh_state \<Rightarrow> string list \<Rightarrow> string list \<Rightarrow> string \<Rightarrow> sh_outcome" where
  "init_process h st argv env workdir =
     (let st1 = st\<lparr>sh_env := (sh_env st)(''PATH'' \<mapsto> path_default) ++ image_env env\<rparr>;
          st2 = (if workdir = [] then st1 else sh_cd workdir st1)
      in if workdir \<noteq> [] \<and> \<not> sh_chdir h workdir then Exited 1 else Execed argv (sh_env st2) (sh_cwd st2))"

lemma init_script_tokens:
  assumes "BuildInitScript entrypoint cmd env workdir = Inr script"
    "\<forall>a \<in> set (entrypoint @ cmd @ env @ [workdir]). CHR 0x00 \<notin> set a"
  shows "sh_lex Plain None script =
           Some (preamble_toks @ concat (map export_toks env) @ (if workdir = [] then [] else cd_toks workdir) @
                 map Word (''exec'' # entrypoint @ cmd) @ [Newline])"
proof -
  let ?cd = "if workdir \<noteq> [] then ''cd '' @ shQuote workdir @ '' || exit 1'' @ [nl] else []"
  let ?exec = "''exec'' @ concat (map (\<lambda>a. '' '' @ shQuote a) (entrypoint @ cmd)) @ [nl]"
  have script: "script = init_preamble @ concat (map export_line env) @ ?cd @ ?exec"
    using assms(1) by (simp add: BuildInitScript_def Let_def split: if_splits)
  have cd: "lexes ?cd (if workdir = [] then [] else cd_toks workdir)"
    using lexes_cd [of workdir] assms(2) by (simp add: lexes_Nil)
  have exports: "lexes (concat (map export_line env)) (concat (map export_toks env))"
    using assms(2) by (intro lexes_concat lexes_export) auto
  have exec: "lexes ?exec (map Word (''exec'' # entrypoint @ cmd) @ [Newline])"
    using assms(2) by (intro lexes_exec) auto
  have "lexes script (preamble_toks @ concat (map export_toks env) @
      (if workdir = [] then [] else cd_toks workdir) @ map Word (''exec'' # entrypoint @ cmd) @ [Newline])"
    unfolding script by (rule lexes_append [OF lexes_preamble lexes_append [OF exports lexes_append [OF cd exec]]])
  then have "sh_lex Plain None (script @ []) = then_toks (preamble_toks @ concat (map export_toks env) @
      (if workdir = [] then [] else cd_toks workdir) @ map Word (''exec'' # entrypoint @ cmd) @ [Newline])
      (sh_lex Plain None [])"
    unfolding lexes_def by (rule spec)
  then show ?thesis by simp
qed

lemma init_script_runs:
  assumes "BuildInitScript entrypoint cmd env workdir = Inr script"
    "\<forall>a \<in> set (entrypoint @ cmd @ env @ [workdir]). CHR 0x00 \<notin> set a"
    "\<not> HasPrefix (hd (entrypoint @ cmd)) ''-''" "workdir = [] \<or> HasPrefix workdir ''/''"
  shows "sh_run h st script = init_process h st (entrypoint @ cmd) env workdir"
proof -
  have argv: "entrypoint @ cmd \<noteq> []"
    using assms(1) by (auto simp: BuildInitScript_def Let_def split: if_splits)
  note exec = sh_lines_exec [OF argv assms(3)]
  show ?thesis
  proof (cases "workdir = []")
    case True
    then show ?thesis
      unfolding sh_run_def init_script_tokens [OF assms(1,2)]
      by (simp add: sh_lines_preamble sh_lines_exports init_process_def exec del: list.map map_append split_lines.simps)
  next
    case False
    then have "HasPrefix workdir ''/''"
      using assms(4) by simp
    then show ?thesis
      unfolding sh_run_def init_script_tokens [OF assms(1,2)]
      using False by (simp add: sh_lines_preamble sh_lines_exports sh_lines_cd init_process_def exec Let_def
          del: list.map map_append split_lines.simps)
  qed
qed

end
