(* ===== verification/Oci_Image.thy ===== *)
theory Oci_Image
  imports Host_Fs Init_Script
begin

text \<open>
  The image builder of \<open>internal/buildkit\<close> (\<open>builder.go\<close>, \<open>detect.go\<close>, \<open>initshim.go\<close>): choosing a build engine,
  running it, unpacking the layers of an OCI archive into a directory and turning the directory into a
  root file system with the init script. The file formats (tar, gzip and the JSON documents of the archive)
  are decoders in a record of arguments, and so are the programs that are run.
\<close>

subsection \<open>Detection and plan\<close>

datatype Engine = EngineDockerfile | EngineNixpacks | EngineRailpack | EngineBuildpacks | EngineStatic

definition has_file :: "host_fs \<Rightarrow> string \<Rightarrow> string list \<Rightarrow> bool" where
  "has_file fs contextDir names =
     list_ex (\<lambda>n. case os_Stat fs (path_Join contextDir n) of Inl _ \<Rightarrow> False | Inr st \<Rightarrow> st \<noteq> FDir) names"

definition is_dir :: "host_fs \<Rightarrow> string \<Rightarrow> string \<Rightarrow> bool" where
  "is_dir fs contextDir n = (os_Stat fs (path_Join contextDir n) = Inr FDir)"

definition Detect :: "host_fs \<Rightarrow> string \<Rightarrow> Engine" where
  "Detect fs contextDir =
     (if has_file fs contextDir [''railpack.json''] then EngineRailpack
      else if has_file fs contextDir [''nixpacks.toml'', ''.nixpacks.toml'', ''NIXPACKS.toml''] then EngineNixpacks
      else if has_file fs contextDir [''Dockerfile'', ''dockerfile'', ''Containerfile''] then EngineDockerfile
      else if is_dir fs contextDir ''dist'' \<or> is_dir fs contextDir ''build'' \<or> has_file fs contextDir [''index.html''] then EngineStatic
      else if has_file fs contextDir [''package.json'', ''requirements.txt'', ''pyproject.toml'', ''go.mod'', ''Cargo.toml'',
                ''Gemfile'', ''composer.json''] then EngineNixpacks
      else if has_file fs contextDir [''project.toml'', ''Procfile''] then EngineBuildpacks
      else EngineBuildpacks)"

record Plan =
  pl_Engine :: Engine
  pl_ContextDir :: string
  pl_Dockerfile :: string
  pl_OutputOCI :: string

text \<open>The loop takes the first of the names that exists, a directory too.\<close>

fun first_existing :: "host_fs \<Rightarrow> string \<Rightarrow> string list \<Rightarrow> string" where
  "first_existing fs dir [] = []"
| "first_existing fs dir (c # cs) =
     (case os_Stat fs (path_Join dir c) of Inr _ \<Rightarrow> path_Join dir c | Inl _ \<Rightarrow> first_existing fs dir cs)"

definition PlanFor :: "host_fs \<Rightarrow> string \<Rightarrow> string \<Rightarrow> Plan" where
  "PlanFor fs contextDir outputOCI =
     (let eng = Detect fs contextDir
      in \<lparr>pl_Engine = eng, pl_ContextDir = contextDir,
          pl_Dockerfile = (if eng = EngineDockerfile
                           then first_existing fs contextDir [''Dockerfile'', ''dockerfile'', ''Containerfile''] else []),
          pl_OutputOCI = outputOCI\<rparr>)"

subsection \<open>Archives\<close>

text \<open>An entry of a tar file; reading its content may fail. A tar file ends well or with an error.\<close>

record tar_entry =
  th_Name :: string
  th_Typeflag :: char
  th_Linkname :: string
  th_Data :: "string option"

type_synonym tar_stream = "tar_entry list \<times> bool"

definition TypeReg :: char where "TypeReg = CHR ''0''"
definition TypeRegA :: char where "TypeRegA = CHR 0x00"
definition TypeLink :: char where "TypeLink = CHR ''1''"
definition TypeSymlink :: char where "TypeSymlink = CHR ''2''"
definition TypeDir :: char where "TypeDir = CHR ''5''"

record ociManifest =
  om_Config :: string
  om_Layers :: "string list"

record imageConfig =
  ic_Entrypoint :: "string list"
  ic_Cmd :: "string list"
  ic_Env :: "string list"
  ic_WorkingDir :: string

text \<open>The decoders: \<open>oc_gzip\<close> is the archive in a compressed layer, if it is one.\<close>

record oci_codec =
  oc_tar :: "string \<Rightarrow> tar_stream"
  oc_gzip :: "string \<Rightarrow> tar_stream option"
  oc_index :: "string \<Rightarrow> string list option"
  oc_manifest :: "string \<Rightarrow> ociManifest option"
  oc_config :: "string \<Rightarrow> imageConfig option"

datatype build_error =
    FsError errno | TarError | ReadError | MissingIndex | InvalidIndex | InvalidManifest | InvalidConfig
  | IndexOutOfRange | BlobNotFound string | InitShim build_error | MkfsNotFound | MkfsFailed string
  | NoDockerfile | ArgumentsRequired | BuildFailed string | PackFailed string string | NeedsPublishDir | NoRunner

text \<open>Opening a file and reading it; a directory opens but cannot be read.\<close>

definition read_file :: "host_fs \<Rightarrow> string \<Rightarrow> (build_error, string) result" where
  "read_file fs p =
     (case os_Stat fs p of Inl e \<Rightarrow> Inl (FsError e) | Inr (FFile c) \<Rightarrow> Inr c | Inr _ \<Rightarrow> Inl TarError)"

definition open_tar :: "oci_codec \<Rightarrow> host_fs \<Rightarrow> string \<Rightarrow> (build_error, tar_stream) result" where
  "open_tar oc fs p = map_sum id (oc_tar oc) (read_file fs p)"

text \<open>The scan for an entry: its content, nothing at the end of the file, or the error met before it.\<close>

fun scan_tar :: "string list \<Rightarrow> tar_entry list \<Rightarrow> bool \<Rightarrow> (build_error, string option) result" where
  "scan_tar names [] intact = (if intact then Inr None else Inl TarError)"
| "scan_tar names (h # hs) intact =
     (if th_Name h \<in> set names then (case th_Data h of None \<Rightarrow> Inl ReadError | Some d \<Rightarrow> Inr (Some d))
      else scan_tar names hs intact)"

definition scan_archive :: "oci_codec \<Rightarrow> host_fs \<Rightarrow> string \<Rightarrow> string list \<Rightarrow> (build_error, string option) result" where
  "scan_archive oc fs path names =
     (case open_tar oc fs path of Inl e \<Rightarrow> Inl e | Inr (hs, intact) \<Rightarrow> scan_tar names hs intact)"

text \<open>\<open>validOCITar\<close> looks at names only.\<close>

definition validOCITar :: "oci_codec \<Rightarrow> host_fs \<Rightarrow> string \<Rightarrow> bool" where
  "validOCITar oc fs path =
     (case open_tar oc fs path of Inl _ \<Rightarrow> False | Inr (hs, _) \<Rightarrow> list_ex (\<lambda>h. th_Name h = ''index.json'') hs)"

definition blob_name :: "string \<Rightarrow> string" where
  "blob_name digest =
     ''blobs/'' @ (case Cut (CHR '':'') digest of None \<Rightarrow> digest | Some (a, b) \<Rightarrow> a @ ''/'' @ b)"

definition readBlob :: "oci_codec \<Rightarrow> host_fs \<Rightarrow> string \<Rightarrow> string \<Rightarrow> (build_error, string) result" where
  "readBlob oc fs path digest =
     (case scan_archive oc fs path [blob_name digest] of
        Inl e \<Rightarrow> Inl e
      | Inr None \<Rightarrow> Inl (BlobNotFound digest)
      | Inr (Some d) \<Rightarrow> Inr d)"

subsection \<open>Layers\<close>

text \<open>The state after a step, with the error the step returns.\<close>

type_synonym 's outcome = "'s \<times> build_error option"

definition os_step :: "host_fs \<Rightarrow> errno + host_fs \<Rightarrow> host_fs outcome" where
  "os_step fs r = (case r of Inl e \<Rightarrow> (fs, Some (FsError e)) | Inr fs' \<Rightarrow> (fs', None))"

definition and_then :: "'s outcome \<Rightarrow> ('s \<Rightarrow> 's outcome) \<Rightarrow> 's outcome" where
  "and_then r f = (case r of (s, Some e) \<Rightarrow> (s, Some e) | (s, None) \<Rightarrow> f s)"

definition apply_whiteout :: "host_fs \<Rightarrow> string \<Rightarrow> string \<Rightarrow> host_fs" where
  "apply_whiteout fs dst base =
     (if base = ''.wh..wh..opq'' then RemoveNames fs (path_Dir dst) (ReadDir fs (path_Dir dst))
      else ignoring fs (RemoveAll fs (path_Join (path_Dir dst) (TrimPrefix base ''.wh.''))))"

text \<open>\<open>io.Copy\<close> of the content: what could not be read is missing from the file.\<close>

definition write_entry :: "host_fs \<Rightarrow> string \<Rightarrow> string option \<Rightarrow> host_fs outcome" where
  "write_entry fs dst data =
     (case data of
        None \<Rightarrow> and_then (os_step fs (write_file fs dst [])) (\<lambda>fs. (fs, Some ReadError))
      | Some c \<Rightarrow> os_step fs (write_file fs dst c))"

definition apply_entry :: "string \<Rightarrow> host_fs \<Rightarrow> tar_entry \<Rightarrow> host_fs outcome" where
  "apply_entry rootDir fs h =
     (let rel = path_Clean (th_Name h)
      in if rel = ''.'' \<or> HasPrefix rel ''../'' then (fs, None)
         else let dst = path_Join rootDir rel; base = path_Base rel
         in if HasPrefix base ''.wh.'' then (apply_whiteout fs dst base, None)
            else if th_Typeflag h = TypeDir then os_step fs (MkdirAll fs dst)
            else if th_Typeflag h = TypeReg \<or> th_Typeflag h = TypeRegA then
              and_then (os_step fs (MkdirAll fs (path_Dir dst))) (\<lambda>fs. write_entry fs dst (th_Data h))
            else if th_Typeflag h = TypeSymlink then
              and_then (os_step fs (MkdirAll fs (path_Dir dst)))
                (\<lambda>fs. let fs = ignoring fs (RemoveAll fs dst) in os_step fs (os_Symlink fs (th_Linkname h) dst))
            else (fs, None))"

fun apply_entries :: "string \<Rightarrow> bool \<Rightarrow> host_fs \<Rightarrow> tar_entry list \<Rightarrow> host_fs outcome" where
  "apply_entries rootDir intact fs [] = (fs, if intact then None else Some TarError)"
| "apply_entries rootDir intact fs (h # hs) =
     and_then (apply_entry rootDir fs h) (\<lambda>fs. apply_entries rootDir intact fs hs)"

definition layer_stream :: "oci_codec \<Rightarrow> string \<Rightarrow> tar_stream" where
  "layer_stream oc data = (case oc_gzip oc data of Some s \<Rightarrow> s | None \<Rightarrow> oc_tar oc data)"

definition applyLayer :: "oci_codec \<Rightarrow> string \<Rightarrow> string \<Rightarrow> host_fs \<Rightarrow> host_fs outcome" where
  "applyLayer oc data rootDir fs =
     (case layer_stream oc data of (hs, intact) \<Rightarrow> apply_entries rootDir intact fs hs)"

fun apply_layers :: "oci_codec \<Rightarrow> string \<Rightarrow> string \<Rightarrow> host_fs \<Rightarrow> string list \<Rightarrow> host_fs outcome" where
  "apply_layers oc path rootDir fs [] = (fs, None)"
| "apply_layers oc path rootDir fs (digest # ds) =
     (case readBlob oc fs path digest of
        Inl e \<Rightarrow> (fs, Some e)
      | Inr data \<Rightarrow> and_then (applyLayer oc data rootDir fs) (\<lambda>fs. apply_layers oc path rootDir fs ds))"

definition unpackOCI :: "oci_codec \<Rightarrow> string \<Rightarrow> string \<Rightarrow> host_fs \<Rightarrow> host_fs outcome" where
  "unpackOCI oc path rootDir fs =
     (case scan_archive oc fs path [''index.json'', ''./index.json''] of
        Inl e \<Rightarrow> (fs, Some e)
      | Inr found \<Rightarrow>
          (case found of None \<Rightarrow> (fs, Some MissingIndex) | Some idx \<Rightarrow>
             if idx = [] then (fs, Some MissingIndex)
             else (case oc_index oc idx of
                 None \<Rightarrow> (fs, Some InvalidIndex)
               | Some [] \<Rightarrow> (fs, Some InvalidIndex)
               | Some (digest # _) \<Rightarrow>
                   (case readBlob oc fs path digest of
                      Inl e \<Rightarrow> (fs, Some e)
                    | Inr m \<Rightarrow>
                        (case oc_manifest oc m of
                           None \<Rightarrow> (fs, Some InvalidManifest)
                         | Some manifest \<Rightarrow> apply_layers oc path rootDir fs (om_Layers manifest))))))"

text \<open>\<open>readOCIConfig\<close> knows the index under one of the two names, and does not check that it has a manifest.\<close>

definition readOCIConfig :: "oci_codec \<Rightarrow> host_fs \<Rightarrow> string \<Rightarrow> (build_error, imageConfig) result" where
  "readOCIConfig oc fs path =
     (case scan_archive oc fs path [''index.json''] of
        Inl e \<Rightarrow> Inl e
      | Inr found \<Rightarrow>
          (case oc_index oc (case found of None \<Rightarrow> [] | Some idx \<Rightarrow> idx) of
             None \<Rightarrow> Inl InvalidIndex
           | Some [] \<Rightarrow> Inl IndexOutOfRange
           | Some (digest # _) \<Rightarrow>
               (case readBlob oc fs path digest of
                  Inl e \<Rightarrow> Inl e
                | Inr m \<Rightarrow>
                    (case oc_manifest oc m of
                       None \<Rightarrow> Inl InvalidManifest
                     | Some man \<Rightarrow>
                         (case readBlob oc fs path (om_Config man) of
                            Inl e \<Rightarrow> Inl e
                          | Inr c \<Rightarrow> (case oc_config oc c of None \<Rightarrow> Inl InvalidConfig | Some cfg \<Rightarrow> Inr cfg))))))"

subsection \<open>The root file system\<close>

definition InstallInit :: "string \<Rightarrow> string \<Rightarrow> host_fs \<Rightarrow> host_fs outcome" where
  "InstallInit rootDir script fs =
     (let dst = path_Join rootDir ''sbin/init''
      in and_then (os_step fs (MkdirAll fs (path_Dir dst)))
           (\<lambda>fs. case os_Remove fs dst of
                   Inl e \<Rightarrow> if e = ENOENT then os_step fs (write_file fs dst script) else (fs, Some (FsError e))
                 | Inr fs \<Rightarrow> os_step fs (write_file fs dst script)))"

record build_host =
  bh_run :: "string \<Rightarrow> string list \<Rightarrow> host_fs \<Rightarrow> host_fs \<times> string option"
  bh_truncate :: "int \<Rightarrow> errno option"
  bh_has_mkfs :: bool
  bh_mkfs :: "file_tree \<Rightarrow> int \<Rightarrow> (string, string) result"

record build_result =
  br_OCIPath :: string
  br_RootfsPath :: string
  br_Entrypoint :: "string list"
  br_Cmd :: "string list"
  br_Env :: "string list"
  br_WorkingDir :: string
  br_ImageDigest :: string

definition no_result :: build_result where
  "no_result = \<lparr>br_OCIPath = [], br_RootfsPath = [], br_Entrypoint = [], br_Cmd = [], br_Env = [], br_WorkingDir = [],
                br_ImageDigest = []\<rparr>"

text \<open>The directory a path names, as \<open>mkfs.ext4 -d\<close> reads it.\<close>

definition dir_tree :: "host_fs \<Rightarrow> string \<Rightarrow> file_tree" where
  "dir_tree fs p = (case resolve fs True p of Inl _ \<Rightarrow> Map.empty | Inr q \<Rightarrow> subtree q fs)"

definition install_shim :: "(build_error, imageConfig) result \<Rightarrow> string \<Rightarrow> host_fs \<Rightarrow> host_fs outcome" where
  "install_shim cfg rootDir fs =
     (case cfg of
        Inl _ \<Rightarrow> (fs, None)
      | Inr c \<Rightarrow>
          (case BuildInitScript (ic_Entrypoint c) (ic_Cmd c) (ic_Env c) (ic_WorkingDir c) of
             Inl _ \<Rightarrow> (fs, None)
           | Inr script \<Rightarrow> (case InstallInit rootDir script fs of (fs, err) \<Rightarrow> (fs, map_option InitShim err))))"

definition format_rootfs :: "build_host \<Rightarrow> string \<Rightarrow> string \<Rightarrow> int \<Rightarrow> host_fs \<Rightarrow> host_fs outcome" where
  "format_rootfs bh rootDir rootfsPath sizeMiB fs =
     and_then (os_step fs (MkdirAll fs (path_Dir rootfsPath))) (\<lambda>fs.
     and_then (os_step fs (write_file fs rootfsPath [])) (\<lambda>fs.
     case bh_truncate bh (wrap64 (sizeMiB * 1024 * 1024)) of
       Some e \<Rightarrow> (fs, Some (FsError e))
     | None \<Rightarrow>
         if \<not> bh_has_mkfs bh then (fs, Some MkfsNotFound)
         else (case bh_mkfs bh (dir_tree fs rootDir) sizeMiB of
             Inl out \<Rightarrow> (fs, Some (MkfsFailed out))
           | Inr img \<Rightarrow> os_step fs (write_file fs rootfsPath img))))"

text \<open>The body of the function, after the temporary directory is made and before it is removed.\<close>

definition convert_in :: "oci_codec \<Rightarrow> build_host \<Rightarrow> string \<Rightarrow> string \<Rightarrow> int \<Rightarrow> string \<Rightarrow> host_fs \<Rightarrow>
    host_fs \<times> build_result \<times> build_error option" where
  "convert_in oc bh ociPath rootfsPath sizeMiB rootDir fs =
     (case unpackOCI oc ociPath rootDir fs of
        (fs, Some e) \<Rightarrow> (fs, no_result, Some e)
      | (fs, None) \<Rightarrow>
          (let cfg = readOCIConfig oc fs ociPath
           in case and_then (install_shim cfg rootDir fs) (format_rootfs bh rootDir rootfsPath sizeMiB) of
                (fs, Some e) \<Rightarrow> (fs, no_result, Some e)
              | (fs, None) \<Rightarrow>
                  (case cfg of
                     Inl e \<Rightarrow> (fs, no_result\<lparr>br_RootfsPath := rootfsPath\<rparr>, Some e)
                   | Inr c \<Rightarrow> (fs, \<lparr>br_OCIPath = ociPath, br_RootfsPath = rootfsPath, br_Entrypoint = ic_Entrypoint c,
                                   br_Cmd = ic_Cmd c, br_Env = ic_Env c, br_WorkingDir = ic_WorkingDir c,
                                   br_ImageDigest = []\<rparr>, None))))"

definition ConvertOCIToExt4 :: "oci_codec \<Rightarrow> build_host \<Rightarrow> string \<Rightarrow> string \<Rightarrow> string \<Rightarrow> int \<Rightarrow> host_fs \<Rightarrow>
    host_fs \<times> build_result \<times> build_error option" where
  "ConvertOCIToExt4 oc bh rootDir ociPath rootfsPath sizeMiB fs =
     (let sizeMiB = (if sizeMiB < 64 then 512 else sizeMiB)
      in case os_Mkdir fs rootDir of
           Inl e \<Rightarrow> (fs, no_result, Some (FsError e))
         | Inr fs \<Rightarrow>
             (case convert_in oc bh ociPath rootfsPath sizeMiB rootDir fs of
                (fs, res, err) \<Rightarrow> (ignoring fs (RemoveAll fs rootDir), res, err)))"

subsection \<open>Running a build\<close>

record Builder =
  bu_Bin :: string
  bu_Addr :: string
  bu_NixpacksBin :: string
  bu_RailpackBin :: string

fun firstNonEmpty :: "string list \<Rightarrow> string" where
  "firstNonEmpty [] = []"
| "firstNonEmpty (v # vs) = (if v \<noteq> [] then v else firstNonEmpty vs)"

definition oci_Build :: "build_host \<Rightarrow> Builder \<Rightarrow> string \<Rightarrow> string \<Rightarrow> string \<Rightarrow> host_fs \<Rightarrow> host_fs outcome" where
  "oci_Build bh b contextDir dockerfile outputOCI fs =
     (let bin = (if bu_Bin b = [] then ''buildctl'' else bu_Bin b);
          addr = (if bu_Addr b = [] then ''unix:///run/buildkit/buildkitd.sock'' else bu_Addr b)
      in if contextDir = [] \<or> dockerfile = [] \<or> outputOCI = [] then (fs, Some ArgumentsRequired)
         else and_then (os_step fs (MkdirAll fs (path_Dir outputOCI))) (\<lambda>fs.
           case bh_run bh bin [''--addr'', addr, ''build'', ''--frontend'', ''dockerfile.v0'', ''--local'', ''context='' @ contextDir,
                  ''--local'', ''dockerfile='' @ path_Dir dockerfile, ''--opt'', ''filename='' @ path_Base dockerfile,
                  ''--output'', ''type=oci,dest='' @ outputOCI] fs of
             (fs, None) \<Rightarrow> (fs, None)
           | (fs, Some out) \<Rightarrow> (fs, Some (BuildFailed (TrimSpace out)))))"

definition EnsureOCI :: "oci_codec \<Rightarrow> build_host \<Rightarrow> Builder \<Rightarrow> string \<Rightarrow> string \<Rightarrow> string \<Rightarrow> host_fs \<Rightarrow> host_fs outcome" where
  "EnsureOCI oc bh b contextDir dockerfile outputOCI fs =
     (if outputOCI \<noteq> [] \<and> validOCITar oc fs outputOCI then (fs, None)
      else (case oci_Build bh b contextDir dockerfile outputOCI fs of
          (fs, Some e) \<Rightarrow> if outputOCI \<noteq> [] \<and> validOCITar oc fs outputOCI then (fs, None) else (fs, Some e)
        | (fs, None) \<Rightarrow> (fs, None)))"

definition runPack :: "oci_codec \<Rightarrow> build_host \<Rightarrow> string \<Rightarrow> string list \<Rightarrow> string \<Rightarrow> host_fs \<Rightarrow> host_fs outcome" where
  "runPack oc bh bin args outputOCI fs =
     (case bh_run bh bin args fs of
        (fs, None) \<Rightarrow> (fs, None)
      | (fs, Some out) \<Rightarrow> if validOCITar oc fs outputOCI then (fs, None) else (fs, Some (PackFailed bin (TrimSpace out))))"

definition BuildWithPlan :: "oci_codec \<Rightarrow> build_host \<Rightarrow> Builder \<Rightarrow> Plan \<Rightarrow> host_fs \<Rightarrow> host_fs outcome" where
  "BuildWithPlan oc bh b p fs =
     (let args = [''build'', ''--format'', ''oci'', pl_ContextDir p, ''--out'', pl_OutputOCI p]
      in case pl_Engine p of
           EngineDockerfile \<Rightarrow>
             if pl_Dockerfile p = [] then (fs, Some NoDockerfile)
             else oci_Build bh b (pl_ContextDir p) (pl_Dockerfile p) (pl_OutputOCI p) fs
         | EngineNixpacks \<Rightarrow> runPack oc bh (firstNonEmpty [bu_NixpacksBin b, ''nixpacks'']) args (pl_OutputOCI p) fs
         | EngineRailpack \<Rightarrow> runPack oc bh (firstNonEmpty [bu_RailpackBin b, ''railpack'']) args (pl_OutputOCI p) fs
         | EngineStatic \<Rightarrow> (fs, Some NeedsPublishDir)
         | EngineBuildpacks \<Rightarrow> (fs, Some NoRunner))"

end
