(* ===== verification/Oci_Laws.thy ===== *)
theory Oci_Laws
  imports Oci_Image
begin

text \<open>
  What unpacking an image does: an abstract description of a layer as a list of changes to a tree, the
  proof that the code makes exactly these changes and leaves the rest of the host alone as long as no
  entry goes through a symbolic link, and what the root file system of a converted image runs.
\<close>

subsection \<open>Layers as changes of a tree\<close>

datatype layer_action =
    Skip
  | Hide "string list"
  | Clear "string list"
  | Mkdirs "string list"
  | Put "string list" "string option"
  | Link "string list" string

definition entry_rooted :: "string \<Rightarrow> bool" where
  "entry_rooted name = (name \<noteq> [] \<and> hd name = CHR ''/'')"

definition entry_parts :: "string \<Rightarrow> string list" where
  "entry_parts name = clean_parts (entry_rooted name) [] (Split (CHR ''/'') name)"

text \<open>
  What an entry asks for. Two names have no meaning inside of the image: the parent of the root and the
  root itself; nor has a whiteout of an empty name, of the directory or of its parent.
\<close>

definition whiteout_action :: "string list \<Rightarrow> string \<Rightarrow> layer_action option" where
  "whiteout_action dir base =
     (if base = ''.wh..wh..opq'' then Some (Clear dir)
      else if normal_elem (drop 4 base) then Some (Hide (dir @ [drop 4 base])) else None)"

definition entry_action :: "tar_entry \<Rightarrow> layer_action option" where
  "entry_action h =
     (let parts = entry_parts (th_Name h)
      in if \<not> entry_rooted (th_Name h) \<and> (parts = [] \<or> (hd parts = ''..'' \<and> tl parts \<noteq> [])) then Some Skip
         else if parts = [] \<or> ''..'' \<in> set parts then None
         else if HasPrefix (last parts) ''.wh.'' then whiteout_action (butlast parts) (last parts)
         else if th_Typeflag h = TypeDir then Some (Mkdirs parts)
         else if th_Typeflag h = TypeReg \<or> th_Typeflag h = TypeRegA then Some (Put parts (th_Data h))
         else if th_Typeflag h = TypeSymlink then Some (Link parts (th_Linkname h))
         else Some Skip)"

text \<open>The effect of a change, if it can be made.\<close>

fun overlay_step :: "file_tree \<Rightarrow> layer_action \<Rightarrow> file_tree option" where
  "overlay_step T Skip = Some T"
| "overlay_step T (Hide p) = Some (cut_tree p T)"
| "overlay_step T (Clear d) = Some (empty_dir d T)"
| "overlay_step T (Mkdirs p) = ov_mkdirs T p"
| "overlay_step T (Put p data) =
     (case ov_mkdirs T (butlast p) of
        None \<Rightarrow> None
      | Some T' \<Rightarrow> if T' p = Some FDir then None
                   else (case data of None \<Rightarrow> None | Some c \<Rightarrow> Some (T'(p \<mapsto> FFile c))))"
| "overlay_step T (Link p target) =
     (case ov_mkdirs T (butlast p) of
        None \<Rightarrow> None
      | Some T' \<Rightarrow> Some ((cut_tree p T')(p \<mapsto> FLink target)))"

fun overlay :: "file_tree \<Rightarrow> layer_action list \<Rightarrow> file_tree option" where
  "overlay T [] = Some T"
| "overlay T (a # as) = (case overlay_step T a of None \<Rightarrow> None | Some T' \<Rightarrow> overlay T' as)"

text \<open>A change stays off a set of links when its path does not lead through one of them.\<close>

fun off_links :: "string list list \<Rightarrow> layer_action \<Rightarrow> bool" where
  "off_links L Skip = True"
| "off_links L (Hide p) = list_all (\<lambda>l. \<not> strict_prefix l p) L"
| "off_links L (Clear d) = list_all (\<lambda>l. \<not> prefix l d) L"
| "off_links L (Mkdirs p) = list_all (\<lambda>l. \<not> prefix l p) L"
| "off_links L (Put p _) = list_all (\<lambda>l. \<not> prefix l p) L"
| "off_links L (Link p _) = (p \<in> set L \<and> list_all (\<lambda>l. \<not> strict_prefix l p) L)"

definition safe_entry :: "string list list \<Rightarrow> tar_entry \<Rightarrow> bool" where
  "safe_entry L h = (case entry_action h of None \<Rightarrow> False | Some a \<Rightarrow> off_links L a)"

definition links_in :: "string list list \<Rightarrow> file_tree \<Rightarrow> bool" where
  "links_in L T = (\<forall>q l. T q = Some (FLink l) \<longrightarrow> q \<in> set L)"

subsection \<open>Names of entries\<close>

lemma clean_parts_elems:
  assumes "list_all (\<lambda>p. CHR ''/'' \<notin> set p) ps" "list_all (\<lambda>p. p \<noteq> [] \<and> p \<noteq> ''.'' \<and> CHR ''/'' \<notin> set p) acc"
  shows "list_all (\<lambda>p. p \<noteq> [] \<and> p \<noteq> ''.'' \<and> CHR ''/'' \<notin> set p) (clean_parts r acc ps)"
  using assms
proof (induction r acc ps rule: clean_parts.induct)
  case (2 r acc p ps)
  then show ?case by (cases acc) (auto split: if_splits)
qed (simp add: list_all_iff)

lemma entry_parts_normals: "''..'' \<notin> set (entry_parts name) \<Longrightarrow> normals (entry_parts name)"
proof -
  assume nodots: "''..'' \<notin> set (entry_parts name)"
  have "list_all (\<lambda>p. CHR ''/'' \<notin> set p) (Split (CHR ''/'') name)"
    using Split_parts by (auto simp: list_all_iff)
  from clean_parts_elems [OF this, of "[]" "entry_rooted name"] show ?thesis
    using nodots by (auto simp: entry_parts_def list_all_iff normal_elem_def)
qed

lemma path_Clean_name:
  "path_Clean name =
     (if entry_rooted name then abs_path (entry_parts name)
      else if Join ''/'' (entry_parts name) = [] then ''.'' else Join ''/'' (entry_parts name))"
  by (cases "entry_rooted name") (simp_all add: path_Clean_def entry_rooted_def entry_parts_def abs_path_def Let_def)

lemma after_slash_rel:
  assumes "normals (es @ [e])"
  shows "after_slash (Join ''/'' (es @ [e])) = e"
proof (cases "es = []")
  case True
  then have "takeWhile (\<lambda>c. c \<noteq> CHR ''/'') (rev e) = rev e"
    using assms by (auto simp: takeWhile_eq_all_conv normal_elem_def)
  then have "after_slash e = e" unfolding after_slash_def by (simp only: rev_rev_ident)
  with True show ?thesis by simp
next
  case False
  then show ?thesis
    using assms by (simp add: Join_append after_slash_def takeWhile_rev_no_slash normal_elem_def)
qed

lemma path_Base_rel:
  assumes "normals (es @ [e])"
  shows "path_Base (Join ''/'' (es @ [e])) = e"
proof -
  have e: "e \<noteq> []" "last e \<noteq> CHR ''/''"
    using assms by (auto simp: normal_elem_def dest: last_in_set)
  have "Join ''/'' (es @ [e]) \<noteq> [] \<and> last (Join ''/'' (es @ [e])) \<noteq> CHR ''/''"
    using e by (cases "es = []") (simp_all add: Join_append)
  then show ?thesis
    using after_slash_rel [OF assms] e by (simp add: path_Base_def trim_no_slash)
qed

lemma entry_paths:
  assumes "normals rt" "normals (entry_parts name)" "entry_parts name \<noteq> []"
  shows "path_Clean name \<noteq> ''.''" "\<not> HasPrefix (path_Clean name) ''../''"
    "path_Join (abs_path rt) (path_Clean name) = abs_path (rt @ entry_parts name)"
    "path_Base (path_Clean name) = last (entry_parts name)"
proof -
  let ?ps = "entry_parts name"
  have join: "Join ''/'' ?ps \<noteq> []"
    using hd_Join [OF assms(2,3)] by simp
  have snoc: "butlast ?ps @ [last ?ps] = ?ps"
    using assms(3) by simp
  have split: "Split (CHR ''/'') (Join ''/'' ?ps) = ?ps"
    by (rule Split_rel [OF assms(2,3)])
  have "Join ''/'' ?ps \<noteq> ''.''"
  proof
    assume "Join ''/'' ?ps = ''.''"
    with split have "?ps = [''.'']" by simp
    with assms(2) show False by (simp add: normal_elem_def)
  qed
  then show "path_Clean name \<noteq> ''.''"
    using join by (simp add: path_Clean_name) (simp add: abs_path_def)
  have "\<not> HasPrefix (Join ''/'' ?ps) ''../''"
  proof
    assume "HasPrefix (Join ''/'' ?ps) ''../''"
    then have eq: "Join ''/'' ?ps = ''..'' @ CHR ''/'' # drop 3 (Join ''/'' ?ps)"
      using append_take_drop_id [of 3 "Join ''/'' ?ps"] by (simp add: HasPrefix_def numeral_3_eq_3)
    have "Split (CHR ''/'') (''..'' @ CHR ''/'' # drop 3 (Join ''/'' ?ps)) = ''..'' # Split (CHR ''/'') (drop 3 (Join ''/'' ?ps))"
      by (rule Split_append_sep) simp
    then have "hd ?ps = ''..''"
      using split eq by (metis list.sel(1))
    then show False
      using assms(2,3) by (cases ?ps) (auto simp: normal_elem_def)
  qed
  moreover have "\<not> HasPrefix (abs_path ?ps) ''../''"
    by (simp add: abs_path_def HasPrefix_def)
  ultimately show "\<not> HasPrefix (path_Clean name) ''../''"
    using join by (simp add: path_Clean_name)
  show "path_Join (abs_path rt) (path_Clean name) = abs_path (rt @ ?ps)"
    using assms join by (intro path_Join_abs) (auto simp: path_Clean_name)
  show "path_Base (path_Clean name) = last ?ps"
    using path_Base_rel [of "butlast ?ps" "last ?ps"] path_Base_abs [of "butlast ?ps" "last ?ps"] assms(2) join
    by (simp add: path_Clean_name snoc)
qed

subsection \<open>What the code does for an entry\<close>

fun act_ok :: "layer_action \<Rightarrow> bool" where
  "act_ok Skip = True"
| "act_ok (Hide p) = (normals p \<and> p \<noteq> [])"
| "act_ok (Clear d) = normals d"
| "act_ok (Mkdirs p) = (normals p \<and> p \<noteq> [])"
| "act_ok (Put p _) = (normals p \<and> p \<noteq> [])"
| "act_ok (Link p _) = (normals p \<and> p \<noteq> [])"

fun code_action :: "string list \<Rightarrow> host_fs \<Rightarrow> layer_action \<Rightarrow> host_fs outcome" where
  "code_action rt fs Skip = (fs, None)"
| "code_action rt fs (Hide p) = (ignoring fs (RemoveAll fs (abs_path (rt @ p))), None)"
| "code_action rt fs (Clear d) = (RemoveNames fs (abs_path (rt @ d)) (ReadDir fs (abs_path (rt @ d))), None)"
| "code_action rt fs (Mkdirs p) = os_step fs (MkdirAll fs (abs_path (rt @ p)))"
| "code_action rt fs (Put p data) =
     and_then (os_step fs (MkdirAll fs (abs_path (rt @ butlast p)))) (\<lambda>fs. write_entry fs (abs_path (rt @ p)) data)"
| "code_action rt fs (Link p target) =
     and_then (os_step fs (MkdirAll fs (abs_path (rt @ butlast p))))
       (\<lambda>fs. let fs = ignoring fs (RemoveAll fs (abs_path (rt @ p))) in os_step fs (os_Symlink fs target (abs_path (rt @ p))))"

lemma normals_butlast: "normals es \<Longrightarrow> normals (butlast es)"
  by (auto simp: list_all_iff dest: in_set_butlastD)

lemma entry_act_ok: "entry_action h = Some a \<Longrightarrow> act_ok a"
  using entry_parts_normals [of "th_Name h"] normals_butlast [of "entry_parts (th_Name h)"]
  by (auto simp: entry_action_def whiteout_action_def Let_def split: if_splits)

lemma path_Dir_root: "normals (rt @ p) \<Longrightarrow> p \<noteq> [] \<Longrightarrow> path_Dir (abs_path (rt @ p)) = abs_path (rt @ butlast p)"
  using path_Dir_abs [of "rt @ butlast p" "last p"] by simp

lemma skipped_name:
  assumes "\<not> entry_rooted name" "entry_parts name = [] \<or> (hd (entry_parts name) = ''..'' \<and> tl (entry_parts name) \<noteq> [])"
  shows "path_Clean name = ''.'' \<or> HasPrefix (path_Clean name) ''../''"
proof (cases "entry_parts name = []")
  case False
  then obtain x ps where "entry_parts name = ''..'' # x # ps"
    using assms(2) by (cases "entry_parts name"; cases "tl (entry_parts name)") auto
  then show ?thesis
    using assms(1) by (simp add: path_Clean_name HasPrefix_def)
qed (use assms in \<open>simp add: path_Clean_name\<close>)

lemma apply_entry_code:
  assumes "normals rt" "entry_action h = Some a"
  shows "apply_entry (abs_path rt) fs h = code_action rt fs a"
proof (cases "\<not> entry_rooted (th_Name h) \<and>
    (entry_parts (th_Name h) = [] \<or> (hd (entry_parts (th_Name h)) = ''..'' \<and> tl (entry_parts (th_Name h)) \<noteq> []))")
  case True
  then show ?thesis
    using assms(2) skipped_name [of "th_Name h"] by (auto simp: entry_action_def apply_entry_def Let_def)
next
  case False
  let ?ps = "entry_parts (th_Name h)"
  have ps: "?ps \<noteq> []" "''..'' \<notin> set ?ps"
    using False assms(2) by (auto simp: entry_action_def Let_def split: if_splits)
  have norm: "normals ?ps" by (rule entry_parts_normals [OF ps(2)])
  note paths = entry_paths [OF assms(1) norm ps(1)]
  have dir: "path_Dir (abs_path (rt @ ?ps)) = abs_path (rt @ butlast ?ps)"
    using path_Dir_root [of rt ?ps] assms(1) norm ps(1) by simp
  have hide: "path_Join (abs_path (rt @ butlast ?ps)) e = abs_path (rt @ butlast ?ps @ [e])" if "normal_elem e" for e
    using path_Join_abs [of "rt @ butlast ?ps" "[e]" e] assms(1) norm normals_butlast that by simp
  have trim: "TrimPrefix (last ?ps) ''.wh.'' = drop 4 (last ?ps)" if "HasPrefix (last ?ps) ''.wh.''"
    using that by (simp add: TrimPrefix_def eval_nat_numeral)
  show ?thesis
    using assms(2) False ps hide trim
    by (auto simp: entry_action_def apply_entry_def whiteout_action_def apply_whiteout_def paths dir Let_def split: if_splits)
qed

subsection \<open>The code makes the changes\<close>

definition image_dir :: "string list \<Rightarrow> string list list \<Rightarrow> host_fs \<Rightarrow> bool" where
  "image_dir rt L fs =
     (rt \<noteq> [] \<and> normals rt \<and> rooted rt fs \<and> good_tree (subtree rt fs) \<and> links_in L (subtree rt fs))"

lemma image_dir_becomes:
  assumes "image_dir rt L fs" "tree_becomes rt fs T fs'" "good_tree T" "links_in L T"
  shows "image_dir rt L fs'"
  using assms tree_becomes_rooted [OF assms(2)] by (auto simp: image_dir_def tree_becomes_def good_tree_def)

lemma links_off:
  "links_in L T \<Longrightarrow> list_all (\<lambda>l. \<not> prefix l p) L \<Longrightarrow> link_free T p"
  by (auto simp: links_in_def link_free_def list_all_iff)

lemma links_off_above:
  "links_in L T \<Longrightarrow> list_all (\<lambda>l. \<not> strict_prefix l p) L \<Longrightarrow> strict_prefix q p \<Longrightarrow> T q \<noteq> Some (FLink l)"
  by (auto simp: links_in_def list_all_iff)

lemma links_off_parent:
  assumes "links_in L T" "list_all (\<lambda>l. \<not> strict_prefix l p) L" "p \<noteq> []"
  shows "link_free T (butlast p)"
proof -
  have "strict_prefix q p" if "prefix q (butlast p)" for q
    using that assms(3) by (cases p rule: rev_cases) (auto simp: strict_prefix_def)
  then show ?thesis
    using links_off_above [OF assms(1,2)] by (auto simp: link_free_def)
qed

lemma links_in_mkdirs: "links_in L T \<Longrightarrow> ov_mkdirs T p = Some T' \<Longrightarrow> links_in L T'"
  by (auto simp: links_in_def dest!: ov_mkdirs_Some split: if_splits)

lemma links_in_cut: "links_in L T \<Longrightarrow> links_in L (cut_tree p T)"
  by (auto simp: links_in_def cut_tree_def)

lemma good_tree_empty_dir: "good_tree T \<Longrightarrow> good_tree (empty_dir d T)"
  unfolding good_tree_def closed_tree_def empty_dir_def by (auto dest: prefix_order.less_le_trans [OF _ prefixI])

fun made :: "string list \<Rightarrow> string list list \<Rightarrow> host_fs \<Rightarrow> file_tree option \<Rightarrow> host_fs outcome \<Rightarrow> bool" where
  "made rt L fs None (fs', err) = (outside_same rt fs fs' \<and> err \<noteq> None)"
| "made rt L fs (Some T) (fs', err) = (tree_becomes rt fs T fs' \<and> image_dir rt L fs' \<and> err = None)"

lemma made_bind:
  assumes "made rt L fs T r"
    "\<And>fs' T'. T = Some T' \<Longrightarrow> image_dir rt L fs' \<Longrightarrow> subtree rt fs' = T' \<Longrightarrow> outside_same rt fs fs' \<Longrightarrow>
       made rt L fs' (f T') (g fs')"
  shows "made rt L fs (case T of None \<Rightarrow> None | Some T' \<Rightarrow> f T') (and_then r g)"
proof (cases T)
  case None
  then show ?thesis
    using assms(1) by (cases r) (auto simp: and_then_def)
next
  case (Some T')
  obtain fs' where r: "r = (fs', None)" "tree_becomes rt fs T' fs'" "image_dir rt L fs'"
    using assms(1) Some by (cases r) auto
  have step: "made rt L fs' (f T') (g fs')"
    using assms(2) [OF Some r(3)] r(2) by (simp add: tree_becomes_def)
  obtain fs'' err where g: "g fs' = (fs'', err)" by force
  show ?thesis
  proof (cases "f T'")
    case None
    then show ?thesis
      using step r(2) by (simp add: Some r(1) g and_then_def tree_becomes_def outside_same_def)
  next
    case (Some T'')
    then show ?thesis
      using step tree_becomes_trans [OF r(2)] by (simp add: \<open>T = Some T'\<close> r(1) g and_then_def)
  qed
qed

lemma outside_same_refl [simp]: "outside_same rt fs fs"
  by (simp add: outside_same_def)

lemma made_mkdirs:
  assumes "image_dir rt L fs" "normals p" "link_free (subtree rt fs) p"
  shows "made rt L fs (ov_mkdirs (subtree rt fs) p) (os_step fs (MkdirAll fs (abs_path (rt @ p))))"
proof -
  have dir: "rooted rt fs" "rt \<noteq> []" "normals (rt @ p)" "good_tree (subtree rt fs)" "links_in L (subtree rt fs)"
    using assms by (auto simp: image_dir_def)
  note mkd = MkdirAll_tree [OF dir(1-3) assms(3)]
  show ?thesis
  proof (cases "ov_mkdirs (subtree rt fs) p")
    case None
    then show ?thesis
      using mkd by (auto simp: mkdirs_done_def os_step_def)
  next
    case (Some T)
    then obtain fs' where "MkdirAll fs (abs_path (rt @ p)) = Inr fs'" "tree_becomes rt fs T fs'"
      using mkd by (auto simp: mkdirs_done_def)
    then show ?thesis
      using Some image_dir_becomes [OF assms(1)] good_tree_mkdirs [OF dir(4) assms(2)] links_in_mkdirs [OF dir(5)]
      by (simp add: os_step_def)
  qed
qed

lemma made_write:
  assumes "image_dir rt L fs" "normals p" "p \<noteq> []" "dirs_above (subtree rt fs) p" "list_all (\<lambda>l. \<not> prefix l p) L"
  shows "made rt L fs (if subtree rt fs p = Some FDir then None
                       else (case data of None \<Rightarrow> None | Some c \<Rightarrow> Some ((subtree rt fs)(p \<mapsto> FFile c))))
           (write_entry fs (abs_path (rt @ p)) data)"
proof -
  have dir: "rooted rt fs" "normals (rt @ p)" "good_tree (subtree rt fs)" "links_in L (subtree rt fs)"
    using assms by (auto simp: image_dir_def)
  have nolink: "\<forall>l. subtree rt fs p \<noteq> Some (FLink l)"
    using links_off [OF dir(4) assms(5)] by (auto simp: link_free_def)
  note written = write_file_tree [OF dir(1,2) assms(3,4) nolink]
  show ?thesis
  proof (cases "subtree rt fs p = Some FDir")
    case True
    then show ?thesis
      using written [of "[]"] written [of "the data"]
      by (cases data) (auto simp: write_entry_def and_then_def os_step_def)
  next
    case False
    show ?thesis
    proof (cases data)
      case None
      then show ?thesis
        using False written [of "[]"] by (auto simp: write_entry_def and_then_def os_step_def tree_becomes_def)
    next
      case (Some c)
      let ?T = "(subtree rt fs)(p \<mapsto> FFile c)"
      obtain fs' where fs': "write_file fs (abs_path (rt @ p)) c = Inr fs'" "tree_becomes rt fs ?T fs'"
        using False written [of c] by auto
      have "good_tree ?T"
        using good_tree_upd [OF dir(3) assms(2-4)] False by simp
      moreover have "links_in L ?T"
        using dir(4) by (simp add: links_in_def)
      ultimately show ?thesis
        using False fs' Some image_dir_becomes [OF assms(1) fs'(2)] by (simp add: write_entry_def os_step_def)
    qed
  qed
qed

lemma made_link:
  assumes "image_dir rt L fs" "normals p" "p \<noteq> []" "dirs_above (subtree rt fs) p"
    "p \<in> set L" "list_all (\<lambda>l. \<not> strict_prefix l p) L"
  shows "made rt L fs (Some ((cut_tree p (subtree rt fs))(p \<mapsto> FLink target)))
           (let fs = ignoring fs (RemoveAll fs (abs_path (rt @ p))) in os_step fs (os_Symlink fs target (abs_path (rt @ p))))"
proof -
  let ?fs = "ignoring fs (RemoveAll fs (abs_path (rt @ p)))"
  let ?T = "(cut_tree p (subtree rt fs))(p \<mapsto> FLink target)"
  have dir: "rooted rt fs" "normals (rt @ p)" "good_tree (subtree rt fs)" "links_in L (subtree rt fs)"
    using assms by (auto simp: image_dir_def)
  have cut: "tree_becomes rt fs (cut_tree p (subtree rt fs)) ?fs"
    using links_off_above [OF dir(4) assms(6)] by (intro RemoveAll_tree [OF dir(1,2) assms(3) dir(3)]) blast
  have good: "good_tree (cut_tree p (subtree rt fs))" "links_in L (cut_tree p (subtree rt fs))"
    by (auto intro: good_tree_cut [OF dir(3) assms(3)] links_in_cut [OF dir(4)])
  have "image_dir rt L ?fs"
    by (rule image_dir_becomes [OF assms(1) cut good])
  then have fs: "rooted rt ?fs" "subtree rt ?fs = cut_tree p (subtree rt fs)"
    using cut by (auto simp: image_dir_def tree_becomes_def)
  have above: "dirs_above (subtree rt ?fs) p" "subtree rt ?fs p = None"
    using assms(4) by (auto simp: fs(2) cut_tree_def dirs_above_def strict_prefix_def dest: prefix_order.antisym)
  obtain fs' where fs': "os_Symlink ?fs target (abs_path (rt @ p)) = Inr fs'" "tree_becomes rt ?fs ?T fs'"
    using symlink_tree [OF fs(1) dir(2) assms(3) above, of target] by (auto simp: fs(2))
  have "good_tree ?T"
    using good_tree_upd [OF good(1) assms(2,3)] above by (simp add: fs(2))
  moreover have "links_in L ?T"
    using good(2) assms(5) by (simp add: links_in_def)
  ultimately have "image_dir rt L fs'"
    using image_dir_becomes [OF \<open>image_dir rt L ?fs\<close> fs'(2)] by simp
  then show ?thesis
    using fs' tree_becomes_trans [OF cut fs'(2)] by (simp add: os_step_def Let_def)
qed

lemma made_action:
  assumes "image_dir rt L fs" "act_ok a" "off_links L a"
  shows "made rt L fs (overlay_step (subtree rt fs) a) (code_action rt fs a)"
proof -
  have dir: "rooted rt fs" "rt \<noteq> []" "normals rt" "good_tree (subtree rt fs)" "links_in L (subtree rt fs)"
    using assms(1) by (auto simp: image_dir_def)
  have parent: "made rt L fs (ov_mkdirs (subtree rt fs) (butlast p)) (os_step fs (MkdirAll fs (abs_path (rt @ butlast p))))"
    if "normals p" "p \<noteq> []" "list_all (\<lambda>l. \<not> strict_prefix l p) L" for p
    by (rule made_mkdirs [OF assms(1) normals_butlast [OF that(1)] links_off_parent [OF dir(5) that(3,2)]])
  show ?thesis
  proof (cases a)
    case Skip
    then show ?thesis using assms(1) tree_becomes_refl by simp
  next
    case (Hide p)
    have "tree_becomes rt fs (cut_tree p (subtree rt fs)) (ignoring fs (RemoveAll fs (abs_path (rt @ p))))"
      using links_off_above [OF dir(5)] assms(2,3) Hide dir by (intro RemoveAll_tree) auto
    then show ?thesis
      using Hide assms(2) image_dir_becomes [OF assms(1)] good_tree_cut [OF dir(4)] links_in_cut [OF dir(5)] by simp
  next
    case (Clear d)
    have "tree_becomes rt fs (empty_dir d (subtree rt fs)) (RemoveNames fs (abs_path (rt @ d)) (ReadDir fs (abs_path (rt @ d))))"
      using links_off [OF dir(5)] assms(2,3) Clear dir by (intro empty_dir_tree) auto
    moreover have "links_in L (empty_dir d (subtree rt fs))"
      using dir(5) by (auto simp: links_in_def empty_dir_def)
    ultimately show ?thesis
      using Clear image_dir_becomes [OF assms(1)] good_tree_empty_dir [OF dir(4)] by simp
  next
    case (Mkdirs p)
    then show ?thesis
      using made_mkdirs [OF assms(1)] links_off [OF dir(5)] assms(2,3) by simp
  next
    case (Put p data)
    have p: "normals p" "p \<noteq> []" "list_all (\<lambda>l. \<not> prefix l p) L" "list_all (\<lambda>l. \<not> strict_prefix l p) L"
      using Put assms(2,3) by (auto simp: list_all_iff strict_prefix_def)
    show ?thesis
      unfolding Put overlay_step.simps code_action.simps
      using made_write [OF _ p(1,2) mkdirs_above p(3)] by (intro made_bind [OF parent [OF p(1,2,4)]]) blast
  next
    case (Link p target)
    have p: "normals p" "p \<noteq> []" "p \<in> set L" "list_all (\<lambda>l. \<not> strict_prefix l p) L"
      using Link assms(2,3) by auto
    show ?thesis
      unfolding Link overlay_step.simps code_action.simps
      using made_link [OF _ p(1,2) mkdirs_above p(3,4)] by (intro made_bind [OF parent [OF p(1,2,4)]]) blast
  qed
qed

subsection \<open>Unpacking an archive\<close>

text \<open>
  The layers of an archive as streams of entries; a layer that is not in the archive is a stream that breaks
  off at once.
\<close>

definition find_in :: "oci_codec \<Rightarrow> string \<Rightarrow> string list \<Rightarrow> (build_error, string option) result" where
  "find_in oc archive names = (case oc_tar oc archive of (hs, intact) \<Rightarrow> scan_tar names hs intact)"

definition blob_in :: "oci_codec \<Rightarrow> string \<Rightarrow> string \<Rightarrow> string option" where
  "blob_in oc archive digest = (case find_in oc archive [blob_name digest] of Inr (Some d) \<Rightarrow> Some d | _ \<Rightarrow> None)"

definition layer_in :: "oci_codec \<Rightarrow> string \<Rightarrow> string \<Rightarrow> tar_stream" where
  "layer_in oc archive digest =
     (case blob_in oc archive digest of None \<Rightarrow> ([], False) | Some d \<Rightarrow> layer_stream oc d)"

definition manifest_in :: "oci_codec \<Rightarrow> string \<Rightarrow> string list \<Rightarrow> ociManifest option" where
  "manifest_in oc archive names =
     (case find_in oc archive names of
        Inr (Some idx) \<Rightarrow>
          if idx = [] then None
          else (case oc_index oc idx of
              Some (digest # _) \<Rightarrow> (case blob_in oc archive digest of None \<Rightarrow> None | Some m \<Rightarrow> oc_manifest oc m)
            | _ \<Rightarrow> None)
      | _ \<Rightarrow> None)"

definition layers_in :: "oci_codec \<Rightarrow> string \<Rightarrow> tar_stream list option" where
  "layers_in oc archive =
     map_option (\<lambda>m. map (layer_in oc archive) (om_Layers m)) (manifest_in oc archive [''index.json'', ''./index.json''])"

fun overlay_streams :: "file_tree \<Rightarrow> tar_stream list \<Rightarrow> file_tree option" where
  "overlay_streams T [] = Some T"
| "overlay_streams T ((hs, intact) # ss) =
     (case overlay T (List.map_filter entry_action hs) of
        None \<Rightarrow> None
      | Some T' \<Rightarrow> if intact then overlay_streams T' ss else None)"

definition overlay_image :: "oci_codec \<Rightarrow> string \<Rightarrow> file_tree \<Rightarrow> file_tree option" where
  "overlay_image oc archive T = (case layers_in oc archive of None \<Rightarrow> None | Some ss \<Rightarrow> overlay_streams T ss)"

definition safe_image :: "string list list \<Rightarrow> oci_codec \<Rightarrow> string \<Rightarrow> bool" where
  "safe_image L oc archive =
     (case layers_in oc archive of None \<Rightarrow> True | Some ss \<Rightarrow> list_all (\<lambda>(hs, intact). list_all (safe_entry L) hs) ss)"

text \<open>A file that no link leads to.\<close>

definition plain_file :: "host_fs \<Rightarrow> string list \<Rightarrow> string \<Rightarrow> bool" where
  "plain_file fs op content =
     (normals op \<and> op \<noteq> [] \<and> (\<forall>q. q \<noteq> [] \<longrightarrow> strict_prefix q op \<longrightarrow> map_of (fs_nodes fs) q = Some FDir) \<and>
      map_of (fs_nodes fs) op = Some (FFile content))"

lemma plain_file_resolve: "plain_file fs op content \<Longrightarrow> resolve fs follow (abs_path op) = Inr op"
  unfolding plain_file_def
  using resolve_abs [of op fs follow] walk_dirs [of op "fs_nodes fs" "[]" follow 40] by simp

lemma plain_file_read: "plain_file fs op content \<Longrightarrow> read_file fs (abs_path op) = Inr content"
  by (simp add: read_file_def stat_node_def plain_file_resolve node_at_def) (simp add: plain_file_def)

lemma plain_file_outside:
  assumes "plain_file fs op content" "outside_same rt fs fs'" "\<not> prefix rt op"
  shows "plain_file fs' op content"
proof -
  have "\<not> prefix rt q" if "strict_prefix q op" for q
    using that assms(3) prefix_order.trans [of rt q op] by (auto simp: strict_prefix_def)
  then show ?thesis
    using assms by (simp add: plain_file_def outside_same_def)
qed

lemma scan_archive_plain: "plain_file fs op content \<Longrightarrow> scan_archive oc fs (abs_path op) names = find_in oc content names"
  by (simp add: scan_archive_def open_tar_def plain_file_read find_in_def)

lemma readBlob_plain:
  "plain_file fs op content \<Longrightarrow>
     (case blob_in oc content digest of
        Some d \<Rightarrow> readBlob oc fs (abs_path op) digest = Inr d
      | None \<Rightarrow> \<exists>e. readBlob oc fs (abs_path op) digest = Inl e)"
  by (auto simp: readBlob_def scan_archive_plain blob_in_def split: sum.splits option.splits)

lemma made_entries:
  assumes "image_dir rt L fs" "list_all (safe_entry L) hs"
  shows "made rt L fs (case overlay (subtree rt fs) (List.map_filter entry_action hs) of
                         None \<Rightarrow> None | Some T \<Rightarrow> if intact then Some T else None)
           (apply_entries (abs_path rt) intact fs hs)"
  using assms
proof (induction hs arbitrary: fs)
  case Nil
  then show ?case
    using tree_becomes_refl by (simp add: List.map_filter_def)
next
  case (Cons h hs)
  obtain a where a: "entry_action h = Some a" "off_links L a"
    using Cons.prems(2) by (auto simp: safe_entry_def split: option.splits)
  have norm: "normals rt"
    using Cons.prems(1) by (simp add: image_dir_def)
  have step: "made rt L fs (overlay_step (subtree rt fs) a) (apply_entry (abs_path rt) fs h)"
    using made_action [OF Cons.prems(1) entry_act_ok [OF a(1)] a(2)] apply_entry_code [OF norm a(1)] by simp
  let ?f = "\<lambda>T. case overlay T (List.map_filter entry_action hs) of None \<Rightarrow> None | Some T \<Rightarrow> if intact then Some T else None"
  have "made rt L fs (case overlay_step (subtree rt fs) a of None \<Rightarrow> None | Some T \<Rightarrow> ?f T)
          (and_then (apply_entry (abs_path rt) fs h) (\<lambda>fs. apply_entries (abs_path rt) intact fs hs))"
    using Cons.IH Cons.prems(2) by (intro made_bind [OF step]) fastforce
  moreover have "(case overlay (subtree rt fs) (List.map_filter entry_action (h # hs)) of
                   None \<Rightarrow> None | Some T \<Rightarrow> if intact then Some T else None) =
                 (case overlay_step (subtree rt fs) a of None \<Rightarrow> None | Some T \<Rightarrow> ?f T)"
    using a(1) by (simp add: List.map_filter_def split: option.splits)
  ultimately show ?case by simp
qed

lemma made_layers:
  assumes "image_dir rt L fs" "plain_file fs op archive" "\<not> prefix rt op"
    "list_all (\<lambda>(hs, intact). list_all (safe_entry L) hs) (map (layer_in oc archive) ds)"
  shows "made rt L fs (overlay_streams (subtree rt fs) (map (layer_in oc archive) ds))
           (apply_layers oc (abs_path op) (abs_path rt) fs ds)"
  using assms
proof (induction ds arbitrary: fs)
  case Nil
  then show ?case using tree_becomes_refl by simp
next
  case (Cons digest ds)
  note blob = readBlob_plain [OF Cons.prems(2), of oc digest]
  show ?case
  proof (cases "blob_in oc archive digest")
    case None
    then show ?thesis
      using blob by (auto simp: layer_in_def)
  next
    case (Some data)
    obtain hs intact where s: "layer_stream oc data = (hs, intact)" by force
    have step: "made rt L fs (case overlay (subtree rt fs) (List.map_filter entry_action hs) of
                    None \<Rightarrow> None | Some T \<Rightarrow> if intact then Some T else None) (applyLayer oc data (abs_path rt) fs)"
      using Cons.prems(1,4) Some s by (simp add: applyLayer_def made_entries layer_in_def)
    have "made rt L fs
        (case (case overlay (subtree rt fs) (List.map_filter entry_action hs) of
                 None \<Rightarrow> None | Some T \<Rightarrow> if intact then Some T else None) of
           None \<Rightarrow> None | Some T \<Rightarrow> overlay_streams T (map (layer_in oc archive) ds))
        (and_then (applyLayer oc data (abs_path rt) fs) (\<lambda>fs. apply_layers oc (abs_path op) (abs_path rt) fs ds))"
    proof (rule made_bind [OF step])
      fix fs' T' assume fs': "image_dir rt L fs'" "subtree rt fs' = T'" "outside_same rt fs fs'"
      have "plain_file fs' op archive"
        by (rule plain_file_outside [OF Cons.prems(2) fs'(3) assms(3)])
      then show "made rt L fs' (overlay_streams T' (map (layer_in oc archive) ds))
          (apply_layers oc (abs_path op) (abs_path rt) fs' ds)"
        using Cons.IH [OF fs'(1)] Cons.prems(3,4) fs'(2) by simp
    qed
    moreover have "layer_in oc archive digest = (hs, intact)"
      using Some s by (simp add: layer_in_def)
    ultimately show ?thesis
      using blob Some by (simp split: option.splits if_splits)
  qed
qed

text \<open>Reading the index and the manifest of an archive.\<close>

lemma unpackOCI_manifest:
  assumes "plain_file fs op archive"
  shows "case manifest_in oc archive [''index.json'', ''./index.json''] of
           None \<Rightarrow> \<exists>e. unpackOCI oc (abs_path op) rd fs = (fs, Some e)
         | Some m \<Rightarrow> unpackOCI oc (abs_path op) rd fs = apply_layers oc (abs_path op) rd fs (om_Layers m)"
proof (cases "find_in oc archive [''index.json'', ''./index.json'']")
  case (Inr found)
  show ?thesis
  proof (cases "found = None \<or> found = Some [] \<or> oc_index oc (the found) = None \<or> oc_index oc (the found) = Some []")
    case True
    then show ?thesis
      by (auto simp: unpackOCI_def manifest_in_def scan_archive_plain [OF assms] Inr split: option.splits)
  next
    case False
    then obtain idx digest ds where idx: "found = Some idx" "idx \<noteq> []" "oc_index oc idx = Some (digest # ds)"
      by (cases found; cases "oc_index oc (the found)"; cases "the (oc_index oc (the found))") auto
    show ?thesis
      using readBlob_plain [OF assms, of oc digest] idx
      by (cases "blob_in oc archive digest")
        (auto simp: unpackOCI_def manifest_in_def scan_archive_plain [OF assms] Inr split: option.splits)
  qed
qed (simp add: unpackOCI_def manifest_in_def scan_archive_plain [OF assms])

lemma made_unpack:
  assumes "image_dir rt L fs" "plain_file fs op archive" "\<not> prefix rt op" "safe_image L oc archive"
  shows "made rt L fs (overlay_image oc archive (subtree rt fs)) (unpackOCI oc (abs_path op) (abs_path rt) fs)"
proof (cases "manifest_in oc archive [''index.json'', ''./index.json'']")
  case None
  then show ?thesis
    using unpackOCI_manifest [OF assms(2), of oc "abs_path rt"] by (auto simp: overlay_image_def layers_in_def)
next
  case (Some m)
  then have "list_all (\<lambda>(hs, intact). list_all (safe_entry L) hs) (map (layer_in oc archive) (om_Layers m))"
    using assms(4) by (simp add: safe_image_def layers_in_def)
  then show ?thesis
    using made_layers [OF assms(1-3)] Some unpackOCI_manifest [OF assms(2), of oc "abs_path rt"]
    by (simp add: overlay_image_def layers_in_def)
qed

subsection \<open>Converting an image\<close>

definition config_in :: "oci_codec \<Rightarrow> string \<Rightarrow> imageConfig option" where
  "config_in oc archive =
     (case manifest_in oc archive [''index.json''] of
        None \<Rightarrow> None
      | Some m \<Rightarrow> (case blob_in oc archive (om_Config m) of None \<Rightarrow> None | Some c \<Rightarrow> oc_config oc c))"

lemma readOCIConfig_plain:
  assumes "plain_file fs op archive" "config_in oc archive = Some cfg"
  shows "readOCIConfig oc fs (abs_path op) = Inr cfg"
proof -
  obtain m c where m: "manifest_in oc archive [''index.json''] = Some m" "blob_in oc archive (om_Config m) = Some c"
      "oc_config oc c = Some cfg"
    using assms(2) by (auto simp: config_in_def split: option.splits)
  obtain idx digest ds md where "find_in oc archive [''index.json''] = Inr (Some idx)" "oc_index oc idx = Some (digest # ds)"
      "blob_in oc archive digest = Some md" "oc_manifest oc md = Some m"
    using m(1) by (auto simp: manifest_in_def split: sum.splits option.splits if_splits list.splits)
  then show ?thesis
    using m readBlob_plain [OF assms(1), of oc digest] readBlob_plain [OF assms(1), of oc "om_Config m"]
    by (simp add: readOCIConfig_def scan_archive_plain [OF assms(1)])
qed

text \<open>The place of the init script, and the tree with the script in it.\<close>

abbreviation init_path :: "string list" where
  "init_path \<equiv> [''sbin'', ''init'']"

definition with_init :: "string \<Rightarrow> file_tree \<Rightarrow> file_tree option" where
  "with_init script T =
     (case ov_mkdirs T [''sbin''] of
        None \<Rightarrow> None
      | Some T' \<Rightarrow> if T' init_path = Some FDir then None else Some (T'(init_path \<mapsto> FFile script)))"

lemma os_Remove_tree:
  assumes "image_dir rt L fs" "normals p" "p \<noteq> []" "dirs_above (subtree rt fs) p" "subtree rt fs p \<noteq> Some FDir"
  shows "case subtree rt fs p of
           None \<Rightarrow> os_Remove fs (abs_path (rt @ p)) = Inl ENOENT
         | Some n \<Rightarrow> \<exists>fs'. os_Remove fs (abs_path (rt @ p)) = Inr fs' \<and>
                       tree_becomes rt fs (cut_tree p (subtree rt fs)) fs' \<and> image_dir rt L fs'"
proof -
  have dir: "rooted rt fs" "normals (rt @ p)" "good_tree (subtree rt fs)" "links_in L (subtree rt fs)"
    using assms by (auto simp: image_dir_def)
  have res: "resolve fs False (abs_path (rt @ p)) = Inr (rt @ p)"
    using resolve_in_tree [OF dir(1,2), of False] assms(4) by (simp add: dirs_above_def)
  have "image_dir rt L (del_tree (rt @ p) fs)"
    by (rule image_dir_becomes [OF assms(1) del_tree_tree [OF assms(3)] good_tree_cut [OF dir(3) assms(3)] links_in_cut [OF dir(4)]])
  moreover have "node_at (fs_nodes fs) (rt @ p) = subtree rt fs p"
    by (simp add: subtree_def)
  ultimately show ?thesis
    using del_tree_tree [OF assms(3), of rt fs] assms(5)
    by (auto simp: os_Remove_def res split: option.splits fnode.splits)
qed

lemma cut_tree_leaf: "good_tree T \<Longrightarrow> T p \<noteq> Some FDir \<Longrightarrow> (cut_tree p T)(p \<mapsto> n) = T(p \<mapsto> n)"
proof
  fix q
  assume good: "good_tree T" "T p \<noteq> Some FDir"
  have "T q = None" if "strict_prefix p q"
    using closed_tree_prefix [OF _ _ that, of T] good by (cases "T q") (simp_all add: good_tree_def)
  then show "((cut_tree p T)(p \<mapsto> n)) q = (T(p \<mapsto> n)) q"
    by (auto simp: cut_tree_def strict_prefix_def)
qed

lemma made_new_file:
  assumes "image_dir rt L fs" "normals p" "p \<noteq> []" "dirs_above (subtree rt fs) p" "subtree rt fs p = None"
  shows "made rt L fs (Some ((subtree rt fs)(p \<mapsto> FFile c))) (os_step fs (write_file fs (abs_path (rt @ p)) c))"
proof -
  have dir: "rooted rt fs" "normals (rt @ p)" "good_tree (subtree rt fs)" "links_in L (subtree rt fs)"
    using assms by (auto simp: image_dir_def)
  obtain fs' where fs': "write_file fs (abs_path (rt @ p)) c = Inr fs'"
      "tree_becomes rt fs ((subtree rt fs)(p \<mapsto> FFile c)) fs'"
    using write_file_tree [OF dir(1,2) assms(3,4)] assms(5) by auto
  have "good_tree ((subtree rt fs)(p \<mapsto> FFile c))"
    by (rule good_tree_upd [OF dir(3) assms(2-4)]) (simp add: assms(5))
  moreover have "links_in L ((subtree rt fs)(p \<mapsto> FFile c))"
    using dir(4) by (simp add: links_in_def)
  ultimately show ?thesis
    using fs' image_dir_becomes [OF assms(1) fs'(2)] by (simp add: os_step_def)
qed

text \<open>Removing what is in the place of a file and writing it.\<close>

definition replace_file :: "host_fs \<Rightarrow> string \<Rightarrow> string \<Rightarrow> host_fs outcome" where
  "replace_file fs dst c =
     (case os_Remove fs dst of
        Inl e \<Rightarrow> if e = ENOENT then os_step fs (write_file fs dst c) else (fs, Some (FsError e))
      | Inr fs \<Rightarrow> os_step fs (write_file fs dst c))"

lemma made_replace:
  assumes "image_dir rt L fs" "normals p" "p \<noteq> []" "dirs_above (subtree rt fs) p" "subtree rt fs p \<noteq> Some FDir"
  shows "made rt L fs (Some ((subtree rt fs)(p \<mapsto> FFile c))) (replace_file fs (abs_path (rt @ p)) c)"
proof (cases "subtree rt fs p")
  case None
  then show ?thesis
    using made_new_file [OF assms(1-4)] os_Remove_tree [OF assms] by (simp add: replace_file_def)
next
  case (Some n)
  then obtain fs' where fs': "os_Remove fs (abs_path (rt @ p)) = Inr fs'"
      "tree_becomes rt fs (cut_tree p (subtree rt fs)) fs'" "image_dir rt L fs'"
    using os_Remove_tree [OF assms] by auto
  have sub: "subtree rt fs' = cut_tree p (subtree rt fs)"
    using fs'(2) by (simp add: tree_becomes_def)
  have "dirs_above (subtree rt fs') p" "subtree rt fs' p = None"
    using assms(4) by (auto simp: sub cut_tree_def dirs_above_def strict_prefix_def dest: prefix_order.antisym)
  note new = made_new_file [OF fs'(3) assms(2,3) this, of c]
  have "(cut_tree p (subtree rt fs))(p \<mapsto> FFile c) = (subtree rt fs)(p \<mapsto> FFile c)"
    using assms(1,5) by (intro cut_tree_leaf) (simp_all add: image_dir_def)
  then show ?thesis
    using new tree_becomes_trans [OF fs'(2)]
    by (cases "os_step fs' (write_file fs' (abs_path (rt @ p)) c)") (simp add: replace_file_def fs'(1) sub)
qed

lemma made_init:
  assumes "image_dir rt L fs" "list_all (\<lambda>l. \<not> prefix l [''sbin'']) L" "with_init script (subtree rt fs) = Some T"
  shows "made rt L fs (Some T) (InstallInit (abs_path rt) script fs)"
proof -
  have norm: "normals rt" "normals [''sbin'']" "normals init_path"
    using assms(1) by (auto simp: image_dir_def normal_elem_def)
  have dst: "path_Join (abs_path rt) ''sbin/init'' = abs_path (rt @ init_path)"
    using path_Join_abs [OF norm(1,3), of "''sbin/init''"] by simp
  have dir: "path_Dir (abs_path (rt @ init_path)) = abs_path (rt @ [''sbin''])"
    using path_Dir_root [of rt init_path] norm by simp
  obtain T1 where T1: "ov_mkdirs (subtree rt fs) [''sbin''] = Some T1" "T1 init_path \<noteq> Some FDir"
      "T = T1(init_path \<mapsto> FFile script)"
    using assms(3) by (auto simp: with_init_def split: option.splits if_splits)
  have "made rt L fs (Some T1) (os_step fs (MkdirAll fs (abs_path (rt @ [''sbin'']))))"
    using made_mkdirs [OF assms(1) norm(2)] links_off [of L "subtree rt fs"] assms(1,2) T1(1) by (simp add: image_dir_def)
  then have "made rt L fs (case Some T1 of None \<Rightarrow> None | Some T' \<Rightarrow> Some (T'(init_path \<mapsto> FFile script)))
      (InstallInit (abs_path rt) script fs)"
    unfolding InstallInit_def dst dir Let_def replace_file_def [symmetric]
  proof (rule made_bind)
    fix fs' T' assume fs': "Some T1 = Some T'" "image_dir rt L fs'" "subtree rt fs' = T'"
    then have "dirs_above (subtree rt fs') init_path"
      using mkdirs_above [of "subtree rt fs" init_path] T1(1) by auto
    then show "made rt L fs' (Some (T'(init_path \<mapsto> FFile script))) (replace_file fs' (abs_path (rt @ init_path)) script)"
      using made_replace [OF fs'(2) norm(3)] fs' T1(2) by simp
  qed
  then show ?thesis
    using T1(3) by simp
qed

end
