(* ===== verification/Oci_Properties.thy ===== *)
theory Oci_Properties
  imports Oci_Laws
begin

text \<open>
  The properties of the image builder: unpacking an image makes the tree its layers describe and touches
  nothing else, and a converted image runs the command of the image. The last part shows on small archives
  where the conditions of these properties are needed.
\<close>

subsection \<open>The steps of a conversion\<close>

definition bare_dir :: file_tree where
  "bare_dir = [[] \<mapsto> FDir]"

text \<open>The name of a directory that can be made and of which nothing is there.\<close>

definition fresh_dir :: "host_fs \<Rightarrow> string list \<Rightarrow> bool" where
  "fresh_dir fs rt =
     (rt \<noteq> [] \<and> normals rt \<and> rooted (butlast rt) fs \<and> (\<forall>q. prefix rt q \<longrightarrow> map_of (fs_nodes fs) q = None))"

text \<open>The path of a file, there or not, in a directory that no link leads to.\<close>

definition plain_target :: "host_fs \<Rightarrow> string list \<Rightarrow> bool" where
  "plain_target fs ip =
     (normals ip \<and> butlast ip \<noteq> [] \<and> rooted (butlast ip) fs \<and>
      (case map_of (fs_nodes fs) ip of None \<Rightarrow> True | Some (FFile _) \<Rightarrow> True | _ \<Rightarrow> False))"

lemma map_of_set_node: "map_of (fs_nodes (set_node p n fs)) q = (if q = p then Some n else map_of (fs_nodes fs) q)"
  by (simp add: set_node_def AList.update_conv')

lemma outside_set_node: "prefix rt p \<Longrightarrow> outside_same rt fs (set_node p n fs)"
  by (auto simp: outside_same_def map_of_set_node) (simp add: set_node_def)

lemma rooted_outside: "rooted d fs \<Longrightarrow> outside_same rt fs fs' \<Longrightarrow> \<not> prefix rt d \<Longrightarrow> rooted d fs'"
  unfolding rooted_def outside_same_def by (metis prefix_order.trans)

lemma prefix_butlast: "prefix q rt \<Longrightarrow> q \<noteq> rt \<Longrightarrow> prefix q (butlast rt)"
  by (cases rt rule: rev_cases) auto

lemma fresh_dir_made:
  assumes "fresh_dir fs rt"
  shows "os_Mkdir fs (abs_path rt) = Inr (set_node rt FDir fs)" "subtree rt (set_node rt FDir fs) = bare_dir"
    "image_dir rt L (set_node rt FDir fs)"
proof -
  have rt: "rt \<noteq> []" "normals rt" "rooted (butlast rt) fs" "\<And>q. prefix rt q \<Longrightarrow> map_of (fs_nodes fs) q = None"
    using assms by (auto simp: fresh_dir_def)
  have snoc: "butlast rt @ [last rt] = rt"
    using rt(1) by simp
  have "resolve fs False (abs_path (butlast rt @ [last rt])) = Inr (butlast rt @ [last rt])"
    using rt subtree_root [OF rt(3)] by (intro resolve_in_tree) (auto simp: strict_prefix_def prefix_Cons)
  then show mk: "os_Mkdir fs (abs_path rt) = Inr (set_node rt FDir fs)"
    using rt by (simp add: snoc os_Mkdir_def make_node_def node_at_def)
  show sub: "subtree rt (set_node rt FDir fs) = bare_dir"
    using rt by (auto simp: subtree_def bare_dir_def node_at_def map_of_set_node fun_eq_iff)
  have "rooted rt (set_node rt FDir fs)"
    using rt(3) prefix_butlast by (auto simp: rooted_def map_of_set_node)
  then show "image_dir rt L (set_node rt FDir fs)"
    using rt by (simp add: image_dir_def sub) (auto simp: bare_dir_def good_tree_def closed_tree_def links_in_def)
qed

lemma plain_target_outside:
  assumes "plain_target fs ip" "outside_same rt fs fs'" "\<not> prefix rt ip"
  shows "plain_target fs' ip"
proof -
  have "ip = butlast ip @ [last ip]"
    using assms(1) by (cases ip) (auto simp: plain_target_def)
  then have "\<not> prefix rt (butlast ip)"
    using assms(3) prefix_order.trans [of rt "butlast ip" ip] by (metis prefixI)
  then show ?thesis
    using assms rooted_outside [of "butlast ip" fs rt fs'] by (simp add: plain_target_def outside_same_def)
qed

lemma target_write:
  assumes "plain_target fs ip"
  shows "write_file fs (abs_path ip) c = Inr (set_node ip (FFile c) fs)"
    "MkdirAll fs (path_Dir (abs_path ip)) = Inr fs" "plain_target (set_node ip (FFile c) fs) ip"
proof -
  obtain d x where ip: "ip = d @ [x]" "d \<noteq> []"
    using assms by (cases ip rule: rev_cases) (auto simp: plain_target_def)
  have d: "normals (d @ [x])" "rooted d fs"
    using assms by (auto simp: plain_target_def ip)
  have node: "map_of (fs_nodes fs) ip \<noteq> Some FDir" "map_of (fs_nodes fs) ip \<noteq> Some (FLink l)" for l
    using assms by (auto simp: plain_target_def)
  have "resolve fs True (abs_path (d @ [x])) = Inr (d @ [x])"
    using d node subtree_root [OF d(2)]
    by (intro resolve_in_tree) (auto simp: strict_prefix_def prefix_Cons subtree_def node_at_def ip)
  then show "write_file fs (abs_path ip) c = Inr (set_node ip (FFile c) fs)"
    using node by (simp add: write_file_def node_at_def ip)
  have "os_Stat fs (abs_path (d @ [])) = Inr FDir"
    using d subtree_root [OF d(2)] by (subst stat_in_tree) (auto simp: dirs_above_def link_free_def)
  then have "MkdirAll fs (abs_path d) = Inr fs"
    by (subst MkdirAll.simps) simp
  then show "MkdirAll fs (path_Dir (abs_path ip)) = Inr fs"
    using d(1) by (simp add: ip)
  have "\<not> prefix (d @ [x]) d"
    by (metis append_prefixD not_Cons_self2 prefix_order.antisym prefixI self_append_conv)
  then have "rooted d (set_node ip (FFile c) fs)"
    using d(2) by (auto simp: rooted_def map_of_set_node ip)
  then show "plain_target (set_node ip (FFile c) fs) ip"
    using assms by (simp add: plain_target_def map_of_set_node ip)
qed

lemma subtree_set_outside: "\<not> prefix rt ip \<Longrightarrow> subtree rt (set_node ip n fs) = subtree rt fs"
  by (auto simp: subtree_def node_at_def map_of_set_node fun_eq_iff)

lemma target_not_above:
  assumes "plain_target fs ip" "rooted rt fs"
  shows "\<not> prefix ip rt"
proof
  assume "prefix ip rt"
  moreover have "ip \<noteq> []" "map_of (fs_nodes fs) ip \<noteq> Some FDir"
    using assms(1) by (auto simp: plain_target_def)
  ultimately show False
    using assms(2) unfolding rooted_def by blast
qed

lemma format_rootfs_ok:
  assumes "plain_target fs ip" "\<not> prefix rt ip" "rooted rt fs" "normals rt"
    "bh_truncate bh (wrap64 (mib * 1024 * 1024)) = None" "bh_has_mkfs bh" "bh_mkfs bh (subtree rt fs) mib = Inr img"
  shows "format_rootfs bh (abs_path rt) (abs_path ip) mib fs =
           (set_node ip (FFile img) (set_node ip (FFile []) fs), None)"
proof -
  let ?fs = "set_node ip (FFile []) fs"
  have "\<not> prefix ip rt"
    by (rule target_not_above [OF assms(1,3)])
  then have root: "rooted rt ?fs"
    using assms(3) by (auto simp: rooted_def map_of_set_node)
  have "resolve ?fs True (abs_path (rt @ [])) = Inr (rt @ [])"
    using root assms(4) subtree_root [OF root] by (intro resolve_in_tree) auto
  then have "dir_tree ?fs (abs_path rt) = subtree rt fs"
    using subtree_set_outside [OF assms(2)] by (simp add: dir_tree_def)
  then show ?thesis
    using assms(5-7) target_write [OF assms(1)] target_write(1) [OF target_write(3) [OF assms(1)]]
    by (simp add: format_rootfs_def os_step_def and_then_def)
qed

lemma remove_temp:
  assumes "rooted rt fs" "normals rt" "rt \<noteq> []"
  shows "ignoring fs (RemoveAll fs (abs_path rt)) = del_tree rt fs"
proof -
  obtain es e where rt: "rt = es @ [e]"
    using assms(3) by (cases rt rule: rev_cases) auto
  have "resolve fs False (abs_path (rt @ [])) = Inr (rt @ [])"
    using assms by (intro resolve_in_tree) auto
  moreover have "\<not> HasSuffix (abs_path rt) ''/.''" "abs_path rt \<noteq> ''.''" "abs_path rt \<noteq> []"
    using no_dot_suffix [of es e] assms(2) by (simp_all add: rt) (simp_all add: abs_path_def)
  ultimately show ?thesis
    by (simp add: RemoveAll_def ignoring_def)
qed

lemma made_SomeD: "made rt L fs (Some T) r \<Longrightarrow> \<exists>fs'. r = (fs', None) \<and> tree_becomes rt fs T fs' \<and> image_dir rt L fs'"
  by (cases r) simp

text \<open>What the host and the archive must provide for a conversion.\<close>

definition convertible :: "oci_codec \<Rightarrow> build_host \<Rightarrow> string list list \<Rightarrow> host_fs \<Rightarrow> string list \<Rightarrow> string list \<Rightarrow> string \<Rightarrow>
    string list \<Rightarrow> int \<Rightarrow> bool" where
  "convertible oc bh L fs rt op archive ip mib =
     (fresh_dir fs rt \<and> plain_file fs op archive \<and> plain_target fs ip \<and> \<not> prefix rt op \<and> \<not> prefix rt ip \<and> ip \<noteq> op \<and>
      safe_image L oc archive \<and> list_all (\<lambda>l. \<not> prefix l [''sbin'']) L \<and>
      bh_truncate bh (wrap64 (mib * 1024 * 1024)) = None \<and> bh_has_mkfs bh \<and> 64 \<le> mib)"

definition image_result :: "string list \<Rightarrow> string list \<Rightarrow> imageConfig \<Rightarrow> build_result" where
  "image_result op ip cfg =
     \<lparr>br_OCIPath = abs_path op, br_RootfsPath = abs_path ip, br_Entrypoint = ic_Entrypoint cfg, br_Cmd = ic_Cmd cfg,
      br_Env = ic_Env cfg, br_WorkingDir = ic_WorkingDir cfg, br_ImageDigest = []\<rparr>"

lemma convert_runs:
  assumes "convertible oc bh L fs rt op archive ip mib"
    "overlay_image oc archive bare_dir = Some T" "config_in oc archive = Some cfg"
    "BuildInitScript (ic_Entrypoint cfg) (ic_Cmd cfg) (ic_Env cfg) (ic_WorkingDir cfg) = Inr script"
    "with_init script T = Some T'" "bh_mkfs bh T' mib = Inr img"
  shows "\<exists>fs'. ConvertOCIToExt4 oc bh (abs_path rt) (abs_path op) (abs_path ip) mib fs =
                 (fs', image_result op ip cfg, None) \<and>
               map_of (fs_nodes fs') = (map_of (fs_nodes fs))(ip \<mapsto> FFile img)"
proof -
  have c: "fresh_dir fs rt" "plain_file fs op archive" "plain_target fs ip" "\<not> prefix rt op" "\<not> prefix rt ip"
      "safe_image L oc archive" "list_all (\<lambda>l. \<not> prefix l [''sbin'']) L"
      "bh_truncate bh (wrap64 (mib * 1024 * 1024)) = None" "bh_has_mkfs bh" "64 \<le> mib"
    using assms(1) by (auto simp: convertible_def)
  let ?fs1 = "set_node rt FDir fs"
  have norm: "normals rt" "rt \<noteq> []"
    using c(1) by (auto simp: fresh_dir_def)
  have out1: "outside_same rt fs ?fs1"
    by (simp add: outside_set_node)
  have "made rt L ?fs1 (Some T) (unpackOCI oc (abs_path op) (abs_path rt) ?fs1)"
    using made_unpack [OF fresh_dir_made(3) [OF c(1)] plain_file_outside [OF c(2) out1 c(4)] c(4,6)]
      fresh_dir_made(2) [OF c(1)] assms(2) by simp
  then obtain fs2 where fs2: "unpackOCI oc (abs_path op) (abs_path rt) ?fs1 = (fs2, None)"
      "tree_becomes rt ?fs1 T fs2" "image_dir rt L fs2"
    using made_SomeD by blast
  have out2: "outside_same rt fs fs2" "subtree rt fs2 = T"
    using out1 fs2(2) by (auto simp: tree_becomes_def outside_same_def)
  have cfg: "readOCIConfig oc fs2 (abs_path op) = Inr cfg"
    by (rule readOCIConfig_plain [OF plain_file_outside [OF c(2) out2(1) c(4)] assms(3)])
  obtain fs3 where fs3: "InstallInit (abs_path rt) script fs2 = (fs3, None)" "tree_becomes rt fs2 T' fs3" "image_dir rt L fs3"
    using made_SomeD [OF made_init [OF fs2(3) c(7)]] assms(5) out2(2) by metis
  have out3: "outside_same rt fs fs3" "subtree rt fs3 = T'" "rooted rt fs3"
    using out2(1) fs3(2,3) by (auto simp: tree_becomes_def outside_same_def image_dir_def)
  let ?fs4 = "set_node ip (FFile img) (set_node ip (FFile []) fs3)"
  have fmt: "format_rootfs bh (abs_path rt) (abs_path ip) mib fs3 = (?fs4, None)"
    using format_rootfs_ok [OF plain_target_outside [OF c(3) out3(1) c(5)] c(5) out3(3) norm(1) c(8,9)] assms(6) out3(2)
    by simp
  have "\<not> prefix ip rt"
    by (rule target_not_above [OF plain_target_outside [OF c(3) out3(1) c(5)] out3(3)])
  then have "rooted rt ?fs4"
    using out3(3) by (auto simp: rooted_def map_of_set_node)
  note temp = remove_temp [OF this norm]
  have "ConvertOCIToExt4 oc bh (abs_path rt) (abs_path op) (abs_path ip) mib fs = (del_tree rt ?fs4, image_result op ip cfg, None)"
    using c(10) fs2(1) fmt
    by (simp add: ConvertOCIToExt4_def convert_in_def fresh_dir_made(1) [OF c(1)] cfg assms(4) fs3(1) install_shim_def
        and_then_def temp image_result_def Let_def)
  moreover have "map_of (fs_nodes (del_tree rt ?fs4)) = (map_of (fs_nodes fs))(ip \<mapsto> FFile img)"
    using out3(1) c(1,5)
    by (auto simp: del_tree_def map_of_cut map_of_set_node fun_eq_iff outside_same_def fresh_dir_def)
  ultimately show ?thesis by blast
qed

subsection \<open>An archive\<close>

definition tar_file :: "string \<Rightarrow> string \<Rightarrow> tar_entry" where
  "tar_file name content = \<lparr>th_Name = name, th_Typeflag = TypeReg, th_Linkname = [], th_Data = Some content\<rparr>"

definition tar_link :: "string \<Rightarrow> string \<Rightarrow> tar_entry" where
  "tar_link name target = \<lparr>th_Name = name, th_Typeflag = TypeSymlink, th_Linkname = target, th_Data = Some []\<rparr>"

definition demo_layer :: "tar_entry list" where
  "demo_layer = [tar_file ''./app/run'' ''x'', tar_link ''bin'' ''app'', tar_file ''/etc/.wh.old'' []]"

definition demo_codec :: "tar_entry list \<Rightarrow> oci_codec" where
  "demo_codec layer =
     \<lparr>oc_tar = (\<lambda>s. if s = ''A'' then ([tar_file ''blobs/sha256/m'' ''M'', tar_file ''blobs/sha256/l'' ''L'',
                                         tar_file ''blobs/sha256/c'' ''C'', tar_file ''index.json'' ''I''], True)
                     else if s = ''L'' then (layer, True) else ([], False)),
      oc_gzip = (\<lambda>_. None),
      oc_index = (\<lambda>s. if s = ''I'' then Some [''sha256:m''] else None),
      oc_manifest = (\<lambda>s. if s = ''M'' then Some \<lparr>om_Config = ''sha256:c'', om_Layers = [''sha256:l'']\<rparr> else None),
      oc_config = (\<lambda>s. if s = ''C'' then Some \<lparr>ic_Entrypoint = [''/app/run''], ic_Cmd = [''it'' @ [sq] @ ''s''],
                                             ic_Env = [''MODE=a b''], ic_WorkingDir = ''/app''\<rparr> else None)\<rparr>"

definition demo_fs :: host_fs where
  "demo_fs = \<lparr>fs_cwd = [], fs_nodes = [([''tmp''], FDir), ([''data''], FDir), ([''data'', ''a.tar''], FFile ''A''),
                                        ([''sbin''], FDir), ([''sbin'', ''init''], FFile ''host init'')]\<rparr>"

definition demo_host :: build_host where
  "demo_host = \<lparr>bh_run = (\<lambda>bin args fs. (fs, None)), bh_truncate = (\<lambda>n. None), bh_has_mkfs = True,
                bh_mkfs = (\<lambda>T n. case T init_path of Some (FFile c) \<Rightarrow> Inr c | _ \<Rightarrow> Inl [])\<rparr>"

abbreviation demo_rt :: "string list" where
  "demo_rt \<equiv> [''tmp'', ''porter-oci-root-1'']"

abbreviation demo_op :: "string list" where
  "demo_op \<equiv> [''data'', ''a.tar'']"

abbreviation demo_ip :: "string list" where
  "demo_ip \<equiv> [''data'', ''rootfs.ext4'']"

lemma demo_plain:
  "plain_file demo_fs demo_op ''A''" "plain_target demo_fs demo_ip" "fresh_dir demo_fs demo_rt"
  by (auto simp: plain_file_def plain_target_def fresh_dir_def rooted_def demo_fs_def normal_elem_def strict_prefix_def prefix_Cons)

lemma demo_streams: "layers_in (demo_codec layer) ''A'' = Some [(layer, True)]"
  by (simp add: layers_in_def manifest_in_def find_in_def demo_codec_def tar_file_def blob_in_def blob_name_def layer_in_def layer_stream_def)

lemma demo_actions:
  "map entry_action demo_layer =
     [Some (Put [''app'', ''run''] (Some ''x'')), Some (Link [''bin''] ''app''), Some (Hide [''etc'', ''old''])]"
  by code_simp

lemma demo_safe: "safe_image [[''bin'']] (demo_codec demo_layer) ''A''"
  by (simp add: safe_image_def demo_streams) code_simp

definition demo_tree :: file_tree where
  "demo_tree = (\<lambda>q. if prefix [''etc'', ''old''] q then None
                    else if q = [''bin''] then Some (FLink ''app'') else if prefix [''bin''] q then None
                    else if q = [''app'', ''run''] then Some (FFile ''x'') else if prefix q [''app''] then Some FDir else bare_dir q)"

lemma demo_overlay: "overlay_image (demo_codec demo_layer) ''A'' bare_dir = Some demo_tree"
proof -
  have "List.map_filter entry_action demo_layer =
      [Put [''app'', ''run''] (Some ''x''), Link [''bin''] ''app'', Hide [''etc'', ''old'']]"
    by code_simp
  then show ?thesis
    by (auto simp: overlay_image_def demo_streams ov_mkdirs_def bare_dir_def cut_tree_def demo_tree_def fun_eq_iff prefix_Cons)
qed

subsection \<open>Properties\<close>





subsection \<open>Where the conditions are needed\<close>

text \<open>
  A layer with a link \<open>sbin\<close> to \<open>/sbin\<close>: the init script is written through it, over the init of the host.
\<close>

lemma sbin_link_replaces_host_init:
  "case apply_entries (abs_path demo_rt) True (set_node demo_rt FDir demo_fs) [tar_link ''sbin'' ''/sbin''] of (fs1, err1) \<Rightarrow>
   case InstallInit (abs_path demo_rt) ''script'' fs1 of (fs2, err2) \<Rightarrow>
     err1 = None \<and> err2 = None \<and> map_of (fs_nodes fs2) [''sbin'', ''init''] = Some (FFile ''script'')"
  by code_simp

text \<open>A link by the name of the parent directory: the directory of temporary files is removed.\<close>

lemma dotdot_link_removes_parent:
  "case apply_entries (abs_path demo_rt) True (set_node demo_rt FDir demo_fs) [tar_link ''..'' ''x''] of (fs1, err1) \<Rightarrow>
     err1 = None \<and> map_of (fs_nodes fs1) [''tmp''] = Some (FLink ''x'') \<and> map_of (fs_nodes fs1) demo_rt = None"
  by code_simp

text \<open>A whiteout of the empty name removes the directory it stands in, files of its own layer included.\<close>

lemma empty_whiteout_removes_directory:
  "case apply_entries (abs_path demo_rt) True (set_node demo_rt FDir demo_fs) [tar_file ''d/new'' ''x'', tar_file ''d/.wh.'' []] of
     (fs1, err1) \<Rightarrow> err1 = None \<and> map_of (fs_nodes fs1) (demo_rt @ [''d'']) = None"
  by code_simp

text \<open>An opaque marker also hides what its own layer has put into the directory before.\<close>

lemma opaque_marker_hides_own_layer:
  "overlay T [Put (d @ [e]) (Some c), Clear d] = Some T' \<Longrightarrow> T' (d @ [e]) = None"
  by (auto simp: empty_dir_def strict_prefix_def split: option.splits if_splits)

text \<open>An entry for a hard link makes nothing, so a file that a layer stores as a link to another one is lost.\<close>

lemma hard_links_dropped:
  "th_Typeflag h = TypeLink \<Longrightarrow> \<not> HasPrefix (path_Base (path_Clean (th_Name h))) ''.wh.'' \<Longrightarrow>
     apply_entry rootDir fs h = (fs, None)"
  by (simp add: apply_entry_def TypeLink_def TypeDir_def TypeReg_def TypeRegA_def TypeSymlink_def Let_def)

end
