(* ===== verification/Spec2Isabelle.thy ===== *)
theory Spec2Isabelle
  imports Scheduler Compose Gateway Dns Cron_Jobs Network Rbac Gates Redis_Cache Store_Db Replica_Control Pool_Properties
    Api_Gate Oci_Properties
begin

text \<open>
  Verification of the control plane of Porter, a platform that runs projects as pools of Firecracker microVMs
  behind a gateway. The Go sources are under \<open>src/backend/internal\<close>; file names below are relative to that directory.

  \<^bold>\<open>The parts and how they interact.\<close> A client calls the HTTP API (\<open>api\<close>): the middleware authenticates the request
  (\<open>auth\<close>, \<open>store/sessions.go\<close>), asks the permission engine (\<open>rbac\<close>, \<open>store/rbac_scoped.go\<close>) and hands it to a
  handler, which works on the PostgreSQL tables (\<open>store\<close>) through a Redis cache (\<open>cache\<close>) and boots, stops and
  replaces replicas. A replica is a microVM on a node chosen by the scheduler (\<open>scheduler\<close>), with an address from the
  network managers (\<open>netmgr\<close>, \<open>runtime/network.go\<close>), an image from the catalog or the image builder (\<open>imagecatalog\<close>,
  \<open>buildkit\<close>) and a Firecracker process (\<open>runtime\<close>, \<open>secretbox\<close>). Controllers (\<open>controller\<close>, \<open>health\<close>), the
  autoscaler (\<open>autoscale\<close>) and the cron runner (\<open>cron\<close>) change the tables in the background. Requests of users reach
  the replicas through the gateway (\<open>gateway\<close>) and the name server (\<open>dns\<close>). Risky steps are submitted to a judge
  service (\<open>judge\<close>, \<open>riskgate\<close>, \<open>cmdgate\<close>, \<open>triage\<close>, \<open>alertjudge\<close>).

  \<^bold>\<open>The theories.\<close> Each theory opens with what it holds; in the order of the imports:

  \<^item> \<open>Porter_Prelude\<close> (strings, numbers, sorting), \<open>Netip\<close> (addresses) and \<open>Host_Fs\<close> (files, links, path resolution) are
    the part of the Go library the components use. \<open>Types\<close> holds the structs of \<open>types/types.go\<close> as records, a field
    \<open>F\<close> of a struct being the record field \<open>xx_F\<close> with the prefix of the struct.

  \<^item> \<open>Scheduler\<close> (\<open>scheduler.go\<close>), \<open>Compose\<close> (\<open>compose.go\<close>), \<open>Gateway\<close> (\<open>gateway.go\<close>, \<open>portforward.go\<close>), \<open>Log_Rings\<close>
    (the bounded logs of \<open>gateway.go\<close> and \<open>store.go\<close>), \<open>Dns\<close> (\<open>dns.go\<close>, \<open>server.go\<close>, \<open>domains.go\<close>), \<open>Cron_Jobs\<close>
    (\<open>runner.go\<close>), \<open>Network\<close> (\<open>netmgr.go\<close>, \<open>runtime/network.go\<close>), \<open>Rbac\<close> (\<open>rbac.go\<close>, \<open>rbac_scoped.go\<close>, \<open>tenancy.go\<close>),
    \<open>Judge\<close> and \<open>Gates\<close> (the judge and its four clients), \<open>Redis_Cache\<close> (\<open>redis.go\<close>, \<open>resp.go\<close>) model a package
    each, a definition per function under the name it has in the source.

  \<^item> \<open>Sql_Tables\<close> is the meaning of the store's statements over a table with its constraints; \<open>Store_Tables\<close>,
    \<open>Store_Db\<close> and \<open>Store_Core\<close> are the tables of \<open>store.go\<close>, \<open>microvms.go\<close>, \<open>usage.go\<close> and \<open>events.go\<close>.

  \<^item> \<open>Firecracker\<close> (\<open>fc_client.go\<close>, \<open>vm_manager.go\<close>, \<open>secretbox.go\<close>), \<open>Controllers\<close> (\<open>controller.go\<close>,
    \<open>node_controller.go\<close>, \<open>deployment_controller.go\<close>) and \<open>Replica_Control\<close> (\<open>replica_controller.go\<close>, \<open>health.go\<close>) are
    the machines and what reconciles them.

  \<^item> \<open>Images\<close> (\<open>imagecatalog\<close>), \<open>Init_Script\<close>, \<open>Oci_Image\<close>, \<open>Oci_Laws\<close> and \<open>Oci_Properties\<close> (\<open>buildkit\<close>) are the images.
    \<open>Init_Script\<close> has a reader for the part of the POSIX shell the init script uses.

  \<^item> \<open>Replica_Pool\<close>, \<open>Pool_Laws\<close>, \<open>Autoscale_Bounds\<close> and \<open>Pool_Properties\<close> are the handlers of \<open>api/handlers.go\<close> and
    \<open>api/api.go\<close> that boot and stop replicas, and the autoscaler (\<open>scaler.go\<close>).

  \<^item> \<open>Tokens\<close> (\<open>auth\<close>, \<open>sessions.go\<close>), \<open>Api_Routes\<close> (the route table) and \<open>Api_Gate\<close> (the middleware and the handlers of
    credentials) are the way into the API.

  \<^bold>\<open>State and effects.\<close> A struct is a record, an enumeration of strings keeps its strings where the code compares
  them and is a datatype otherwise, a map is an association list or a function. A handler with effects is a function on
  an explicit state (\<open>ctl_world\<close>, \<open>replica_world\<close>, \<open>api_world\<close>, \<open>gate_world\<close>, \<open>host_fs\<close>), in the state monad where it threads the state through many
  calls. A call to the database, the clock, the random source or a process takes the next number of a counter, and an
  argument of the model says how the call with that number turns out; so every failure of every call is covered. An
  error is a value of an error type of the component. What is not in the sources (the machine runner, Redis,
  PostgreSQL's executor, SHA-256, AES-GCM, Ed25519, the formats tar, gzip and JSON, \<open>mkfs.ext4\<close>) is an argument; the
  properties that need something of it say so in a hypothesis, and their witnesses give a concrete function.

  \<^bold>\<open>Interfaces.\<close> The locales are the contracts between components: \<open>strict_weak_order\<close> for the comparators the sorting
  routine is called with, \<open>bounded_log\<close> for the rings, \<open>sql_table\<close> with its extensions \<open>sql_table_id\<close> and \<open>project_table\<close>
  for the tables of the store, \<open>resolver\<close> for the queries behind the permission engine, \<open>answering_judger\<close> for the judge
  behind the gates and \<open>project_invariant\<close> for what the handlers keep of the project table; each is interpreted on the
  definitions of the model.

  \<^bold>\<open>What the lemmas show.\<close> The order of services of a compose file is a topological order of its dependencies or
  there is a cycle; the gateway forwards a request to a live replica of the project that is routed to, after the
  firewall; the scheduler picks a best node of those that fit; scaling, promotion and the autoscaler leave the pool
  they are to leave, within the bounds of the policy, and where they do not the theorem says what they leave; a
  request without a valid credential and a permission for its route changes nothing; tokens that verify are those
  that were minted; addresses and subnets are unique as long as there are any; a denial overrides every grant; keys
  stay unique in every reachable database; the replies of the cache protocol are read back as they were sent; a
  controller pass moves a replica along its life cycle only; a machine boots with exactly the configuration and
  secrets of its replica; unpacking an image makes the tree its layers describe and touches nothing else, and the
  image runs the command of its configuration.

  \<^bold>\<open>Bounds and fuel.\<close> Integers are \<open>int\<close> with the wrap-around of 64 bits written out (\<open>wrap64\<close>) where it can be
  reached; hashes are computed modulo \<open>2 ^ 64\<close>. \<open>readReply_n\<close> takes the length of the input as fuel, of which each call
  uses at least one byte. \<open>wait_loop\<close> recurses on the time that is left before the deadline. \<open>walk\<close> follows at most
  forty links, the limit of Linux. All other recursions are structural or have a termination proof.

  \<^bold>\<open>Not modelled.\<close> Code that only moves bytes or runs host commands: the proxying of a request and the pump of a
  forwarded connection, the listeners, the ticker goroutines (a tick is one call of the modelled pass), the bridge and
  NAT commands, the SSH gateway (\<open>sshgw\<close>), the metric collectors (\<open>metrics\<close>, \<open>runtime/metrics.go\<close>), logging, tracing
  and error reporting (\<open>logging\<close>, \<open>observability\<close>), certificates (\<open>tls\<close>), mail (\<open>notify\<close>) and the start-up checks
  (\<open>startup\<close>). The handlers of \<open>api/handlers.go\<close> that read or write one row of a modelled table and answer with it, the
  resource types of \<open>resource\<close>, which no modelled code reads, and the row-level security settings (\<open>store/rls.go\<close>).
  The concurrency of requests within one handler: a handler is one step.
\<close>

end
